(* ===== verification/Prelude.thy ===== *)
theory Prelude
  imports Complex_Main "HOL-Library.Word" "HOL-Library.List_Lexorder" "HOL-Library.Char_ord"
begin

unbundle bit_operations_syntax

text \<open>
  What every theory of the development shares: the machine integers of Go, results and
  errors, the order in which Go's \<open>range\<close> visits a map, big-endian and little-endian byte
  codecs, decimal printing, and the lemmas on lists and folds the components use.

  \<^item> \<open>uint8\<close>, \<open>uint16\<close>, \<open>uint32\<close>, \<open>uint64\<close> are words of that width, so arithmetic wraps;
    a byte slice is a list of bytes.
  \<^item> An instant is the number of nanoseconds since Go's zero \<open>time.Time\<close>, so
    \<open>t.IsZero()\<close> is \<open>t = 0\<close>; a duration is a number of nanoseconds.
  \<^item> A function returning \<open>(T, error)\<close> has a result in \<open>error + T\<close>; a function
    returning \<open>error\<close> has one in \<open>error option\<close>, where \<open>None\<close> is Go's \<open>nil\<close>.
  \<^item> A function that can panic has a result in \<open>'a option\<close>, where \<open>None\<close> is the panic.
\<close>

section \<open>Types\<close>

type_synonym u8 = "8 word"
type_synonym u16 = "16 word"
type_synonym u32 = "32 word"
type_synonym u64 = "64 word"
type_synonym bytes = "u8 list"
type_synonym gotime = int
type_synonym duration = int

named_theorems go_defs \<open>unfolding equations of small Go helpers\<close>
named_theorems codec \<open>byte codecs and their inverses\<close>

datatype error =
    ErrIE string
  | ErrMsg string
  | ErrSessionNotFound
  | ErrPDRNotFound
  | ErrFARNotFound
  | ErrQERNotFound
  | ErrURRNotFound
  | ErrBARNotFound
  | ErrMissing string
  | ErrInvalidSEID
  | ErrSessNotFound u64
  | ErrSessRuleNotFound string
  | ErrTooShort
  | ErrLengthMismatch
  | ErrWrite
  | ErrTrNotFound
  | ErrMsgType

type_synonym 'a res = "error + 'a"

section \<open>Results\<close>

fun bindE :: "'a res \<Rightarrow> ('a \<Rightarrow> 'b res) \<Rightarrow> 'b res" where
  "bindE (Inl e) f = Inl e"
| "bindE (Inr a) f = f a"

text \<open>A loop that returns at the first error.\<close>

fun foldE :: "('s \<Rightarrow> 'a \<Rightarrow> 's res) \<Rightarrow> 's \<Rightarrow> 'a list \<Rightarrow> 's res" where
  "foldE f s [] = Inr s"
| "foldE f s (x # xs) = bindE (f s x) (\<lambda>s'. foldE f s' xs)"

text \<open>A loop whose body may panic.\<close>

fun foldO :: "('s \<Rightarrow> 'a \<Rightarrow> 's option) \<Rightarrow> 's \<Rightarrow> 'a list \<Rightarrow> 's option" where
  "foldO f s [] = Some s"
| "foldO f s (x # xs) = Option.bind (f s x) (\<lambda>s'. foldO f s' xs)"

fun is_ok :: "'a res \<Rightarrow> bool" where
  "is_ok (Inl e) = False"
| "is_ok (Inr a) = True"

section \<open>The order of map iteration\<close>

text \<open>
  The order in which \<open>range\<close> visits the keys of a Go map is not specified. A definition
  with such a loop takes the order as an argument: a function that lists each finite set of
  keys, every key once. The record collects one such function per key type.
\<close>

definition is_range :: "('k set \<Rightarrow> 'k list) \<Rightarrow> bool" where
  "is_range r \<longleftrightarrow> (\<forall>S. finite S \<longrightarrow> distinct (r S) \<and> set (r S) = S)"

record ranges =
  rng8 :: "u8 set \<Rightarrow> u8 list"
  rng16 :: "u16 set \<Rightarrow> u16 list"
  rng32 :: "u32 set \<Rightarrow> u32 list"
  rng64 :: "u64 set \<Rightarrow> u64 list"
  rngS :: "string set \<Rightarrow> string list"

definition go_ranges :: "ranges \<Rightarrow> bool" where
  "go_ranges R \<longleftrightarrow> is_range (rng8 R) \<and> is_range (rng16 R) \<and> is_range (rng32 R) \<and>
     is_range (rng64 R) \<and> is_range (rngS R)"

definition sorted_ranges :: ranges where
  "sorted_ranges = \<lparr>rng8 = sorted_list_of_set, rng16 = sorted_list_of_set,
     rng32 = sorted_list_of_set, rng64 = sorted_list_of_set, rngS = sorted_list_of_set\<rparr>"

section \<open>Byte codecs\<close>

definition be16 :: "u8 \<Rightarrow> u8 \<Rightarrow> u16" where
  "be16 a b = push_bit 8 (ucast a) OR ucast b"

definition put_be16 :: "u16 \<Rightarrow> bytes" where
  "put_be16 w = [ucast (drop_bit 8 w), ucast w]"

definition be32 :: "u8 \<Rightarrow> u8 \<Rightarrow> u8 \<Rightarrow> u8 \<Rightarrow> u32" where
  "be32 a b c d = push_bit 24 (ucast a) OR push_bit 16 (ucast b) OR push_bit 8 (ucast c) OR ucast d"

definition put_be32 :: "u32 \<Rightarrow> bytes" where
  "put_be32 w = [ucast (drop_bit 24 w), ucast (drop_bit 16 w), ucast (drop_bit 8 w), ucast w]"

definition le16 :: "u8 \<Rightarrow> u8 \<Rightarrow> u16" where
  "le16 a b = ucast a OR push_bit 8 (ucast b)"

definition le32 :: "u8 \<Rightarrow> u8 \<Rightarrow> u8 \<Rightarrow> u8 \<Rightarrow> u32" where
  "le32 a b c d = ucast a OR push_bit 8 (ucast b) OR push_bit 16 (ucast c) OR push_bit 24 (ucast d)"

definition put_le32 :: "u32 \<Rightarrow> bytes" where
  "put_le32 w = [ucast w, ucast (drop_bit 8 w), ucast (drop_bit 16 w), ucast (drop_bit 24 w)]"

section \<open>Decimal printing\<close>

definition digit_char :: "nat \<Rightarrow> char" where
  "digit_char n = char_of (48 + n)"

fun dec_string :: "nat \<Rightarrow> string" where
  "dec_string n = (if n < 10 then [digit_char n] else dec_string (n div 10) @ [digit_char (n mod 10)])"

declare dec_string.simps [simp del]

section \<open>Lemmas\<close>

subsection \<open>Results and folds\<close>

lemma bindE_Inr_iff: "bindE r f = Inr b \<longleftrightarrow> (\<exists>a. r = Inr a \<and> f a = Inr b)"
  by (cases r) auto

lemma bindE_Inl_iff: "bindE r f = Inl e \<longleftrightarrow> r = Inl e \<or> (\<exists>a. r = Inr a \<and> f a = Inl e)"
  by (cases r) auto

lemma foldE_append: "foldE f s (xs @ ys) = bindE (foldE f s xs) (\<lambda>s'. foldE f s' ys)"
proof (induction xs arbitrary: s)
  case (Cons x xs)
  then show ?case by (cases "f s x") auto
qed simp

lemma foldE_invariant:
  assumes "foldE f s xs = Inr s'" and "P s"
    and "\<And>s x t. P s \<Longrightarrow> x \<in> set xs \<Longrightarrow> f s x = Inr t \<Longrightarrow> P t"
  shows "P s'"
  using assms
proof (induction xs arbitrary: s)
  case (Cons x xs)
  from Cons.prems(1) obtain t where t: "f s x = Inr t" and rest: "foldE f t xs = Inr s'"
    by (auto simp: bindE_Inr_iff)
  have "P t" by (rule Cons.prems(3) [OF Cons.prems(2) _ t]) simp
  with rest show ?case
  proof (rule Cons.IH)
    show "P u" if "P r" "z \<in> set xs" "f r z = Inr u" for r z u
      using that by (intro Cons.prems(3) [of r z u]) auto
  qed
qed simp

lemma foldO_total:
  assumes "P s" and "\<And>s x. P s \<Longrightarrow> x \<in> set xs \<Longrightarrow> \<exists>t. f s x = Some t \<and> P t"
  shows "\<exists>t. foldO f s xs = Some t \<and> P t"
  using assms
proof (induction xs arbitrary: s)
  case (Cons x xs)
  from Cons.prems(2) [OF Cons.prems(1)] obtain t where t: "f s x = Some t" "P t" by auto
  have "\<exists>u. foldO f t xs = Some u \<and> P u"
    by (rule Cons.IH [OF t(2)]) (simp add: Cons.prems(2))
  with t(1) show ?case by simp
qed simp

lemma foldO_invariant:
  assumes "foldO f s xs = Some s'" and "P s"
    and "\<And>s x t. P s \<Longrightarrow> x \<in> set xs \<Longrightarrow> f s x = Some t \<Longrightarrow> P t"
  shows "P s'"
  using assms
proof (induction xs arbitrary: s)
  case (Cons x xs)
  from Cons.prems(1) obtain t where t: "f s x = Some t" "foldO f t xs = Some s'"
    by (auto simp: bind_eq_Some_conv)
  have "P t" by (rule Cons.prems(3) [OF Cons.prems(2) _ t(1)]) simp
  with t(2) show ?case
    by (rule Cons.IH) (rule Cons.prems(3), simp_all)
qed simp

lemma fold_invariant_list:
  assumes "P s" and "\<And>s x. P s \<Longrightarrow> x \<in> set xs \<Longrightarrow> P (f x s)"
  shows "P (fold f xs s)"
  using assms by (induction xs arbitrary: s) auto

lemma foldl_invariant:
  assumes "P s" and "\<And>s x. P s \<Longrightarrow> x \<in> set xs \<Longrightarrow> P (f s x)"
  shows "P (foldl f s xs)"
  using assms by (induction xs arbitrary: s) auto

lemma foldl_measure:
  fixes m :: "'s \<Rightarrow> nat"
  assumes "\<And>s x. m (f s x) = m s + w x"
  shows "m (foldl f s xs) = m s + sum_list (map w xs)"
  by (induction xs arbitrary: s) (auto simp: assms)

lemma foldl_append_measure:
  assumes "\<And>s x. g (f s x) = g s @ h x"
  shows "g (foldl f s xs) = g s @ concat (map h xs)"
  by (induction xs arbitrary: s) (auto simp: assms)

subsection \<open>Ranges\<close>

lemma is_range_set [simp]: "is_range r \<Longrightarrow> finite S \<Longrightarrow> set (r S) = S"
  by (simp add: is_range_def)

lemma is_range_distinct [simp]: "is_range r \<Longrightarrow> finite S \<Longrightarrow> distinct (r S)"
  by (simp add: is_range_def)

lemma is_range_empty [simp]: "is_range r \<Longrightarrow> r {} = []"
  using is_range_set [of r "{}"] by (metis finite.emptyI set_empty)

lemma is_range_singleton [simp]: "is_range r \<Longrightarrow> r {k} = [k]"
  using is_range_set [of r "{k}"] is_range_distinct [of r "{k}"]
  by (cases "r {k}"; cases "tl (r {k})") auto

lemma go_rangesD:
  "go_ranges R \<Longrightarrow> is_range (rng8 R)" "go_ranges R \<Longrightarrow> is_range (rng16 R)"
  "go_ranges R \<Longrightarrow> is_range (rng32 R)" "go_ranges R \<Longrightarrow> is_range (rng64 R)"
  "go_ranges R \<Longrightarrow> is_range (rngS R)"
  by (simp_all add: go_ranges_def)

lemma is_range_sorted: "is_range (sorted_list_of_set :: 'a::linorder set \<Rightarrow> 'a list)"
  by (simp add: is_range_def)

lemma go_ranges_sorted [simp]: "go_ranges sorted_ranges"
  by (simp add: go_ranges_def sorted_ranges_def is_range_sorted)

subsection \<open>Byte codecs\<close>

lemma length_put_be [simp]: "length (put_be16 w) = 2" "length (put_be32 x) = 4"
  "length (put_le32 x) = 4"
  by (simp_all add: put_be16_def put_be32_def put_le32_def)

lemma be16_put [codec]: "be16 (ucast (drop_bit 8 w)) (ucast w) = w"
  by (rule bit_word_eqI) (auto simp: be16_def bit_simps)

lemma be32_put [codec]:
  "be32 (ucast (drop_bit 24 w)) (ucast (drop_bit 16 w)) (ucast (drop_bit 8 w)) (ucast w) = w"
proof (rule bit_word_eqI)
  fix n :: nat
  assume "n < LENGTH(32)"
  then consider "n < 8" | "8 \<le> n" "n < 16" | "16 \<le> n" "n < 24" | "24 \<le> n" "n < 32"
    by force
  then show "bit (be32 (ucast (drop_bit 24 w)) (ucast (drop_bit 16 w)) (ucast (drop_bit 8 w)) (ucast w)) n = bit w n"
    by cases (auto simp: be32_def bit_simps)
qed

lemma le32_put [codec]:
  "le32 (ucast w) (ucast (drop_bit 8 w)) (ucast (drop_bit 16 w)) (ucast (drop_bit 24 w)) = w"
  using be32_put [of w] by (simp add: le32_def be32_def or.commute or.left_commute)

subsection \<open>Decimal printing\<close>

lemma digit_char_inj: "m < 10 \<Longrightarrow> n < 10 \<Longrightarrow> digit_char m = digit_char n \<longleftrightarrow> m = n"
  by (auto simp: digit_char_def)

lemma digit_char_not_dash: "n < 10 \<Longrightarrow> digit_char n \<noteq> CHR ''-''"
proof
  assume n: "n < 10" and "digit_char n = CHR ''-''"
  then have "of_char (char_of (48 + n) :: char) = (of_char CHR ''-'' :: nat)"
    by (simp add: digit_char_def)
  with n show False by simp
qed

lemma dec_string_nonempty [simp]: "dec_string n \<noteq> []" "[] \<noteq> dec_string n"
  by (subst dec_string.simps, simp)+

lemma dec_string_no_dash: "CHR ''-'' \<notin> set (dec_string n)"
proof (induction n rule: dec_string.induct)
  case (1 n)
  then show ?case
    using digit_char_not_dash [of n] digit_char_not_dash [of "n mod 10"]
    by (subst dec_string.simps) auto
qed

lemma dec_string_inj: "dec_string m = dec_string n \<Longrightarrow> m = n"
proof (induction m arbitrary: n rule: dec_string.induct)
  case (1 m)
  show ?case
  proof (cases "m < 10")
    case True
    with "1.prems" show ?thesis
      by (cases "n < 10") (auto simp: dec_string.simps [of m] dec_string.simps [of n] digit_char_inj)
  next
    case False
    with "1.prems" have n: "\<not> n < 10"
      by (auto simp: dec_string.simps [of m] dec_string.simps [of n])
    with False "1.prems" have "dec_string (m div 10) = dec_string (n div 10)"
      and d: "digit_char (m mod 10) = digit_char (n mod 10)"
      by (auto simp: dec_string.simps [of m] dec_string.simps [of n])
    with False "1.IH" have "m div 10 = n div 10" by blast
    moreover from d have "m mod 10 = n mod 10" by (simp add: digit_char_inj)
    ultimately show ?thesis by (metis div_mult_mod_eq)
  qed
qed

lemma append_sep_inj:
  assumes "a @ c # x = b @ c # y" and "c \<notin> set x" and "c \<notin> set y"
  shows "a = b \<and> x = y"
  using assms
proof (induction a arbitrary: b)
  case Nil
  then show ?case by (cases b) auto
next
  case (Cons h a)
  then show ?case by (cases b) auto
qed

subsection \<open>Lists\<close>

lemma take_drop_last:
  "n \<le> length xs \<Longrightarrow> drop (length xs - n) xs = rev (take n (rev xs))"
  by (simp add: rev_take)

lemma find_first_split:
  "find P xs = Some x \<longleftrightarrow> (\<exists>us vs. xs = us @ x # vs \<and> P x \<and> (\<forall>u\<in>set us. \<not> P u))"
proof (induction xs)
  case (Cons y xs)
  show ?case
  proof (cases "P y")
    case True
    then show ?thesis by (auto simp: Cons_eq_append_conv)
  next
    case False
    then have "find P (y # xs) = Some x \<longleftrightarrow> find P xs = Some x" by simp
    also have "\<dots> \<longleftrightarrow> (\<exists>us vs. y # xs = us @ x # vs \<and> P x \<and> (\<forall>u\<in>set us. \<not> P u))"
      (is "_ \<longleftrightarrow> ?R")
    proof
      assume "find P xs = Some x"
      then obtain us vs where "xs = us @ x # vs" "P x" "\<forall>u\<in>set us. \<not> P u"
        using Cons.IH by auto
      with False have "y # xs = (y # us) @ x # vs \<and> P x \<and> (\<forall>u\<in>set (y # us). \<not> P u)" by simp
      then show ?R by blast
    next
      assume ?R
      with False show "find P xs = Some x"
        using Cons.IH by (auto simp: Cons_eq_append_conv)
    qed
    finally show ?thesis .
  qed
qed simp

end
