(* ===== verification/Sdf.thy ===== *)
theory Sdf
  imports Prelude
begin

text \<open>
  Service data flow filters, \<^verbatim>\<open>internal/forwarder/userspace/sdf.go\<close>: the parser of flow
  descriptions, the parser of IPv4 packet headers, and the matcher. The parts of Go's
  \<open>strings\<close>, \<open>strconv\<close> and \<open>net\<close> packages they use are modelled first, for ASCII strings.
  The text form of IPv6 addresses is the parameter \<open>p6\<close> of the definitions that parse
  addresses (\<open>netip.ParseAddr\<close> on a string with a colon before any dot).
\<close>

section \<open>Strings\<close>

definition is_space :: "char \<Rightarrow> bool" where
  "is_space c \<longleftrightarrow> c \<in> {CHR '' '', CHR 0x09, CHR 0x0A, CHR 0x0B, CHR 0x0C, CHR 0x0D}"

text \<open>\<open>strings.Fields\<close>: the maximal runs of non-space characters; \<open>w\<close> is the current run, reversed.\<close>

fun fields_acc :: "string \<Rightarrow> string \<Rightarrow> string list" where
  "fields_acc w [] = (if w = [] then [] else [rev w])"
| "fields_acc w (c # cs) =
     (if is_space c then (if w = [] then fields_acc [] cs else rev w # fields_acc [] cs)
      else fields_acc (c # w) cs)"

definition strings_Fields :: "string \<Rightarrow> string list" where
  "strings_Fields s = fields_acc [] s"

definition strings_TrimSpace :: "string \<Rightarrow> string" where
  "strings_TrimSpace s = rev (dropWhile is_space (rev (dropWhile is_space s)))"

definition lower_char :: "char \<Rightarrow> char" where
  "lower_char c = (let n = of_char c :: nat in if 65 \<le> n \<and> n \<le> 90 then char_of (n + 32) else c)"

definition strings_ToLower :: "string \<Rightarrow> string" where
  "strings_ToLower s = map lower_char s"

definition strings_EqualFold :: "string \<Rightarrow> string \<Rightarrow> bool" where
  "strings_EqualFold a b \<longleftrightarrow> strings_ToLower a = strings_ToLower b"

text \<open>\<open>strings.Split(s, c)\<close> for a separator of one character.\<close>

fun split_acc :: "char \<Rightarrow> string \<Rightarrow> string \<Rightarrow> string list" where
  "split_acc c w [] = [rev w]"
| "split_acc c w (x # xs) = (if x = c then rev w # split_acc c [] xs else split_acc c (x # w) xs)"

definition strings_Split :: "string \<Rightarrow> char \<Rightarrow> string list" where
  "strings_Split s c = split_acc c [] s"

text \<open>\<open>strings.SplitN(s, c, 2)\<close>, also the two parts of \<open>strings.Cut\<close>.\<close>

definition strings_SplitN2 :: "string \<Rightarrow> char \<Rightarrow> string list" where
  "strings_SplitN2 s c =
     (if c \<in> set s then [takeWhile (\<lambda>x. x \<noteq> c) s, tl (dropWhile (\<lambda>x. x \<noteq> c) s)] else [s])"

section \<open>Numbers\<close>

definition digit_val :: "char \<Rightarrow> nat option" where
  "digit_val c = (let n = of_char c :: nat in if 48 \<le> n \<and> n \<le> 57 then Some (n - 48) else None)"

fun digits_val :: "nat \<Rightarrow> string \<Rightarrow> nat option" where
  "digits_val acc [] = Some acc"
| "digits_val acc (c # cs) =
     (case digit_val c of None \<Rightarrow> None | Some d \<Rightarrow> digits_val (acc * 10 + d) cs)"

text \<open>\<open>strconv.ParseUint(s, 10, bits)\<close>: decimal digits only, at least one, and in range.\<close>

definition strconv_ParseUint :: "string \<Rightarrow> nat \<Rightarrow> nat option" where
  "strconv_ParseUint s bits =
     (if s = [] then None
      else case digits_val 0 s of None \<Rightarrow> None | Some n \<Rightarrow> if n < 2 ^ bits then Some n else None)"

section \<open>Addresses\<close>

text \<open>\<open>IP.To4\<close>, \<open>None\<close> for \<open>nil\<close>.\<close>

definition ip_To4 :: "bytes \<Rightarrow> bytes option" where
  "ip_To4 ip =
     (if length ip = 4 then Some ip
      else if length ip = 16 \<and> take 10 ip = replicate 10 0 \<and> ip ! 10 = 0xff \<and> ip ! 11 = 0xff
      then Some (drop 12 ip) else None)"

definition ip_Equal :: "bytes \<Rightarrow> bytes \<Rightarrow> bool" where
  "ip_Equal a b \<longleftrightarrow>
     (if length a = length b then a = b
      else if length a = 4 \<and> length b = 16 then take 12 b = replicate 10 0 @ [0xff, 0xff] \<and> a = drop 12 b
      else if length a = 16 \<and> length b = 4 then take 12 a = replicate 10 0 @ [0xff, 0xff] \<and> drop 12 a = b
      else False)"

text \<open>
  \<open>IP.String\<close>: dotted decimal for an IPv4 address in either form, hexadecimal groups with the
  first longest run of two or more zero groups replaced by two colons for IPv6.
\<close>

definition hex_digit :: "nat \<Rightarrow> char" where
  "hex_digit n = (if n < 10 then char_of (48 + n) else char_of (87 + n))"

fun hex_string :: "nat \<Rightarrow> string" where
  "hex_string n = (if n < 16 then [hex_digit n] else hex_string (n div 16) @ [hex_digit (n mod 16)])"

declare hex_string.simps [simp del]

definition hex_bytes :: "bytes \<Rightarrow> string" where
  "hex_bytes b = concat (map (\<lambda>x. [hex_digit (unat x div 16), hex_digit (unat x mod 16)]) b)"

fun join_with :: "string \<Rightarrow> string list \<Rightarrow> string" where
  "join_with sep [] = []"
| "join_with sep [x] = x"
| "join_with sep (x # y # xs) = x @ sep @ join_with sep (y # xs)"

definition dotted :: "bytes \<Rightarrow> string" where
  "dotted b = join_with ''.'' (map (\<lambda>x. dec_string (unat x)) b)"

definition v6_groups :: "bytes \<Rightarrow> nat list" where
  "v6_groups ip = map (\<lambda>i. unat (ip ! (2 * i)) * 256 + unat (ip ! (2 * i + 1))) [0..<8]"

definition zero_run :: "nat list \<Rightarrow> nat \<Rightarrow> nat" where
  "zero_run gs i = length (takeWhile (\<lambda>g. g = 0) (drop i gs))"

definition longest_zeros :: "nat list \<Rightarrow> nat \<times> nat" where
  "longest_zeros gs =
     foldl (\<lambda>(s, l) i. let r = zero_run gs i in if 2 \<le> r \<and> l < r then (i, r) else (s, l)) (0, 0) [0..<8]"

definition v6_string :: "bytes \<Rightarrow> string" where
  "v6_string ip =
     (let gs = v6_groups ip; (s, l) = longest_zeros gs; render = (\<lambda>xs. join_with '':'' (map hex_string xs))
      in if l = 0 then render gs else render (take s gs) @ ''::'' @ render (drop (s + l) gs))"

definition ip_String :: "bytes \<Rightarrow> string" where
  "ip_String ip =
     (if ip = [] then ''<nil>''
      else if length ip \<noteq> 4 \<and> length ip \<noteq> 16 then ''?'' @ hex_bytes ip
      else case ip_To4 ip of Some v4 \<Rightarrow> dotted v4 | None \<Rightarrow> v6_string ip)"

record IPNet =
  net_IP :: bytes
  net_Mask :: bytes

definition networkNumberAndMask :: "IPNet \<Rightarrow> (bytes \<times> bytes) option" where
  "networkNumberAndMask n =
     (case (case ip_To4 (net_IP n) of Some v \<Rightarrow> Some v
            | None \<Rightarrow> if length (net_IP n) = 16 then Some (net_IP n) else None) of
        None \<Rightarrow> None
      | Some ip \<Rightarrow>
          let m = net_Mask n in
          if length m = 4 then (if length ip = 4 then Some (ip, m) else None)
          else if length m = 16 then Some (ip, if length ip = 4 then drop 12 m else m)
          else None)"

definition net_Contains :: "IPNet \<Rightarrow> bytes \<Rightarrow> bool" where
  "net_Contains n ip0 =
     (let ip = (case ip_To4 ip0 of Some v \<Rightarrow> v | None \<Rightarrow> ip0) in
      case networkNumberAndMask n of
        None \<Rightarrow> ip = []
      | Some (nn, m) \<Rightarrow>
          length ip = length nn \<and> list_all2 (\<lambda>x (a, k). x AND k = a AND k) ip (zip nn m))"

definition CIDRMask :: "nat \<Rightarrow> nat \<Rightarrow> bytes" where
  "CIDRMask ones bits =
     map (\<lambda>i. NOT (mask (8 - min 8 (ones - 8 * i)) :: u8)) [0..<bits div 8]"

text \<open>One decimal field of an IPv4 address: one to three digits, no leading zero, at most 255.\<close>

definition ipv4_field :: "string \<Rightarrow> u8 option" where
  "ipv4_field s =
     (if s = [] \<or> 3 < length s \<or> (1 < length s \<and> hd s = CHR ''0'') then None
      else case digits_val 0 s of None \<Rightarrow> None | Some n \<Rightarrow> if n \<le> 255 then Some (of_nat n) else None)"

fun the_all :: "'a option list \<Rightarrow> 'a list option" where
  "the_all [] = Some []"
| "the_all (None # xs) = None"
| "the_all (Some x # xs) = map_option ((#) x) (the_all xs)"

definition parse_ipv4 :: "string \<Rightarrow> bytes option" where
  "parse_ipv4 s = (let fs = strings_Split s (CHR ''.'') in
     if length fs = 4 then the_all (map ipv4_field fs) else None)"

text \<open>\<open>netip.ParseAddr\<close>: the first of dot, colon and percent decides the family.\<close>

definition netip_ParseAddr :: "(string \<Rightarrow> bytes option) \<Rightarrow> string \<Rightarrow> bytes option" where
  "netip_ParseAddr p6 s =
     (case find (\<lambda>c. c \<in> {CHR ''.'', CHR '':'', CHR ''%''}) s of
        Some c \<Rightarrow> if c = CHR ''.'' then parse_ipv4 s else if c = CHR '':'' then p6 s else None
      | None \<Rightarrow> None)"

text \<open>\<open>net.ParseCIDR\<close>, the network of its result.\<close>

definition net_ParseCIDR :: "(string \<Rightarrow> bytes option) \<Rightarrow> string \<Rightarrow> IPNet option" where
  "net_ParseCIDR p6 s =
     (case strings_SplitN2 s (CHR ''/'') of
        [addr, pfx] \<Rightarrow>
          (case netip_ParseAddr p6 addr of
             None \<Rightarrow> None
           | Some ip \<Rightarrow>
               (if pfx = [] then None
                else case digits_val 0 pfx of
                  None \<Rightarrow> None
                | Some n \<Rightarrow>
                    if n \<le> 8 * length ip
                    then (let m = CIDRMask n (8 * length ip)
                          in Some \<lparr>net_IP = map2 (AND) ip m, net_Mask = m\<rparr>)
                    else None))
      | _ \<Rightarrow> None)"

section \<open>Flow descriptions\<close>

record PortRange =
  From :: u16
  To :: u16

record FlowEndpoint =
  Any :: bool
  Assigned :: bool
  Network :: "IPNet option"
  Ports :: "PortRange list"

record SDFFilterRule =
  sdf_Action :: string
  sdf_Direction :: string
  sdf_Protocol :: string
  sdf_Source :: "FlowEndpoint option"
  sdf_Destination :: "FlowEndpoint option"

definition parsePort :: "string \<Rightarrow> u16 res" where
  "parsePort s = (case strconv_ParseUint s 16 of
     None \<Rightarrow> Inl (ErrMsg ''userspace: invalid SDF port'') | Some n \<Rightarrow> Inr (of_nat n))"

text \<open>One part of a comma-separated port token: nothing, a range, or a port.\<close>

definition parsePortPart :: "PortRange list \<Rightarrow> string \<Rightarrow> PortRange list res" where
  "parsePortPart ports part0 =
     (let part = strings_TrimSpace part0 in
      if part = [] then Inr ports
      else if CHR ''-'' \<in> set part then
        (case strings_SplitN2 part (CHR ''-'') of
           [lo, hi] \<Rightarrow>
             bindE (parsePort lo) (\<lambda>from. bindE (parsePort hi) (\<lambda>to.
               Inr (ports @ [\<lparr>From = from, To = to\<rparr>])))
         | _ \<Rightarrow> Inl (ErrMsg ''userspace: invalid SDF port range''))
      else bindE (parsePort part) (\<lambda>port. Inr (ports @ [\<lparr>From = port, To = port\<rparr>])))"

definition parsePortList :: "string list \<Rightarrow> PortRange list res" where
  "parsePortList tokens =
     foldE (\<lambda>ports token.
       if strings_EqualFold token ''any'' then Inr ports
       else foldE parsePortPart ports (strings_Split token (CHR '',''))) [] tokens"

definition parseFlowEndpoint :: "(string \<Rightarrow> bytes option) \<Rightarrow> string list \<Rightarrow> FlowEndpoint res" where
  "parseFlowEndpoint p6 tokens =
     (let ep = \<lparr>Any = False, Assigned = False, Network = None, Ports = []\<rparr> in
      case tokens of
        [] \<Rightarrow> Inr ep
      | t # ts \<Rightarrow>
          bindE
            (if strings_ToLower t = ''any'' then Inr (ep\<lparr>Any := True\<rparr>)
             else if strings_ToLower t = ''assigned'' then Inr (ep\<lparr>Assigned := True\<rparr>)
             else (let addr = (if CHR ''/'' \<in> set t then t else t @ ''/32'') in
                   case net_ParseCIDR p6 addr of
                     None \<Rightarrow> Inl (ErrMsg ''userspace: unsupported SDF address'')
                   | Some network \<Rightarrow> Inr (ep\<lparr>Network := Some network\<rparr>)))
            (\<lambda>ep. if ts \<noteq> [] then bindE (parsePortList ts) (\<lambda>ports. Inr (ep\<lparr>Ports := ports\<rparr>)) else Inr ep))"

text \<open>The index of the first \<open>to\<close> from position four on.\<close>

definition find_to :: "string list \<Rightarrow> nat option" where
  "find_to toks = find (\<lambda>i. strings_EqualFold (toks ! i) ''to'') [4..<length toks]"

definition parseFlowDescription :: "(string \<Rightarrow> bytes option) \<Rightarrow> string \<Rightarrow> SDFFilterRule res" where
  "parseFlowDescription p6 desc =
     (let toks = strings_Fields (strings_TrimSpace desc) in
      if length toks < 7 then Inl (ErrMsg ''userspace: unsupported SDF flow description'')
      else if \<not> strings_EqualFold (toks ! 0) ''permit'' then Inl (ErrMsg ''userspace: unsupported SDF action'')
      else if \<not> strings_EqualFold (toks ! 3) ''from'' then Inl (ErrMsg ''userspace: malformed SDF flow description'')
      else case find_to toks of
        None \<Rightarrow> Inl (ErrMsg ''userspace: malformed SDF flow description'')
      | Some toIdx \<Rightarrow>
          if length toks \<le> toIdx + 1 then Inl (ErrMsg ''userspace: malformed SDF flow description'')
          else
            bindE (parseFlowEndpoint p6 (drop 4 (take toIdx toks))) (\<lambda>src.
            bindE (parseFlowEndpoint p6 (drop (toIdx + 1) toks)) (\<lambda>dst.
            Inr \<lparr>sdf_Action = strings_ToLower (toks ! 0),
                 sdf_Direction = strings_ToLower (toks ! 1),
                 sdf_Protocol = strings_ToLower (toks ! 2),
                 sdf_Source = Some src, sdf_Destination = Some dst\<rparr>)))"

section \<open>Packet headers\<close>

record packetMeta =
  SrcIP :: bytes
  DstIP :: bytes
  Protocol :: u8
  SrcPort :: u16
  DstPort :: u16
  HasPorts :: bool

definition parseIPv4PacketMeta :: "bytes \<Rightarrow> packetMeta res" where
  "parseIPv4PacketMeta payload =
     (if length payload < 20 \<or> drop_bit 4 (payload ! 0) \<noteq> 4
      then Inl (ErrMsg ''userspace: unsupported non-IPv4 packet'')
      else
        let ihl = unat (payload ! 0 AND 0x0f) * 4 in
        if ihl < 20 \<or> length payload < ihl then Inl (ErrMsg ''userspace: invalid IPv4 header length'')
        else
          let meta = \<lparr>SrcIP = take 4 (drop 12 payload), DstIP = take 4 (drop 16 payload),
                      Protocol = payload ! 9, SrcPort = 0, DstPort = 0, HasPorts = False\<rparr> in
          if Protocol meta = 6 \<or> Protocol meta = 17 then
            (if length payload < ihl + 4 then Inl (ErrMsg ''userspace: truncated transport header'')
             else Inr (meta\<lparr>SrcPort := be16 (payload ! ihl) (payload ! (ihl + 1)),
                            DstPort := be16 (payload ! (ihl + 2)) (payload ! (ihl + 3)),
                            HasPorts := True\<rparr>))
          else Inr meta)"

section \<open>Matching\<close>

datatype PacketDirection = PacketDirectionUplink | PacketDirectionDownlink | PacketDirectionOther

definition ruleUsesAssigned :: "SDFFilterRule \<Rightarrow> bool" where
  "ruleUsesAssigned rule \<longleftrightarrow>
     (\<exists>ep. sdf_Source rule = Some ep \<and> Assigned ep) \<or> (\<exists>ep. sdf_Destination rule = Some ep \<and> Assigned ep)"

definition protocolMatches :: "string \<Rightarrow> u8 \<Rightarrow> bool" where
  "protocolMatches proto actual =
     (let p = strings_ToLower proto in
      if p = '''' \<or> p = ''ip'' then True
      else if p = ''tcp'' then actual = 6
      else if p = ''udp'' then actual = 17
      else if p = ''icmp'' then actual = 1
      else (case strconv_ParseUint proto 8 of None \<Rightarrow> False | Some v \<Rightarrow> of_nat v = actual))"

definition endpointMatches :: "FlowEndpoint option \<Rightarrow> bytes \<Rightarrow> bytes \<Rightarrow> u16 \<Rightarrow> bool \<Rightarrow> bool" where
  "endpointMatches endpoint ueIP ip port hasPorts =
     (case endpoint of
        None \<Rightarrow> True
      | Some ep \<Rightarrow>
          if (if Assigned ep then ueIP = [] \<or> \<not> ip_Equal ueIP ip
              else (case Network ep of None \<Rightarrow> False | Some n \<Rightarrow> \<not> net_Contains n ip))
          then False
          else if Ports ep = [] then True
          else if \<not> hasPorts then False
          else list_ex (\<lambda>c. From c \<le> port \<and> port \<le> To c) (Ports ep))"

definition endpointsMatchRule ::
  "SDFFilterRule \<Rightarrow> bytes \<Rightarrow> bytes \<Rightarrow> u16 \<Rightarrow> bytes \<Rightarrow> u16 \<Rightarrow> bool \<Rightarrow> bool" where
  "endpointsMatchRule rule ueIP srcIP srcPort dstIP dstPort hasPorts \<longleftrightarrow>
     endpointMatches (sdf_Source rule) ueIP srcIP srcPort hasPorts \<and>
     endpointMatches (sdf_Destination rule) ueIP dstIP dstPort hasPorts"

definition ruleMatches :: "SDFFilterRule \<Rightarrow> bytes \<Rightarrow> packetMeta option \<Rightarrow> PacketDirection \<Rightarrow> bool" where
  "ruleMatches rule ueIP meta direction =
     (case meta of
        None \<Rightarrow> False
      | Some m \<Rightarrow>
          if sdf_Direction rule = ''out'' \<and> direction \<noteq> PacketDirectionUplink \<and> \<not> ruleUsesAssigned rule then False
          else if sdf_Direction rule = ''in'' \<and> direction \<noteq> PacketDirectionDownlink \<and> \<not> ruleUsesAssigned rule then False
          else if \<not> protocolMatches (sdf_Protocol rule) (Protocol m) then False
          else if endpointsMatchRule rule ueIP (SrcIP m) (SrcPort m) (DstIP m) (DstPort m) (HasPorts m) then True
          else if direction = PacketDirectionUplink \<and> ruleUsesAssigned rule
          then endpointsMatchRule rule ueIP (DstIP m) (DstPort m) (SrcIP m) (SrcPort m) (HasPorts m)
          else False)"

end
