(* ===== verification/Report.thy ===== *)
theory Report
  imports Prelude
begin

text \<open>
  The report types of \<^verbatim>\<open>internal/report/report.go\<close>: usage reports, downlink data reports, the
  bit fields of the PFCP information elements Reporting Triggers, Usage Report Trigger,
  Volume Measurement and Apply Action, and the lists of information elements a usage report
  becomes in each PFCP message. The constructors of the PFCP library (\<open>ie.NewURRID\<close> and the
  others) are kept symbolic, as the constructors of \<open>usage_ie\<close>.
\<close>

section \<open>Bit definitions\<close>

text \<open>Reporting Triggers.\<close>

definition RPT_TRIG_PERIO :: u32 where "RPT_TRIG_PERIO = 1"
definition RPT_TRIG_VOLTH :: u32 where "RPT_TRIG_VOLTH = 2"
definition RPT_TRIG_TIMTH :: u32 where "RPT_TRIG_TIMTH = 4"
definition RPT_TRIG_QUHTI :: u32 where "RPT_TRIG_QUHTI = 8"
definition RPT_TRIG_START :: u32 where "RPT_TRIG_START = 16"
definition RPT_TRIG_STOPT :: u32 where "RPT_TRIG_STOPT = 32"
definition RPT_TRIG_DROTH :: u32 where "RPT_TRIG_DROTH = 64"
definition RPT_TRIG_LIUSA :: u32 where "RPT_TRIG_LIUSA = 128"
definition RPT_TRIG_VOLQU :: u32 where "RPT_TRIG_VOLQU = 256"
definition RPT_TRIG_TIMQU :: u32 where "RPT_TRIG_TIMQU = 512"
definition RPT_TRIG_ENVCL :: u32 where "RPT_TRIG_ENVCL = 1024"
definition RPT_TRIG_MACAR :: u32 where "RPT_TRIG_MACAR = 2048"
definition RPT_TRIG_EVETH :: u32 where "RPT_TRIG_EVETH = 4096"
definition RPT_TRIG_EVEQU :: u32 where "RPT_TRIG_EVEQU = 8192"
definition RPT_TRIG_IPMJL :: u32 where "RPT_TRIG_IPMJL = 16384"
definition RPT_TRIG_QUVTI :: u32 where "RPT_TRIG_QUVTI = 32768"
definition RPT_TRIG_REEMR :: u32 where "RPT_TRIG_REEMR = 65536"
definition RPT_TRIG_UPINT :: u32 where "RPT_TRIG_UPINT = 131072"

text \<open>Usage Report Trigger.\<close>

definition USAR_TRIG_PERIO :: u32 where "USAR_TRIG_PERIO = 1"
definition USAR_TRIG_VOLTH :: u32 where "USAR_TRIG_VOLTH = 2"
definition USAR_TRIG_TIMTH :: u32 where "USAR_TRIG_TIMTH = 4"
definition USAR_TRIG_QUHTI :: u32 where "USAR_TRIG_QUHTI = 8"
definition USAR_TRIG_START :: u32 where "USAR_TRIG_START = 16"
definition USAR_TRIG_STOPT :: u32 where "USAR_TRIG_STOPT = 32"
definition USAR_TRIG_DROTH :: u32 where "USAR_TRIG_DROTH = 64"
definition USAR_TRIG_IMMER :: u32 where "USAR_TRIG_IMMER = 128"
definition USAR_TRIG_VOLQU :: u32 where "USAR_TRIG_VOLQU = 256"
definition USAR_TRIG_TIMQU :: u32 where "USAR_TRIG_TIMQU = 512"
definition USAR_TRIG_LIUSA :: u32 where "USAR_TRIG_LIUSA = 1024"
definition USAR_TRIG_TERMR :: u32 where "USAR_TRIG_TERMR = 2048"
definition USAR_TRIG_MONIT :: u32 where "USAR_TRIG_MONIT = 4096"
definition USAR_TRIG_ENVCL :: u32 where "USAR_TRIG_ENVCL = 8192"
definition USAR_TRIG_MACAR :: u32 where "USAR_TRIG_MACAR = 16384"
definition USAR_TRIG_EVETH :: u32 where "USAR_TRIG_EVETH = 32768"
definition USAR_TRIG_EVEQU :: u32 where "USAR_TRIG_EVEQU = 65536"
definition USAR_TRIG_TEBUR :: u32 where "USAR_TRIG_TEBUR = 131072"
definition USAR_TRIG_IPMJL :: u32 where "USAR_TRIG_IPMJL = 262144"
definition USAR_TRIG_QUVTI :: u32 where "USAR_TRIG_QUVTI = 524288"
definition USAR_TRIG_EMRRE :: u32 where "USAR_TRIG_EMRRE = 1048576"
definition USAR_TRIG_UPINT :: u32 where "USAR_TRIG_UPINT = 2097152"

text \<open>Apply Action.\<close>

definition APPLY_ACT_DROP :: u16 where "APPLY_ACT_DROP = 1"
definition APPLY_ACT_FORW :: u16 where "APPLY_ACT_FORW = 2"
definition APPLY_ACT_BUFF :: u16 where "APPLY_ACT_BUFF = 4"
definition APPLY_ACT_NOCP :: u16 where "APPLY_ACT_NOCP = 8"
definition APPLY_ACT_DUPL :: u16 where "APPLY_ACT_DUPL = 16"
definition APPLY_ACT_IPMA :: u16 where "APPLY_ACT_IPMA = 32"
definition APPLY_ACT_IPMD :: u16 where "APPLY_ACT_IPMD = 64"
definition APPLY_ACT_DFRT :: u16 where "APPLY_ACT_DFRT = 128"
definition APPLY_ACT_EDRT :: u16 where "APPLY_ACT_EDRT = 256"
definition APPLY_ACT_BDPN :: u16 where "APPLY_ACT_BDPN = 512"
definition APPLY_ACT_DDPN :: u16 where "APPLY_ACT_DDPN = 1024"
definition APPLY_ACT_FSSM :: u16 where "APPLY_ACT_FSSM = 2048"
definition APPLY_ACT_MBSU :: u16 where "APPLY_ACT_MBSU = 4096"

text \<open>Volume Measurement.\<close>

definition TOVOL :: u8 where "TOVOL = 1"
definition ULVOL :: u8 where "ULVOL = 2"
definition DLVOL :: u8 where "DLVOL = 4"
definition TONOP :: u8 where "TONOP = 8"
definition ULNOP :: u8 where "ULNOP = 16"
definition DLNOP :: u8 where "DLNOP = 32"

lemmas rpt_trig_defs =
  RPT_TRIG_PERIO_def RPT_TRIG_VOLTH_def RPT_TRIG_TIMTH_def RPT_TRIG_QUHTI_def RPT_TRIG_START_def RPT_TRIG_STOPT_def RPT_TRIG_DROTH_def RPT_TRIG_LIUSA_def RPT_TRIG_VOLQU_def RPT_TRIG_TIMQU_def RPT_TRIG_ENVCL_def RPT_TRIG_MACAR_def RPT_TRIG_EVETH_def RPT_TRIG_EVEQU_def RPT_TRIG_IPMJL_def RPT_TRIG_QUVTI_def RPT_TRIG_REEMR_def RPT_TRIG_UPINT_def
lemmas usar_trig_defs =
  USAR_TRIG_PERIO_def USAR_TRIG_VOLTH_def USAR_TRIG_TIMTH_def USAR_TRIG_QUHTI_def USAR_TRIG_START_def USAR_TRIG_STOPT_def USAR_TRIG_DROTH_def USAR_TRIG_IMMER_def USAR_TRIG_VOLQU_def USAR_TRIG_TIMQU_def USAR_TRIG_LIUSA_def USAR_TRIG_TERMR_def USAR_TRIG_MONIT_def USAR_TRIG_ENVCL_def USAR_TRIG_MACAR_def USAR_TRIG_EVETH_def USAR_TRIG_EVEQU_def USAR_TRIG_TEBUR_def USAR_TRIG_IPMJL_def USAR_TRIG_QUVTI_def USAR_TRIG_EMRRE_def USAR_TRIG_UPINT_def
lemmas apply_act_defs =
  APPLY_ACT_DROP_def APPLY_ACT_FORW_def APPLY_ACT_BUFF_def APPLY_ACT_NOCP_def APPLY_ACT_DUPL_def APPLY_ACT_IPMA_def APPLY_ACT_IPMD_def APPLY_ACT_DFRT_def APPLY_ACT_EDRT_def APPLY_ACT_BDPN_def APPLY_ACT_DDPN_def APPLY_ACT_FSSM_def APPLY_ACT_MBSU_def
lemmas vol_flag_defs = TOVOL_def ULVOL_def DLVOL_def TONOP_def ULNOP_def DLNOP_def

section \<open>Reporting triggers\<close>

record ReportingTrigger =
  rt_Flags :: u32

text \<open>
  The slice is enlarged by two zero bytes before the first four are read, so two or three
  bytes suffice.
\<close>

definition ReportingTrigger_Unmarshal :: "bytes \<Rightarrow> ReportingTrigger res" where
  "ReportingTrigger_Unmarshal b =
     (if length b < 2 then Inl ErrTooShort
      else (let v = b @ [0, 0] in Inr \<lparr>rt_Flags = le32 (v ! 0) (v ! 1) (v ! 2) (v ! 3)\<rparr>))"

text \<open>The payload of the information element: the three low bytes.\<close>

definition ReportingTrigger_IE :: "ReportingTrigger \<Rightarrow> bytes" where
  "ReportingTrigger_IE r = take 3 (put_le32 (rt_Flags r))"

definition RT_PERIO :: "ReportingTrigger \<Rightarrow> bool" where
  "RT_PERIO r \<longleftrightarrow> rt_Flags r AND RPT_TRIG_PERIO \<noteq> 0"

definition RT_VOLTH :: "ReportingTrigger \<Rightarrow> bool" where
  "RT_VOLTH r \<longleftrightarrow> rt_Flags r AND RPT_TRIG_VOLTH \<noteq> 0"

definition RT_TIMTH :: "ReportingTrigger \<Rightarrow> bool" where
  "RT_TIMTH r \<longleftrightarrow> rt_Flags r AND RPT_TRIG_TIMTH \<noteq> 0"

definition RT_QUHTI :: "ReportingTrigger \<Rightarrow> bool" where
  "RT_QUHTI r \<longleftrightarrow> rt_Flags r AND RPT_TRIG_QUHTI \<noteq> 0"

definition RT_START :: "ReportingTrigger \<Rightarrow> bool" where
  "RT_START r \<longleftrightarrow> rt_Flags r AND RPT_TRIG_START \<noteq> 0"

definition RT_STOPT :: "ReportingTrigger \<Rightarrow> bool" where
  "RT_STOPT r \<longleftrightarrow> rt_Flags r AND RPT_TRIG_STOPT \<noteq> 0"

definition RT_DROTH :: "ReportingTrigger \<Rightarrow> bool" where
  "RT_DROTH r \<longleftrightarrow> rt_Flags r AND RPT_TRIG_DROTH \<noteq> 0"

definition RT_LIUSA :: "ReportingTrigger \<Rightarrow> bool" where
  "RT_LIUSA r \<longleftrightarrow> rt_Flags r AND RPT_TRIG_LIUSA \<noteq> 0"

definition RT_VOLQU :: "ReportingTrigger \<Rightarrow> bool" where
  "RT_VOLQU r \<longleftrightarrow> rt_Flags r AND RPT_TRIG_VOLQU \<noteq> 0"

definition RT_TIMQU :: "ReportingTrigger \<Rightarrow> bool" where
  "RT_TIMQU r \<longleftrightarrow> rt_Flags r AND RPT_TRIG_TIMQU \<noteq> 0"

definition RT_ENVCL :: "ReportingTrigger \<Rightarrow> bool" where
  "RT_ENVCL r \<longleftrightarrow> rt_Flags r AND RPT_TRIG_ENVCL \<noteq> 0"

definition RT_MACAR :: "ReportingTrigger \<Rightarrow> bool" where
  "RT_MACAR r \<longleftrightarrow> rt_Flags r AND RPT_TRIG_MACAR \<noteq> 0"

definition RT_EVETH :: "ReportingTrigger \<Rightarrow> bool" where
  "RT_EVETH r \<longleftrightarrow> rt_Flags r AND RPT_TRIG_EVETH \<noteq> 0"

definition RT_EVEQU :: "ReportingTrigger \<Rightarrow> bool" where
  "RT_EVEQU r \<longleftrightarrow> rt_Flags r AND RPT_TRIG_EVEQU \<noteq> 0"

definition RT_IPMJL :: "ReportingTrigger \<Rightarrow> bool" where
  "RT_IPMJL r \<longleftrightarrow> rt_Flags r AND RPT_TRIG_IPMJL \<noteq> 0"

definition RT_QUVTI :: "ReportingTrigger \<Rightarrow> bool" where
  "RT_QUVTI r \<longleftrightarrow> rt_Flags r AND RPT_TRIG_QUVTI \<noteq> 0"

definition RT_REEMR :: "ReportingTrigger \<Rightarrow> bool" where
  "RT_REEMR r \<longleftrightarrow> rt_Flags r AND RPT_TRIG_REEMR \<noteq> 0"

definition RT_UPINT :: "ReportingTrigger \<Rightarrow> bool" where
  "RT_UPINT r \<longleftrightarrow> rt_Flags r AND RPT_TRIG_UPINT \<noteq> 0"

section \<open>Usage report triggers\<close>

record UsageReportTrigger =
  ut_Flags :: u32

definition SetReportingTrigger :: "UsageReportTrigger \<Rightarrow> u32 \<Rightarrow> UsageReportTrigger" where
  "SetReportingTrigger t r =
     (if r = RPT_TRIG_PERIO then t\<lparr>ut_Flags := ut_Flags t OR USAR_TRIG_PERIO\<rparr> else
      if r = RPT_TRIG_VOLTH then t\<lparr>ut_Flags := ut_Flags t OR USAR_TRIG_VOLTH\<rparr> else
      if r = RPT_TRIG_TIMTH then t\<lparr>ut_Flags := ut_Flags t OR USAR_TRIG_TIMTH\<rparr> else
      if r = RPT_TRIG_QUHTI then t\<lparr>ut_Flags := ut_Flags t OR USAR_TRIG_QUHTI\<rparr> else
      if r = RPT_TRIG_START then t\<lparr>ut_Flags := ut_Flags t OR USAR_TRIG_START\<rparr> else
      if r = RPT_TRIG_STOPT then t\<lparr>ut_Flags := ut_Flags t OR USAR_TRIG_STOPT\<rparr> else
      if r = RPT_TRIG_DROTH then t\<lparr>ut_Flags := ut_Flags t OR USAR_TRIG_DROTH\<rparr> else
      if r = RPT_TRIG_LIUSA then t\<lparr>ut_Flags := ut_Flags t OR USAR_TRIG_LIUSA\<rparr> else
      if r = RPT_TRIG_VOLQU then t\<lparr>ut_Flags := ut_Flags t OR USAR_TRIG_VOLQU\<rparr> else
      if r = RPT_TRIG_TIMQU then t\<lparr>ut_Flags := ut_Flags t OR USAR_TRIG_TIMQU\<rparr> else
      if r = RPT_TRIG_ENVCL then t\<lparr>ut_Flags := ut_Flags t OR USAR_TRIG_ENVCL\<rparr> else
      if r = RPT_TRIG_MACAR then t\<lparr>ut_Flags := ut_Flags t OR USAR_TRIG_MACAR\<rparr> else
      if r = RPT_TRIG_EVETH then t\<lparr>ut_Flags := ut_Flags t OR USAR_TRIG_EVETH\<rparr> else
      if r = RPT_TRIG_EVEQU then t\<lparr>ut_Flags := ut_Flags t OR USAR_TRIG_EVEQU\<rparr> else
      if r = RPT_TRIG_IPMJL then t\<lparr>ut_Flags := ut_Flags t OR USAR_TRIG_IPMJL\<rparr> else
      if r = RPT_TRIG_QUVTI then t\<lparr>ut_Flags := ut_Flags t OR USAR_TRIG_QUVTI\<rparr> else
      if r = RPT_TRIG_UPINT then t\<lparr>ut_Flags := ut_Flags t OR USAR_TRIG_UPINT\<rparr> else
      t)"

definition UsageReportTrigger_IE :: "UsageReportTrigger \<Rightarrow> bytes" where
  "UsageReportTrigger_IE t = take 3 (put_le32 (ut_Flags t))"

definition UT_PERIO :: "UsageReportTrigger \<Rightarrow> bool" where
  "UT_PERIO t \<longleftrightarrow> ut_Flags t AND USAR_TRIG_PERIO \<noteq> 0"

definition UT_VOLTH :: "UsageReportTrigger \<Rightarrow> bool" where
  "UT_VOLTH t \<longleftrightarrow> ut_Flags t AND USAR_TRIG_VOLTH \<noteq> 0"

definition UT_TIMTH :: "UsageReportTrigger \<Rightarrow> bool" where
  "UT_TIMTH t \<longleftrightarrow> ut_Flags t AND USAR_TRIG_TIMTH \<noteq> 0"

definition UT_QUHTI :: "UsageReportTrigger \<Rightarrow> bool" where
  "UT_QUHTI t \<longleftrightarrow> ut_Flags t AND USAR_TRIG_QUHTI \<noteq> 0"

definition UT_START :: "UsageReportTrigger \<Rightarrow> bool" where
  "UT_START t \<longleftrightarrow> ut_Flags t AND USAR_TRIG_START \<noteq> 0"

definition UT_STOPT :: "UsageReportTrigger \<Rightarrow> bool" where
  "UT_STOPT t \<longleftrightarrow> ut_Flags t AND USAR_TRIG_STOPT \<noteq> 0"

definition UT_DROTH :: "UsageReportTrigger \<Rightarrow> bool" where
  "UT_DROTH t \<longleftrightarrow> ut_Flags t AND USAR_TRIG_DROTH \<noteq> 0"

definition UT_IMMER :: "UsageReportTrigger \<Rightarrow> bool" where
  "UT_IMMER t \<longleftrightarrow> ut_Flags t AND USAR_TRIG_IMMER \<noteq> 0"

definition UT_VOLQU :: "UsageReportTrigger \<Rightarrow> bool" where
  "UT_VOLQU t \<longleftrightarrow> ut_Flags t AND USAR_TRIG_VOLQU \<noteq> 0"

definition UT_TIMQU :: "UsageReportTrigger \<Rightarrow> bool" where
  "UT_TIMQU t \<longleftrightarrow> ut_Flags t AND USAR_TRIG_TIMQU \<noteq> 0"

definition UT_LIUSA :: "UsageReportTrigger \<Rightarrow> bool" where
  "UT_LIUSA t \<longleftrightarrow> ut_Flags t AND USAR_TRIG_LIUSA \<noteq> 0"

definition UT_TERMR :: "UsageReportTrigger \<Rightarrow> bool" where
  "UT_TERMR t \<longleftrightarrow> ut_Flags t AND USAR_TRIG_TERMR \<noteq> 0"

definition UT_MONIT :: "UsageReportTrigger \<Rightarrow> bool" where
  "UT_MONIT t \<longleftrightarrow> ut_Flags t AND USAR_TRIG_MONIT \<noteq> 0"

definition UT_ENVCL :: "UsageReportTrigger \<Rightarrow> bool" where
  "UT_ENVCL t \<longleftrightarrow> ut_Flags t AND USAR_TRIG_ENVCL \<noteq> 0"

definition UT_MACAR :: "UsageReportTrigger \<Rightarrow> bool" where
  "UT_MACAR t \<longleftrightarrow> ut_Flags t AND USAR_TRIG_MACAR \<noteq> 0"

definition UT_EVETH :: "UsageReportTrigger \<Rightarrow> bool" where
  "UT_EVETH t \<longleftrightarrow> ut_Flags t AND USAR_TRIG_EVETH \<noteq> 0"

definition UT_EVEQU :: "UsageReportTrigger \<Rightarrow> bool" where
  "UT_EVEQU t \<longleftrightarrow> ut_Flags t AND USAR_TRIG_EVEQU \<noteq> 0"

definition UT_TEBUR :: "UsageReportTrigger \<Rightarrow> bool" where
  "UT_TEBUR t \<longleftrightarrow> ut_Flags t AND USAR_TRIG_TEBUR \<noteq> 0"

definition UT_IPMJL :: "UsageReportTrigger \<Rightarrow> bool" where
  "UT_IPMJL t \<longleftrightarrow> ut_Flags t AND USAR_TRIG_IPMJL \<noteq> 0"

definition UT_QUVTI :: "UsageReportTrigger \<Rightarrow> bool" where
  "UT_QUVTI t \<longleftrightarrow> ut_Flags t AND USAR_TRIG_QUVTI \<noteq> 0"

definition UT_EMRRE :: "UsageReportTrigger \<Rightarrow> bool" where
  "UT_EMRRE t \<longleftrightarrow> ut_Flags t AND USAR_TRIG_EMRRE \<noteq> 0"

definition UT_UPINT :: "UsageReportTrigger \<Rightarrow> bool" where
  "UT_UPINT t \<longleftrightarrow> ut_Flags t AND USAR_TRIG_UPINT \<noteq> 0"

section \<open>Measurements\<close>

record MeasureMethod =
  DURAT :: bool
  VOLUM :: bool
  EVENT :: bool

record MeasureInformation =
  MBQE :: bool
  INAM :: bool
  RADI :: bool
  ISTM :: bool
  MNOP :: bool
  SSPOC :: bool
  ASPOC :: bool
  CIAM :: bool

record VolumeMeasure =
  vm_Flags :: u8
  TotalVolume :: u64
  UplinkVolume :: u64
  DownlinkVolume :: u64
  TotalPktNum :: u64
  UplinkPktNum :: u64
  DownlinkPktNum :: u64

record DurationMeasure =
  DurationValue :: u64

definition zero_volume :: VolumeMeasure where
  "zero_volume = \<lparr>vm_Flags = 0, TotalVolume = 0, UplinkVolume = 0, DownlinkVolume = 0,
     TotalPktNum = 0, UplinkPktNum = 0, DownlinkPktNum = 0\<rparr>"

definition VolumeMeasure_SetFlags :: "VolumeMeasure \<Rightarrow> bool \<Rightarrow> VolumeMeasure" where
  "VolumeMeasure_SetFlags m mnop =
     (let m1 = m\<lparr>vm_Flags := vm_Flags m OR (TOVOL OR ULVOL OR DLVOL)\<rparr>
      in if mnop then m1\<lparr>vm_Flags := vm_Flags m1 OR (TONOP OR ULNOP OR DLNOP)\<rparr> else m1)"

datatype usage_ie =
    NewURRID u32
  | NewURSEQN u32
  | NewUsageReportTrigger bytes
  | NewStartTime gotime
  | NewEndTime gotime
  | NewVolumeMeasurement u8 u64 u64 u64 u64 u64 u64
  | NewDurationMeasurement duration

definition VolumeMeasure_IE :: "VolumeMeasure \<Rightarrow> usage_ie" where
  "VolumeMeasure_IE m = NewVolumeMeasurement (vm_Flags m) (TotalVolume m) (UplinkVolume m)
     (DownlinkVolume m) (TotalPktNum m) (UplinkPktNum m) (DownlinkPktNum m)"

definition DurationMeasure_IE :: "DurationMeasure \<Rightarrow> usage_ie" where
  "DurationMeasure_IE m = NewDurationMeasurement (sint (DurationValue m))"

section \<open>Reports\<close>

record USAReport =
  URRID :: u32
  URSEQN :: u32
  USARTrigger :: UsageReportTrigger
  VolumMeasure :: VolumeMeasure
  DuratMeasure :: DurationMeasure
  QueryUrrRef :: u32
  StartTime :: gotime
  EndTime :: gotime

record DLDReport =
  dld_PDRID :: u16
  dld_Action :: u16
  dld_BufPkt :: bytes

datatype Report = DLDR DLDReport | USAR USAReport

record SessReport =
  sr_SEID :: u64
  sr_Reports :: "Report list"

text \<open>A usage report with every field at its zero value.\<close>

definition zero_usage :: USAReport where
  "zero_usage = \<lparr>URRID = 0, URSEQN = 0, USARTrigger = \<lparr>ut_Flags = 0\<rparr>, VolumMeasure = zero_volume,
     DuratMeasure = \<lparr>DurationValue = 0\<rparr>, QueryUrrRef = 0, StartTime = 0, EndTime = 0\<rparr>"

text \<open>\<open>usars[i].USARTrigger.Flags |= f\<close>.\<close>

definition or_trigger :: "u32 \<Rightarrow> USAReport \<Rightarrow> USAReport" where
  "or_trigger f r = r\<lparr>USARTrigger := (USARTrigger r)\<lparr>ut_Flags := ut_Flags (USARTrigger r) OR f\<rparr>\<rparr>"

definition IEsWithinSessReportReq ::
  "USAReport \<Rightarrow> MeasureMethod \<Rightarrow> MeasureInformation \<Rightarrow> usage_ie list" where
  "IEsWithinSessReportReq r method info =
     (let ies = [NewURRID (URRID r), NewURSEQN (URSEQN r),
                 NewUsageReportTrigger (UsageReportTrigger_IE (USARTrigger r))];
          ies = (if \<not> UT_START (USARTrigger r) \<and> \<not> UT_STOPT (USARTrigger r) \<and> \<not> UT_MACAR (USARTrigger r)
                 then ies @ [NewStartTime (StartTime r), NewEndTime (EndTime r)] else ies);
          ies = (if VOLUM method
                 then ies @ [VolumeMeasure_IE (VolumeMeasure_SetFlags (VolumMeasure r) (MNOP info))]
                 else ies)
      in if DURAT method then ies @ [DurationMeasure_IE (DuratMeasure r)] else ies)"

definition IEsWithinSessModRsp ::
  "USAReport \<Rightarrow> MeasureMethod \<Rightarrow> MeasureInformation \<Rightarrow> usage_ie list" where
  "IEsWithinSessModRsp r method info =
     (let ies = [NewURRID (URRID r), NewURSEQN (URSEQN r),
                 NewUsageReportTrigger (UsageReportTrigger_IE (USARTrigger r))];
          ies = (if \<not> UT_START (USARTrigger r) \<and> \<not> UT_STOPT (USARTrigger r) \<and> \<not> UT_MACAR (USARTrigger r)
                 then ies @ [NewStartTime (StartTime r), NewEndTime (EndTime r)] else ies);
          ies = (if VOLUM method
                 then ies @ [VolumeMeasure_IE (VolumeMeasure_SetFlags (VolumMeasure r) (MNOP info))]
                 else ies)
      in if DURAT method then ies @ [DurationMeasure_IE (DuratMeasure r)] else ies)"

definition IEsWithinSessDelRsp ::
  "USAReport \<Rightarrow> MeasureMethod \<Rightarrow> MeasureInformation \<Rightarrow> usage_ie list" where
  "IEsWithinSessDelRsp r method info =
     (let ies = [NewURRID (URRID r), NewURSEQN (URSEQN r),
                 NewUsageReportTrigger (UsageReportTrigger_IE (USARTrigger r))];
          ies = (if \<not> UT_START (USARTrigger r) \<and> \<not> UT_STOPT (USARTrigger r) \<and> \<not> UT_MACAR (USARTrigger r)
                 then ies @ [NewStartTime (StartTime r), NewEndTime (EndTime r)] else ies);
          ies = (if VOLUM method
                 then ies @ [VolumeMeasure_IE (VolumeMeasure_SetFlags (VolumMeasure r) (MNOP info))]
                 else ies)
      in if DURAT method then ies @ [DurationMeasure_IE (DuratMeasure r)] else ies)"

section \<open>Apply action\<close>

record ApplyAction =
  aa_Flags :: u16

text \<open>The slice is copied into one of at least two bytes, of which the first two are read.\<close>

definition ApplyAction_Unmarshal :: "bytes \<Rightarrow> ApplyAction res" where
  "ApplyAction_Unmarshal b =
     (if length b < 1 then Inl ErrTooShort
      else (let v = b @ replicate (max 2 (length b) - length b) 0
            in Inr \<lparr>aa_Flags = le16 (v ! 0) (v ! 1)\<rparr>))"

definition AA_DROP :: "ApplyAction \<Rightarrow> bool" where
  "AA_DROP a \<longleftrightarrow> aa_Flags a AND APPLY_ACT_DROP \<noteq> 0"

definition AA_FORW :: "ApplyAction \<Rightarrow> bool" where
  "AA_FORW a \<longleftrightarrow> aa_Flags a AND APPLY_ACT_FORW \<noteq> 0"

definition AA_BUFF :: "ApplyAction \<Rightarrow> bool" where
  "AA_BUFF a \<longleftrightarrow> aa_Flags a AND APPLY_ACT_BUFF \<noteq> 0"

definition AA_NOCP :: "ApplyAction \<Rightarrow> bool" where
  "AA_NOCP a \<longleftrightarrow> aa_Flags a AND APPLY_ACT_NOCP \<noteq> 0"

definition AA_DUPL :: "ApplyAction \<Rightarrow> bool" where
  "AA_DUPL a \<longleftrightarrow> aa_Flags a AND APPLY_ACT_DUPL \<noteq> 0"

definition AA_IPMA :: "ApplyAction \<Rightarrow> bool" where
  "AA_IPMA a \<longleftrightarrow> aa_Flags a AND APPLY_ACT_IPMA \<noteq> 0"

definition AA_IPMD :: "ApplyAction \<Rightarrow> bool" where
  "AA_IPMD a \<longleftrightarrow> aa_Flags a AND APPLY_ACT_IPMD \<noteq> 0"

definition AA_DFRT :: "ApplyAction \<Rightarrow> bool" where
  "AA_DFRT a \<longleftrightarrow> aa_Flags a AND APPLY_ACT_DFRT \<noteq> 0"

definition AA_EDRT :: "ApplyAction \<Rightarrow> bool" where
  "AA_EDRT a \<longleftrightarrow> aa_Flags a AND APPLY_ACT_EDRT \<noteq> 0"

definition AA_BDPN :: "ApplyAction \<Rightarrow> bool" where
  "AA_BDPN a \<longleftrightarrow> aa_Flags a AND APPLY_ACT_BDPN \<noteq> 0"

definition AA_DDPN :: "ApplyAction \<Rightarrow> bool" where
  "AA_DDPN a \<longleftrightarrow> aa_Flags a AND APPLY_ACT_DDPN \<noteq> 0"

definition AA_FSSM :: "ApplyAction \<Rightarrow> bool" where
  "AA_FSSM a \<longleftrightarrow> aa_Flags a AND APPLY_ACT_FSSM \<noteq> 0"

definition AA_MBSU :: "ApplyAction \<Rightarrow> bool" where
  "AA_MBSU a \<longleftrightarrow> aa_Flags a AND APPLY_ACT_MBSU \<noteq> 0"
section \<open>Lemmas\<close>

subsection \<open>Bit fields\<close>

lemma or_trigger_simps [simp]:
  "URRID (or_trigger f r) = URRID r" "URSEQN (or_trigger f r) = URSEQN r"
  "VolumMeasure (or_trigger f r) = VolumMeasure r"
  "StartTime (or_trigger f r) = StartTime r" "EndTime (or_trigger f r) = EndTime r"
  "ut_Flags (USARTrigger (or_trigger f r)) = ut_Flags (USARTrigger r) OR f"
  by (simp_all add: or_trigger_def)

lemma word_or_zero: "x OR y = (0 :: 'a::len word) \<longleftrightarrow> x = 0 \<and> y = 0"
  by (auto simp: bit_eq_iff bit_simps)

lemma or_and_nonzero: "(x OR a) AND b \<noteq> (0 :: 'a::len word) \<longleftrightarrow> x AND b \<noteq> 0 \<or> a AND b \<noteq> 0"
  by (simp add: bit.conj_disj_distrib2 word_or_zero)

lemma ut_flags_Set: "ut_Flags (SetReportingTrigger t r) AND m \<noteq> 0 \<longleftrightarrow>
    ut_Flags t AND m \<noteq> 0 \<or> ut_Flags (SetReportingTrigger \<lparr>ut_Flags = 0\<rparr> r) AND m \<noteq> 0"
  by (simp add: SetReportingTrigger_def or_and_nonzero)

lemma put_le32_take3: "le32 (ucast w) (ucast (drop_bit 8 w)) (ucast (drop_bit 16 w)) 0 = take_bit 24 w"
  for w :: u32
proof (rule bit_word_eqI)
  fix n :: nat
  assume "n < LENGTH(32)"
  then consider "n < 8" | "8 \<le> n" "n < 16" | "16 \<le> n" "n < 24" | "24 \<le> n" "n < 32"
    by force
  then show "bit (le32 (ucast w) (ucast (drop_bit 8 w)) (ucast (drop_bit 16 w)) 0) n = bit (take_bit 24 w) n"
    by cases (auto simp: le32_def bit_simps)
qed

lemma vm_SetFlags_frame [simp]:
  "TotalVolume (VolumeMeasure_SetFlags m b) = TotalVolume m"
  "UplinkVolume (VolumeMeasure_SetFlags m b) = UplinkVolume m"
  "DownlinkVolume (VolumeMeasure_SetFlags m b) = DownlinkVolume m"
  by (simp_all add: VolumeMeasure_SetFlags_def Let_def)

end
