(* ===== verification/Ie.thy ===== *)
theory Ie
  imports Report
begin

text \<open>
  The interface of the PFCP library \<^verbatim>\<open>github.com/wmnsk/go-pfcp/ie\<close> that the program uses. The
  library is not part of the repository, so an information element is an abstract type \<open>'ie\<close>
  and the record \<open>ie_api\<close> holds the library's accessors: every definition that reads an
  element takes the record as an argument. Accessors with results of one type are one field
  indexed by the accessor's name. \<open>ParseOuterHeaderCreation\<close> is the parser of
  \<^verbatim>\<open>github.com/acore2026/util/pfcp\<close>.
\<close>

section \<open>Element types and accessors\<close>

datatype ie_type =
    T_PDRID | T_Precedence | T_PDI | T_OuterHeaderRemoval | T_FARID | T_QERID | T_URRID | T_BARID
  | T_SourceInterface | T_FTEID | T_NetworkInstance | T_UEIPAddress | T_SDFFilter | T_ApplicationID
  | T_ApplyAction | T_ForwardingParameters | T_UpdateForwardingParameters
  | T_DestinationInterface | T_OuterHeaderCreation | T_ForwardingPolicy | T_PFCPSMReqFlags
  | T_QERCorrelationID | T_GateStatus | T_MBR | T_GBR | T_QFI | T_RQI | T_PagingPolicyIndicator
  | T_MeasurementMethod | T_ReportingTriggers | T_MeasurementPeriod | T_MeasurementInformation
  | T_VolumeThreshold | T_VolumeQuota
  | T_DownlinkDataNotificationDelay | T_SuggestedBufferingPacketsCount
  | T_Other u16

datatype group_acc =
    G_CreatePDR | G_UpdatePDR | G_PDI | G_CreateFAR | G_UpdateFAR | G_ForwardingParameters
  | G_UpdateForwardingParameters | G_CreateQER | G_UpdateQER | G_CreateURR | G_UpdateURR
  | G_CreateBAR | G_UpdateBAR

datatype u8_acc =
    A_BARID | A_OuterHeaderRemovalDescription | A_SourceInterface | A_DestinationInterface
  | A_PFCPSMReqFlags | A_GateStatus | A_QFI | A_RQI | A_PagingPolicyIndicator
  | A_MeasurementMethod | A_MeasurementInformation | A_SuggestedBufferingPacketsCount

datatype u32_acc = A_FARID | A_QERID | A_URRID | A_Precedence | A_QERCorrelationID

datatype u64_acc = A_MBRUL | A_MBRDL | A_GBRUL | A_GBRDL

datatype string_acc = A_NetworkInstance | A_ApplicationID | A_ForwardingPolicyIdentifier | A_NodeID

datatype octets_acc = A_ApplyAction | A_ReportingTriggers

datatype duration_acc = A_MeasurementPeriod | A_DownlinkDataNotificationDelay

datatype volume_acc = A_VolumeThreshold | A_VolumeQuota

datatype flag_acc = Has_DURAT | Has_VOLUM | Has_EVENT | Has_MBQE | Has_INAM | Has_RADI | Has_ISTM | Has_MNOP

record VolumeFields =
  vf_Flags :: u8
  vf_TotalVolume :: u64
  vf_UplinkVolume :: u64
  vf_DownlinkVolume :: u64

record OuterHeaderFields =
  oh_Description :: u16
  oh_TEID :: u32
  oh_IPv4Address :: bytes
  oh_PortNumber :: u16

record 'ie ie_api =
  ie_Type :: "'ie \<Rightarrow> ie_type"
  ie_Payload :: "'ie \<Rightarrow> bytes"
  ie_ChildIEs :: "'ie \<Rightarrow> 'ie list"
  ie_empty :: 'ie
  ie_SrcInterfaceAccess :: u8
  ie_SrcInterfaceCore :: u8
  ie_group :: "group_acc \<Rightarrow> 'ie \<Rightarrow> 'ie list res"
  ie_u8 :: "u8_acc \<Rightarrow> 'ie \<Rightarrow> u8 res"
  ie_PDRID :: "'ie \<Rightarrow> u16 res"
  ie_u32 :: "u32_acc \<Rightarrow> 'ie \<Rightarrow> u32 res"
  ie_u64 :: "u64_acc \<Rightarrow> 'ie \<Rightarrow> u64 res"
  ie_string :: "string_acc \<Rightarrow> 'ie \<Rightarrow> string res"
  ie_octets :: "octets_acc \<Rightarrow> 'ie \<Rightarrow> bytes res"
  ie_duration :: "duration_acc \<Rightarrow> 'ie \<Rightarrow> duration res"
  ie_FTEID :: "'ie \<Rightarrow> (u32 \<times> bytes) res"
  ie_UEIPAddress :: "'ie \<Rightarrow> bytes res"
  ie_SDFFilter :: "'ie \<Rightarrow> (bool \<times> string) res"
  ie_Volume :: "volume_acc \<Rightarrow> 'ie \<Rightarrow> VolumeFields res"
  ie_Has :: "flag_acc \<Rightarrow> 'ie \<Rightarrow> bool"
  ie_ParseOuterHeaderCreation :: "bytes \<Rightarrow> OuterHeaderFields res"
  ie_NewRemovePDR :: "u16 \<Rightarrow> 'ie"
  ie_NewRemoveFAR :: "u32 \<Rightarrow> 'ie"
  ie_NewRemoveQER :: "u32 \<Rightarrow> 'ie"
  ie_NewRemoveURR :: "u32 \<Rightarrow> 'ie"
  ie_NewRemoveBAR :: "u8 \<Rightarrow> 'ie"

text \<open>
  What the program relies on when it builds a Remove element itself: the identifier it put
  in is the one it reads back.
\<close>

definition remove_ies_ok :: "'ie ie_api \<Rightarrow> bool" where
  "remove_ies_ok A \<longleftrightarrow>
     (\<forall>i. ie_PDRID A (ie_NewRemovePDR A i) = Inr i) \<and>
     (\<forall>i. ie_u32 A A_FARID (ie_NewRemoveFAR A i) = Inr i) \<and>
     (\<forall>i. ie_u32 A A_QERID (ie_NewRemoveQER A i) = Inr i) \<and>
     (\<forall>i. ie_u32 A A_URRID (ie_NewRemoveURR A i) = Inr i) \<and>
     (\<forall>i. ie_u8 A A_BARID (ie_NewRemoveBAR A i) = Inr i)"

section \<open>A concrete library\<close>

text \<open>
  Elements as trees of typed values, with the accessors that read them. It shows that the
  assumptions about the library can hold, and lets the definitions be evaluated.
\<close>

datatype tree =
    Leaf8 ie_type u8
  | Leaf16 ie_type u16
  | Leaf32 ie_type u32
  | Leaf64 ie_type u64 u64
  | LeafS ie_type string
  | LeafB ie_type bytes
  | LeafD ie_type duration
  | LeafT u32 bytes
  | LeafV ie_type VolumeFields
  | Node ie_type "tree list"

fun tree_type :: "tree \<Rightarrow> ie_type" where
  "tree_type (Leaf8 t _) = t"
| "tree_type (Leaf16 t _) = t"
| "tree_type (Leaf32 t _) = t"
| "tree_type (Leaf64 t _ _) = t"
| "tree_type (LeafS t _) = t"
| "tree_type (LeafB t _) = t"
| "tree_type (LeafD t _) = t"
| "tree_type (LeafT _ _) = T_FTEID"
| "tree_type (LeafV t _) = t"
| "tree_type (Node t _) = t"

fun tree_children :: "tree \<Rightarrow> tree list" where
  "tree_children (Node _ cs) = cs"
| "tree_children _ = []"

definition tree_leaves :: "tree \<Rightarrow> tree list" where
  "tree_leaves i = i # tree_children i"

fun first_some :: "('a \<Rightarrow> 'b option) \<Rightarrow> 'a list \<Rightarrow> 'b res" where
  "first_some f [] = Inl (ErrIE ''not found'')"
| "first_some f (x # xs) = (case f x of Some y \<Rightarrow> Inr y | None \<Rightarrow> first_some f xs)"

fun as8 :: "ie_type \<Rightarrow> tree \<Rightarrow> u8 option" where
  "as8 t (Leaf8 t' v) = (if t = t' then Some v else None)"
| "as8 t _ = None"

fun as16 :: "ie_type \<Rightarrow> tree \<Rightarrow> u16 option" where
  "as16 t (Leaf16 t' v) = (if t = t' then Some v else None)"
| "as16 t _ = None"

fun as32 :: "ie_type \<Rightarrow> tree \<Rightarrow> u32 option" where
  "as32 t (Leaf32 t' v) = (if t = t' then Some v else None)"
| "as32 t _ = None"

fun as64 :: "ie_type \<Rightarrow> tree \<Rightarrow> (u64 \<times> u64) option" where
  "as64 t (Leaf64 t' v w) = (if t = t' then Some (v, w) else None)"
| "as64 t _ = None"

fun asS :: "ie_type \<Rightarrow> tree \<Rightarrow> string option" where
  "asS t (LeafS t' v) = (if t = t' then Some v else None)"
| "asS t _ = None"

fun asB :: "ie_type \<Rightarrow> tree \<Rightarrow> bytes option" where
  "asB t (LeafB t' v) = (if t = t' then Some v else None)"
| "asB t _ = None"

fun asD :: "ie_type \<Rightarrow> tree \<Rightarrow> duration option" where
  "asD t (LeafD t' v) = (if t = t' then Some v else None)"
| "asD t _ = None"

fun asT :: "tree \<Rightarrow> (u32 \<times> bytes) option" where
  "asT (LeafT t v) = Some (t, v)"
| "asT _ = None"

fun asV :: "ie_type \<Rightarrow> tree \<Rightarrow> VolumeFields option" where
  "asV t (LeafV t' v) = (if t = t' then Some v else None)"
| "asV t _ = None"

fun type8 :: "u8_acc \<Rightarrow> ie_type" where
  "type8 A_BARID = T_BARID"
| "type8 A_OuterHeaderRemovalDescription = T_OuterHeaderRemoval"
| "type8 A_SourceInterface = T_SourceInterface"
| "type8 A_DestinationInterface = T_DestinationInterface"
| "type8 A_PFCPSMReqFlags = T_PFCPSMReqFlags"
| "type8 A_GateStatus = T_GateStatus"
| "type8 A_QFI = T_QFI"
| "type8 A_RQI = T_RQI"
| "type8 A_PagingPolicyIndicator = T_PagingPolicyIndicator"
| "type8 A_MeasurementMethod = T_MeasurementMethod"
| "type8 A_MeasurementInformation = T_MeasurementInformation"
| "type8 A_SuggestedBufferingPacketsCount = T_SuggestedBufferingPacketsCount"

fun type32 :: "u32_acc \<Rightarrow> ie_type" where
  "type32 A_FARID = T_FARID"
| "type32 A_QERID = T_QERID"
| "type32 A_URRID = T_URRID"
| "type32 A_Precedence = T_Precedence"
| "type32 A_QERCorrelationID = T_QERCorrelationID"

fun tree_rate :: "u64_acc \<Rightarrow> tree \<Rightarrow> u64 res" where
  "tree_rate A_MBRUL i = bindE (first_some (as64 T_MBR) (tree_leaves i)) (\<lambda>(u, d). Inr u)"
| "tree_rate A_MBRDL i = bindE (first_some (as64 T_MBR) (tree_leaves i)) (\<lambda>(u, d). Inr d)"
| "tree_rate A_GBRUL i = bindE (first_some (as64 T_GBR) (tree_leaves i)) (\<lambda>(u, d). Inr u)"
| "tree_rate A_GBRDL i = bindE (first_some (as64 T_GBR) (tree_leaves i)) (\<lambda>(u, d). Inr d)"

fun typeS :: "string_acc \<Rightarrow> ie_type" where
  "typeS A_NetworkInstance = T_NetworkInstance"
| "typeS A_ApplicationID = T_ApplicationID"
| "typeS A_ForwardingPolicyIdentifier = T_ForwardingPolicy"
| "typeS A_NodeID = T_Other 60"

fun typeB :: "octets_acc \<Rightarrow> ie_type" where
  "typeB A_ApplyAction = T_ApplyAction"
| "typeB A_ReportingTriggers = T_ReportingTriggers"

fun typeD :: "duration_acc \<Rightarrow> ie_type" where
  "typeD A_MeasurementPeriod = T_MeasurementPeriod"
| "typeD A_DownlinkDataNotificationDelay = T_DownlinkDataNotificationDelay"

fun typeV :: "volume_acc \<Rightarrow> ie_type" where
  "typeV A_VolumeThreshold = T_VolumeThreshold"
| "typeV A_VolumeQuota = T_VolumeQuota"

fun tree_flag :: "flag_acc \<Rightarrow> tree \<Rightarrow> bool" where
  "tree_flag f i = (\<exists>c \<in> set (tree_leaves i).
     (case f of
        Has_DURAT \<Rightarrow> (\<exists>v. as8 T_MeasurementMethod c = Some v \<and> v AND 1 \<noteq> 0)
      | Has_VOLUM \<Rightarrow> (\<exists>v. as8 T_MeasurementMethod c = Some v \<and> v AND 2 \<noteq> 0)
      | Has_EVENT \<Rightarrow> (\<exists>v. as8 T_MeasurementMethod c = Some v \<and> v AND 4 \<noteq> 0)
      | Has_MBQE \<Rightarrow> (\<exists>v. as8 T_MeasurementInformation c = Some v \<and> v AND 1 \<noteq> 0)
      | Has_INAM \<Rightarrow> (\<exists>v. as8 T_MeasurementInformation c = Some v \<and> v AND 2 \<noteq> 0)
      | Has_RADI \<Rightarrow> (\<exists>v. as8 T_MeasurementInformation c = Some v \<and> v AND 4 \<noteq> 0)
      | Has_ISTM \<Rightarrow> (\<exists>v. as8 T_MeasurementInformation c = Some v \<and> v AND 8 \<noteq> 0)
      | Has_MNOP \<Rightarrow> (\<exists>v. as8 T_MeasurementInformation c = Some v \<and> v AND 16 \<noteq> 0)))"

definition tree_api :: "tree ie_api" where
  "tree_api = \<lparr>
     ie_Type = tree_type,
     ie_Payload = (\<lambda>i. case i of LeafB _ b \<Rightarrow> b | _ \<Rightarrow> []),
     ie_ChildIEs = tree_children,
     ie_empty = Node (T_Other 0) [],
     ie_SrcInterfaceAccess = 0,
     ie_SrcInterfaceCore = 1,
     ie_group = (\<lambda>g i. Inr (tree_children i)),
     ie_u8 = (\<lambda>a i. first_some (as8 (type8 a)) (tree_leaves i)),
     ie_PDRID = (\<lambda>i. first_some (as16 T_PDRID) (tree_leaves i)),
     ie_u32 = (\<lambda>a i. first_some (as32 (type32 a)) (tree_leaves i)),
     ie_u64 = tree_rate,
     ie_string = (\<lambda>a i. first_some (asS (typeS a)) (tree_leaves i)),
     ie_octets = (\<lambda>a i. first_some (asB (typeB a)) (tree_leaves i)),
     ie_duration = (\<lambda>a i. first_some (asD (typeD a)) (tree_leaves i)),
     ie_FTEID = (\<lambda>i. first_some asT (tree_leaves i)),
     ie_UEIPAddress = (\<lambda>i. first_some (asB T_UEIPAddress) (tree_leaves i)),
     ie_SDFFilter = (\<lambda>i. bindE (first_some (asS T_SDFFilter) (tree_leaves i)) (\<lambda>s. Inr (True, s))),
     ie_Volume = (\<lambda>a i. first_some (asV (typeV a)) (tree_leaves i)),
     ie_Has = tree_flag,
     ie_ParseOuterHeaderCreation = (\<lambda>b. case b of
        [t0, t1, t2, t3, a0, a1, a2, a3] \<Rightarrow>
          Inr \<lparr>oh_Description = 0x100, oh_TEID = be32 t0 t1 t2 t3, oh_IPv4Address = [a0, a1, a2, a3], oh_PortNumber = 0\<rparr>
      | _ \<Rightarrow> Inl (ErrIE ''outer header creation'')),
     ie_NewRemovePDR = (\<lambda>i. Node (T_Other 15) [Leaf16 T_PDRID i]),
     ie_NewRemoveFAR = (\<lambda>i. Node (T_Other 16) [Leaf32 T_FARID i]),
     ie_NewRemoveQER = (\<lambda>i. Node (T_Other 18) [Leaf32 T_QERID i]),
     ie_NewRemoveURR = (\<lambda>i. Node (T_Other 17) [Leaf32 T_URRID i]),
     ie_NewRemoveBAR = (\<lambda>i. Node (T_Other 87) [Leaf8 T_BARID i])\<rparr>"

section \<open>Lemmas\<close>

lemma tree_remove_ies [simp]: "remove_ies_ok tree_api"
  by (simp add: remove_ies_ok_def tree_api_def tree_leaves_def)

end
