(* ===== verification/Gtpv1.thy ===== *)
theory Gtpv1
  imports Prelude
begin

text \<open>
  The GTP-U wire format: the encoder of \<^verbatim>\<open>internal/gtpv1/msg.go\<close>, which writes into a byte
  slice the caller allocated, and the decoder \<open>decodeGTPU\<close> of
  \<^verbatim>\<open>internal/forwarder/userspace/pipeline.go\<close>. A write or read outside the slice panics, so both
  have option results, and the lemmas show that \<open>None\<close> never happens on the buffers the code
  passes. \<open>Message_bytes\<close> is the specification of the encoder: the bytes of a message,
  written down as one concatenation.
\<close>

section \<open>Slices\<close>

definition put_at :: "bytes \<Rightarrow> nat \<Rightarrow> bytes \<Rightarrow> bytes option" where
  "put_at b pos xs = (if pos + length xs \<le> length b
     then Some (take pos b @ xs @ drop (pos + length xs) b) else None)"

text \<open>\<open>copy(b[pos:], xs)\<close> copies as much as fits.\<close>

definition copy_at :: "bytes \<Rightarrow> nat \<Rightarrow> bytes \<Rightarrow> bytes option" where
  "copy_at b pos xs = (if pos \<le> length b
     then Some (take pos b @ take (length b - pos) xs @ drop (pos + length xs) b) else None)"

definition idx :: "'a list \<Rightarrow> nat \<Rightarrow> 'a option" where
  "idx xs i = (if i < length xs then Some (xs ! i) else None)"

section \<open>Messages\<close>

definition MsgTypeTPDU :: u8 where "MsgTypeTPDU = 255"

record PDUSessionContainer =
  PDUType :: u8
  QoSFlowID :: u8

record Message =
  m_Flags :: u8
  m_Type :: u8
  m_TEID :: u32
  m_SequenceNumber :: u16
  m_NPDUNumber :: u8
  m_Exts :: "PDUSessionContainer list"
  m_Payload :: bytes

definition HasSequence :: "Message \<Rightarrow> bool" where
  "HasSequence m \<longleftrightarrow> m_Flags m AND 2 \<noteq> 0"

definition HasNPDUNumber :: "Message \<Rightarrow> bool" where
  "HasNPDUNumber m \<longleftrightarrow> m_Flags m AND 1 \<noteq> 0"

definition PDUSessionContainer_Len :: "PDUSessionContainer \<Rightarrow> nat" where
  "PDUSessionContainer_Len e = 4"

definition PDUSessionContainer_bytes :: "PDUSessionContainer \<Rightarrow> bytes" where
  "PDUSessionContainer_bytes e = [0x85, 1, push_bit 4 (PDUType e), QoSFlowID e AND 0xf]"

definition PDUSessionContainer_Encode :: "PDUSessionContainer \<Rightarrow> bytes \<Rightarrow> nat \<Rightarrow> (bytes \<times> nat) option" where
  "PDUSessionContainer_Encode e b pos =
     map_option (\<lambda>b'. (b', PDUSessionContainer_Len e)) (put_at b pos (PDUSessionContainer_bytes e))"

text \<open>\<open>((l + 4) &^ 0x3) - 1\<close>: the low two bits of \<open>l + 4\<close> are cleared.\<close>

definition align_pos :: "nat \<Rightarrow> nat" where
  "align_pos l = 4 * ((l + 4) div 4) - 1"

definition Message_Len :: "Message \<Rightarrow> nat" where
  "Message_Len m =
     (let l = 8;
          l = (if HasSequence m then l + 2 else l);
          l = (if HasNPDUNumber m then l + 1 else l);
          l = align_pos l;
          l = foldl (\<lambda>l e. l + PDUSessionContainer_Len e) l (m_Exts m)
      in l + 1 + length (m_Payload m))"

fun encode_exts :: "PDUSessionContainer list \<Rightarrow> bytes \<Rightarrow> nat \<Rightarrow> (bytes \<times> nat) option" where
  "encode_exts [] b pos = Some (b, pos)"
| "encode_exts (e # es) b pos =
     (case PDUSessionContainer_Encode e b pos of
        None \<Rightarrow> None
      | Some (b', n) \<Rightarrow> encode_exts es b' (pos + n))"

definition Message_Encode :: "Message \<Rightarrow> bytes \<Rightarrow> (bytes \<times> nat) option" where
  "Message_Encode m b0 =
     Option.bind (put_at b0 0 [m_Flags m]) (\<lambda>b.
     Option.bind (put_at b 1 [m_Type m]) (\<lambda>b.
     Option.bind (put_at b 2 (put_be16 (of_nat (Message_Len m - 8)))) (\<lambda>b.
     Option.bind (put_at b 4 (put_be32 (m_TEID m))) (\<lambda>b.
     Option.bind (if HasSequence m then map_option (\<lambda>b. (b, 10)) (put_at b 8 (put_be16 (m_SequenceNumber m)))
                  else Some (b, 8)) (\<lambda>(b, pos).
     Option.bind (if HasNPDUNumber m then map_option (\<lambda>b. (b, pos + 1)) (put_at b pos [m_NPDUNumber m])
                  else Some (b, pos)) (\<lambda>(b, pos).
     Option.bind (encode_exts (m_Exts m) b (align_pos pos)) (\<lambda>(b, pos).
     Option.bind (put_at b pos [0]) (\<lambda>b.
     Option.bind (copy_at b (pos + 1) (m_Payload m)) (\<lambda>b.
     Some (b, Message_Len m))))))))))"

text \<open>The bytes a message should become.\<close>

definition header_bytes :: "Message \<Rightarrow> bytes" where
  "header_bytes m =
     (let opt = (if HasSequence m then put_be16 (m_SequenceNumber m) else []) @
                (if HasNPDUNumber m then [m_NPDUNumber m] else [])
      in [m_Flags m, m_Type m] @ put_be16 (of_nat (Message_Len m - 8)) @ put_be32 (m_TEID m) @
         opt @ replicate (3 - length opt) 0)"

definition Message_bytes :: "Message \<Rightarrow> bytes" where
  "Message_bytes m =
     header_bytes m @ concat (map PDUSessionContainer_bytes (m_Exts m)) @ 0 # m_Payload m"

section \<open>Decoding\<close>

record decodedGTPU =
  d_TEID :: u32
  d_InnerPayload :: bytes
  d_SourceIP :: "bytes option"

text \<open>The source and destination address of an IPv4 packet, \<open>None\<close> for Go's \<open>nil\<close>.\<close>

definition parseIPv4Source :: "bytes \<Rightarrow> bytes option" where
  "parseIPv4Source payload = (if length payload < 20 \<or> drop_bit 4 (payload ! 0) \<noteq> 4 then None
     else Some (take 4 (drop 12 payload)))"

definition parseIPv4Destination :: "bytes \<Rightarrow> bytes option" where
  "parseIPv4Destination payload = (if length payload < 20 \<or> drop_bit 4 (payload ! 0) \<noteq> 4 then None
     else Some (take 4 (drop 16 payload)))"

text \<open>The loop over extension headers; its result is the header length.\<close>

function skip_exts :: "bytes \<Rightarrow> nat \<Rightarrow> nat res option" where
  "skip_exts payload headerLen =
     (case idx payload (headerLen - 1) of
        None \<Rightarrow> None
      | Some nxt \<Rightarrow>
          if nxt = 0 then Some (Inr headerLen)
          else if length payload < headerLen + 1 then Some (Inl ErrTooShort)
          else (case idx payload headerLen of
                  None \<Rightarrow> None
                | Some l \<Rightarrow>
                    let extLen = unat l * 4
                    in if extLen = 0 \<or> length payload < headerLen + extLen
                       then Some (Inl ErrLengthMismatch)
                       else skip_exts payload (headerLen + extLen)))"
  by pat_completeness auto
termination
  by (relation "measure (\<lambda>(payload, headerLen). Suc (length payload) - headerLen)")
    (auto simp: idx_def split: if_splits)

declare skip_exts.simps [simp del]

definition decodeGTPU :: "bytes \<Rightarrow> decodedGTPU res option" where
  "decodeGTPU payload =
     (if length payload < 12 then Some (Inl ErrTooShort)
      else case (if (payload ! 0) AND 7 \<noteq> 0 then skip_exts payload 12 else Some (Inr 12)) of
        None \<Rightarrow> None
      | Some (Inl e) \<Rightarrow> Some (Inl e)
      | Some (Inr headerLen) \<Rightarrow>
          if length payload < headerLen then Some (Inl ErrTooShort)
          else (let inner = drop headerLen payload in
            Some (Inr \<lparr>d_TEID = be32 (payload ! 4) (payload ! 5) (payload ! 6) (payload ! 7),
                       d_InnerPayload = inner, d_SourceIP = parseIPv4Source inner\<rparr>)))"

section \<open>Lemmas\<close>

lemma PDUSessionContainer_bytes_length [simp]:
  "length (PDUSessionContainer_bytes e) = 4" "length (PDUSessionContainer_bytes e) = PDUSessionContainer_Len e"
  by (simp_all add: PDUSessionContainer_bytes_def PDUSessionContainer_Len_def)

text \<open>Whatever the optional fields, the extension headers start at byte 11.\<close>

lemma align_pos_header [simp]:
  "align_pos 8 = 11" "align_pos 9 = 11" "align_pos 10 = 11" "align_pos (Suc 8) = 11"
  "align_pos (Suc 10) = 11" "align_pos 11 = 11"
  by (simp_all add: align_pos_def)

lemma ext_len_fold:
  "foldl (\<lambda>l e. l + PDUSessionContainer_Len e) l es = l + 4 * length es"
  by (induction es arbitrary: l) (auto simp: PDUSessionContainer_Len_def)

lemma Message_Len_eq: "Message_Len m = 12 + 4 * length (m_Exts m) + length (m_Payload m)"
  by (simp add: Message_Len_def Let_def ext_len_fold)

lemma length_concat_exts [simp]:
  "length (concat (map PDUSessionContainer_bytes es)) = 4 * length es"
  by (induction es) (auto simp: PDUSessionContainer_Len_def)

lemma length_header_bytes [simp]: "length (header_bytes m) = 11"
  by (simp add: header_bytes_def Let_def)

lemma length_Message_bytes: "length (Message_bytes m) = Message_Len m"
  by (simp add: Message_bytes_def Message_Len_eq)

lemma put_at_append [simp]:
  "length a = pos \<Longrightarrow> length x = length xs \<Longrightarrow> put_at (a @ x @ c) pos xs = Some (a @ xs @ c)"
  by (simp add: put_at_def)

lemma encode_exts_replicate:
  "length a = pos \<Longrightarrow> encode_exts es (a @ replicate (4 * length es) 0 @ c) pos =
     Some (a @ concat (map PDUSessionContainer_bytes es) @ c, pos + 4 * length es)"
proof (induction es arbitrary: a pos)
  case (Cons e es)
  have split: "replicate (4 * length (e # es)) (0::u8) = replicate 4 0 @ replicate (4 * length es) 0"
    by (simp add: replicate_add [symmetric])
  have "put_at (a @ replicate 4 0 @ replicate (4 * length es) 0 @ c) pos (PDUSessionContainer_bytes e)
      = Some (a @ PDUSessionContainer_bytes e @ replicate (4 * length es) 0 @ c)"
    using Cons.prems by (intro put_at_append) simp_all
  moreover have "encode_exts es ((a @ PDUSessionContainer_bytes e) @ replicate (4 * length es) 0 @ c) (pos + 4) =
      Some ((a @ PDUSessionContainer_bytes e) @ concat (map PDUSessionContainer_bytes es) @ c,
        pos + 4 + 4 * length es)"
    using Cons.prems by (intro Cons.IH) simp
  ultimately show ?case
    unfolding split by (simp add: PDUSessionContainer_Encode_def PDUSessionContainer_Len_def)
qed simp

lemma encode_finish:
  assumes "length a = 11" and "length xs = length (m_Payload m)"
  shows "Option.bind (encode_exts (m_Exts m) (a @ replicate (4 * length (m_Exts m)) 0 @ 0 # xs) 11) (\<lambda>(b, pos).
     Option.bind (put_at b pos [0]) (\<lambda>b.
     Option.bind (copy_at b (pos + 1) (m_Payload m)) (\<lambda>b. Some (b, n)))) =
     Some (a @ concat (map PDUSessionContainer_bytes (m_Exts m)) @ 0 # m_Payload m, n)"
proof -
  let ?es = "concat (map PDUSessionContainer_bytes (m_Exts m))"
  have "put_at ((a @ ?es) @ [0] @ xs) (11 + 4 * length (m_Exts m)) [0] = Some ((a @ ?es) @ [0] @ xs)"
    using assms by (intro put_at_append) simp_all
  moreover have "copy_at ((a @ ?es @ [0]) @ xs) (Suc (11 + 4 * length (m_Exts m))) (m_Payload m) =
      Some (a @ ?es @ 0 # m_Payload m)"
    using assms by (simp add: copy_at_def)
  ultimately show ?thesis
    using assms by (simp add: encode_exts_replicate)
qed

lemma replicate_few: "replicate 3 x = [x, x, x]" "replicate 2 x = [x, x]"
  by (simp_all add: numeral_eq_Suc)

lemma Message_Encode_eq: "Message_Encode m (replicate (Message_Len m) 0) = Some (Message_bytes m, Message_Len m)"
proof -
  let ?xs = "replicate (length (m_Payload m)) (0::u8)"
  have buf: "replicate (Message_Len m) (0::u8) =
      [0,0,0,0,0,0,0,0,0,0,0] @ replicate (4 * length (m_Exts m)) 0 @ 0 # ?xs"
    by (simp add: Message_Len_eq numeral_eq_Suc replicate_add [symmetric] replicate_app_Cons_same)
  note fin = encode_finish [of _ ?xs m "Message_Len m", simplified]
  have fin': "Option.bind (encode_exts (m_Exts m)
       (x0#x1#x2#x3#x4#x5#x6#x7#x8#x9#x10# replicate (4 * length (m_Exts m)) 0 @ 0 # ?xs) 11) (\<lambda>(b, pos).
     Option.bind (put_at b pos [0]) (\<lambda>b.
     Option.bind (copy_at b (Suc pos) (m_Payload m)) (\<lambda>b. Some (b, Message_Len m)))) =
     Some ([x0,x1,x2,x3,x4,x5,x6,x7,x8,x9,x10] @ concat (map PDUSessionContainer_bytes (m_Exts m)) @ 0 # m_Payload m,
       Message_Len m)" for x0 x1 x2 x3 x4 x5 x6 x7 x8 x9 x10
    using fin [of "[x0,x1,x2,x3,x4,x5,x6,x7,x8,x9,x10]"] by simp
  have puts:
    "put_at (y # r) 0 [v] = Some (v # r)"
    "put_at (x0#y#r) (Suc 0) [v] = Some (x0#v#r)"
    "put_at (x0#x1#y#z#r) 2 [v, w] = Some (x0#x1#v#w#r)"
    "put_at (x0#x1#x2#x3#y0#y1#y2#y3#r) 4 [v0, v1, v2, v3] = Some (x0#x1#x2#x3#v0#v1#v2#v3#r)"
    "put_at (x0#x1#x2#x3#x4#x5#x6#x7#y#z#r) 8 [v, w] = Some (x0#x1#x2#x3#x4#x5#x6#x7#v#w#r)"
    "put_at (x0#x1#x2#x3#x4#x5#x6#x7#y#r) 8 [v] = Some (x0#x1#x2#x3#x4#x5#x6#x7#v#r)"
    "put_at (x0#x1#x2#x3#x4#x5#x6#x7#x8#x9#y#r) 10 [v] = Some (x0#x1#x2#x3#x4#x5#x6#x7#x8#x9#v#r)"
    for y z r v w x0 x1 x2 x3 x4 x5 x6 x7 x8 x9 y0 y1 y2 y3 v0 v1 v2 v3
    by (simp_all add: put_at_def)
  show ?thesis
    unfolding Message_Encode_def buf
    by (cases "HasSequence m"; cases "HasNPDUNumber m")
      (simp_all add: puts put_be16_def put_be32_def fin' Message_bytes_def header_bytes_def replicate_few)
qed

subsection \<open>The decoder\<close>

lemma skip_exts_total:
  "12 \<le> h \<Longrightarrow> h \<le> length p \<Longrightarrow>
     (\<exists>r. skip_exts p h = Some r) \<and> (\<forall>n. skip_exts p h = Some (Inr n) \<longrightarrow> h \<le> n \<and> n \<le> length p)"
proof (induction p h rule: skip_exts.induct)
  case (1 p h)
  have i: "idx p (h - 1) = Some (p ! (h - 1))"
    using "1.prems" by (simp add: idx_def)
  show ?case
  proof (cases "p ! (h - 1) = 0")
    case True
    with "1.prems" i show ?thesis by (simp add: skip_exts.simps [of p h])
  next
    case nz: False
    show ?thesis
    proof (cases "length p < h + 1")
      case True
      with nz i show ?thesis by (simp add: skip_exts.simps [of p h])
    next
      case ge: False
      then have i2: "idx p h = Some (p ! h)" by (simp add: idx_def)
      let ?e = "unat (p ! h) * 4"
      show ?thesis
      proof (cases "?e = 0 \<or> length p < h + ?e")
        case True
        with nz ge i i2 have "skip_exts p h = Some (Inl ErrLengthMismatch)"
          by (subst skip_exts.simps) (simp add: Let_def)
        then show ?thesis by simp
      next
        case False
        with nz ge i i2 have eq: "skip_exts p h = skip_exts p (h + ?e)"
          by (subst skip_exts.simps) (simp add: Let_def)
        have "(\<exists>r. skip_exts p (h + ?e) = Some r) \<and>
          (\<forall>n. skip_exts p (h + ?e) = Some (Inr n) \<longrightarrow> h + ?e \<le> n \<and> n \<le> length p)"
        proof (rule "1.IH" [OF i nz ge i2 refl False])
          show "12 \<le> h + ?e" using "1.prems"(1) by simp
          show "h + ?e \<le> length p" using False by simp
        qed
        then show ?thesis unfolding eq by (metis add_leD1)
      qed
    qed
  qed
qed

lemma skip_exts_encoded:
  assumes "p = pre @ concat (map PDUSessionContainer_bytes es) @ 0 # pl" and "length pre + 1 = h"
  shows "skip_exts p h = Some (Inr (h + 4 * length es))"
  using assms
proof (induction es arbitrary: pre h)
  case Nil
  then show ?case by (subst skip_exts.simps) (auto simp: idx_def)
next
  case (Cons e es)
  let ?pre = "pre @ PDUSessionContainer_bytes e"
  have "skip_exts p (h + 4) = Some (Inr (h + 4 + 4 * length es))"
    using Cons.prems by (intro Cons.IH [of ?pre]) simp_all
  moreover have "p ! (h - 1) = 0x85" "p ! h = 1" "h + 4 \<le> length p"
    using Cons.prems by (auto simp: nth_append PDUSessionContainer_bytes_def)
  ultimately show ?case
    by (subst skip_exts.simps) (simp add: idx_def)
qed

section \<open>Properties\<close>

text \<open>Encoding a message into a zeroed buffer of the length \<open>Message_Len\<close> announces never
  writes outside the buffer, returns that length, and fills the buffer with the header, the
  extension headers, the terminating zero and the payload, in this order.\<close>

theorem Message_Encode_correct:
  "Message_Encode m (replicate (Message_Len m) 0) = Some (Message_bytes m, Message_Len m) \<and>
   length (Message_bytes m) = Message_Len m"
  by (simp add: Message_Encode_eq length_Message_bytes)

text \<open>C31. Decoding what the encoder wrote gives back the tunnel identifier and the payload, for
  any number of extension headers, provided a message with extension headers has one of the
  three low flag bits set, as every message the forwarder builds does.\<close>

theorem gtpu_roundtrip:
  assumes "m_Flags m AND 7 \<noteq> 0 \<or> m_Exts m = []"
    and "Message_Encode m (replicate (Message_Len m) 0) = Some (b, n)"
  shows "decodeGTPU b = Some (Inr \<lparr>d_TEID = m_TEID m, d_InnerPayload = m_Payload m,
    d_SourceIP = parseIPv4Source (m_Payload m)\<rparr>)"
proof -
  have b: "b = header_bytes m @ concat (map PDUSessionContainer_bytes (m_Exts m)) @ 0 # m_Payload m"
    using assms(2) by (simp add: Message_Encode_eq Message_bytes_def)
  have len: "12 + 4 * length (m_Exts m) \<le> length b" by (simp add: b)
  have hdr: "b ! 0 = m_Flags m"
    "be32 (b ! 4) (b ! 5) (b ! 6) (b ! 7) = m_TEID m"
    by (simp_all add: b header_bytes_def Let_def nth_append put_be16_def put_be32_def codec)
  have skip: "skip_exts b 12 = Some (Inr (12 + 4 * length (m_Exts m)))"
    by (rule skip_exts_encoded [OF b]) simp
  have "drop (12 + 4 * length (m_Exts m)) b = m_Payload m" by (simp add: b)
  moreover have "drop 12 b = m_Payload m" if "m_Exts m = []" using that by (simp add: b)
  ultimately show ?thesis
    using assms(1) len hdr skip by (auto simp: decodeGTPU_def Let_def)
qed

theorem gtpu_roundtrip_witness:
  "decodeGTPU [0x34, 255, 0, 10, 0, 0, 0, 7, 0, 0, 0, 0x85, 1, 0x10, 9, 0, 0xde, 0xad] =
     Some (Inr \<lparr>d_TEID = 7, d_InnerPayload = [0xde, 0xad], d_SourceIP = None\<rparr>)"
proof -
  let ?m = "\<lparr>m_Flags = 0x34, m_Type = MsgTypeTPDU, m_TEID = 7, m_SequenceNumber = 0, m_NPDUNumber = 0,
    m_Exts = [\<lparr>PDUType = 1, QoSFlowID = 9\<rparr>], m_Payload = [0xde, 0xad]\<rparr> :: Message"
  have "Message_Encode ?m (replicate (Message_Len ?m) 0) =
      Some ([0x34, 255, 0, 10, 0, 0, 0, 7, 0, 0, 0, 0x85, 1, 0x10, 9, 0, 0xde, 0xad], 18)"
    unfolding Message_Encode_eq
    by (simp add: Message_bytes_def header_bytes_def Message_Len_eq HasSequence_def
        HasNPDUNumber_def MsgTypeTPDU_def put_be16_def put_be32_def PDUSessionContainer_bytes_def replicate_few)
  from gtpu_roundtrip [OF _ this] show ?thesis
    by (simp add: parseIPv4Source_def)
qed

text \<open>The decoder reads inside the packet only, whatever the bytes are, and its loop over the
  extension headers ends; a packet it accepts is split into a header of at least twelve bytes
  and the inner packet, nothing of which is lost.\<close>

theorem decodeGTPU_in_bounds:
  "\<exists>r. decodeGTPU p = Some r \<and>
     (\<forall>d. r = Inr d \<longrightarrow> (\<exists>h. 12 \<le> h \<and> h \<le> length p \<and> p = take h p @ d_InnerPayload d))"
proof (cases "length p < 12")
  case False
  then have "12 \<le> length p" by simp
  from skip_exts_total [OF order_refl this]
  obtain r where "skip_exts p 12 = Some r" "\<And>n. r = Inr n \<Longrightarrow> 12 \<le> n \<and> n \<le> length p" by auto
  with False show ?thesis
    by (cases r) (auto simp: decodeGTPU_def Let_def)
qed (simp add: decodeGTPU_def)

theorem decodeGTPU_in_bounds_witness:
  "\<exists>r. decodeGTPU [0x34, 255, 0, 4, 0, 0, 0, 7, 0, 0, 0, 0x85] = Some r \<and> r = Inl ErrTooShort"
  using decodeGTPU_in_bounds [of "[0x34, 255, 0, 4, 0, 0, 0, 7, 0, 0, 0, 0x85]"]
  by (auto simp: decodeGTPU_def skip_exts.simps idx_def)

text \<open>A G-PDU with the mandatory eight-byte header only (no E, S or PN flag) loses the first
  four bytes of its inner packet: the decoder always takes a header of at least twelve bytes.\<close>

theorem decodeGTPU_short_header:
  assumes "4 \<le> length inner" and "flags AND 7 = 0"
  shows "decodeGTPU ([flags, t, l0, l1] @ put_be32 teid @ inner) =
    Some (Inr \<lparr>d_TEID = teid, d_InnerPayload = drop 4 inner, d_SourceIP = parseIPv4Source (drop 4 inner)\<rparr>)"
  using assms by (simp add: decodeGTPU_def put_be32_def Let_def codec)

theorem decodeGTPU_short_header_witness:
  "decodeGTPU ([0x30, 255, 0, 4] @ put_be32 7 @ [0x45, 0, 0, 20, 1]) =
     Some (Inr \<lparr>d_TEID = 7, d_InnerPayload = [1], d_SourceIP = None\<rparr>)"
  using decodeGTPU_short_header [of "[0x45, 0, 0, 20, 1]" "0x30" 255 0 4 7]
  by (simp add: parseIPv4Source_def)

end
