(* ===== verification/State.thy ===== *)
theory State
  imports Sdf Ie Gtpv1
begin

text \<open>
  The data of the userspace forwarder: the rules of a session, the session, what the adaptive
  QoS feature keeps with it, the snapshot the packet path reads and the driver itself
  (\<^verbatim>\<open>internal/forwarder/userspace/state.go\<close>, the types of \<^verbatim>\<open>runtime.go\<close>, \<^verbatim>\<open>driver.go\<close>, \<^verbatim>\<open>stats.go\<close>,
  \<^verbatim>\<open>bar_delay.go\<close> and \<^verbatim>\<open>adaptive_qos.go\<close>). A pointer to a value that is replaced and never
  written through is the value, a nil pointer is \<open>None\<close>. The packet counter of an adaptive flow
  is written through a shared pointer: the flow holds its address and the driver a store of
  counters. Tokens and ratios, \<open>float64\<close> in the code, are rationals.
\<close>

section \<open>Rules\<close>

record FTEID =
  fteid_TEID :: u32
  fteid_IPv4 :: bytes

record PDI =
  pdi_SourceInterface :: "u8 option"
  pdi_FTEID :: "FTEID option"
  pdi_NetworkInstance :: string
  pdi_UEIPv4 :: bytes
  pdi_SDFFilters :: "string list"
  pdi_SDFRules :: "SDFFilterRule list"
  pdi_ApplicationID :: string

record PDRRule =
  pdr_ID :: u16
  pdr_Precedence :: "u32 option"
  pdr_PDI :: "PDI option"
  pdr_OuterHeaderRemoval :: "u8 option"
  pdr_FARID :: "u32 option"
  pdr_QERIDs :: "u32 list"
  pdr_URRIDs :: "u32 list"
  pdr_Raw :: bytes

record OuterHeaderCreation =
  ohc_Description :: u16
  ohc_TEID :: u32
  ohc_IPv4 :: bytes
  ohc_Port :: u16

record ForwardingParameters =
  fp_DestinationInterface :: "u8 option"
  fp_NetworkInstance :: string
  fp_OuterHeaderCreation :: "OuterHeaderCreation option"
  fp_ForwardingPolicy :: string
  fp_PFCPSMReqFlags :: "u8 option"

record FARRule =
  far_ID :: u32
  far_ApplyAction :: ApplyAction
  far_Forwarding :: "ForwardingParameters option"
  far_BARID :: "u8 option"
  far_Raw :: bytes

record QERRule =
  qer_ID :: u32
  qer_CorrelationID :: "u32 option"
  qer_GateStatus :: "u8 option"
  qer_MBRUL :: "u64 option"
  qer_MBRDL :: "u64 option"
  qer_GBRUL :: "u64 option"
  qer_GBRDL :: "u64 option"
  qer_QFI :: "u8 option"
  qer_RQI :: "u8 option"
  qer_PPI :: "u8 option"
  qer_Raw :: bytes

record VolumeLimit =
  vl_Flags :: u8
  vl_TotalVolume :: u64
  vl_UplinkVolume :: u64
  vl_DownlinkVolume :: u64

record URRRule =
  urr_ID :: u32
  urr_MeasurementMethod :: MeasureMethod
  urr_ReportingTrigger :: ReportingTrigger
  urr_MeasurementPeriod :: duration
  urr_MeasurementInformation :: MeasureInformation
  urr_VolumeThreshold :: "VolumeLimit option"
  urr_VolumeQuota :: "VolumeLimit option"
  urr_Raw :: bytes

record BARRule =
  bar_ID :: u8
  bar_DownlinkDataNotificationDelay :: "duration option"
  bar_SuggestedBufferingPacketsCount :: "u16 option"
  bar_Raw :: bytes

record tokenBucket =
  tb_Tokens :: rat
  tb_LastRefill :: gotime

record QERMeterState =
  qm_Uplink :: tokenBucket
  qm_Downlink :: tokenBucket

section \<open>Adaptive QoS\<close>

record PacketFiveTuple =
  ft_SrcIP :: string
  ft_DstIP :: string
  ft_SrcPort :: u16
  ft_DstPort :: u16
  ft_Protocol :: string

record AdaptiveReport =
  ar_UEAddress :: string
  ar_FlowID :: string
  ar_ReportType :: string
  ar_Timestamp :: gotime
  ar_Scenario :: string
  ar_TrafficPattern :: string
  ar_LatencySensitivity :: string
  ar_PacketLossTolerance :: string
  ar_Priority :: string
  ar_ExpectedArrivalTime :: gotime
  ar_BurstSize :: u64
  ar_BurstDuration :: duration
  ar_BurstDurationMs :: u64
  ar_Deadline :: duration
  ar_DeadlineMs :: u64
  ar_SEIDHint :: u64
  ar_Packet :: "PacketFiveTuple option"
  ar_FlowDescription :: string

record AdaptiveFeedback =
  fb_FlowID :: string
  fb_Status :: string
  fb_ReasonCode :: string
  fb_ProfileID :: string
  fb_Scenario :: string
  fb_StoryPhase :: string
  fb_GNBDecision :: string
  fb_PredictedAirDelayMs :: u64
  fb_BlockSuccessRatio :: rat
  fb_PacketCount :: u64

record AdaptiveProfile =
  ap_ProfileID :: string
  ap_OverrideGateUL :: "bool option"
  ap_OverrideGateDL :: "bool option"
  ap_OverrideGFBRUL :: u64
  ap_OverrideGFBRDL :: u64
  ap_OverrideMBRUL :: u64
  ap_OverrideMBRDL :: u64
  ap_Duration :: duration

record AdaptiveQEROverride =
  ov_FlowID :: string
  ov_ApplyToQERID :: u32
  ov_OverrideGateUL :: "bool option"
  ov_OverrideGateDL :: "bool option"
  ov_OverrideGFBRUL :: u64
  ov_OverrideGFBRDL :: u64
  ov_OverrideMBRUL :: u64
  ov_OverrideMBRDL :: u64
  ov_ExpiresAt :: gotime

record adaptiveCPProvisionedRange =
  cp_QERCount :: nat
  cp_AuthorizationMaxBitrateUL :: u64
  cp_AuthorizationMaxBitrateDL :: u64
  cp_AuthorizationMaxGFBRUL :: u64
  cp_AuthorizationMaxGFBRDL :: u64
  cp_MBRULMin :: u64
  cp_MBRULMax :: u64
  cp_MBRDLMin :: u64
  cp_MBRDLMax :: u64
  cp_GBRULMin :: u64
  cp_GBRULMax :: u64
  cp_GBRDLMin :: u64
  cp_GBRDLMax :: u64
  cp_GateClosedULCount :: nat
  cp_GateClosedDLCount :: nat

record adaptiveQoSDecisionView =
  qd_SelectedProfileID :: string
  qd_PreviousProfileID :: string
  qd_DecisionReason :: string
  qd_AppliedQERIDs :: "u32 list"
  qd_OverrideGateUL :: "bool option"
  qd_OverrideGateDL :: "bool option"
  qd_OverrideGFBRUL :: u64
  qd_OverrideGFBRDL :: u64
  qd_DefaultGFBRUL :: u64
  qd_DefaultGFBRDL :: u64
  qd_OverrideMBRUL :: u64
  qd_OverrideMBRDL :: u64
  qd_DurationMs :: u64
  qd_RequestedTrafficPattern :: string
  qd_RequestedLatencySensitivity :: string
  qd_RequestedPacketLossTolerance :: string
  qd_RequestedBurstSize :: u64
  qd_RequestedBurstDurationMs :: u64
  qd_RequestedDeadlineMs :: u64
  qd_RequestedPriority :: string
  qd_RequestedBitrateDL :: u64
  qd_RequestedBitrateUL :: u64
  qd_RequestedArrivalTime :: gotime
  qd_DefaultProfileID :: string

record AdaptiveFlowState =
  af_FlowID :: string
  af_UEAddress :: string
  af_Packet :: "PacketFiveTuple option"
  af_AppliedQERIDs :: "u32 list"
  af_SelectedProfile :: "AdaptiveProfile option"
  af_PreviousProfileID :: string
  af_DecisionReason :: string
  af_CPProvisionedRange :: "adaptiveCPProvisionedRange option"
  af_LatestReport :: AdaptiveReport
  af_StoryPhase :: string
  af_Scenario :: string
  af_FlowDescription :: string
  af_ParsedFlowDesc :: "SDFFilterRule option"
  af_GNBDecision :: string
  af_PredictedAirDelayMs :: u64
  af_BlockSuccessRatio :: rat
  af_PacketCount :: nat
  af_UpdatedAt :: gotime

record AdaptiveTraceEvent =
  te_Timestamp :: gotime
  te_FlowID :: string
  te_UEAddress :: string
  te_SEID :: u64
  te_Packet :: "PacketFiveTuple option"
  te_FlowDescription :: string
  te_Stage :: string
  te_Status :: string
  te_ReasonCode :: string
  te_ProfileID :: string
  te_Scenario :: string
  te_GNBDecision :: string
  te_PredictedAirDelayMs :: u64
  te_BlockSuccessRatio :: rat
  te_PacketCount :: u64
  te_PreviousProfileID :: string
  te_DefaultProfileID :: string
  te_DecisionReason :: string
  te_CPProvisionedRange :: "adaptiveCPProvisionedRange option"
  te_QoSDecision :: "adaptiveQoSDecisionView option"
  te_RequestMessage :: "AdaptiveReport option"
  te_ResponseMessage :: "AdaptiveFeedback option"

text \<open>The event literal \<open>AdaptiveTraceEvent{}\<close>.\<close>

definition zero_event :: AdaptiveTraceEvent where
  "zero_event = \<lparr>te_Timestamp = 0, te_FlowID = '''', te_UEAddress = '''', te_SEID = 0, te_Packet = None,
     te_FlowDescription = '''', te_Stage = '''', te_Status = '''', te_ReasonCode = '''', te_ProfileID = '''',
     te_Scenario = '''', te_GNBDecision = '''', te_PredictedAirDelayMs = 0, te_BlockSuccessRatio = 0,
     te_PacketCount = 0, te_PreviousProfileID = '''', te_DefaultProfileID = '''', te_DecisionReason = '''',
     te_CPProvisionedRange = None, te_QoSDecision = None, te_RequestMessage = None,
     te_ResponseMessage = None\<rparr>"

record adaptiveTraceBuffer =
  tr_limit :: nat
  tr_events :: "AdaptiveTraceEvent list"

definition adaptiveDefaultTraceLimit :: nat where "adaptiveDefaultTraceLimit = 256"

definition newAdaptiveTraceBuffer :: "int \<Rightarrow> adaptiveTraceBuffer" where
  "newAdaptiveTraceBuffer limit =
     \<lparr>tr_limit = (if limit \<le> 0 then adaptiveDefaultTraceLimit else nat limit), tr_events = []\<rparr>"

definition trace_add :: "gotime \<Rightarrow> AdaptiveTraceEvent \<Rightarrow> adaptiveTraceBuffer \<Rightarrow> adaptiveTraceBuffer" where
  "trace_add now event b =
     (let event = (if te_Timestamp event = 0 then event\<lparr>te_Timestamp := now\<rparr> else event);
          events = tr_events b @ [event]
      in b\<lparr>tr_events := (if tr_limit b < length events then drop (length events - tr_limit b) events
                         else events)\<rparr>)"

definition trace_snapshot :: "nat \<Rightarrow> adaptiveTraceBuffer \<Rightarrow> AdaptiveTraceEvent list" where
  "trace_snapshot limit b =
     (if limit = 0 \<or> length (tr_events b) \<le> limit then tr_events b
      else drop (length (tr_events b) - limit) (tr_events b))"

definition trace_reset :: "adaptiveTraceBuffer \<Rightarrow> adaptiveTraceBuffer" where
  "trace_reset b = b\<lparr>tr_events := []\<rparr>"

text \<open>The part of the configuration \<open>factory.AdaptiveQoS\<close> that decisions read.\<close>

record AdaptiveQoSRule =
  rule_Name :: string
  rule_TrafficPattern :: string
  rule_LatencySensitivity :: string
  rule_PacketLossTolerance :: string
  rule_OverrideGateUL :: "bool option"
  rule_OverrideGateDL :: "bool option"
  rule_TargetGFBRUL :: u64
  rule_TargetGFBRDL :: u64
  rule_OverrideMBRUL :: u64
  rule_OverrideMBRDL :: u64
  rule_Duration :: duration

record AdaptiveQoSAuthorization =
  auth_DefaultProfileDuration :: duration
  auth_MaxBitrateUL :: u64
  auth_MaxBitrateDL :: u64
  auth_MaxGFBRUL :: u64
  auth_MaxGFBRDL :: u64

record AdaptiveQoSConfig =
  aq_Rules :: "AdaptiveQoSRule list"
  aq_Authorization :: "AdaptiveQoSAuthorization option"

section \<open>Sessions\<close>

record SessionState =
  sess_SEID :: u64
  sess_PDRs :: "u16 \<rightharpoonup> PDRRule"
  sess_FARs :: "u32 \<rightharpoonup> FARRule"
  sess_QERs :: "u32 \<rightharpoonup> QERRule"
  sess_QERMeters :: "u32 \<rightharpoonup> QERMeterState"
  sess_AdaptiveQER :: "string \<rightharpoonup> AdaptiveQEROverride"
  sess_URRs :: "u32 \<rightharpoonup> URRRule"
  sess_URRPeriodAt :: "u32 \<rightharpoonup> gotime"
  sess_BARs :: "u8 \<rightharpoonup> BARRule"
  sess_Buffers :: "u16 \<rightharpoonup> bytes list"
  sess_URRReports :: "u32 \<rightharpoonup> USAReport list"
  sess_AdaptiveFlows :: "string \<rightharpoonup> AdaptiveFlowState"
  sess_LastCPProvisioned :: "adaptiveCPProvisionedRange option"
  sess_UpdatedAt :: gotime

definition NewSessionState :: "gotime \<Rightarrow> u64 \<Rightarrow> SessionState" where
  "NewSessionState now seid = \<lparr>sess_SEID = seid, sess_PDRs = Map.empty, sess_FARs = Map.empty,
     sess_QERs = Map.empty, sess_QERMeters = Map.empty, sess_AdaptiveQER = Map.empty,
     sess_URRs = Map.empty, sess_URRPeriodAt = Map.empty, sess_BARs = Map.empty,
     sess_Buffers = Map.empty, sess_URRReports = Map.empty, sess_AdaptiveFlows = Map.empty,
     sess_LastCPProvisioned = None, sess_UpdatedAt = now\<rparr>"

definition touch :: "gotime \<Rightarrow> SessionState \<Rightarrow> SessionState" where
  "touch now sess = sess\<lparr>sess_UpdatedAt := now\<rparr>"

text \<open>Reading a nil entry of a map of slices gives the empty slice.\<close>

definition slice_at :: "('k \<rightharpoonup> 'v list) \<Rightarrow> 'k \<Rightarrow> 'v list" where
  "slice_at m k = (case m k of None \<Rightarrow> [] | Some vs \<Rightarrow> vs)"

section \<open>The snapshot\<close>

record PDRBinding =
  b_SEID :: u64
  b_PDR :: PDRRule
  b_FAR :: "FARRule option"
  b_QERs :: "QERRule list"
  b_URRs :: "URRRule list"
  b_BAR :: "BARRule option"
  b_MatchedAdaptiveFlow :: "AdaptiveFlowState option"

record RuntimeSnapshot =
  snap_GeneratedAt :: gotime
  snap_Sessions :: "u64 \<rightharpoonup> SessionState"
  snap_Uplink :: "u32 \<rightharpoonup> PDRBinding list"
  snap_Downlink :: "string \<rightharpoonup> PDRBinding list"
  snap_AdaptiveTrace :: "AdaptiveTraceEvent list"

definition newRuntimeSnapshot :: "gotime \<Rightarrow> RuntimeSnapshot" where
  "newRuntimeSnapshot now = \<lparr>snap_GeneratedAt = now, snap_Sessions = Map.empty,
     snap_Uplink = Map.empty, snap_Downlink = Map.empty, snap_AdaptiveTrace = []\<rparr>"

section \<open>Packets\<close>

datatype PacketAction = PacketActionUnknown | PacketActionDrop | PacketActionForward | PacketActionBuffer

datatype PayloadFormat = PayloadFormatUnknown | PayloadFormatRawIP | PayloadFormatGTPU

record Packet =
  pkt_Direction :: PacketDirection
  pkt_SEIDHint :: u64
  pkt_TEID :: u32
  pkt_UEIP :: bytes
  pkt_Payload :: bytes

text \<open>A \<open>net.UDPAddr\<close> is the pair of the address and the port.\<close>

record PacketOutcome =
  out_SEID :: u64
  out_PDRID :: u16
  out_Action :: PacketAction
  out_Format :: PayloadFormat
  out_Payload :: bytes
  out_Peer :: "(bytes \<times> nat) option"

record PacketResult =
  res_WorkerID :: nat
  res_Action :: PacketAction
  res_Binding :: "PDRBinding option"
  res_Outcome :: "PacketOutcome option"
  res_MatchedAdaptiveFlow :: "AdaptiveFlowState option"
  res_Err :: "error option"

section \<open>The driver\<close>

record statsTracker =
  uplinkPackets :: u64
  downlinkPackets :: u64
  forwardedPackets :: u64
  droppedPackets :: u64
  bufferedPackets :: u64
  uplinkPdrMisses :: u64
  downlinkPdrMisses :: u64
  unsupportedDownlinkL3 :: u64
  uplinkPacketErrors :: u64
  downlinkPacketErrors :: u64
  runtimeIOErrors :: u64
  egressErrors :: u64

definition newStatsTracker :: statsTracker where
  "newStatsTracker = \<lparr>uplinkPackets = 0, downlinkPackets = 0, forwardedPackets = 0, droppedPackets = 0,
     bufferedPackets = 0, uplinkPdrMisses = 0, downlinkPdrMisses = 0, unsupportedDownlinkL3 = 0,
     uplinkPacketErrors = 0, downlinkPacketErrors = 0, runtimeIOErrors = 0, egressErrors = 0\<rparr>"

type_synonym ddnKey = "u64 \<times> u16"

text \<open>The timer of a pending notification is the instant it fires at.\<close>

record pendingDDNNotification =
  ddn_timer :: gotime
  ddn_payload :: bytes
  ddn_action :: u16

text \<open>
  \<open>d_reports\<close> is the sequence of reports handed to the handler and \<open>d_egress\<close> the sequence of
  outcomes sent on \<open>egressCh\<close>; \<open>d_output\<close> is the content of the buffered channel \<open>outputCh\<close>,
  whose capacity is \<open>d_outputCap\<close>. \<open>d_flowCounts\<close> is the store of the packet counters of adaptive
  flows, of which the first \<open>d_nextFlow\<close> are allocated, and \<open>d_autoEnd\<close> lists the timers that end
  flows: the instant, the report to apply and the timestamp the flow must still have.
\<close>

record Driver =
  d_sessions :: "u64 \<rightharpoonup> SessionState"
  d_handler :: bool
  d_snapshot :: RuntimeSnapshot
  d_stats :: statsTracker
  d_pendingDDN :: "ddnKey \<rightharpoonup> pendingDDNNotification"
  d_adaptiveQoS :: "AdaptiveQoSConfig option"
  d_adaptiveTrace :: adaptiveTraceBuffer
  d_workers :: nat
  d_reports :: "SessReport list"
  d_egress :: "PacketOutcome list"
  d_output :: "PacketOutcome list"
  d_outputCap :: nat
  d_flowCounts :: "nat \<Rightarrow> u64"
  d_nextFlow :: nat
  d_autoEnd :: "(gotime \<times> AdaptiveReport \<times> gotime) list"

text \<open>
  What the driver calls and is not its own code: the PFCP library, the parser of IPv6
  addresses, the JSON decoder of reports, and the order of map iteration.
\<close>

record 'ie env =
  e_api :: "'ie ie_api"
  e_p6 :: "string \<Rightarrow> bytes option"
  e_json :: "bytes \<Rightarrow> AdaptiveReport option"
  e_rng :: ranges

section \<open>Configuration\<close>

record UserspaceConfig =
  uc_Workers :: int
  uc_QueueSize :: int
  uc_TunName :: string
  uc_TunMTU :: u32

record options =
  opt_workers :: int
  opt_queueSize :: int
  opt_tunName :: string
  opt_tunMTU :: u32

text \<open>
  The fields of the options a model of the driver depends on; \<open>None\<close> is a configuration without
  a \<open>gtpu\<close> section, \<open>Some None\<close> one without a \<open>userspace\<close> section. The lists of interfaces and
  networks are copied unchanged.
\<close>

definition optionsFromConfig :: "int \<Rightarrow> UserspaceConfig option option \<Rightarrow> options" where
  "optionsFromConfig maxprocs cfg =
     (let opt = \<lparr>opt_workers = maxprocs, opt_queueSize = 1024, opt_tunName = '''', opt_tunMTU = 0\<rparr> in
      case cfg of
        None \<Rightarrow> opt
      | Some us \<Rightarrow>
          let opt = (case us of
                None \<Rightarrow> opt
              | Some u \<Rightarrow>
                  let opt = (if 0 < uc_Workers u then opt\<lparr>opt_workers := uc_Workers u\<rparr> else opt);
                      opt = (if 0 < uc_QueueSize u then opt\<lparr>opt_queueSize := uc_QueueSize u\<rparr> else opt)
                  in opt\<lparr>opt_tunName := uc_TunName u, opt_tunMTU := uc_TunMTU u\<rparr>);
              opt = (if opt_workers opt \<le> 0 then opt\<lparr>opt_workers := 1\<rparr> else opt);
              opt = (if opt_queueSize opt \<le> 0 then opt\<lparr>opt_queueSize := 1024\<rparr> else opt)
          in (if opt_tunName opt = '''' then opt\<lparr>opt_tunName := ''upfusr0''\<rparr> else opt))"

definition New :: "gotime \<Rightarrow> int \<Rightarrow> UserspaceConfig option \<Rightarrow> AdaptiveQoSConfig option \<Rightarrow> Driver" where
  "New now maxprocs us aq =
     (let opts = optionsFromConfig maxprocs (Some us) in
      \<lparr>d_sessions = Map.empty, d_handler = False, d_snapshot = newRuntimeSnapshot now,
       d_stats = newStatsTracker, d_pendingDDN = Map.empty, d_adaptiveQoS = aq,
       d_adaptiveTrace = newAdaptiveTraceBuffer (int adaptiveDefaultTraceLimit),
       d_workers = nat (opt_workers opts), d_reports = [], d_egress = [], d_output = [],
       d_outputCap = nat (max 1 (opt_queueSize opts * opt_workers opts)),
       d_flowCounts = (\<lambda>_. 0), d_nextFlow = 0, d_autoEnd = []\<rparr>)"

section \<open>Lemmas\<close>

lemma touch_simps [simp]:
  "sess_SEID (touch now s) = sess_SEID s" "sess_PDRs (touch now s) = sess_PDRs s"
  "sess_FARs (touch now s) = sess_FARs s" "sess_QERs (touch now s) = sess_QERs s"
  "sess_QERMeters (touch now s) = sess_QERMeters s" "sess_AdaptiveQER (touch now s) = sess_AdaptiveQER s"
  "sess_URRs (touch now s) = sess_URRs s" "sess_URRPeriodAt (touch now s) = sess_URRPeriodAt s"
  "sess_BARs (touch now s) = sess_BARs s" "sess_Buffers (touch now s) = sess_Buffers s"
  "sess_URRReports (touch now s) = sess_URRReports s"
  "sess_AdaptiveFlows (touch now s) = sess_AdaptiveFlows s"
  "sess_LastCPProvisioned (touch now s) = sess_LastCPProvisioned s" "sess_UpdatedAt (touch now s) = now"
  by (simp_all add: touch_def)

lemma NewSessionState_simps [simp]:
  "sess_SEID (NewSessionState now i) = i" "sess_PDRs (NewSessionState now i) = Map.empty"
  "sess_FARs (NewSessionState now i) = Map.empty" "sess_QERs (NewSessionState now i) = Map.empty"
  "sess_QERMeters (NewSessionState now i) = Map.empty"
  "sess_AdaptiveQER (NewSessionState now i) = Map.empty" "sess_URRs (NewSessionState now i) = Map.empty"
  "sess_URRPeriodAt (NewSessionState now i) = Map.empty" "sess_BARs (NewSessionState now i) = Map.empty"
  "sess_Buffers (NewSessionState now i) = Map.empty" "sess_URRReports (NewSessionState now i) = Map.empty"
  "sess_AdaptiveFlows (NewSessionState now i) = Map.empty"
  "sess_LastCPProvisioned (NewSessionState now i) = None"
  by (simp_all add: NewSessionState_def)

lemma slice_at_upd [simp]: "slice_at (m(k \<mapsto> v)) k' = (if k' = k then v else slice_at m k')"
  by (simp add: slice_at_def)

lemma slice_at_empty [simp]: "slice_at Map.empty k = []"
  by (simp add: slice_at_def)

lemma trace_add_bound:
  "length (tr_events b) \<le> tr_limit b \<Longrightarrow> length (tr_events (trace_add now e b)) \<le> tr_limit b"
  "tr_limit (trace_add now e b) = tr_limit b"
  by (auto simp: trace_add_def Let_def)

end
