(* ===== verification/Factory.thy ===== *)
theory Factory
  imports State
begin

text \<open>
  The configuration, \<^verbatim>\<open>pkg/factory/config.go\<close> and the checks of \<^verbatim>\<open>pkg/factory/factory.go\<close>: its structure,
  the defaults, and what the other parts read of it. Reading the file, parsing YAML, the validation of the
  library \<^verbatim>\<open>govalidator\<close> and the resolver are parameters. A pointer that may be nil is an option.
\<close>

section \<open>Data\<close>

record Pfcp =
  pf_Addr :: string
  pf_NodeID :: string
  pf_RetransTimeout :: duration
  pf_MaxRetrans :: u8

record IfInfo =
  if_Addr :: string
  if_Type :: string
  if_Name :: string
  if_IfName :: string
  if_MTU :: u32

record DnnList =
  dnn_Dnn :: string
  dnn_Cidr :: string
  dnn_NatIfName :: string

record Tls =
  tls_Pem :: string
  tls_Key :: string

record AdaptiveQoSGNBControl =
  gnb_Addr :: string
  gnb_Port :: int

text \<open>The rules and the authorisation are those of the theory \<open>State\<close>, which decisions read.\<close>

record AdaptiveQoS =
  aqc_Enable :: bool
  aqc_MASQUEBindAddress :: string
  aqc_MASQUEPort :: int
  aqc_ReportBindAddress :: string
  aqc_ReportPort :: int
  aqc_DebugBindAddress :: string
  aqc_DebugPort :: int
  aqc_TLS :: "Tls option"
  aqc_GNBControl :: "AdaptiveQoSGNBControl option"
  aqc_Authorization :: "AdaptiveQoSAuthorization option"
  aqc_Rules :: "AdaptiveQoSRule list"

record Gtpu =
  gt_Forwarder :: string
  gt_IfList :: "IfInfo list"
  gt_Userspace :: "UserspaceConfig option"
  gt_AdaptiveQoS :: "AdaptiveQoS option"

record Sbi =
  sbi_Scheme :: string
  sbi_RegisterIPv4 :: string
  sbi_BindingIPv4 :: string
  sbi_Port :: int
  sbi_Tls :: "Tls option"

record Logger =
  lg_Enable :: bool
  lg_Level :: string
  lg_ReportCaller :: bool

record Config =
  c_Version :: string
  c_Description :: string
  c_NfInstanceID :: string
  c_NrfURI :: string
  c_NrfCertPem :: string
  c_ServiceNameList :: "string list"
  c_Pfcp :: "Pfcp option"
  c_Sbi :: "Sbi option"
  c_Gtpu :: "Gtpu option"
  c_DnnList :: "DnnList list"
  c_Logger :: "Logger option"

definition UpfDefaultConfigPath :: string where
  "UpfDefaultConfigPath = ''./config/upfcfg.yaml''"

definition UpfDefaultIPv4 :: string where
  "UpfDefaultIPv4 = ''127.0.0.8''"

definition UpfDefaultNrfURI :: string where
  "UpfDefaultNrfURI = ''https://127.0.0.10:8000''"

definition UpfSbiDefaultPort :: int where
  "UpfSbiDefaultPort = 8000"

definition UpfSbiDefaultScheme :: string where
  "UpfSbiDefaultScheme = ''https''"

definition UpfDefaultCertPemPath :: string where
  "UpfDefaultCertPemPath = ''./cert/upf.pem''"

definition UpfDefaultPrivateKeyPath :: string where
  "UpfDefaultPrivateKeyPath = ''./cert/upf.key''"

definition UpfServiceNameEventExposure :: string where
  "UpfServiceNameEventExposure = ''nupf-event-exposure''"

definition UpfGtpDefaultPort_int :: int where
  "UpfGtpDefaultPort_int = 2152"

section \<open>Defaults\<close>

text \<open>An empty text and a zero are settings that are missing.\<close>

definition or_text :: "string \<Rightarrow> string \<Rightarrow> string" where
  "or_text dflt s = (if s = '''' then dflt else s)"

definition or_port :: "int \<Rightarrow> int \<Rightarrow> int" where
  "or_port dflt p = (if p = 0 then dflt else p)"

definition default_userspace :: "int \<Rightarrow> UserspaceConfig option \<Rightarrow> UserspaceConfig" where
  "default_userspace maxprocs us =
     (let u = (case us of None \<Rightarrow> \<lparr>uc_Workers = 0, uc_QueueSize = 0, uc_TunName = '''', uc_TunMTU = 0\<rparr> | Some u \<Rightarrow> u);
          u = (if uc_Workers u \<le> 0 then
                 let u = u\<lparr>uc_Workers := maxprocs\<rparr> in if uc_Workers u \<le> 0 then u\<lparr>uc_Workers := 1\<rparr> else u
               else u);
          u = (if uc_QueueSize u \<le> 0 then u\<lparr>uc_QueueSize := 1024\<rparr> else u)
      in u\<lparr>uc_TunName := or_text ''upfusr0'' (uc_TunName u)\<rparr>)"

definition zero_authorization :: AdaptiveQoSAuthorization where
  "zero_authorization = \<lparr>auth_DefaultProfileDuration = 0, auth_MaxBitrateUL = 0, auth_MaxBitrateDL = 0,
     auth_MaxGFBRUL = 0, auth_MaxGFBRDL = 0\<rparr>"

definition default_authorization :: "AdaptiveQoSAuthorization option \<Rightarrow> AdaptiveQoSAuthorization" where
  "default_authorization a =
     (let a = (case a of None \<Rightarrow> zero_authorization | Some a \<Rightarrow> a)
      in if auth_DefaultProfileDuration a \<le> 0 then a\<lparr>auth_DefaultProfileDuration := 30 * 1000000000\<rparr> else a)"

definition default_adaptive :: "AdaptiveQoS \<Rightarrow> AdaptiveQoS" where
  "default_adaptive q =
     q\<lparr>aqc_MASQUEBindAddress := or_text UpfDefaultIPv4 (aqc_MASQUEBindAddress q),
       aqc_MASQUEPort := or_port 4433 (aqc_MASQUEPort q),
       aqc_ReportBindAddress := or_text ''127.0.0.1'' (aqc_ReportBindAddress q),
       aqc_ReportPort := or_port 7777 (aqc_ReportPort q),
       aqc_DebugBindAddress := or_text ''127.0.0.1'' (aqc_DebugBindAddress q),
       aqc_DebugPort := or_port 9082 (aqc_DebugPort q),
       aqc_Authorization := Some (default_authorization (aqc_Authorization q)),
       aqc_GNBControl := map_option (\<lambda>g. g\<lparr>gnb_Port := or_port UpfGtpDefaultPort_int (gnb_Port g)\<rparr>) (aqc_GNBControl q)\<rparr>"

definition default_gtpu :: "int \<Rightarrow> Gtpu \<Rightarrow> Gtpu" where
  "default_gtpu maxprocs g =
     (if gt_Forwarder g = ''userspace'' then
        g\<lparr>gt_Userspace := Some (default_userspace maxprocs (gt_Userspace g)),
          gt_AdaptiveQoS := map_option (\<lambda>q. if aqc_Enable q then default_adaptive q else q) (gt_AdaptiveQoS g)\<rparr>
      else g)"

definition default_sbi :: "Sbi \<Rightarrow> Sbi" where
  "default_sbi s =
     (let s = s\<lparr>sbi_Scheme := or_text UpfSbiDefaultScheme (sbi_Scheme s)\<rparr>;
          s = s\<lparr>sbi_RegisterIPv4 := or_text UpfDefaultIPv4 (sbi_RegisterIPv4 s)\<rparr>;
          s = s\<lparr>sbi_BindingIPv4 := or_text (sbi_RegisterIPv4 s) (sbi_BindingIPv4 s)\<rparr>
      in s\<lparr>sbi_Port := or_port UpfSbiDefaultPort (sbi_Port s)\<rparr>)"

definition SetDefaults :: "int \<Rightarrow> Config \<Rightarrow> Config" where
  "SetDefaults maxprocs c =
     (let c = c\<lparr>c_Gtpu := map_option (default_gtpu maxprocs) (c_Gtpu c)\<rparr>;
          c = c\<lparr>c_NrfURI := or_text UpfDefaultNrfURI (c_NrfURI c)\<rparr>
      in case c_Sbi c of
           None \<Rightarrow> c
         | Some s \<Rightarrow> c\<lparr>c_Sbi := Some (default_sbi s),
             c_ServiceNameList := (if c_ServiceNameList c = [] then [UpfServiceNameEventExposure] else c_ServiceNameList c)\<rparr>)"

section \<open>What the program reads\<close>

text \<open>\<open>UriScheme_HTTP\<close> is a constant of the package of API models.\<close>

definition GetSbiScheme :: "string \<Rightarrow> Config \<Rightarrow> string" where
  "GetSbiScheme UriScheme_HTTP c = (case c_Sbi c of None \<Rightarrow> UriScheme_HTTP | Some s \<Rightarrow> sbi_Scheme s)"

definition GetCertPemPath :: "Config \<Rightarrow> string" where
  "GetCertPemPath c =
     (case c_Sbi c of
        None \<Rightarrow> UpfDefaultCertPemPath
      | Some s \<Rightarrow> (case sbi_Tls s of None \<Rightarrow> UpfDefaultCertPemPath | Some t \<Rightarrow> or_text UpfDefaultCertPemPath (tls_Pem t)))"

definition GetCertKeyPath :: "Config \<Rightarrow> string" where
  "GetCertKeyPath c =
     (case c_Sbi c of
        None \<Rightarrow> UpfDefaultPrivateKeyPath
      | Some s \<Rightarrow> (case sbi_Tls s of None \<Rightarrow> UpfDefaultPrivateKeyPath | Some t \<Rightarrow> or_text UpfDefaultPrivateKeyPath (tls_Key t)))"

definition adaptive_tls :: "Config \<Rightarrow> Tls option" where
  "adaptive_tls c =
     (case c_Gtpu c of None \<Rightarrow> None | Some g \<Rightarrow> (case gt_AdaptiveQoS g of None \<Rightarrow> None | Some q \<Rightarrow> aqc_TLS q))"

definition GetAdaptiveQoSCertPemPath :: "Config option \<Rightarrow> string" where
  "GetAdaptiveQoSCertPemPath c =
     (case c of
        None \<Rightarrow> UpfDefaultCertPemPath
      | Some c \<Rightarrow> (case adaptive_tls c of None \<Rightarrow> GetCertPemPath c | Some t \<Rightarrow> or_text (GetCertPemPath c) (tls_Pem t)))"

definition GetAdaptiveQoSCertKeyPath :: "Config option \<Rightarrow> string" where
  "GetAdaptiveQoSCertKeyPath c =
     (case c of
        None \<Rightarrow> UpfDefaultPrivateKeyPath
      | Some c \<Rightarrow> (case adaptive_tls c of None \<Rightarrow> GetCertKeyPath c | Some t \<Rightarrow> or_text (GetCertKeyPath c) (tls_Key t)))"

definition GetVersion :: "Config \<Rightarrow> string" where
  "GetVersion c = c_Version c"

section \<open>Reading the configuration\<close>

text \<open>
  \<open>read_file\<close> and \<open>unmarshal\<close> are the file system and the YAML library, \<open>validate\<close> is
  \<open>govalidator.ValidateStruct\<close>, \<open>resolve\<close> the resolver. Without a \<open>pfcp\<close> section reading its node
  identifier panics, but the validation requires one.
\<close>

record factory_env =
  fe_ReadFile :: "string \<Rightarrow> bytes res"
  fe_Unmarshal :: "bytes \<Rightarrow> Config res"
  fe_Validate :: "Config \<Rightarrow> error option"
  fe_ResolveIPAddr :: "string \<Rightarrow> error option"
  fe_maxprocs :: int

definition InitConfigFactory :: "factory_env \<Rightarrow> string \<Rightarrow> Config res" where
  "InitConfigFactory E f = bindE (fe_ReadFile E (or_text UpfDefaultConfigPath f)) (fe_Unmarshal E)"

definition ReadConfig :: "factory_env \<Rightarrow> string \<Rightarrow> Config res option" where
  "ReadConfig E cfgPath =
     (case InitConfigFactory E cfgPath of
        Inl e \<Rightarrow> Some (Inl e)
      | Inr cfg \<Rightarrow>
          let cfg = SetDefaults (fe_maxprocs E) cfg in
          (case fe_Validate E cfg of
             Some e \<Rightarrow> Some (Inl e)
           | None \<Rightarrow>
               (case c_Pfcp cfg of
                  None \<Rightarrow> None
                | Some p \<Rightarrow>
                    (case fe_ResolveIPAddr E (pf_NodeID p) of
                       Some e \<Rightarrow> Some (Inl (ErrMsg ''cfg.Pfcp.NodeID can't be resolved''))
                     | None \<Rightarrow> Some (Inr cfg)))))"

section \<open>The adaptive QoS controller\<close>

text \<open>What \<open>newAdaptiveQoSController\<close> makes of the configuration; \<open>None\<close> is no controller.\<close>

record adaptiveQoSController =
  ctl_cfg :: AdaptiveQoS
  ctl_certFile :: string
  ctl_keyFile :: string

definition newAdaptiveQoSController :: "Config \<Rightarrow> adaptiveQoSController option" where
  "newAdaptiveQoSController cfg =
     (case c_Gtpu cfg of
        None \<Rightarrow> None
      | Some g \<Rightarrow>
          (case gt_AdaptiveQoS g of
             None \<Rightarrow> None
           | Some q \<Rightarrow>
               if \<not> aqc_Enable q then None
               else
                 let q = q\<lparr>aqc_MASQUEBindAddress := or_text ''127.0.0.1'' (aqc_MASQUEBindAddress q),
                           aqc_ReportBindAddress := or_text ''127.0.0.1'' (aqc_ReportBindAddress q)\<rparr>
                 in Some \<lparr>ctl_cfg = q, ctl_certFile = GetAdaptiveQoSCertPemPath (Some cfg),
                          ctl_keyFile = GetAdaptiveQoSCertKeyPath (Some cfg)\<rparr>))"

text \<open>The part of it the decisions of the forwarder read.\<close>

definition adaptive_config :: "adaptiveQoSController \<Rightarrow> AdaptiveQoSConfig" where
  "adaptive_config c = \<lparr>aq_Rules = aqc_Rules (ctl_cfg c), aq_Authorization = aqc_Authorization (ctl_cfg c)\<rparr>"

section \<open>Well-formed configurations\<close>

definition userspace_ready :: "UserspaceConfig \<Rightarrow> bool" where
  "userspace_ready u \<longleftrightarrow> 0 < uc_Workers u \<and> 0 < uc_QueueSize u \<and> uc_TunName u \<noteq> ''''"

definition adaptive_ready :: "AdaptiveQoS \<Rightarrow> bool" where
  "adaptive_ready q \<longleftrightarrow> aqc_MASQUEBindAddress q \<noteq> '''' \<and> aqc_MASQUEPort q \<noteq> 0 \<and> aqc_ReportBindAddress q \<noteq> '''' \<and>
     aqc_ReportPort q \<noteq> 0 \<and> aqc_DebugBindAddress q \<noteq> '''' \<and> aqc_DebugPort q \<noteq> 0 \<and>
     (case aqc_Authorization q of None \<Rightarrow> False | Some a \<Rightarrow> 0 < auth_DefaultProfileDuration a) \<and>
     (case aqc_GNBControl q of None \<Rightarrow> True | Some g \<Rightarrow> gnb_Port g \<noteq> 0)"

definition gtpu_ready :: "Gtpu \<Rightarrow> bool" where
  "gtpu_ready g \<longleftrightarrow> (if gt_Forwarder g = ''userspace''
     then (case gt_Userspace g of None \<Rightarrow> False | Some u \<Rightarrow> userspace_ready u) \<and>
       (case gt_AdaptiveQoS g of None \<Rightarrow> True | Some q \<Rightarrow> if aqc_Enable q then adaptive_ready q else True)
     else True)"

definition sbi_ready :: "Sbi \<Rightarrow> bool" where
  "sbi_ready s \<longleftrightarrow> sbi_Scheme s \<noteq> '''' \<and> sbi_RegisterIPv4 s \<noteq> '''' \<and> sbi_BindingIPv4 s \<noteq> '''' \<and> sbi_Port s \<noteq> 0"

definition config_ready :: "Config \<Rightarrow> bool" where
  "config_ready c \<longleftrightarrow> (case c_Gtpu c of None \<Rightarrow> True | Some g \<Rightarrow> gtpu_ready g) \<and> c_NrfURI c \<noteq> '''' \<and>
     (case c_Sbi c of None \<Rightarrow> True | Some s \<Rightarrow> sbi_ready s \<and> c_ServiceNameList c \<noteq> [])"

named_theorems default_simps

lemma or_text_ready [default_simps]: "dflt \<noteq> '''' \<Longrightarrow> or_text dflt s \<noteq> ''''" "s \<noteq> '''' \<Longrightarrow> or_text dflt s = s"
  by (simp_all add: or_text_def)

lemma or_port_ready [default_simps]: "dflt \<noteq> 0 \<Longrightarrow> or_port dflt p \<noteq> 0" "p \<noteq> 0 \<Longrightarrow> or_port dflt p = p"
  by (simp_all add: or_port_def)

lemmas default_constants = UpfDefaultIPv4_def UpfDefaultNrfURI_def UpfSbiDefaultPort_def UpfSbiDefaultScheme_def
  UpfGtpDefaultPort_int_def UpfServiceNameEventExposure_def

lemma default_userspace_ready: "userspace_ready (default_userspace m us)"
  by (auto simp: userspace_ready_def default_userspace_def Let_def default_simps split: option.split)

lemma default_userspace_keep: "userspace_ready u \<Longrightarrow> default_userspace m (Some u) = u"
  by (simp add: userspace_ready_def default_userspace_def default_simps)

lemma default_authorization_ready: "0 < auth_DefaultProfileDuration (default_authorization a)"
  by (simp add: default_authorization_def Let_def not_le)

lemma default_authorization_keep: "0 < auth_DefaultProfileDuration a \<Longrightarrow> default_authorization (Some a) = a"
  by (simp add: default_authorization_def)

lemma default_adaptive_ready: "adaptive_ready (default_adaptive q)" "aqc_Enable (default_adaptive q) = aqc_Enable q"
  by (auto simp: adaptive_ready_def default_adaptive_def default_simps default_constants default_authorization_ready split: option.split)

lemma default_adaptive_keep: "adaptive_ready q \<Longrightarrow> default_adaptive q = q"
  by (auto simp: adaptive_ready_def default_adaptive_def default_simps default_authorization_keep split: option.splits)

lemma default_gtpu_ready: "gtpu_ready (default_gtpu m g)"
  by (auto simp: gtpu_ready_def default_gtpu_def default_userspace_ready default_adaptive_ready split: option.split)

lemma default_gtpu_keep: "gtpu_ready g \<Longrightarrow> default_gtpu m g = g"
  by (auto simp: gtpu_ready_def default_gtpu_def default_userspace_keep default_adaptive_keep split: option.splits if_splits)

lemma default_sbi_ready: "sbi_ready (default_sbi s)"
  by (simp add: sbi_ready_def default_sbi_def Let_def default_simps default_constants)

lemma default_sbi_keep: "sbi_ready s \<Longrightarrow> default_sbi s = s"
  by (simp add: sbi_ready_def default_sbi_def Let_def default_simps)

lemma SetDefaults_ready: "config_ready (SetDefaults m c)"
  by (auto simp: config_ready_def SetDefaults_def Let_def default_gtpu_ready default_sbi_ready default_simps default_constants
      split: option.split)

lemma SetDefaults_keep: "config_ready c \<Longrightarrow> SetDefaults m c = c"
  by (auto simp: config_ready_def SetDefaults_def Let_def default_gtpu_keep default_sbi_keep default_simps split: option.splits)


definition ex_config :: Config where
  "ex_config = \<lparr>c_Version = ''1.0.3'', c_Description = '''', c_NfInstanceID = '''', c_NrfURI = '''', c_NrfCertPem = '''',
     c_ServiceNameList = [], c_Pfcp = None, c_Sbi = None,
     c_Gtpu = Some \<lparr>gt_Forwarder = ''userspace'', gt_IfList = [], gt_Userspace = None, gt_AdaptiveQoS = None\<rparr>,
     c_DnnList = [], c_Logger = None\<rparr>"


end
