(* ===== verification/Parse.thy ===== *)
theory Parse
  imports State
begin

text \<open>
  \<^verbatim>\<open>internal/forwarder/userspace/parse.go\<close>: from information elements to rules. Each \<open>decode\<close>
  function is a loop over the elements of a group that returns at the first error; the body of
  the loop is the step function of the fold.
\<close>

section \<open>PDRs\<close>

definition decodePDI_step ::
  "'ie ie_api \<Rightarrow> (string \<Rightarrow> bytes option) \<Rightarrow> PDI \<Rightarrow> 'ie \<Rightarrow> PDI res" where
  "decodePDI_step A p6 pdi x =
     (case ie_Type A x of
        T_SourceInterface \<Rightarrow>
          bindE (ie_u8 A A_SourceInterface x) (\<lambda>v. Inr (pdi\<lparr>pdi_SourceInterface := Some v\<rparr>))
      | T_FTEID \<Rightarrow>
          bindE (ie_FTEID A x) (\<lambda>(teid, ip).
            Inr (pdi\<lparr>pdi_FTEID := Some \<lparr>fteid_TEID = teid, fteid_IPv4 = ip\<rparr>\<rparr>))
      | T_NetworkInstance \<Rightarrow>
          bindE (ie_string A A_NetworkInstance x) (\<lambda>v. Inr (pdi\<lparr>pdi_NetworkInstance := v\<rparr>))
      | T_UEIPAddress \<Rightarrow>
          bindE (ie_UEIPAddress A x) (\<lambda>v. Inr (if v \<noteq> [] then pdi\<lparr>pdi_UEIPv4 := v\<rparr> else pdi))
      | T_SDFFilter \<Rightarrow>
          bindE (ie_SDFFilter A x) (\<lambda>(hasFD, fd).
            if hasFD then
              bindE (parseFlowDescription p6 fd) (\<lambda>rule.
                Inr (pdi\<lparr>pdi_SDFFilters := pdi_SDFFilters pdi @ [fd],
                         pdi_SDFRules := pdi_SDFRules pdi @ [rule]\<rparr>))
            else Inr pdi)
      | T_ApplicationID \<Rightarrow>
          bindE (ie_string A A_ApplicationID x) (\<lambda>v. Inr (pdi\<lparr>pdi_ApplicationID := v\<rparr>))
      | _ \<Rightarrow> Inr pdi)"

definition zero_PDI :: PDI where
  "zero_PDI = \<lparr>pdi_SourceInterface = None, pdi_FTEID = None, pdi_NetworkInstance = '''',
     pdi_UEIPv4 = [], pdi_SDFFilters = [], pdi_SDFRules = [], pdi_ApplicationID = ''''\<rparr>"

definition decodePDI :: "'ie ie_api \<Rightarrow> (string \<Rightarrow> bytes option) \<Rightarrow> 'ie \<Rightarrow> PDI res" where
  "decodePDI A p6 i = bindE (ie_group A G_PDI i) (foldE (decodePDI_step A p6) zero_PDI)"

definition decodePDR_step ::
  "'ie ie_api \<Rightarrow> (string \<Rightarrow> bytes option) \<Rightarrow> PDRRule \<Rightarrow> 'ie \<Rightarrow> PDRRule res" where
  "decodePDR_step A p6 rule x =
     (case ie_Type A x of
        T_PDRID \<Rightarrow> bindE (ie_PDRID A x) (\<lambda>v. Inr (rule\<lparr>pdr_ID := v\<rparr>))
      | T_Precedence \<Rightarrow> bindE (ie_u32 A A_Precedence x) (\<lambda>v. Inr (rule\<lparr>pdr_Precedence := Some v\<rparr>))
      | T_PDI \<Rightarrow> bindE (decodePDI A p6 x) (\<lambda>pdi. Inr (rule\<lparr>pdr_PDI := Some pdi\<rparr>))
      | T_OuterHeaderRemoval \<Rightarrow>
          bindE (ie_u8 A A_OuterHeaderRemovalDescription x) (\<lambda>v. Inr (rule\<lparr>pdr_OuterHeaderRemoval := Some v\<rparr>))
      | T_FARID \<Rightarrow> bindE (ie_u32 A A_FARID x) (\<lambda>v. Inr (rule\<lparr>pdr_FARID := Some v\<rparr>))
      | T_QERID \<Rightarrow> bindE (ie_u32 A A_QERID x) (\<lambda>v. Inr (rule\<lparr>pdr_QERIDs := pdr_QERIDs rule @ [v]\<rparr>))
      | T_URRID \<Rightarrow> bindE (ie_u32 A A_URRID x) (\<lambda>v. Inr (rule\<lparr>pdr_URRIDs := pdr_URRIDs rule @ [v]\<rparr>))
      | _ \<Rightarrow> Inr rule)"

definition decodePDR ::
  "'ie ie_api \<Rightarrow> (string \<Rightarrow> bytes option) \<Rightarrow> 'ie list \<Rightarrow> bytes \<Rightarrow> PDRRule res" where
  "decodePDR A p6 ies raw =
     bindE (foldE (decodePDR_step A p6)
              \<lparr>pdr_ID = 0, pdr_Precedence = None, pdr_PDI = None, pdr_OuterHeaderRemoval = None,
               pdr_FARID = None, pdr_QERIDs = [], pdr_URRIDs = [], pdr_Raw = raw\<rparr> ies)
       (\<lambda>rule. if pdr_ID rule = 0 then Inl (ErrMissing ''PDRID'') else Inr rule)"

definition parsePDR :: "'ie ie_api \<Rightarrow> (string \<Rightarrow> bytes option) \<Rightarrow> 'ie \<Rightarrow> PDRRule res" where
  "parsePDR A p6 req = bindE (ie_group A G_CreatePDR req) (\<lambda>ies. decodePDR A p6 ies (ie_Payload A req))"

definition parseUpdatePDR :: "'ie ie_api \<Rightarrow> (string \<Rightarrow> bytes option) \<Rightarrow> 'ie \<Rightarrow> PDRRule res" where
  "parseUpdatePDR A p6 req = bindE (ie_group A G_UpdatePDR req) (\<lambda>ies. decodePDR A p6 ies (ie_Payload A req))"

section \<open>FARs\<close>

definition decodeForwardingParameters_step ::
  "'ie ie_api \<Rightarrow> ForwardingParameters \<Rightarrow> 'ie \<Rightarrow> ForwardingParameters res" where
  "decodeForwardingParameters_step A fp x =
     (case ie_Type A x of
        T_DestinationInterface \<Rightarrow>
          bindE (ie_u8 A A_DestinationInterface x) (\<lambda>v. Inr (fp\<lparr>fp_DestinationInterface := Some v\<rparr>))
      | T_NetworkInstance \<Rightarrow>
          bindE (ie_string A A_NetworkInstance x) (\<lambda>v. Inr (fp\<lparr>fp_NetworkInstance := v\<rparr>))
      | T_OuterHeaderCreation \<Rightarrow>
          bindE (ie_ParseOuterHeaderCreation A (ie_Payload A x)) (\<lambda>v.
            Inr (fp\<lparr>fp_OuterHeaderCreation := Some \<lparr>ohc_Description = oh_Description v, ohc_TEID = oh_TEID v,
                      ohc_IPv4 = oh_IPv4Address v, ohc_Port = oh_PortNumber v\<rparr>\<rparr>))
      | T_ForwardingPolicy \<Rightarrow>
          bindE (ie_string A A_ForwardingPolicyIdentifier x) (\<lambda>v. Inr (fp\<lparr>fp_ForwardingPolicy := v\<rparr>))
      | T_PFCPSMReqFlags \<Rightarrow>
          bindE (ie_u8 A A_PFCPSMReqFlags x) (\<lambda>v. Inr (fp\<lparr>fp_PFCPSMReqFlags := Some v\<rparr>))
      | _ \<Rightarrow> Inr fp)"

definition decodeForwardingParameters :: "'ie ie_api \<Rightarrow> 'ie list \<Rightarrow> ForwardingParameters res" where
  "decodeForwardingParameters A ies =
     foldE (decodeForwardingParameters_step A)
       \<lparr>fp_DestinationInterface = None, fp_NetworkInstance = '''', fp_OuterHeaderCreation = None,
        fp_ForwardingPolicy = '''', fp_PFCPSMReqFlags = None\<rparr> ies"

definition decodeFAR_step :: "'ie ie_api \<Rightarrow> FARRule \<Rightarrow> 'ie \<Rightarrow> FARRule res" where
  "decodeFAR_step A rule x =
     (case ie_Type A x of
        T_FARID \<Rightarrow> bindE (ie_u32 A A_FARID x) (\<lambda>v. Inr (rule\<lparr>far_ID := v\<rparr>))
      | T_ApplyAction \<Rightarrow>
          bindE (ie_octets A A_ApplyAction x) (\<lambda>v.
            bindE (ApplyAction_Unmarshal v) (\<lambda>a. Inr (rule\<lparr>far_ApplyAction := a\<rparr>)))
      | T_ForwardingParameters \<Rightarrow>
          bindE (ie_group A G_ForwardingParameters x) (\<lambda>fpIEs.
            bindE (decodeForwardingParameters A fpIEs) (\<lambda>fp. Inr (rule\<lparr>far_Forwarding := Some fp\<rparr>)))
      | T_UpdateForwardingParameters \<Rightarrow>
          bindE (ie_group A G_UpdateForwardingParameters x) (\<lambda>fpIEs.
            bindE (decodeForwardingParameters A fpIEs) (\<lambda>fp. Inr (rule\<lparr>far_Forwarding := Some fp\<rparr>)))
      | T_BARID \<Rightarrow> bindE (ie_u8 A A_BARID x) (\<lambda>v. Inr (rule\<lparr>far_BARID := Some v\<rparr>))
      | _ \<Rightarrow> Inr rule)"

definition decodeFAR :: "'ie ie_api \<Rightarrow> 'ie list \<Rightarrow> bytes \<Rightarrow> FARRule res" where
  "decodeFAR A ies raw =
     bindE (foldE (decodeFAR_step A)
              \<lparr>far_ID = 0, far_ApplyAction = \<lparr>aa_Flags = 0\<rparr>, far_Forwarding = None, far_BARID = None,
               far_Raw = raw\<rparr> ies)
       (\<lambda>rule. if far_ID rule = 0 then Inl (ErrMissing ''FARID'') else Inr rule)"

definition parseFAR :: "'ie ie_api \<Rightarrow> 'ie \<Rightarrow> FARRule res" where
  "parseFAR A req = bindE (ie_group A G_CreateFAR req) (\<lambda>ies. decodeFAR A ies (ie_Payload A req))"

definition parseUpdateFAR :: "'ie ie_api \<Rightarrow> 'ie \<Rightarrow> FARRule res" where
  "parseUpdateFAR A req = bindE (ie_group A G_UpdateFAR req) (\<lambda>ies. decodeFAR A ies (ie_Payload A req))"

section \<open>QERs\<close>

definition decodeQER_step :: "'ie ie_api \<Rightarrow> QERRule \<Rightarrow> 'ie \<Rightarrow> QERRule res" where
  "decodeQER_step A rule x =
     (case ie_Type A x of
        T_QERID \<Rightarrow> bindE (ie_u32 A A_QERID x) (\<lambda>v. Inr (rule\<lparr>qer_ID := v\<rparr>))
      | T_QERCorrelationID \<Rightarrow>
          bindE (ie_u32 A A_QERCorrelationID x) (\<lambda>v. Inr (rule\<lparr>qer_CorrelationID := Some v\<rparr>))
      | T_GateStatus \<Rightarrow> bindE (ie_u8 A A_GateStatus x) (\<lambda>v. Inr (rule\<lparr>qer_GateStatus := Some v\<rparr>))
      | T_MBR \<Rightarrow>
          bindE (ie_u64 A A_MBRUL x) (\<lambda>ul. bindE (ie_u64 A A_MBRDL x) (\<lambda>dl.
            Inr (rule\<lparr>qer_MBRUL := Some ul, qer_MBRDL := Some dl\<rparr>)))
      | T_GBR \<Rightarrow>
          bindE (ie_u64 A A_GBRUL x) (\<lambda>ul. bindE (ie_u64 A A_GBRDL x) (\<lambda>dl.
            Inr (rule\<lparr>qer_GBRUL := Some ul, qer_GBRDL := Some dl\<rparr>)))
      | T_QFI \<Rightarrow> bindE (ie_u8 A A_QFI x) (\<lambda>v. Inr (rule\<lparr>qer_QFI := Some v\<rparr>))
      | T_RQI \<Rightarrow> bindE (ie_u8 A A_RQI x) (\<lambda>v. Inr (rule\<lparr>qer_RQI := Some v\<rparr>))
      | T_PagingPolicyIndicator \<Rightarrow>
          bindE (ie_u8 A A_PagingPolicyIndicator x) (\<lambda>v. Inr (rule\<lparr>qer_PPI := Some v\<rparr>))
      | _ \<Rightarrow> Inr rule)"

definition decodeQER :: "'ie ie_api \<Rightarrow> 'ie list \<Rightarrow> bytes \<Rightarrow> QERRule res" where
  "decodeQER A ies raw =
     bindE (foldE (decodeQER_step A)
              \<lparr>qer_ID = 0, qer_CorrelationID = None, qer_GateStatus = None, qer_MBRUL = None,
               qer_MBRDL = None, qer_GBRUL = None, qer_GBRDL = None, qer_QFI = None, qer_RQI = None,
               qer_PPI = None, qer_Raw = raw\<rparr> ies)
       (\<lambda>rule. if qer_ID rule = 0 then Inl (ErrMissing ''QERID'') else Inr rule)"

definition parseQER :: "'ie ie_api \<Rightarrow> 'ie \<Rightarrow> QERRule res" where
  "parseQER A req = bindE (ie_group A G_CreateQER req) (\<lambda>ies. decodeQER A ies (ie_Payload A req))"

definition parseUpdateQER :: "'ie ie_api \<Rightarrow> 'ie \<Rightarrow> QERRule res" where
  "parseUpdateQER A req = bindE (ie_group A G_UpdateQER req) (\<lambda>ies. decodeQER A ies (ie_Payload A req))"

section \<open>URRs\<close>

definition decodeMeasurementMethod :: "u8 \<Rightarrow> MeasureMethod" where
  "decodeMeasurementMethod v = \<lparr>DURAT = (v AND 0x04 \<noteq> 0), VOLUM = (v AND 0x02 \<noteq> 0), EVENT = (v AND 0x01 \<noteq> 0)\<rparr>"

definition decodeMeasurementInformation :: "u8 \<Rightarrow> MeasureInformation" where
  "decodeMeasurementInformation v =
     \<lparr>MBQE = (v AND 0x80 \<noteq> 0), INAM = (v AND 0x40 \<noteq> 0), RADI = (v AND 0x20 \<noteq> 0), ISTM = (v AND 0x10 \<noteq> 0),
      MNOP = (v AND 0x08 \<noteq> 0), SSPOC = (v AND 0x04 \<noteq> 0), ASPOC = (v AND 0x02 \<noteq> 0), CIAM = (v AND 0x01 \<noteq> 0)\<rparr>"

definition volumeLimit :: "VolumeFields \<Rightarrow> VolumeLimit" where
  "volumeLimit v = \<lparr>vl_Flags = vf_Flags v, vl_TotalVolume = vf_TotalVolume v,
     vl_UplinkVolume = vf_UplinkVolume v, vl_DownlinkVolume = vf_DownlinkVolume v\<rparr>"

definition decodeURR_step :: "'ie ie_api \<Rightarrow> URRRule \<Rightarrow> 'ie \<Rightarrow> URRRule res" where
  "decodeURR_step A rule x =
     (case ie_Type A x of
        T_URRID \<Rightarrow> bindE (ie_u32 A A_URRID x) (\<lambda>v. Inr (rule\<lparr>urr_ID := v\<rparr>))
      | T_MeasurementMethod \<Rightarrow>
          bindE (ie_u8 A A_MeasurementMethod x) (\<lambda>v.
            Inr (rule\<lparr>urr_MeasurementMethod := decodeMeasurementMethod v\<rparr>))
      | T_ReportingTriggers \<Rightarrow>
          bindE (ie_octets A A_ReportingTriggers x) (\<lambda>v.
            bindE (ReportingTrigger_Unmarshal v) (\<lambda>t. Inr (rule\<lparr>urr_ReportingTrigger := t\<rparr>)))
      | T_MeasurementPeriod \<Rightarrow>
          bindE (ie_duration A A_MeasurementPeriod x) (\<lambda>v. Inr (rule\<lparr>urr_MeasurementPeriod := v\<rparr>))
      | T_MeasurementInformation \<Rightarrow>
          bindE (ie_u8 A A_MeasurementInformation x) (\<lambda>v.
            Inr (rule\<lparr>urr_MeasurementInformation := decodeMeasurementInformation v\<rparr>))
      | T_VolumeThreshold \<Rightarrow>
          bindE (ie_Volume A A_VolumeThreshold x) (\<lambda>v. Inr (rule\<lparr>urr_VolumeThreshold := Some (volumeLimit v)\<rparr>))
      | T_VolumeQuota \<Rightarrow>
          bindE (ie_Volume A A_VolumeQuota x) (\<lambda>v. Inr (rule\<lparr>urr_VolumeQuota := Some (volumeLimit v)\<rparr>))
      | _ \<Rightarrow> Inr rule)"

definition decodeURR :: "'ie ie_api \<Rightarrow> 'ie list \<Rightarrow> bytes \<Rightarrow> URRRule res" where
  "decodeURR A ies raw =
     bindE (foldE (decodeURR_step A)
              \<lparr>urr_ID = 0, urr_MeasurementMethod = \<lparr>DURAT = False, VOLUM = False, EVENT = False\<rparr>,
               urr_ReportingTrigger = \<lparr>rt_Flags = 0\<rparr>, urr_MeasurementPeriod = 0,
               urr_MeasurementInformation = \<lparr>MBQE = False, INAM = False, RADI = False, ISTM = False,
                 MNOP = False, SSPOC = False, ASPOC = False, CIAM = False\<rparr>,
               urr_VolumeThreshold = None, urr_VolumeQuota = None, urr_Raw = raw\<rparr> ies)
       (\<lambda>rule. if urr_ID rule = 0 then Inl (ErrMissing ''URRID'') else Inr rule)"

definition parseURR :: "'ie ie_api \<Rightarrow> 'ie \<Rightarrow> URRRule res" where
  "parseURR A req = bindE (ie_group A G_CreateURR req) (\<lambda>ies. decodeURR A ies (ie_Payload A req))"

definition parseUpdateURR :: "'ie ie_api \<Rightarrow> 'ie \<Rightarrow> URRRule res" where
  "parseUpdateURR A req = bindE (ie_group A G_UpdateURR req) (\<lambda>ies. decodeURR A ies (ie_Payload A req))"

section \<open>BARs\<close>

definition decodeBAR_step :: "'ie ie_api \<Rightarrow> BARRule \<Rightarrow> 'ie \<Rightarrow> BARRule res" where
  "decodeBAR_step A rule x =
     (case ie_Type A x of
        T_BARID \<Rightarrow> bindE (ie_u8 A A_BARID x) (\<lambda>v. Inr (rule\<lparr>bar_ID := v\<rparr>))
      | T_DownlinkDataNotificationDelay \<Rightarrow>
          bindE (ie_duration A A_DownlinkDataNotificationDelay x) (\<lambda>v.
            Inr (rule\<lparr>bar_DownlinkDataNotificationDelay := Some v\<rparr>))
      | T_SuggestedBufferingPacketsCount \<Rightarrow>
          bindE (ie_u8 A A_SuggestedBufferingPacketsCount x) (\<lambda>v.
            Inr (rule\<lparr>bar_SuggestedBufferingPacketsCount := Some (ucast v)\<rparr>))
      | _ \<Rightarrow> Inr rule)"

definition decodeBAR :: "'ie ie_api \<Rightarrow> 'ie list \<Rightarrow> bytes \<Rightarrow> BARRule res" where
  "decodeBAR A ies raw =
     bindE (foldE (decodeBAR_step A)
              \<lparr>bar_ID = 0, bar_DownlinkDataNotificationDelay = None,
               bar_SuggestedBufferingPacketsCount = None, bar_Raw = raw\<rparr> ies)
       (\<lambda>rule. if bar_ID rule = 0 then Inl (ErrMissing ''BARID'') else Inr rule)"

definition parseBAR :: "'ie ie_api \<Rightarrow> 'ie \<Rightarrow> BARRule res" where
  "parseBAR A req = bindE (ie_group A G_CreateBAR req) (\<lambda>ies. decodeBAR A ies (ie_Payload A req))"

definition parseUpdateBAR :: "'ie ie_api \<Rightarrow> 'ie \<Rightarrow> BARRule res" where
  "parseUpdateBAR A req = bindE (ie_group A G_UpdateBAR req) (\<lambda>ies. decodeBAR A ies (ie_Payload A req))"

section \<open>Lemmas\<close>

lemmas parse_defs = parsePDR_def parseUpdatePDR_def decodePDR_def parseFAR_def parseUpdateFAR_def
  decodeFAR_def parseQER_def parseUpdateQER_def decodeQER_def parseURR_def parseUpdateURR_def
  decodeURR_def parseBAR_def parseUpdateBAR_def decodeBAR_def

text \<open>No parsed rule has identifier zero.\<close>

lemma parsed_id_nonzero:
  "parsePDR A p6 i = Inr pdr \<or> parseUpdatePDR A p6 i = Inr pdr \<Longrightarrow> pdr_ID pdr \<noteq> 0"
  "parseFAR A i = Inr far \<or> parseUpdateFAR A i = Inr far \<Longrightarrow> far_ID far \<noteq> 0"
  "parseQER A i = Inr qer \<or> parseUpdateQER A i = Inr qer \<Longrightarrow> qer_ID qer \<noteq> 0"
  "parseURR A i = Inr urr \<or> parseUpdateURR A i = Inr urr \<Longrightarrow> urr_ID urr \<noteq> 0"
  "parseBAR A i = Inr bar \<or> parseUpdateBAR A i = Inr bar \<Longrightarrow> bar_ID bar \<noteq> 0"
  by (auto simp: parse_defs bindE_Inr_iff split: if_splits)

text \<open>The filters of a PDI and its parsed rules correspond one to one.\<close>

definition pdi_rules_ok :: "(string \<Rightarrow> bytes option) \<Rightarrow> PDI \<Rightarrow> bool" where
  "pdi_rules_ok p6 pdi \<longleftrightarrow> list_all2 (\<lambda>s r. parseFlowDescription p6 s = Inr r) (pdi_SDFFilters pdi) (pdi_SDFRules pdi)"

lemma decodePDI_step_rules:
  "decodePDI_step A p6 pdi x = Inr pdi' \<Longrightarrow> pdi_rules_ok p6 pdi \<Longrightarrow> pdi_rules_ok p6 pdi'"
  unfolding decodePDI_step_def pdi_rules_ok_def
  by (auto simp: bindE_Inr_iff list_all2_appendI split: ie_type.splits if_splits prod.splits)

lemma zero_PDI_rules [simp]: "pdi_rules_ok p6 zero_PDI"
  by (simp add: pdi_rules_ok_def zero_PDI_def)

lemma decodePDI_rules: "decodePDI A p6 i = Inr pdi \<Longrightarrow> pdi_rules_ok p6 pdi"
  unfolding decodePDI_def bindE_Inr_iff
  by (elim exE conjE, erule foldE_invariant) (auto intro: decodePDI_step_rules)

end
