(* ===== verification/Runtime.thy ===== *)
theory Runtime
  imports Parse "HOL-Library.Multiset"
begin

text \<open>
  \<^verbatim>\<open>internal/forwarder/userspace/runtime.go\<close>: the snapshot of all sessions, indexed by tunnel
  identifier for uplink and by UE address for downlink, and the matching of packets against
  it. \<open>uplink_entry\<close> and \<open>downlink_entry\<close> specify which rules an index lists under a key.
\<close>

section \<open>Stable sorting\<close>

text \<open>\<open>sort.SliceStable\<close>.\<close>

fun insert_stable :: "('a \<Rightarrow> 'a \<Rightarrow> bool) \<Rightarrow> 'a \<Rightarrow> 'a list \<Rightarrow> 'a list" where
  "insert_stable lt x [] = [x]"
| "insert_stable lt x (y # ys) = (if lt y x then y # insert_stable lt x ys else x # y # ys)"

definition SliceStable :: "('a \<Rightarrow> 'a \<Rightarrow> bool) \<Rightarrow> 'a list \<Rightarrow> 'a list" where
  "SliceStable lt xs = foldr (insert_stable lt) xs []"

definition precedenceOf :: "PDRRule \<Rightarrow> u32" where
  "precedenceOf rule = (case pdr_Precedence rule of None \<Rightarrow> 0 | Some p \<Rightarrow> p)"

definition binding_less :: "PDRBinding \<Rightarrow> PDRBinding \<Rightarrow> bool" where
  "binding_less a b =
     (let left = precedenceOf (b_PDR a); right = precedenceOf (b_PDR b) in
      if left = right then pdr_ID (b_PDR a) < pdr_ID (b_PDR b) else right < left)"

definition sortBindings :: "PDRBinding list \<Rightarrow> PDRBinding list" where
  "sortBindings bs = SliceStable binding_less bs"

section \<open>Building the snapshot\<close>

definition isAccessPDR :: "'ie ie_api \<Rightarrow> PDRRule \<Rightarrow> bool" where
  "isAccessPDR A rule =
     (case pdr_PDI rule of None \<Rightarrow> False
      | Some pdi \<Rightarrow> (case pdi_SourceInterface pdi of None \<Rightarrow> False | Some i \<Rightarrow> i = ie_SrcInterfaceAccess A))"

definition isCorePDR :: "'ie ie_api \<Rightarrow> PDRRule \<Rightarrow> bool" where
  "isCorePDR A rule =
     (case pdr_PDI rule of None \<Rightarrow> False
      | Some pdi \<Rightarrow> (case pdi_SourceInterface pdi of None \<Rightarrow> False | Some i \<Rightarrow> i = ie_SrcInterfaceCore A))"

definition cloneSessionState :: "SessionState \<Rightarrow> SessionState" where
  "cloneSessionState sess =
     (NewSessionState 0 (sess_SEID sess))\<lparr>
        sess_UpdatedAt := sess_UpdatedAt sess,
        sess_PDRs := sess_PDRs sess, sess_FARs := sess_FARs sess, sess_QERs := sess_QERs sess,
        sess_AdaptiveQER := sess_AdaptiveQER sess, sess_URRs := sess_URRs sess,
        sess_URRPeriodAt := sess_URRPeriodAt sess, sess_BARs := sess_BARs sess,
        sess_URRReports := sess_URRReports sess, sess_AdaptiveFlows := sess_AdaptiveFlows sess\<rparr>"

definition mk_binding :: "u64 \<Rightarrow> SessionState \<Rightarrow> PDRRule \<Rightarrow> PDRBinding" where
  "mk_binding seid sess pdr =
     (let far = (case pdr_FARID pdr of None \<Rightarrow> None | Some i \<Rightarrow> sess_FARs sess i) in
      \<lparr>b_SEID = seid, b_PDR = pdr, b_FAR = far,
       b_QERs = List.map_filter (sess_QERs sess) (pdr_QERIDs pdr),
       b_URRs = List.map_filter (sess_URRs sess) (pdr_URRIDs pdr),
       b_BAR = (case far of None \<Rightarrow> None
                | Some f \<Rightarrow> (case far_BARID f of None \<Rightarrow> None | Some i \<Rightarrow> sess_BARs sess i)),
       b_MatchedAdaptiveFlow = None\<rparr>)"

text \<open>The first flow the iteration over \<open>AdaptiveFlows\<close> visits.\<close>

definition first_flow :: "ranges \<Rightarrow> SessionState \<Rightarrow> AdaptiveFlowState option" where
  "first_flow R sess =
     (case rngS R (dom (sess_AdaptiveFlows sess)) of [] \<Rightarrow> None | k # _ \<Rightarrow> sess_AdaptiveFlows sess k)"

definition append_at :: "('k \<rightharpoonup> 'v list) \<Rightarrow> 'k \<Rightarrow> 'v \<Rightarrow> ('k \<rightharpoonup> 'v list)" where
  "append_at m k v = m(k \<mapsto> slice_at m k @ [v])"

text \<open>The body of the loop over the PDRs of a session.\<close>

definition index_pdr ::
  "'ie env \<Rightarrow> u64 \<Rightarrow> SessionState \<Rightarrow> RuntimeSnapshot \<Rightarrow> u16 \<Rightarrow> RuntimeSnapshot" where
  "index_pdr E seid sess snap pid =
     (case sess_PDRs sess pid of
        None \<Rightarrow> snap
      | Some pdr \<Rightarrow>
          let binding = mk_binding seid sess pdr in
          case pdr_PDI pdr of
            None \<Rightarrow> snap
          | Some pdi \<Rightarrow>
              let snap = (case pdi_FTEID pdi of
                    None \<Rightarrow> snap
                  | Some f \<Rightarrow>
                      if isAccessPDR (e_api E) pdr
                      then snap\<lparr>snap_Uplink := append_at (snap_Uplink snap) (fteid_TEID f) binding\<rparr>
                      else snap)
              in (if pdi_UEIPv4 pdi \<noteq> [] \<and> isCorePDR (e_api E) pdr then
                    (let key = ip_String (pdi_UEIPv4 pdi);
                         binding = (case first_flow (e_rng E) sess of
                             None \<Rightarrow> binding
                           | Some flow \<Rightarrow> binding\<lparr>b_MatchedAdaptiveFlow := Some flow\<rparr>)
                     in snap\<lparr>snap_Downlink := append_at (snap_Downlink snap) key binding\<rparr>)
                  else snap))"

definition index_session ::
  "'ie env \<Rightarrow> (u64 \<rightharpoonup> SessionState) \<Rightarrow> RuntimeSnapshot \<Rightarrow> u64 \<Rightarrow> RuntimeSnapshot" where
  "index_session E sessions snap seid =
     (case sessions seid of
        None \<Rightarrow> snap
      | Some sess \<Rightarrow>
          let snap = snap\<lparr>snap_Sessions := (snap_Sessions snap)(seid \<mapsto> cloneSessionState sess)\<rparr>
          in foldl (index_pdr E seid sess) snap (rng16 (e_rng E) (dom (sess_PDRs sess))))"

definition buildRuntimeSnapshot ::
  "'ie env \<Rightarrow> gotime \<Rightarrow> (u64 \<rightharpoonup> SessionState) \<Rightarrow> AdaptiveTraceEvent list \<Rightarrow> RuntimeSnapshot" where
  "buildRuntimeSnapshot E now sessions trace =
     (let snap = (newRuntimeSnapshot now)\<lparr>snap_AdaptiveTrace := trace\<rparr>;
          snap = foldl (index_session E sessions) snap (rng64 (e_rng E) (dom sessions))
      in snap\<lparr>snap_Uplink := (\<lambda>k. map_option sortBindings (snap_Uplink snap k)),
              snap_Downlink := (\<lambda>k. map_option sortBindings (snap_Downlink snap k))\<rparr>)"

definition publishSnapshotLocked :: "'ie env \<Rightarrow> gotime \<Rightarrow> Driver \<Rightarrow> Driver" where
  "publishSnapshotLocked E now d =
     d\<lparr>d_snapshot := buildRuntimeSnapshot E now (d_sessions d) (trace_snapshot 0 (d_adaptiveTrace d))\<rparr>"

section \<open>Workers\<close>

definition shardForSEID :: "u64 \<Rightarrow> nat \<Rightarrow> nat" where
  "shardForSEID seid workerCount = (if workerCount \<le> 1 then 0 else unat (seid mod of_nat workerCount))"

definition shardForTEID :: "u32 \<Rightarrow> nat \<Rightarrow> nat" where
  "shardForTEID teid workerCount = (if workerCount \<le> 1 then 0 else unat (teid mod of_nat workerCount))"

definition shardForIPv4 :: "bytes \<Rightarrow> nat \<Rightarrow> nat" where
  "shardForIPv4 ip workerCount =
     (if workerCount \<le> 1 \<or> ip = [] then 0
      else case ip_To4 ip of
        None \<Rightarrow> 0
      | Some v4 \<Rightarrow> unat (be32 (v4 ! 0) (v4 ! 1) (v4 ! 2) (v4 ! 3) mod of_nat workerCount))"

definition workerIndexFor :: "nat \<Rightarrow> Packet \<Rightarrow> nat" where
  "workerIndexFor workers packet =
     (case pkt_Direction packet of
        PacketDirectionUplink \<Rightarrow>
          if pkt_SEIDHint packet \<noteq> 0 then shardForSEID (pkt_SEIDHint packet) workers
          else if pkt_TEID packet \<noteq> 0 then shardForTEID (pkt_TEID packet) workers
          else 0
      | PacketDirectionDownlink \<Rightarrow>
          if pkt_SEIDHint packet \<noteq> 0 then shardForSEID (pkt_SEIDHint packet) workers
          else shardForIPv4 (pkt_UEIP packet) workers
      | PacketDirectionOther \<Rightarrow> 0)"

definition uplinkTEID :: "bytes \<Rightarrow> u32" where
  "uplinkTEID payload =
     (if length payload < 8 then 0 else be32 (payload ! 4) (payload ! 5) (payload ! 6) (payload ! 7))"

definition downlinkUEIP :: "bytes \<Rightarrow> bytes" where
  "downlinkUEIP payload = (case parseIPv4PacketMeta payload of Inl _ \<Rightarrow> [] | Inr meta \<Rightarrow> DstIP meta)"

section \<open>Matching\<close>

text \<open>\<open>matchSDF\<close>, for a binding whose PDR has a PDI or not; no rule means everything matches.\<close>

definition matchSDF :: "PDRBinding \<Rightarrow> packetMeta option \<Rightarrow> PacketDirection \<Rightarrow> bool" where
  "matchSDF binding meta direction =
     (case pdr_PDI (b_PDR binding) of
        None \<Rightarrow> True
      | Some pdi \<Rightarrow>
          if pdi_SDFRules pdi = [] then True
          else list_ex (\<lambda>rule. ruleMatches rule (pdi_UEIPv4 pdi) meta direction) (pdi_SDFRules pdi))"

fun select_loop ::
  "bytes \<Rightarrow> packetMeta option \<Rightarrow> PDRBinding option \<Rightarrow> PDRBinding list \<Rightarrow> PDRBinding option" where
  "select_loop ueIP meta fallback [] = fallback"
| "select_loop ueIP meta fallback (b # bs) =
     (case pdr_PDI (b_PDR b) of
        None \<Rightarrow> select_loop ueIP meta fallback bs
      | Some pdi \<Rightarrow>
          if \<not> matchSDF b meta PacketDirectionUplink then select_loop ueIP meta fallback bs
          else if ueIP \<noteq> [] \<and> pdi_UEIPv4 pdi \<noteq> [] then
            (if ip_Equal (pdi_UEIPv4 pdi) ueIP then Some b
             else select_loop ueIP meta (if fallback = None then Some b else fallback) bs)
          else Some b)"

definition selectUplinkBinding :: "PDRBinding list \<Rightarrow> bytes \<Rightarrow> packetMeta option \<Rightarrow> PDRBinding option" where
  "selectUplinkBinding bindings ueIP meta = select_loop ueIP meta None bindings"

definition matchUplink :: "'ie env \<Rightarrow> Driver \<Rightarrow> u32 \<Rightarrow> bytes \<Rightarrow> packetMeta option \<Rightarrow> PDRBinding option" where
  "matchUplink E d teid ueIP meta =
     (let snapshot = d_snapshot d in
      case selectUplinkBinding (slice_at (snap_Uplink snapshot) teid) ueIP meta of
        Some b \<Rightarrow> Some b
      | None \<Rightarrow>
          let fallbackBindings =
                foldl (\<lambda>acc key. if key = teid then acc else acc @ slice_at (snap_Uplink snapshot) key) []
                  (rng32 (e_rng E) (dom (snap_Uplink snapshot)))
          in selectUplinkBinding fallbackBindings ueIP meta)"

definition matchDownlink ::
  "Driver \<Rightarrow> bytes \<Rightarrow> packetMeta option \<Rightarrow> PDRBinding option \<times> AdaptiveFlowState option" where
  "matchDownlink d ueIP meta =
     (if ueIP = [] then (None, None)
      else case find (\<lambda>b. matchSDF b meta PacketDirectionDownlink)
                  (slice_at (snap_Downlink (d_snapshot d)) (ip_String ueIP)) of
        Some b \<Rightarrow> (Some b, b_MatchedAdaptiveFlow b)
      | None \<Rightarrow> (None, None))"

definition MatchUplink :: "'ie env \<Rightarrow> Driver \<Rightarrow> u32 \<Rightarrow> bytes \<Rightarrow> PDRBinding option" where
  "MatchUplink E d teid ueIP = matchUplink E d teid ueIP None"

definition MatchDownlink :: "Driver \<Rightarrow> bytes \<Rightarrow> PDRBinding option" where
  "MatchDownlink d ueIP = fst (matchDownlink d ueIP None)"

definition resolveAction :: "PDRBinding \<Rightarrow> PacketAction" where
  "resolveAction binding =
     (case b_FAR binding of
        None \<Rightarrow> PacketActionUnknown
      | Some far \<Rightarrow>
          if AA_DROP (far_ApplyAction far) then PacketActionDrop
          else if AA_BUFF (far_ApplyAction far) then PacketActionBuffer
          else if AA_FORW (far_ApplyAction far) then PacketActionForward
          else PacketActionUnknown)"

section \<open>Recorded usage\<close>

definition ReportUsage ::
  "'ie env \<Rightarrow> gotime \<Rightarrow> u64 \<Rightarrow> u32 \<Rightarrow> USAReport list \<Rightarrow> Driver \<Rightarrow> Driver \<times> error option" where
  "ReportUsage E now seid urrid reports d =
     (case d_sessions d seid of
        None \<Rightarrow> (d, Some ErrSessionNotFound)
      | Some sess \<Rightarrow>
          if sess_URRs sess urrid = None then (d, Some ErrURRNotFound)
          else
            let sess = touch now (sess\<lparr>sess_URRReports := (sess_URRReports sess)(urrid \<mapsto> reports)\<rparr>)
            in (publishSnapshotLocked E now (d\<lparr>d_sessions := (d_sessions d)(seid \<mapsto> sess)\<rparr>), None))"

section \<open>Lemmas\<close>

subsection \<open>Stable sorting\<close>

lemma insert_stable_mset [simp]: "mset (insert_stable lt x ys) = add_mset x (mset ys)"
  by (induction ys) auto

lemma SliceStable_simps [simp]:
  "SliceStable lt [] = []" "SliceStable lt (x # xs) = insert_stable lt x (SliceStable lt xs)"
  by (simp_all add: SliceStable_def)

lemma SliceStable_mset [simp]: "mset (SliceStable lt xs) = mset xs"
  by (induction xs) auto

lemma SliceStable_set [simp]: "set (SliceStable lt xs) = set xs"
  using SliceStable_mset [of lt xs] by (metis set_mset_mset)

text \<open>For a strict weak order the result is sorted and equivalent elements keep their order.\<close>

locale strict_weak_order =
  fixes lt :: "'a \<Rightarrow> 'a \<Rightarrow> bool"
  assumes asym: "lt a b \<Longrightarrow> \<not> lt b a"
    and neg_trans: "lt a c \<Longrightarrow> lt a b \<or> lt b c"
begin

lemma insert_sorted:
  "sorted_wrt (\<lambda>a b. \<not> lt b a) ys \<Longrightarrow> sorted_wrt (\<lambda>a b. \<not> lt b a) (insert_stable lt x ys)"
proof (induction ys)
  case (Cons y ys)
  have set_ins: "set (insert_stable lt x ys) = insert x (set ys)"
    using insert_stable_mset [of lt x ys] by (metis set_mset_add_mset_insert set_mset_mset)
  show ?case
  proof (cases "lt y x")
    case True
    with Cons asym set_ins show ?thesis by auto
  next
    case False
    with Cons.prems neg_trans show ?thesis by fastforce
  qed
qed simp

lemma stable_sorted: "sorted_wrt (\<lambda>a b. \<not> lt b a) (SliceStable lt xs)"
  by (induction xs) (auto intro: insert_sorted)

lemma insert_stable_filter:
  assumes "\<And>a b. P a \<Longrightarrow> P b \<Longrightarrow> \<not> lt a b"
  shows "filter P (insert_stable lt x ys) = (if P x then x # filter P ys else filter P ys)"
  using assms by (induction ys) auto

lemma stable_filter:
  assumes "\<And>a b. P a \<Longrightarrow> P b \<Longrightarrow> \<not> lt a b"
  shows "filter P (SliceStable lt xs) = filter P xs"
  by (induction xs) (auto simp: insert_stable_filter [OF assms])

text \<open>The first element with a property is a least one among those that have it.\<close>

lemma find_least:
  assumes "find P (SliceStable lt xs) = Some x"
  shows "x \<in> set xs" "P x" "\<And>y. y \<in> set xs \<Longrightarrow> P y \<Longrightarrow> \<not> lt y x"
proof -
  from assms obtain us vs where split: "SliceStable lt xs = us @ x # vs" "P x" "\<forall>u\<in>set us. \<not> P u"
    by (auto simp: find_first_split)
  then have elems: "set xs = set us \<union> {x} \<union> set vs"
    using SliceStable_set [of lt xs] by auto
  then show "x \<in> set xs" by simp
  show "P x" by fact
  fix y
  assume "y \<in> set xs" "P y"
  with elems split(3) consider "y = x" | "y \<in> set vs" by blast
  then show "\<not> lt y x"
    using stable_sorted [of xs] asym [of x x] split(1) by cases (auto simp: sorted_wrt_append)
qed

end

lemma insert_stable_all:
  "(\<And>y. y \<in> set ys \<Longrightarrow> \<not> lt y x) \<Longrightarrow> insert_stable lt x ys = x # ys"
  by (cases ys) auto

interpretation bindings: strict_weak_order binding_less
  by unfold_locales (auto simp: binding_less_def Let_def split: if_splits)

subsection \<open>The indices\<close>

text \<open>What one PDR of a session contributes to the bucket of a key.\<close>

definition uplink_entry :: "'ie env \<Rightarrow> u64 \<Rightarrow> SessionState \<Rightarrow> u32 \<Rightarrow> u16 \<Rightarrow> PDRBinding list" where
  "uplink_entry E seid sess teid pid =
     (case sess_PDRs sess pid of
        None \<Rightarrow> []
      | Some pdr \<Rightarrow>
          (case pdr_PDI pdr of
             None \<Rightarrow> []
           | Some pdi \<Rightarrow>
               if isAccessPDR (e_api E) pdr \<and> map_option fteid_TEID (pdi_FTEID pdi) = Some teid
               then [mk_binding seid sess pdr] else []))"

definition downlink_entry :: "'ie env \<Rightarrow> u64 \<Rightarrow> SessionState \<Rightarrow> string \<Rightarrow> u16 \<Rightarrow> PDRBinding list" where
  "downlink_entry E seid sess key pid =
     (case sess_PDRs sess pid of
        None \<Rightarrow> []
      | Some pdr \<Rightarrow>
          (case pdr_PDI pdr of
             None \<Rightarrow> []
           | Some pdi \<Rightarrow>
               if isCorePDR (e_api E) pdr \<and> pdi_UEIPv4 pdi \<noteq> [] \<and> ip_String (pdi_UEIPv4 pdi) = key
               then [(mk_binding seid sess pdr)\<lparr>b_MatchedAdaptiveFlow := first_flow (e_rng E) sess\<rparr>]
               else []))"

lemma uplink_entry_iff:
  "b \<in> set (uplink_entry E seid sess teid pid) \<longleftrightarrow>
     (\<exists>pdr pdi f. sess_PDRs sess pid = Some pdr \<and> pdr_PDI pdr = Some pdi \<and> pdi_FTEID pdi = Some f \<and>
        fteid_TEID f = teid \<and> pdi_SourceInterface pdi = Some (ie_SrcInterfaceAccess (e_api E)) \<and>
        b = mk_binding seid sess pdr)"
proof (cases "sess_PDRs sess pid")
  case (Some pdr)
  then show ?thesis
  proof (cases "pdr_PDI pdr")
    case pdi: (Some pdi)
    with Some show ?thesis
      by (cases "pdi_SourceInterface pdi") (auto simp: uplink_entry_def isAccessPDR_def)
  qed (simp add: uplink_entry_def)
qed (simp add: uplink_entry_def)

lemma slice_at_append_at [simp]:
  "slice_at (append_at m k v) k' = slice_at m k' @ (if k' = k then [v] else [])"
  by (simp add: append_at_def)

lemma mk_binding_flow [simp]: "b_MatchedAdaptiveFlow (mk_binding seid sess pdr) = None"
  "b_SEID (mk_binding seid sess pdr) = seid" "b_PDR (mk_binding seid sess pdr) = pdr"
  by (simp_all add: mk_binding_def Let_def)

lemma index_pdr_buckets:
  "slice_at (snap_Uplink (index_pdr E seid sess snap pid)) t =
     slice_at (snap_Uplink snap) t @ uplink_entry E seid sess t pid"
  "slice_at (snap_Downlink (index_pdr E seid sess snap pid)) k =
     slice_at (snap_Downlink snap) k @ downlink_entry E seid sess k pid"
  by (auto simp: index_pdr_def uplink_entry_def downlink_entry_def Let_def split: option.splits)

definition session_entries :: "'ie env \<Rightarrow> (u64 \<rightharpoonup> SessionState) \<Rightarrow>
    (u64 \<Rightarrow> SessionState \<Rightarrow> u16 \<Rightarrow> PDRBinding list) \<Rightarrow> u64 \<Rightarrow> PDRBinding list" where
  "session_entries E sessions entry seid =
     (case sessions seid of
        None \<Rightarrow> []
      | Some sess \<Rightarrow> concat (map (entry seid sess) (rng16 (e_rng E) (dom (sess_PDRs sess)))))"

lemma index_session_buckets:
  "slice_at (snap_Uplink (index_session E sessions snap seid)) t =
     slice_at (snap_Uplink snap) t @ session_entries E sessions (\<lambda>i s. uplink_entry E i s t) seid"
  "slice_at (snap_Downlink (index_session E sessions snap seid)) k =
     slice_at (snap_Downlink snap) k @ session_entries E sessions (\<lambda>i s. downlink_entry E i s k) seid"
proof -
  show "slice_at (snap_Uplink (index_session E sessions snap seid)) t =
     slice_at (snap_Uplink snap) t @ session_entries E sessions (\<lambda>i s. uplink_entry E i s t) seid"
    by (simp add: index_session_def session_entries_def split: option.splits)
       (simp add: foldl_append_measure [where g = "\<lambda>s. slice_at (snap_Uplink s) t"] index_pdr_buckets)
  show "slice_at (snap_Downlink (index_session E sessions snap seid)) k =
     slice_at (snap_Downlink snap) k @ session_entries E sessions (\<lambda>i s. downlink_entry E i s k) seid"
    by (simp add: index_session_def session_entries_def split: option.splits)
       (simp add: foldl_append_measure [where g = "\<lambda>s. slice_at (snap_Downlink s) k"] index_pdr_buckets)
qed

definition all_entries :: "'ie env \<Rightarrow> (u64 \<rightharpoonup> SessionState) \<Rightarrow>
    (u64 \<Rightarrow> SessionState \<Rightarrow> u16 \<Rightarrow> PDRBinding list) \<Rightarrow> PDRBinding list" where
  "all_entries E sessions entry =
     concat (map (session_entries E sessions entry) (rng64 (e_rng E) (dom sessions)))"

lemma slice_at_map_option: "f [] = [] \<Longrightarrow> slice_at (\<lambda>k. map_option f (m k)) k = f (slice_at m k)"
  by (simp add: slice_at_def split: option.splits)

lemma build_buckets:
  "slice_at (snap_Uplink (buildRuntimeSnapshot E now sessions tr)) t =
     sortBindings (all_entries E sessions (\<lambda>i s. uplink_entry E i s t))"
  "slice_at (snap_Downlink (buildRuntimeSnapshot E now sessions tr)) k =
     sortBindings (all_entries E sessions (\<lambda>i s. downlink_entry E i s k))"
  by (simp_all add: buildRuntimeSnapshot_def Let_def slice_at_map_option sortBindings_def all_entries_def
      foldl_append_measure [where g = "\<lambda>s. slice_at (snap_Uplink s) t"]
      foldl_append_measure [where g = "\<lambda>s. slice_at (snap_Downlink s) k"]
      index_session_buckets newRuntimeSnapshot_def)

lemma set_all_entries:
  assumes "go_ranges (e_rng E)"
  shows "set (all_entries E sessions entry) =
    {b. \<exists>seid sess pid. sessions seid = Some sess \<and> pid \<in> dom (sess_PDRs sess) \<and> b \<in> set (entry seid sess pid)}"
  using go_rangesD [OF assms]
  by (auto simp: all_entries_def session_entries_def dom_def split: option.splits) (metis not_Some_eq)+

lemma sortBindings_set [simp]: "set (sortBindings bs) = set bs"
  by (simp add: sortBindings_def)

lemma sortBindings_Nil [simp]: "sortBindings [] = []"
  by (simp add: sortBindings_def)

subsection \<open>Selection\<close>

definition uplink_eligible :: "packetMeta option \<Rightarrow> PDRBinding \<Rightarrow> bool" where
  "uplink_eligible meta b \<longleftrightarrow> pdr_PDI (b_PDR b) \<noteq> None \<and> matchSDF b meta PacketDirectionUplink"

text \<open>The UE address of the packet does not contradict the one of the rule.\<close>

definition ue_agrees :: "bytes \<Rightarrow> PDRBinding \<Rightarrow> bool" where
  "ue_agrees ueIP b \<longleftrightarrow>
     (\<forall>pdi. pdr_PDI (b_PDR b) = Some pdi \<longrightarrow> ueIP = [] \<or> pdi_UEIPv4 pdi = [] \<or> ip_Equal (pdi_UEIPv4 pdi) ueIP)"

lemma select_loop_eq:
  "select_loop ueIP meta fb bs =
     (case find (\<lambda>b. uplink_eligible meta b \<and> ue_agrees ueIP b) bs of
        Some b \<Rightarrow> Some b
      | None \<Rightarrow> (case fb of Some b \<Rightarrow> Some b | None \<Rightarrow> find (uplink_eligible meta) bs))"
  by (induction ueIP meta fb bs rule: select_loop.induct)
     (auto simp: uplink_eligible_def ue_agrees_def split: option.splits)

lemma selectUplinkBinding_eq:
  "selectUplinkBinding bs ueIP meta =
     (case find (\<lambda>b. uplink_eligible meta b \<and> ue_agrees ueIP b) bs of
        Some b \<Rightarrow> Some b | None \<Rightarrow> find (uplink_eligible meta) bs)"
  by (simp add: selectUplinkBinding_def select_loop_eq split: option.splits)

lemma selectUplinkBinding_None:
  "selectUplinkBinding bs ueIP meta = None \<longleftrightarrow> (\<forall>b \<in> set bs. \<not> uplink_eligible meta b)"
  by (auto simp: selectUplinkBinding_eq find_None_iff find_Some_iff split: option.splits dest: nth_mem)

lemma selectUplinkBinding_Some:
  "selectUplinkBinding bs ueIP meta = Some b \<Longrightarrow> b \<in> set bs \<and> uplink_eligible meta b"
  by (auto simp: selectUplinkBinding_eq find_first_split split: option.splits)

lemma fallback_bindings:
  "foldl (\<lambda>acc key. if key = teid then acc else acc @ slice_at m key) [] ks =
     concat (map (\<lambda>key. if key = teid then [] else slice_at m key) ks)"
  by (simp add: foldl_append_measure [where g = "\<lambda>x. x" and h = "\<lambda>key. if key = teid then [] else slice_at m key"])

lemma slice_at_dom: "x \<in> set (slice_at m k) \<Longrightarrow> k \<in> dom m"
  by (cases "m k") (auto simp: slice_at_def)

lemma binding_less_iff:
  "\<not> binding_less c b \<longleftrightarrow>
     precedenceOf (b_PDR c) < precedenceOf (b_PDR b) \<or>
     precedenceOf (b_PDR c) = precedenceOf (b_PDR b) \<and> pdr_ID (b_PDR b) \<le> pdr_ID (b_PDR c)"
  by (auto simp: binding_less_def Let_def)

section \<open>An example\<close>

text \<open>
  One session with an uplink and a downlink PDR, on the concrete library; the witnesses of the
  properties evaluate on it.
\<close>

definition ex_env :: "tree env" where
  "ex_env = \<lparr>e_api = tree_api, e_p6 = (\<lambda>_. None), e_json = (\<lambda>_. None), e_rng = sorted_ranges\<rparr>"

definition ex_ul :: PDRRule where
  "ex_ul = \<lparr>pdr_ID = 1, pdr_Precedence = Some 100,
     pdr_PDI = Some \<lparr>pdi_SourceInterface = Some 0, pdi_FTEID = Some \<lparr>fteid_TEID = 7, fteid_IPv4 = [10, 0, 0, 1]\<rparr>,
       pdi_NetworkInstance = '''', pdi_UEIPv4 = [10, 60, 0, 1], pdi_SDFFilters = [], pdi_SDFRules = [],
       pdi_ApplicationID = ''''\<rparr>,
     pdr_OuterHeaderRemoval = Some 0, pdr_FARID = Some 1, pdr_QERIDs = [], pdr_URRIDs = [1], pdr_Raw = []\<rparr>"

definition ex_dl :: PDRRule where
  "ex_dl = \<lparr>pdr_ID = 2, pdr_Precedence = Some 100,
     pdr_PDI = Some \<lparr>pdi_SourceInterface = Some 1, pdi_FTEID = None,
       pdi_NetworkInstance = '''', pdi_UEIPv4 = [10, 60, 0, 1], pdi_SDFFilters = [], pdi_SDFRules = [],
       pdi_ApplicationID = ''''\<rparr>,
     pdr_OuterHeaderRemoval = None, pdr_FARID = Some 2, pdr_QERIDs = [], pdr_URRIDs = [1], pdr_Raw = []\<rparr>"

definition ex_sess :: SessionState where
  "ex_sess = (NewSessionState 1 5)\<lparr>sess_PDRs := [1 \<mapsto> ex_ul, 2 \<mapsto> ex_dl]\<rparr>"

lemma ex_env_simps [simp]:
  "go_ranges (e_rng ex_env)" "e_api ex_env = tree_api" "ie_SrcInterfaceAccess tree_api = 0"
  "ie_SrcInterfaceCore tree_api = 1" "e_rng ex_env = sorted_ranges"
  by (simp_all add: ex_env_def tree_api_def)

section \<open>Properties\<close>

text \<open>
  C33. Sorting the candidates of a key is a stable sort by decreasing precedence value and then
  increasing PDR identifier: the result is a permutation, it is ordered, and the candidates
  with the same precedence and identifier keep their relative order.
\<close>

theorem sortBindings_stable_sort:
  "mset (sortBindings bs) = mset bs \<and>
   sorted_wrt (\<lambda>a b. precedenceOf (b_PDR b) < precedenceOf (b_PDR a) \<or>
                     precedenceOf (b_PDR b) = precedenceOf (b_PDR a) \<and> pdr_ID (b_PDR a) \<le> pdr_ID (b_PDR b))
     (sortBindings bs) \<and>
   filter (\<lambda>b. (precedenceOf (b_PDR b), pdr_ID (b_PDR b)) = key) (sortBindings bs) =
     filter (\<lambda>b. (precedenceOf (b_PDR b), pdr_ID (b_PDR b)) = key) bs"
  using bindings.stable_sorted [of bs]
  unfolding sortBindings_def binding_less_iff
  by (auto simp: binding_less_def intro!: bindings.stable_filter)

text \<open>
  The snapshot's uplink index is exact: under a tunnel identifier it lists precisely the
  bindings of the access-side PDRs whose PDI carries that F-TEID, over all sessions, and nothing
  else, whatever order the maps are iterated in.
\<close>

theorem snapshot_uplink_exact:
  assumes "go_ranges (e_rng E)"
  shows "set (slice_at (snap_Uplink (buildRuntimeSnapshot E now sessions tr)) teid) =
    {mk_binding seid sess pdr | seid sess pid pdr pdi f.
       sessions seid = Some sess \<and> sess_PDRs sess pid = Some pdr \<and> pdr_PDI pdr = Some pdi \<and>
       pdi_FTEID pdi = Some f \<and> fteid_TEID f = teid \<and>
       pdi_SourceInterface pdi = Some (ie_SrcInterfaceAccess (e_api E))}"
  unfolding build_buckets sortBindings_set set_all_entries [OF assms] uplink_entry_iff
  by (rule set_eqI) (simp add: dom_def, blast)

theorem snapshot_uplink_exact_witness:
  "mk_binding 5 ex_sess ex_ul \<in> set (slice_at (snap_Uplink (buildRuntimeSnapshot ex_env 0 [5 \<mapsto> ex_sess] [])) 7)"
proof -
  let ?pdi = "the (pdr_PDI ex_ul)" and ?f = "\<lparr>fteid_TEID = 7, fteid_IPv4 = [10, 0, 0, 1]\<rparr>"
  have "[5 \<mapsto> ex_sess] (5 :: u64) = Some ex_sess \<and> sess_PDRs ex_sess 1 = Some ex_ul \<and> pdr_PDI ex_ul = Some ?pdi \<and>
      pdi_FTEID ?pdi = Some ?f \<and> fteid_TEID ?f = 7 \<and>
      pdi_SourceInterface ?pdi = Some (ie_SrcInterfaceAccess (e_api ex_env))"
    by (simp add: ex_sess_def ex_ul_def)
  then show ?thesis
    unfolding snapshot_uplink_exact [OF ex_env_simps(1), of 0 "[5 \<mapsto> ex_sess]" "[]" 7] by blast
qed

text \<open>
  C32. A downlink packet is matched to the best candidate: in a snapshot built from the sessions,
  the binding returned is that of a core-side PDR for the packet's UE address whose service data
  flow filters accept the packet, and no other such candidate has a larger precedence value, or
  the same one and a smaller identifier. No binding is returned only if no candidate accepts the
  packet.
\<close>

theorem matchDownlink_best:
  assumes "go_ranges (e_rng E)"
    and "d_snapshot d = buildRuntimeSnapshot E now sessions tr"
    and "ueIP \<noteq> []"
  shows "case matchDownlink d ueIP meta of
      (Some b, f) \<Rightarrow>
        b \<in> set (all_entries E sessions (\<lambda>i s. downlink_entry E i s (ip_String ueIP))) \<and>
        f = b_MatchedAdaptiveFlow b \<and> matchSDF b meta PacketDirectionDownlink \<and>
        (\<forall>c \<in> set (all_entries E sessions (\<lambda>i s. downlink_entry E i s (ip_String ueIP))).
           matchSDF c meta PacketDirectionDownlink \<longrightarrow>
           precedenceOf (b_PDR c) < precedenceOf (b_PDR b) \<or>
           precedenceOf (b_PDR c) = precedenceOf (b_PDR b) \<and> pdr_ID (b_PDR b) \<le> pdr_ID (b_PDR c))
    | (None, f) \<Rightarrow>
        \<forall>c \<in> set (all_entries E sessions (\<lambda>i s. downlink_entry E i s (ip_String ueIP))).
          \<not> matchSDF c meta PacketDirectionDownlink"
proof (cases "find (\<lambda>b. matchSDF b meta PacketDirectionDownlink)
    (sortBindings (all_entries E sessions (\<lambda>i s. downlink_entry E i s (ip_String ueIP))))")
  case None
  with assms have "matchDownlink d ueIP meta = (None, None)"
    by (simp add: matchDownlink_def build_buckets)
  moreover from None have "\<forall>c \<in> set (all_entries E sessions (\<lambda>i s. downlink_entry E i s (ip_String ueIP))).
      \<not> matchSDF c meta PacketDirectionDownlink"
    by (simp add: find_None_iff)
  ultimately show ?thesis by simp
next
  case (Some b)
  note least = bindings.find_least [OF Some [unfolded sortBindings_def]]
  from Some assms have "matchDownlink d ueIP meta = (Some b, b_MatchedAdaptiveFlow b)"
    by (simp add: matchDownlink_def build_buckets)
  moreover have "\<forall>c \<in> set (all_entries E sessions (\<lambda>i s. downlink_entry E i s (ip_String ueIP))).
      matchSDF c meta PacketDirectionDownlink \<longrightarrow> \<not> binding_less c b"
    using least(3) by blast
  ultimately show ?thesis using least(1,2) by (simp add: binding_less_iff)
qed

theorem matchDownlink_best_witness:
  "matchDownlink ((New 0 1 None None)\<lparr>d_snapshot := buildRuntimeSnapshot ex_env 0 [5 \<mapsto> ex_sess] []\<rparr>)
     [10, 60, 0, 1] None \<noteq> (None, None)"
proof -
  let ?d = "(New 0 1 None None)\<lparr>d_snapshot := buildRuntimeSnapshot ex_env 0 [5 \<mapsto> ex_sess] []\<rparr>"
  let ?b = "(mk_binding 5 ex_sess ex_dl)\<lparr>b_MatchedAdaptiveFlow := first_flow sorted_ranges ex_sess\<rparr>"
  have snap: "d_snapshot ?d = buildRuntimeSnapshot ex_env 0 [5 \<mapsto> ex_sess] []" by simp
  have "?b \<in> set (downlink_entry ex_env 5 ex_sess (ip_String [10, 60, 0, 1]) 2)"
    by (simp add: downlink_entry_def ex_sess_def ex_dl_def isCorePDR_def)
  then have "?b \<in> set (all_entries ex_env [5 \<mapsto> ex_sess] (\<lambda>i s. downlink_entry ex_env i s (ip_String [10, 60, 0, 1])))"
    unfolding set_all_entries [OF ex_env_simps(1)] by (auto simp: ex_sess_def)
  moreover have "matchSDF ?b None PacketDirectionDownlink"
    by (simp add: matchSDF_def ex_dl_def)
  ultimately show ?thesis
    using matchDownlink_best [OF ex_env_simps(1) snap, of "[10, 60, 0, 1]" None] by auto
qed

text \<open>
  Uplink matching fails only when nothing can match: \<open>matchUplink\<close> finds a binding exactly
  when some uplink binding of the snapshot, under the packet's tunnel identifier or under any
  other, has a PDI whose filters accept the packet. The tunnel identifier and the UE address only
  order the candidates; neither a foreign identifier nor a different UE address excludes one.
\<close>

theorem matchUplink_miss_iff:
  assumes "go_ranges (e_rng E)"
  shows "matchUplink E d teid ueIP meta = None \<longleftrightarrow>
    (\<forall>t. \<forall>b \<in> set (slice_at (snap_Uplink (d_snapshot d)) t). \<not> uplink_eligible meta b)"
proof -
  let ?m = "snap_Uplink (d_snapshot d)"
  have ks: "set (rng32 (e_rng E) (dom ?m)) = dom ?m"
    using go_rangesD(3) [OF assms] by simp
  have "matchUplink E d teid ueIP meta = None \<longleftrightarrow>
      (\<forall>b \<in> set (slice_at ?m teid). \<not> uplink_eligible meta b) \<and>
      (\<forall>t \<in> dom ?m. t \<noteq> teid \<longrightarrow> (\<forall>b \<in> set (slice_at ?m t). \<not> uplink_eligible meta b))"
    unfolding matchUplink_def Let_def fallback_bindings
    by (auto simp: selectUplinkBinding_None ks split: option.splits dest: selectUplinkBinding_Some)
  then show ?thesis using slice_at_dom by metis
qed

theorem matchUplink_miss_iff_witness:
  "matchUplink ex_env (New 0 1 None None) 7 [] None = None"
  unfolding matchUplink_miss_iff [OF ex_env_simps(1)]
  by (simp add: New_def newRuntimeSnapshot_def Let_def)

text \<open>
  Every packet, of any direction and with any hint, tunnel or address, is given to a worker
  that exists.
\<close>

theorem workerIndexFor_bound:
  assumes "0 < workers" "workers < 2 ^ 32"
  shows "workerIndexFor workers packet < workers"
proof -
  have w32: "unat (of_nat workers :: u32) = workers" and w64: "unat (of_nat workers :: u64) = workers"
    using assms by (simp_all add: unat_of_nat take_bit_nat_eq_self_iff)
  have "unat (x mod of_nat workers :: u32) < workers" for x
    using assms w32 by (simp add: unat_mod)
  moreover have "unat (x mod of_nat workers :: u64) < workers" for x
    using assms w64 by (simp add: unat_mod)
  ultimately show ?thesis
    using assms
    by (auto simp: workerIndexFor_def shardForSEID_def shardForTEID_def shardForIPv4_def
        split: PacketDirection.splits option.splits)
qed

theorem workerIndexFor_bound_witness:
  "workerIndexFor 4 \<lparr>pkt_Direction = PacketDirectionUplink, pkt_SEIDHint = 0, pkt_TEID = 7, pkt_UEIP = [],
     pkt_Payload = []\<rparr> < 4"
  by (rule workerIndexFor_bound) simp_all

end
