(* ===== verification/Qer_Rate.thy ===== *)
theory Qer_Rate
  imports Runtime
begin

text \<open>
  \<^verbatim>\<open>internal/forwarder/userspace/qer_rate.go\<close> and the gate check of \<^verbatim>\<open>pipeline.go\<close>: adaptive
  overrides, gates, and the token bucket that enforces the maximum bit rate of a QER. Tokens are
  rationals, so the rounding of \<open>float64\<close> is not modelled. An operation reads the clock once.
\<close>

section \<open>Overrides and gates\<close>

definition qerULGateClosed :: u8 where "qerULGateClosed = 0x04"
definition qerDLGateClosed :: u8 where "qerDLGateClosed = 0x01"

definition adaptiveQERKey :: "u32 \<Rightarrow> string" where
  "adaptiveQERKey qerID = dec_string (unat qerID)"

definition qerMBR :: "QERRule \<Rightarrow> PacketDirection \<Rightarrow> u64" where
  "qerMBR qer direction =
     (case direction of
        PacketDirectionUplink \<Rightarrow> (case qer_MBRUL qer of Some v \<Rightarrow> v | None \<Rightarrow> 0)
      | PacketDirectionDownlink \<Rightarrow> (case qer_MBRDL qer of Some v \<Rightarrow> v | None \<Rightarrow> 0)
      | PacketDirectionOther \<Rightarrow> 0)"

definition effectiveQEROverrideFromSession ::
  "SessionState option \<Rightarrow> u32 \<Rightarrow> gotime \<Rightarrow> AdaptiveQEROverride option" where
  "effectiveQEROverrideFromSession so qerID now =
     (case so of
        None \<Rightarrow> None
      | Some sess \<Rightarrow>
          (case sess_AdaptiveQER sess (adaptiveQERKey qerID) of
             None \<Rightarrow> None
           | Some override \<Rightarrow>
               if ov_ExpiresAt override \<noteq> 0 \<and> ov_ExpiresAt override < now then None else Some override))"

definition effectiveQEROverride :: "Driver \<Rightarrow> u64 \<Rightarrow> u32 \<Rightarrow> gotime \<Rightarrow> AdaptiveQEROverride option" where
  "effectiveQEROverride d seid qerID now = effectiveQEROverrideFromSession (d_sessions d seid) qerID now"

definition effectiveQERGateClosed ::
  "Driver \<Rightarrow> PDRBinding \<Rightarrow> QERRule \<Rightarrow> PacketDirection \<Rightarrow> gotime \<Rightarrow> bool" where
  "effectiveQERGateClosed d binding qer direction now =
     (let fromOverride = (case effectiveQEROverride d (b_SEID binding) (qer_ID qer) now of
            None \<Rightarrow> None
          | Some override \<Rightarrow>
              (case direction of
                 PacketDirectionUplink \<Rightarrow> ov_OverrideGateUL override
               | PacketDirectionDownlink \<Rightarrow> ov_OverrideGateDL override
               | PacketDirectionOther \<Rightarrow> None))
      in case fromOverride of
           Some isOpen \<Rightarrow> \<not> isOpen
         | None \<Rightarrow>
             (case qer_GateStatus qer of
                None \<Rightarrow> False
              | Some gate \<Rightarrow>
                  (case direction of
                     PacketDirectionUplink \<Rightarrow> gate AND qerULGateClosed \<noteq> 0
                   | PacketDirectionDownlink \<Rightarrow> gate AND qerDLGateClosed \<noteq> 0
                   | PacketDirectionOther \<Rightarrow> False)))"

definition gateClosed :: "Driver \<Rightarrow> PDRBinding \<Rightarrow> PacketDirection \<Rightarrow> gotime \<Rightarrow> bool" where
  "gateClosed d binding direction now =
     list_ex (\<lambda>qer. effectiveQERGateClosed d binding qer direction now) (b_QERs binding)"

section \<open>The token bucket\<close>

definition effectiveQERMBRLocked ::
  "Driver \<Rightarrow> SessionState option \<Rightarrow> PDRBinding \<Rightarrow> QERRule \<Rightarrow> PacketDirection \<Rightarrow> gotime \<Rightarrow> u64" where
  "effectiveQERMBRLocked d so binding qer direction now =
     (let override = effectiveQEROverrideFromSession so (qer_ID qer) now;
          override = (if override = None \<and> so = None
                      then effectiveQEROverride d (b_SEID binding) (qer_ID qer) now else override)
      in case override of
           None \<Rightarrow> qerMBR qer direction
         | Some ov \<Rightarrow>
             (case direction of
                PacketDirectionUplink \<Rightarrow> if ov_OverrideMBRUL ov \<noteq> 0 then ov_OverrideMBRUL ov else qerMBR qer direction
              | PacketDirectionDownlink \<Rightarrow> if ov_OverrideMBRDL ov \<noteq> 0 then ov_OverrideMBRDL ov else qerMBR qer direction
              | PacketDirectionOther \<Rightarrow> qerMBR qer direction))"

definition effectiveQERMBR :: "Driver \<Rightarrow> PDRBinding \<Rightarrow> QERRule \<Rightarrow> PacketDirection \<Rightarrow> gotime \<Rightarrow> u64" where
  "effectiveQERMBR d binding qer direction now = effectiveQERMBRLocked d None binding qer direction now"

definition selectQERBucket :: "QERMeterState \<Rightarrow> PacketDirection \<Rightarrow> tokenBucket" where
  "selectQERBucket meter direction =
     (if direction = PacketDirectionDownlink then qm_Downlink meter else qm_Uplink meter)"

text \<open>Writing through the pointer \<open>selectQERBucket\<close> returns.\<close>

definition put_bucket :: "QERMeterState \<Rightarrow> PacketDirection \<Rightarrow> tokenBucket \<Rightarrow> QERMeterState" where
  "put_bucket meter direction b =
     (if direction = PacketDirectionDownlink then meter\<lparr>qm_Downlink := b\<rparr> else meter\<lparr>qm_Uplink := b\<rparr>)"

definition rateBytesPerSecond :: "u64 \<Rightarrow> rat" where
  "rateBytesPerSecond mbr = of_nat (unat mbr) * 1000 / 8"

definition refill :: "tokenBucket \<Rightarrow> rat \<Rightarrow> gotime \<Rightarrow> tokenBucket" where
  "refill bucket rate now =
     (if tb_LastRefill bucket = 0 then \<lparr>tb_Tokens = rate, tb_LastRefill = now\<rparr>
      else if tb_LastRefill bucket < now then
        (let elapsed = of_int (now - tb_LastRefill bucket) / 10 ^ 9;
             tokens = tb_Tokens bucket + elapsed * rate
         in \<lparr>tb_Tokens = (if rate < tokens then rate else tokens), tb_LastRefill = now\<rparr>)
      else bucket)"

definition consumeTokens :: "tokenBucket \<Rightarrow> u64 \<Rightarrow> nat \<Rightarrow> gotime \<Rightarrow> tokenBucket \<times> bool" where
  "consumeTokens bucket mbr n now =
     (let rate = rateBytesPerSecond mbr in
      if rate \<le> 0 then (bucket, True)
      else
        let bucket = refill bucket rate now in
        if tb_Tokens bucket < of_nat n then (bucket, False)
        else (bucket\<lparr>tb_Tokens := tb_Tokens bucket - of_nat n\<rparr>, True))"

definition zero_meter :: QERMeterState where
  "zero_meter = \<lparr>qm_Uplink = \<lparr>tb_Tokens = 0, tb_LastRefill = 0\<rparr>, qm_Downlink = \<lparr>tb_Tokens = 0, tb_LastRefill = 0\<rparr>\<rparr>"

text \<open>The loop over the QERs of a binding: it stops at the first that has too few tokens.\<close>

fun mbr_loop ::
  "Driver \<Rightarrow> PDRBinding \<Rightarrow> nat \<Rightarrow> PacketDirection \<Rightarrow> gotime \<Rightarrow> SessionState \<Rightarrow> QERRule list \<Rightarrow> SessionState \<times> bool" where
  "mbr_loop d binding n direction now sess [] = (sess, True)"
| "mbr_loop d binding n direction now sess (qer # qers) =
     (let mbr = effectiveQERMBRLocked d (Some sess) binding qer direction now in
      if mbr = 0 then mbr_loop d binding n direction now sess qers
      else
        let meter = (case sess_QERMeters sess (qer_ID qer) of None \<Rightarrow> zero_meter | Some m \<Rightarrow> m);
            (bucket, ok) = consumeTokens (selectQERBucket meter direction) mbr n now;
            sess = sess\<lparr>sess_QERMeters := (sess_QERMeters sess)(qer_ID qer \<mapsto> put_bucket meter direction bucket)\<rparr>
        in if \<not> ok then (sess, False) else mbr_loop d binding n direction now sess qers)"

definition mbrAllows :: "gotime \<Rightarrow> PDRBinding \<Rightarrow> nat \<Rightarrow> PacketDirection \<Rightarrow> Driver \<Rightarrow> Driver \<times> bool" where
  "mbrAllows now binding n direction d =
     (if b_QERs binding = [] \<or> n = 0 then (d, True)
      else case d_sessions d (b_SEID binding) of
        None \<Rightarrow> (d, True)
      | Some sess \<Rightarrow>
          let (sess, ok) = mbr_loop d binding n direction now sess (b_QERs binding)
          in (d\<lparr>d_sessions := (d_sessions d)(b_SEID binding \<mapsto> sess)\<rparr>, ok))"

section \<open>Runs\<close>

text \<open>
  A bucket over a sequence of arrivals, each an instant and a size: the final bucket and the
  number of bytes admitted.
\<close>

fun bucket_run :: "u64 \<Rightarrow> tokenBucket \<Rightarrow> (gotime \<times> nat) list \<Rightarrow> tokenBucket \<times> nat" where
  "bucket_run mbr b [] = (b, 0)"
| "bucket_run mbr b ((t, n) # xs) =
     (let (b', ok) = consumeTokens b mbr n t; (b'', total) = bucket_run mbr b' xs
      in (b'', (if ok then n else 0) + total))"

definition bucket_ok :: "u64 \<Rightarrow> tokenBucket \<Rightarrow> bool" where
  "bucket_ok mbr b \<longleftrightarrow> 0 \<le> tb_Tokens b \<and> tb_Tokens b \<le> rateBytesPerSecond mbr"

section \<open>Lemmas\<close>

lemma rate_pos_iff [simp]: "0 < rateBytesPerSecond mbr \<longleftrightarrow> mbr \<noteq> 0"
proof -
  have "0 < (of_nat (unat mbr) :: rat) \<longleftrightarrow> 0 < unat mbr" by (rule of_nat_0_less_iff)
  then show ?thesis by (simp add: rateBytesPerSecond_def unat_gt_0)
qed

lemma rate_le_iff [simp]: "0 \<le> rateBytesPerSecond mbr" "rateBytesPerSecond mbr \<le> 0 \<longleftrightarrow> mbr = 0"
proof -
  have "0 \<le> (of_nat (unat mbr) :: rat)" by (rule of_nat_0_le_iff)
  then show "0 \<le> rateBytesPerSecond mbr" unfolding rateBytesPerSecond_def by simp
  show "rateBytesPerSecond mbr \<le> 0 \<longleftrightarrow> mbr = 0" using rate_pos_iff [of mbr] by linarith
qed

lemma bucket_run_step:
  "consumeTokens b mbr n t = (b', ok) \<Longrightarrow>
     snd (bucket_run mbr b ((t, n) # xs)) = (if ok then n else 0) + snd (bucket_run mbr b' xs)"
  by (simp add: case_prod_unfold Let_def)

lemma refill_ok:
  assumes "mbr \<noteq> 0" "bucket_ok mbr b"
  shows "bucket_ok mbr (refill b (rateBytesPerSecond mbr) t)"
proof -
  let ?r = "rateBytesPerSecond mbr"
  have pos: "0 < ?r" using assms(1) by simp
  have "0 \<le> of_int (t - tb_LastRefill b) / 10 ^ 9 * ?r" if "tb_LastRefill b < t"
    using pos that by (intro mult_nonneg_nonneg divide_nonneg_nonneg) auto
  then show ?thesis
    using assms pos by (auto simp: refill_def bucket_ok_def Let_def)
qed

lemma consumeTokens_ok:
  assumes "mbr \<noteq> 0" "bucket_ok mbr b"
  shows "bucket_ok mbr (fst (consumeTokens b mbr n t))"
proof -
  let ?b = "refill b (rateBytesPerSecond mbr) t"
  have "\<not> rateBytesPerSecond mbr \<le> 0" using assms(1) by (simp add: not_le)
  then show ?thesis
    using refill_ok [OF assms, of t] by (auto simp: consumeTokens_def bucket_ok_def Let_def)
qed

text \<open>What one arrival does to the tokens of a bucket in use.\<close>

lemma consumeTokens_step:
  assumes "mbr \<noteq> 0" "tb_LastRefill b \<noteq> 0" "tb_LastRefill b \<le> t"
    and "consumeTokens b mbr n t = (b', ok)"
  shows "tb_LastRefill b' = t"
    and "(if ok then of_nat n else 0) + tb_Tokens b' \<le>
         tb_Tokens b + rateBytesPerSecond mbr * (of_int (t - tb_LastRefill b) / 10 ^ 9)"
proof -
  have "\<not> rateBytesPerSecond mbr \<le> 0" using assms(1) by (simp add: not_le)
  with assms show "tb_LastRefill b' = t"
    by (auto simp: consumeTokens_def refill_def Let_def split: if_splits)
  from \<open>\<not> rateBytesPerSecond mbr \<le> 0\<close> assms
  show "(if ok then of_nat n else 0) + tb_Tokens b' \<le>
         tb_Tokens b + rateBytesPerSecond mbr * (of_int (t - tb_LastRefill b) / 10 ^ 9)"
    by (auto simp: consumeTokens_def refill_def Let_def mult.commute split: if_splits)
qed

lemma bucket_run_bound_used:
  assumes "mbr \<noteq> 0" "bucket_ok mbr b" "tb_LastRefill b \<noteq> 0"
    and "sorted (tb_LastRefill b # map fst xs)" "tb_LastRefill b > 0"
  shows "of_nat (snd (bucket_run mbr b xs)) \<le>
    tb_Tokens b + rateBytesPerSecond mbr * (of_int (last (tb_LastRefill b # map fst xs) - tb_LastRefill b) / 10 ^ 9)"
  using assms
proof (induction xs arbitrary: b)
  case Nil
  then show ?case by (simp add: bucket_ok_def)
next
  case (Cons x xs)
  obtain t n where x: "x = (t, n)" by force
  obtain b' ok where step: "consumeTokens b mbr n t = (b', ok)" by force
  let ?r = "rateBytesPerSecond mbr" and ?T = "last (t # map fst xs)"
  from Cons.prems x have le: "tb_LastRefill b \<le> t" by simp
  note s = consumeTokens_step [OF Cons.prems(1,3) le step]
  have "bucket_ok mbr b'" using consumeTokens_ok [OF Cons.prems(1,2), of n t] step by simp
  moreover have "sorted (tb_LastRefill b' # map fst xs)" using Cons.prems(4) x s(1) by simp
  ultimately have IH: "of_nat (snd (bucket_run mbr b' xs)) \<le> tb_Tokens b' + ?r * (of_int (?T - t) / 10 ^ 9)"
    using Cons.IH [of b'] Cons.prems(1,5) s(1) le by simp
  have "of_nat (snd (bucket_run mbr b (x # xs))) =
      (if ok then of_nat n else 0) + (of_nat (snd (bucket_run mbr b' xs)) :: rat)"
    using bucket_run_step [OF step] x by simp
  also have "\<dots> \<le> (if ok then of_nat n else 0) + tb_Tokens b' + ?r * (of_int (?T - t) / 10 ^ 9)"
    using IH by simp
  also have "\<dots> \<le> tb_Tokens b + ?r * (of_int (t - tb_LastRefill b) / 10 ^ 9) + ?r * (of_int (?T - t) / 10 ^ 9)"
    using s(2) by simp
  also have "\<dots> = tb_Tokens b + ?r * (of_int (?T - tb_LastRefill b) / 10 ^ 9)"
    by (simp add: field_simps)
  finally show ?case using x by simp
qed

section \<open>Properties\<close>



text \<open>
  The burst is one second of the rate: a packet with more bytes than the rate carries in a
  second is refused however long the flow was idle, and a packet that fits is admitted when the
  flow was idle for a second or more.
\<close>

theorem burst_is_one_second:
  assumes "mbr \<noteq> 0" "bucket_ok mbr b"
  shows "(rateBytesPerSecond mbr < of_nat n \<longrightarrow> \<not> snd (consumeTokens b mbr n t)) \<and>
    (of_nat n \<le> rateBytesPerSecond mbr \<and> tb_LastRefill b + 10 ^ 9 \<le> t \<longrightarrow> snd (consumeTokens b mbr n t))"
proof (intro conjI impI)
  let ?r = "rateBytesPerSecond mbr"
  have pos: "\<not> ?r \<le> 0" "0 < ?r" using assms(1) by (simp_all add: not_le)
  show "\<not> snd (consumeTokens b mbr n t)" if "?r < of_nat n"
    using refill_ok [OF assms, of t] that pos by (auto simp: consumeTokens_def bucket_ok_def Let_def)
  show "snd (consumeTokens b mbr n t)" if nt: "of_nat n \<le> ?r \<and> tb_LastRefill b + 10 ^ 9 \<le> t"
  proof -
    from nt have "(10 ^ 9 :: int) \<le> t - tb_LastRefill b" by simp
    then have "(of_int (10 ^ 9) :: rat) \<le> of_int (t - tb_LastRefill b)" by (simp only: of_int_le_iff)
    then have "1 \<le> (of_int (t - tb_LastRefill b) / 10 ^ 9 :: rat)" by simp
    then have "1 * ?r \<le> of_int (t - tb_LastRefill b) / 10 ^ 9 * ?r"
      using pos by (intro mult_right_mono) simp_all
    with assms(2) have "?r \<le> tb_Tokens b + of_int (t - tb_LastRefill b) / 10 ^ 9 * ?r"
      by (simp add: bucket_ok_def)
    then have "tb_Tokens (refill b ?r t) = ?r"
      using nt by (auto simp: refill_def Let_def)
    with nt pos show ?thesis by (simp add: consumeTokens_def Let_def)
  qed
qed

theorem burst_is_one_second_witness:
  "\<not> snd (consumeTokens \<lparr>tb_Tokens = 0, tb_LastRefill = 1\<rparr> 8 1500 (10 ^ 12)) \<and>
   snd (consumeTokens \<lparr>tb_Tokens = 0, tb_LastRefill = 1\<rparr> 8 1000 (10 ^ 12))"
  using burst_is_one_second [of 8 "\<lparr>tb_Tokens = 0, tb_LastRefill = 1\<rparr>" 1500 "10 ^ 12"]
    burst_is_one_second [of 8 "\<lparr>tb_Tokens = 0, tb_LastRefill = 1\<rparr>" 1000 "10 ^ 12"]
  by (simp add: bucket_ok_def rateBytesPerSecond_def)

end
