(* ===== verification/Adaptive_Profile.thy ===== *)
theory Adaptive_Profile
  imports Qer_Rate
begin

text \<open>
  The decisions of the adaptive QoS feature, \<^verbatim>\<open>internal/forwarder/userspace/adaptive_qos.go\<close> and
  \<^verbatim>\<open>adaptive_story.go\<close>: what the control plane provisioned, the profile a report selects, the
  texts that explain it, and the QERs it applies to. Rates and sizes are \<open>uint64\<close>, so they wrap.
\<close>

section \<open>Text\<close>

definition dec_int :: "int \<Rightarrow> string" where
  "dec_int n = (if n < 0 then ''-'' @ dec_string (nat (- n)) else dec_string (nat n))"

definition dec64 :: "u64 \<Rightarrow> string" where
  "dec64 w = dec_string (unat w)"

definition pad :: "nat \<Rightarrow> string \<Rightarrow> string" where
  "pad n s = replicate (n - length s) (CHR ''0'') @ s"

text \<open>\<open>t.UnixNano()\<close>: nanoseconds since 1970 in an \<open>int64\<close>.\<close>

definition UnixNano :: "gotime \<Rightarrow> int" where
  "UnixNano t = sint (of_int (t - 62135596800 * 10 ^ 9) :: 64 word)"

text \<open>The civil date of a number of days since 1 January of year 1, and \<open>Format(time.RFC3339Nano)\<close>.\<close>

definition leap_year :: "int \<Rightarrow> bool" where
  "leap_year y \<longleftrightarrow> y mod 4 = 0 \<and> (y mod 100 \<noteq> 0 \<or> y mod 400 = 0)"

fun month_day :: "int list \<Rightarrow> int \<Rightarrow> int \<Rightarrow> int \<times> int" where
  "month_day [] m d = (m, d)"
| "month_day (l # ls) m d = (if d < l then (m, d) else month_day ls (m + 1) (d - l))"

definition civil_date :: "int \<Rightarrow> int \<times> int \<times> int" where
  "civil_date days =
     (let n400 = days div 146097; r = days mod 146097;
          n100 = min 3 (r div 36524); r = r - n100 * 36524;
          n4 = r div 1461; r = r mod 1461;
          n1 = min 3 (r div 365); r = r - n1 * 365;
          y = 400 * n400 + 100 * n100 + 4 * n4 + n1 + 1;
          (m, d) = month_day [31, if leap_year y then 29 else 28, 31, 30, 31, 30, 31, 31, 30, 31, 30] 1 r
      in (y, m, d + 1))"

definition format_RFC3339Nano :: "gotime \<Rightarrow> string" where
  "format_RFC3339Nano t =
     (let (y, mo, d) = civil_date (t div (86400 * 10 ^ 9));
          s = (t div 10 ^ 9) mod 86400; ns = t mod 10 ^ 9;
          p = (\<lambda>n x. pad n (dec_int x));
          frac = rev (dropWhile (\<lambda>c. c = CHR ''0'') (rev (p 9 ns)))
      in p 4 y @ ''-'' @ p 2 mo @ ''-'' @ p 2 d @ ''T'' @ p 2 (s div 3600) @ '':'' @ p 2 (s div 60 mod 60)
         @ '':'' @ p 2 (s mod 60) @ (if frac = [] then [] else ''.'' @ frac) @ ''Z'')"

section \<open>What the control plane provisioned\<close>

definition updateRange :: "u64 \<Rightarrow> u64 \<Rightarrow> u64 \<Rightarrow> bool \<Rightarrow> u64 \<times> u64 \<times> bool" where
  "updateRange minV maxV value alreadySet =
     (if \<not> alreadySet then (value, value, True)
      else (if value < minV then value else minV, if maxV < value then value else maxV, True))"

text \<open>The range and the flags \<open>mbrULSet\<close>, \<open>mbrDLSet\<close>, \<open>gbrULSet\<close>, \<open>gbrDLSet\<close> of the loop.\<close>

type_synonym cp_loop = "adaptiveCPProvisionedRange \<times> bool \<times> bool \<times> bool \<times> bool"

definition cp_step :: "SessionState \<Rightarrow> cp_loop \<Rightarrow> u32 \<Rightarrow> cp_loop" where
  "cp_step sess st qid =
     (case sess_QERs sess qid of
        None \<Rightarrow> st
      | Some qer \<Rightarrow>
          let (cp, s1, s2, s3, s4) = st;
              (cp, s1) = (case qer_MBRUL qer of None \<Rightarrow> (cp, s1)
                | Some v \<Rightarrow> let (lo, hi, s) = updateRange (cp_MBRULMin cp) (cp_MBRULMax cp) v s1
                           in (cp\<lparr>cp_MBRULMin := lo, cp_MBRULMax := hi\<rparr>, s));
              (cp, s2) = (case qer_MBRDL qer of None \<Rightarrow> (cp, s2)
                | Some v \<Rightarrow> let (lo, hi, s) = updateRange (cp_MBRDLMin cp) (cp_MBRDLMax cp) v s2
                           in (cp\<lparr>cp_MBRDLMin := lo, cp_MBRDLMax := hi\<rparr>, s));
              (cp, s3) = (case qer_GBRUL qer of None \<Rightarrow> (cp, s3)
                | Some v \<Rightarrow> let (lo, hi, s) = updateRange (cp_GBRULMin cp) (cp_GBRULMax cp) v s3
                           in (cp\<lparr>cp_GBRULMin := lo, cp_GBRULMax := hi\<rparr>, s));
              (cp, s4) = (case qer_GBRDL qer of None \<Rightarrow> (cp, s4)
                | Some v \<Rightarrow> let (lo, hi, s) = updateRange (cp_GBRDLMin cp) (cp_GBRDLMax cp) v s4
                           in (cp\<lparr>cp_GBRDLMin := lo, cp_GBRDLMax := hi\<rparr>, s));
              cp = (case qer_GateStatus qer of None \<Rightarrow> cp
                | Some g \<Rightarrow>
                    let cp = (if g AND qerULGateClosed \<noteq> 0
                              then cp\<lparr>cp_GateClosedULCount := cp_GateClosedULCount cp + 1\<rparr> else cp)
                    in (if g AND qerDLGateClosed \<noteq> 0
                        then cp\<lparr>cp_GateClosedDLCount := cp_GateClosedDLCount cp + 1\<rparr> else cp))
          in (cp, s1, s2, s3, s4))"

definition collectCPProvisionedRange ::
  "ranges \<Rightarrow> AdaptiveQoSConfig option \<Rightarrow> SessionState \<Rightarrow> adaptiveCPProvisionedRange" where
  "collectCPProvisionedRange R cfg sess =
     (let auth = (case cfg of None \<Rightarrow> None | Some c \<Rightarrow> aq_Authorization c);
          cp = \<lparr>cp_QERCount = card (dom (sess_QERs sess)),
             cp_AuthorizationMaxBitrateUL = (case auth of None \<Rightarrow> 0 | Some a \<Rightarrow> auth_MaxBitrateUL a),
             cp_AuthorizationMaxBitrateDL = (case auth of None \<Rightarrow> 0 | Some a \<Rightarrow> auth_MaxBitrateDL a),
             cp_AuthorizationMaxGFBRUL = (case auth of None \<Rightarrow> 0 | Some a \<Rightarrow> auth_MaxGFBRUL a),
             cp_AuthorizationMaxGFBRDL = (case auth of None \<Rightarrow> 0 | Some a \<Rightarrow> auth_MaxGFBRDL a),
             cp_MBRULMin = 0, cp_MBRULMax = 0, cp_MBRDLMin = 0, cp_MBRDLMax = 0, cp_GBRULMin = 0,
             cp_GBRULMax = 0, cp_GBRDLMin = 0, cp_GBRDLMax = 0, cp_GateClosedULCount = 0,
             cp_GateClosedDLCount = 0\<rparr>
      in fst (foldl (cp_step sess) (cp, False, False, False, False) (rng32 R (dom (sess_QERs sess)))))"

definition cpProvisionedEqual :: "adaptiveCPProvisionedRange \<Rightarrow> adaptiveCPProvisionedRange \<Rightarrow> bool" where
  "cpProvisionedEqual a b \<longleftrightarrow>
     cp_QERCount a = cp_QERCount b \<and>
     cp_AuthorizationMaxBitrateUL a = cp_AuthorizationMaxBitrateUL b \<and>
     cp_AuthorizationMaxBitrateDL a = cp_AuthorizationMaxBitrateDL b \<and>
     cp_AuthorizationMaxGFBRUL a = cp_AuthorizationMaxGFBRUL b \<and>
     cp_AuthorizationMaxGFBRDL a = cp_AuthorizationMaxGFBRDL b \<and>
     cp_MBRULMin a = cp_MBRULMin b \<and> cp_MBRULMax a = cp_MBRULMax b \<and>
     cp_MBRDLMin a = cp_MBRDLMin b \<and> cp_MBRDLMax a = cp_MBRDLMax b"

text \<open>The address of the first PDR visited that has one.\<close>

definition session_ue_address :: "ranges \<Rightarrow> SessionState \<Rightarrow> string" where
  "session_ue_address R sess =
     (case List.map_filter (\<lambda>pid. case sess_PDRs sess pid of
             None \<Rightarrow> None
           | Some pdr \<Rightarrow> (case pdr_PDI pdr of
               None \<Rightarrow> None
             | Some pdi \<Rightarrow> if pdi_UEIPv4 pdi \<noteq> [] then Some (ip_String (pdi_UEIPv4 pdi)) else None))
            (rng16 R (dom (sess_PDRs sess))) of
        [] \<Rightarrow> ''''
      | a # _ \<Rightarrow> a)"

definition addAdaptiveTraceLocked :: "gotime \<Rightarrow> AdaptiveTraceEvent \<Rightarrow> Driver \<Rightarrow> Driver" where
  "addAdaptiveTraceLocked now event d = d\<lparr>d_adaptiveTrace := trace_add now event (d_adaptiveTrace d)\<rparr>"

text \<open>The session is written through its pointer: it is returned with the driver.\<close>

definition emitCPProvisionedTraceLocked ::
  "'ie env \<Rightarrow> gotime \<Rightarrow> SessionState \<Rightarrow> Driver \<Rightarrow> SessionState \<times> Driver" where
  "emitCPProvisionedTraceLocked E now sess d =
     (let cp = collectCPProvisionedRange (e_rng E) (d_adaptiveQoS d) sess in
      if cp_QERCount cp = 0 then (sess, d)
      else if (case sess_LastCPProvisioned sess of None \<Rightarrow> False | Some l \<Rightarrow> cpProvisionedEqual l cp) then (sess, d)
      else
        (sess\<lparr>sess_LastCPProvisioned := Some cp\<rparr>,
         addAdaptiveTraceLocked now (zero_event\<lparr>te_Timestamp := now, te_SEID := sess_SEID sess,
            te_UEAddress := session_ue_address (e_rng E) sess,
            te_Stage := ''pdu-session-qos-provisioned'', te_Status := ''provisioned'',
            te_DecisionReason := ''seid='' @ dec64 (sess_SEID sess)
              @ '' mbrDL='' @ dec64 (cp_AuthorizationMaxBitrateDL cp)
              @ '' mbrUL='' @ dec64 (cp_AuthorizationMaxBitrateUL cp)
              @ '' gfbrDL='' @ dec64 (cp_AuthorizationMaxGFBRDL cp)
              @ '' gfbrUL='' @ dec64 (cp_AuthorizationMaxGFBRUL cp),
            te_CPProvisionedRange := Some cp\<rparr>) d))"

section \<open>Reports\<close>

definition defaultAdaptiveProfileID :: string where
  "defaultAdaptiveProfileID = ''adaptive-default''"

definition defaultAdaptiveGFBR :: u64 where
  "defaultAdaptiveGFBR = 1000000"

definition storyProfileID :: "AdaptiveFlowState \<Rightarrow> string" where
  "storyProfileID flow = (case af_SelectedProfile flow of None \<Rightarrow> '''' | Some p \<Rightarrow> ap_ProfileID p)"

definition storyDurationMs :: "duration \<Rightarrow> u64 \<Rightarrow> u64" where
  "storyDurationMs dur raw =
     (if 0 < raw then raw else if dur \<le> 0 then 0 else of_int (dur div 1000000))"

definition DeadlineMsOrBurstDurationMs :: "AdaptiveReport \<Rightarrow> u64" where
  "DeadlineMsOrBurstDurationMs r =
     (let ms = storyDurationMs (ar_Deadline r) (ar_DeadlineMs r) in
      if 0 < ms then ms else storyDurationMs (ar_BurstDuration r) (ar_BurstDurationMs r))"

text \<open>\<open>time.Duration(ms) * time.Millisecond\<close>, in \<open>int64\<close>.\<close>

definition ms_duration :: "u64 \<Rightarrow> duration" where
  "ms_duration ms = sint (ms * 1000000)"

definition expectedArrivalTime :: "AdaptiveReport \<Rightarrow> gotime" where
  "expectedArrivalTime r =
     (if ar_ExpectedArrivalTime r \<noteq> 0 then ar_ExpectedArrivalTime r
      else ar_Timestamp r + ms_duration (ar_BurstDurationMs r))"

definition buildFlowDescription :: "PacketFiveTuple option \<Rightarrow> string" where
  "buildFlowDescription pkt =
     (case pkt of
        None \<Rightarrow> ''''
      | Some p \<Rightarrow>
          let protocol = strings_ToLower (strings_TrimSpace (ft_Protocol p));
              protocol = (if protocol = '''' then ''ip'' else protocol);
              src = strings_TrimSpace (ft_SrcIP p); dst = strings_TrimSpace (ft_DstIP p)
          in if src = '''' \<and> dst = '''' then ''''
             else
               let srcToken = (if src \<noteq> '''' then src else ''any'');
                   srcToken = (if ft_SrcPort p \<noteq> 0 then srcToken @ '' '' @ dec_string (unat (ft_SrcPort p)) else srcToken);
                   dstToken = (if dst \<noteq> '''' then dst else ''any'');
                   dstToken = (if ft_DstPort p \<noteq> 0 then dstToken @ '' '' @ dec_string (unat (ft_DstPort p)) else dstToken)
               in ''permit out '' @ protocol @ '' from '' @ srcToken @ '' to '' @ dstToken)"

definition normalize :: "AdaptiveReport \<Rightarrow> AdaptiveReport" where
  "normalize r =
     (if ar_FlowDescription r = '''' then r\<lparr>ar_FlowDescription := buildFlowDescription (ar_Packet r)\<rparr> else r)"

definition rateFromBurst :: "u64 \<Rightarrow> u64 \<Rightarrow> u64" where
  "rateFromBurst sizeBytes windowMs =
     (if sizeBytes = 0 then 0
      else
        let windowMs = (if windowMs = 0 then 1 else windowMs); bits = sizeBytes * 8
        in (bits * 1000 + windowMs - 1) div windowMs)"

definition inferBurstPriority :: "AdaptiveReport \<Rightarrow> string" where
  "inferBurstPriority r =
     (if ar_Priority r \<noteq> '''' then ar_Priority r
      else if 0 < ar_DeadlineMs r \<and> ar_DeadlineMs r \<le> 150 then ''high'' else ''normal'')"

definition derivePredictedAirDelay :: "AdaptiveReport \<Rightarrow> u64" where
  "derivePredictedAirDelay r =
     (if 0 < ar_DeadlineMs r then
        (if ar_DeadlineMs r \<le> 50 then 4 else if ar_DeadlineMs r \<le> 150 then 8 else 16)
      else if 0 < ar_BurstDurationMs r then (if ar_BurstDurationMs r \<le> 100 then 8 else 16)
      else 8)"

definition deriveBlockSuccessRatio :: "AdaptiveReport \<Rightarrow> rat" where
  "deriveBlockSuccessRatio r =
     (if push_bit 20 8 \<le> ar_BurstSize r then 96 / 100
      else if push_bit 20 4 \<le> ar_BurstSize r then 99 / 100 else 995 / 1000)"

definition buildPredictiveBurstDecisionReason :: "AdaptiveReport \<Rightarrow> u64 \<Rightarrow> u64 \<Rightarrow> string" where
  "buildPredictiveBurstDecisionReason r requiredDL requiredUL =
     (let burstMs = storyDurationMs (ar_BurstDuration r) (ar_BurstDurationMs r);
          deadlineMs = storyDurationMs (ar_Deadline r) (ar_DeadlineMs r)
      in join_with '' ''
           ([''scenario=predictive-burst'']
            @ (if 0 < ar_BurstSize r then [''burst='' @ dec64 (ar_BurstSize r) @ ''B''] else [])
            @ (if 0 < burstMs then [''burstDuration='' @ dec64 burstMs @ ''ms''] else [])
            @ (if 0 < deadlineMs then [''deadline='' @ dec64 deadlineMs @ ''ms''] else [])
            @ (if ar_Priority r \<noteq> '''' then [''priority='' @ ar_Priority r] else [])
            @ (if ar_ExpectedArrivalTime r \<noteq> 0
               then [''arrival='' @ format_RFC3339Nano (ar_ExpectedArrivalTime r)] else [])
            @ [''requestedDL='' @ dec64 requiredDL, ''requestedUL='' @ dec64 requiredUL]))"

section \<open>Decisions\<close>

text \<open>The window and the rates a predictive burst needs, before and after authorization.\<close>

definition burst_window :: "AdaptiveReport \<Rightarrow> u64" where
  "burst_window r =
     (let w = ar_DeadlineMs r;
          w = (if w = 0 \<or> (0 < ar_BurstDurationMs r \<and> w < ar_BurstDurationMs r) then ar_BurstDurationMs r else w)
      in if w = 0 then 150 else w)"

definition burst_rates :: "AdaptiveReport \<Rightarrow> adaptiveCPProvisionedRange option \<Rightarrow> u64 \<times> u64" where
  "burst_rates r cp =
     (let requiredDL = rateFromBurst (ar_BurstSize r) (burst_window r);
          requiredUL = requiredDL div 8;
          requiredUL = (if requiredUL = 0 \<and> 0 < requiredDL then requiredDL div 4 else requiredUL);
          requiredUL = (if requiredUL = 0 then 100000 else requiredUL)
      in case cp of
           None \<Rightarrow> (requiredDL, requiredUL)
         | Some c \<Rightarrow>
             (if 0 < cp_AuthorizationMaxBitrateDL c \<and> cp_AuthorizationMaxBitrateDL c < requiredDL
              then cp_AuthorizationMaxBitrateDL c else requiredDL,
              if 0 < cp_AuthorizationMaxBitrateUL c \<and> cp_AuthorizationMaxBitrateUL c < requiredUL
              then cp_AuthorizationMaxBitrateUL c else requiredUL))"

definition derivePredictiveBurstDecision ::
  "AdaptiveReport \<Rightarrow> adaptiveCPProvisionedRange option \<Rightarrow> adaptiveQoSDecisionView" where
  "derivePredictiveBurstDecision r cp =
     (let windowMs = burst_window r;
          (requiredDL, requiredUL) = burst_rates r cp;
          gfbrDL = requiredDL * 3 div 4; gfbrUL = requiredUL * 3 div 4;
          gfbrDL = (if gfbrDL = 0 \<and> 0 < requiredDL then requiredDL else gfbrDL);
          gfbrUL = (if gfbrUL = 0 \<and> 0 < requiredUL then requiredUL else gfbrUL)
      in \<lparr>qd_SelectedProfileID = ''burst-protect'', qd_PreviousProfileID = '''',
          qd_DecisionReason = buildPredictiveBurstDecisionReason r requiredDL requiredUL,
          qd_AppliedQERIDs = [], qd_OverrideGateUL = Some True, qd_OverrideGateDL = Some True,
          qd_OverrideGFBRUL = gfbrUL, qd_OverrideGFBRDL = gfbrDL,
          qd_DefaultGFBRUL = defaultAdaptiveGFBR, qd_DefaultGFBRDL = defaultAdaptiveGFBR,
          qd_OverrideMBRUL = requiredUL, qd_OverrideMBRDL = requiredDL,
          qd_DurationMs = DeadlineMsOrBurstDurationMs r,
          qd_RequestedTrafficPattern = ar_TrafficPattern r,
          qd_RequestedLatencySensitivity = ar_LatencySensitivity r,
          qd_RequestedPacketLossTolerance = ar_PacketLossTolerance r,
          qd_RequestedBurstSize = ar_BurstSize r,
          qd_RequestedBurstDurationMs = storyDurationMs (ar_BurstDuration r) (ar_BurstDurationMs r),
          qd_RequestedDeadlineMs = storyDurationMs (ar_Deadline r) (ar_DeadlineMs r),
          qd_RequestedPriority = inferBurstPriority r,
          qd_RequestedBitrateDL = rateFromBurst (ar_BurstSize r) windowMs,
          qd_RequestedBitrateUL = rateFromBurst (ar_BurstSize r div 8) windowMs,
          qd_RequestedArrivalTime = expectedArrivalTime r,
          qd_DefaultProfileID = defaultAdaptiveProfileID\<rparr>)"

definition adaptiveRuleMatches :: "AdaptiveQoSRule \<Rightarrow> AdaptiveReport \<Rightarrow> bool" where
  "adaptiveRuleMatches rule r \<longleftrightarrow>
     (rule_TrafficPattern rule = '''' \<or> strings_EqualFold (rule_TrafficPattern rule) (ar_TrafficPattern r)) \<and>
     (rule_LatencySensitivity rule = '''' \<or> strings_EqualFold (rule_LatencySensitivity rule) (ar_LatencySensitivity r)) \<and>
     (rule_PacketLossTolerance rule = '''' \<or> strings_EqualFold (rule_PacketLossTolerance rule) (ar_PacketLossTolerance r))"

definition defaultAdaptiveDuration :: "AdaptiveQoSConfig option \<Rightarrow> duration" where
  "defaultAdaptiveDuration cfg =
     (case cfg of
        None \<Rightarrow> 30 * 10 ^ 9
      | Some c \<Rightarrow>
          (case aq_Authorization c of
             None \<Rightarrow> 30 * 10 ^ 9
           | Some a \<Rightarrow>
               if auth_DefaultProfileDuration a \<le> 0 then 30 * 10 ^ 9 else auth_DefaultProfileDuration a))"

definition selectAdaptiveProfile ::
  "AdaptiveQoSConfig option \<Rightarrow> AdaptiveReport \<Rightarrow> adaptiveCPProvisionedRange option \<Rightarrow> AdaptiveProfile \<times> string" where
  "selectAdaptiveProfile cfg r cp =
     (if ar_Scenario r = ''predictive-burst'' then
        (let dec = derivePredictiveBurstDecision r cp in
         (\<lparr>ap_ProfileID = qd_SelectedProfileID dec, ap_OverrideGateUL = qd_OverrideGateUL dec,
           ap_OverrideGateDL = qd_OverrideGateDL dec, ap_OverrideGFBRUL = qd_OverrideGFBRUL dec,
           ap_OverrideGFBRDL = qd_OverrideGFBRDL dec, ap_OverrideMBRUL = qd_OverrideMBRUL dec,
           ap_OverrideMBRDL = qd_OverrideMBRDL dec, ap_Duration = ms_duration (qd_DurationMs dec)\<rparr>,
          qd_DecisionReason dec))
      else case find (\<lambda>rule. adaptiveRuleMatches rule r) (case cfg of None \<Rightarrow> [] | Some c \<Rightarrow> aq_Rules c) of
        Some rule \<Rightarrow>
          (let name = (if rule_Name rule = '''' then ''adaptive-rule'' else rule_Name rule) in
           (\<lparr>ap_ProfileID = name, ap_OverrideGateUL = rule_OverrideGateUL rule,
             ap_OverrideGateDL = rule_OverrideGateDL rule, ap_OverrideGFBRUL = rule_TargetGFBRUL rule,
             ap_OverrideGFBRDL = rule_TargetGFBRDL rule, ap_OverrideMBRUL = rule_OverrideMBRUL rule,
             ap_OverrideMBRDL = rule_OverrideMBRDL rule, ap_Duration = rule_Duration rule\<rparr>,
            ''matched-rule='' @ name))
      | None \<Rightarrow>
          (\<lparr>ap_ProfileID = ''adaptive-default'', ap_OverrideGateUL = Some True, ap_OverrideGateDL = Some True,
            ap_OverrideGFBRUL = 1000000, ap_OverrideGFBRDL = 1000000, ap_OverrideMBRUL = 1000000,
            ap_OverrideMBRDL = 1000000, ap_Duration = defaultAdaptiveDuration cfg\<rparr>,
           ''fallback=adaptive-default''))"

text \<open>The QERs the PDRs of the session name, each once; all QERs when there is none.\<close>

definition collect_step :: "SessionState \<Rightarrow> u32 list \<Rightarrow> u32 \<Rightarrow> u32 list" where
  "collect_step sess out qid =
     (if sess_QERs sess qid = None \<or> qid \<in> set out then out else out @ [qid])"

definition collectAdaptiveQERIDs :: "ranges \<Rightarrow> SessionState \<Rightarrow> u32 list" where
  "collectAdaptiveQERIDs R sess =
     (let out = foldl (\<lambda>out pid. case sess_PDRs sess pid of
                  None \<Rightarrow> out
                | Some pdr \<Rightarrow> foldl (collect_step sess) out (pdr_QERIDs pdr))
                [] (rng16 R (dom (sess_PDRs sess)))
      in if out = [] then foldl (collect_step sess) [] (rng32 R (dom (sess_QERs sess))) else out)"

definition flowQoSDecision :: "AdaptiveFlowState \<Rightarrow> adaptiveQoSDecisionView option" where
  "flowQoSDecision flow =
     (case af_SelectedProfile flow of
        None \<Rightarrow> None
      | Some p \<Rightarrow>
          let r = af_LatestReport flow in
          Some \<lparr>qd_SelectedProfileID = ap_ProfileID p, qd_PreviousProfileID = af_PreviousProfileID flow,
            qd_DecisionReason = af_DecisionReason flow, qd_AppliedQERIDs = af_AppliedQERIDs flow,
            qd_OverrideGateUL = ap_OverrideGateUL p, qd_OverrideGateDL = ap_OverrideGateDL p,
            qd_OverrideGFBRUL = ap_OverrideGFBRUL p, qd_OverrideGFBRDL = ap_OverrideGFBRDL p,
            qd_DefaultGFBRUL = defaultAdaptiveGFBR, qd_DefaultGFBRDL = defaultAdaptiveGFBR,
            qd_OverrideMBRUL = ap_OverrideMBRUL p, qd_OverrideMBRDL = ap_OverrideMBRDL p,
            qd_DurationMs = storyDurationMs (ap_Duration p) 0,
            qd_RequestedTrafficPattern = ar_TrafficPattern r,
            qd_RequestedLatencySensitivity = ar_LatencySensitivity r,
            qd_RequestedPacketLossTolerance = ar_PacketLossTolerance r,
            qd_RequestedBurstSize = ar_BurstSize r,
            qd_RequestedBurstDurationMs = storyDurationMs (ar_BurstDuration r) (ar_BurstDurationMs r),
            qd_RequestedDeadlineMs = storyDurationMs (ar_Deadline r) (ar_DeadlineMs r),
            qd_RequestedPriority = inferBurstPriority r,
            qd_RequestedBitrateDL = rateFromBurst (ar_BurstSize r) (DeadlineMsOrBurstDurationMs r),
            qd_RequestedBitrateUL = rateFromBurst (ar_BurstSize r div 8) (DeadlineMsOrBurstDurationMs r),
            qd_RequestedArrivalTime = expectedArrivalTime r,
            qd_DefaultProfileID = defaultAdaptiveProfileID\<rparr>)"

section \<open>Lemmas\<close>

lemma addAdaptiveTrace_frame [simp]:
  "d_sessions (addAdaptiveTraceLocked now e d) = d_sessions d"
  "d_handler (addAdaptiveTraceLocked now e d) = d_handler d"
  "d_snapshot (addAdaptiveTraceLocked now e d) = d_snapshot d"
  "d_stats (addAdaptiveTraceLocked now e d) = d_stats d"
  "d_pendingDDN (addAdaptiveTraceLocked now e d) = d_pendingDDN d"
  "d_adaptiveQoS (addAdaptiveTraceLocked now e d) = d_adaptiveQoS d"
  "d_reports (addAdaptiveTraceLocked now e d) = d_reports d"
  "d_egress (addAdaptiveTraceLocked now e d) = d_egress d"
  by (simp_all add: addAdaptiveTraceLocked_def)

lemma emitCP_frame:
  "emitCPProvisionedTraceLocked E now sess d = (sess', d') \<Longrightarrow>
     (\<exists>c. sess' = sess\<lparr>sess_LastCPProvisioned := c\<rparr>) \<and> d_sessions d' = d_sessions d \<and>
     d_handler d' = d_handler d \<and> d_snapshot d' = d_snapshot d \<and> d_stats d' = d_stats d \<and>
     d_pendingDDN d' = d_pendingDDN d \<and> d_reports d' = d_reports d \<and> d_egress d' = d_egress d"
  by (auto simp: emitCPProvisionedTraceLocked_def Let_def split: if_splits intro: exI [of _ "sess_LastCPProvisioned sess"])

lemma collect_step_props:
  "distinct out \<Longrightarrow> distinct (collect_step sess out q)"
  "set out \<subseteq> dom (sess_QERs sess) \<Longrightarrow> set (collect_step sess out q) \<subseteq> dom (sess_QERs sess)"
  by (auto simp: collect_step_def)

lemma collect_loop_props:
  assumes "distinct out \<and> set out \<subseteq> dom (sess_QERs sess)"
  shows "distinct (foldl (collect_step sess) out qs) \<and> set (foldl (collect_step sess) out qs) \<subseteq> dom (sess_QERs sess)"
  using assms
  by (rule foldl_invariant [where P = "\<lambda>out. distinct out \<and> set out \<subseteq> dom (sess_QERs sess)"])
     (simp add: collect_step_props)

end
