(* ===== verification/Subscriptions.thy ===== *)
theory Subscriptions
  imports Factory Adaptive_Profile
begin

text \<open>
  The service based interface: the context of the function (\<^verbatim>\<open>internal/context/context.go\<close>), the processor of event
  subscriptions (\<^verbatim>\<open>internal/sbi/processor/processor.go\<close>), the handlers of the HTTP server (\<^verbatim>\<open>internal/sbi/server.go\<close>) and the
  registration with the network repository (\<^verbatim>\<open>internal/sbi/consumer/nrf_service.go\<close>). Requests are given decoded, or \<open>None\<close> when
  they are not valid JSON; parsing of URIs, identifiers and the answers of the repository are parameters. Every operation
  runs under the lock of the context.
\<close>

section \<open>Data\<close>

definition EventTypeQosMonitoring :: string where
  "EventTypeQosMonitoring = ''QOS_MONITORING''"

record EventSubscriptionOptions =
  eo_Trigger :: string
  eo_MaxReports :: "32 word"
  eo_Expiry :: "gotime option"

text \<open>Of the monitoring data the code reads the requested parameters only.\<close>

record SbiEvent =
  se_Type :: string
  se_ImmediateFlag :: bool
  se_QosMon :: "string list option"

record EventSubscription =
  es_EventList :: "SbiEvent list"
  es_EventNotifyURI :: string
  es_NotifyCorrelationID :: string
  es_NfID :: string
  es_Options :: "EventSubscriptionOptions option"

record SubscriptionRecord =
  sub_ID :: string
  sub_CreatedAt :: gotime
  sub_Subscription :: "EventSubscription option"

record NfService =
  nfs_ServiceInstanceId :: string
  nfs_ServiceName :: string
  nfs_Scheme :: string
  nfs_Ipv4Address :: string
  nfs_Port :: "32 word"
  nfs_ApiPrefix :: string

record UPFContext =
  ctx_NfID :: string
  ctx_NrfURI :: string
  ctx_NrfCertPem :: string
  ctx_OAuth2Required :: bool
  ctx_Scheme :: string
  ctx_RegisterIPv4 :: string
  ctx_BindingIPv4 :: string
  ctx_SBIPort :: int
  ctx_RecoveryTime :: gotime
  ctx_NfServices :: "string \<rightharpoonup> NfService"
  ctx_subscriptions :: "string \<rightharpoonup> SubscriptionRecord"
  ctx_nextSubID :: u64

record ProblemDetails =
  pd_Status :: nat
  pd_Cause :: string
  pd_Detail :: string
  pd_Title :: string

record sbi_env =
  sb_ParseRequestURI :: "string \<Rightarrow> error option"
  sb_UriScheme_HTTP :: string
  sb_uuid :: string

section \<open>The context\<close>

definition UpfEventExposureResURI :: string where
  "UpfEventExposureResURI = ''/nupf-event-exposure/v1''"

definition nf_service :: "UPFContext \<Rightarrow> string \<Rightarrow> NfService" where
  "nf_service c serviceName =
     \<lparr>nfs_ServiceInstanceId = serviceName @ ''-'' @ ctx_NfID c, nfs_ServiceName = serviceName, nfs_Scheme = ctx_Scheme c,
      nfs_Ipv4Address = ctx_RegisterIPv4 c, nfs_Port = of_int (ctx_SBIPort c),
      nfs_ApiPrefix = ctx_Scheme c @ ''://'' @ ctx_RegisterIPv4 c @ '':'' @ dec_int (ctx_SBIPort c) @ UpfEventExposureResURI\<rparr>"

text \<open>\<open>Init\<close> also writes the identifier it makes up into the configuration.\<close>

definition Init :: "sbi_env \<Rightarrow> gotime \<Rightarrow> Config \<Rightarrow> UPFContext \<Rightarrow> Config \<times> UPFContext" where
  "Init E now cfg c =
     (let cfg = cfg\<lparr>c_NfInstanceID := or_text (sb_uuid E) (c_NfInstanceID cfg)\<rparr>;
          c = c\<lparr>ctx_NfID := c_NfInstanceID cfg, ctx_NrfURI := c_NrfURI cfg, ctx_NrfCertPem := c_NrfCertPem cfg,
            ctx_Scheme := GetSbiScheme (sb_UriScheme_HTTP E) cfg, ctx_RecoveryTime := now, ctx_NfServices := Map.empty,
            ctx_subscriptions := Map.empty, ctx_nextSubID := 0\<rparr>
      in case c_Sbi cfg of
           None \<Rightarrow> (cfg, c)
         | Some s \<Rightarrow>
             let c = c\<lparr>ctx_RegisterIPv4 := sbi_RegisterIPv4 s, ctx_BindingIPv4 := sbi_BindingIPv4 s, ctx_SBIPort := sbi_Port s\<rparr>
             in (cfg, foldl (\<lambda>c n. c\<lparr>ctx_NfServices := (ctx_NfServices c)(n \<mapsto> nf_service c n)\<rparr>) c (c_ServiceNameList cfg)))"

definition nextID :: "UPFContext \<Rightarrow> string \<times> UPFContext" where
  "nextID c = (let c = c\<lparr>ctx_nextSubID := ctx_nextSubID c + 1\<rparr> in (dec_string (unat (ctx_nextSubID c)), c))"

definition SaveSubscription :: "gotime \<Rightarrow> EventSubscription option \<Rightarrow> UPFContext \<Rightarrow> SubscriptionRecord \<times> UPFContext" where
  "SaveSubscription now subscription c =
     (let (i, c) = nextID c;
          record = \<lparr>sub_ID = i, sub_CreatedAt = now, sub_Subscription = subscription\<rparr>
      in (record, c\<lparr>ctx_subscriptions := (ctx_subscriptions c)(i \<mapsto> record)\<rparr>))"

definition isExpired :: "gotime \<Rightarrow> EventSubscription option \<Rightarrow> bool" where
  "isExpired now subscription =
     (case subscription of
        None \<Rightarrow> False
      | Some s \<Rightarrow> (case es_Options s of
          None \<Rightarrow> False
        | Some opt \<Rightarrow> (case eo_Expiry opt of None \<Rightarrow> False | Some t \<Rightarrow> t < now)))"

definition FindSubscription :: "gotime \<Rightarrow> string \<Rightarrow> UPFContext \<Rightarrow> SubscriptionRecord option \<times> UPFContext" where
  "FindSubscription now i c =
     (case ctx_subscriptions c i of
        None \<Rightarrow> (None, c)
      | Some record \<Rightarrow>
          if isExpired now (sub_Subscription record)
          then (None, c\<lparr>ctx_subscriptions := (ctx_subscriptions c)(i := None)\<rparr>)
          else (Some record, c))"

definition UpdateSubscription :: "string \<Rightarrow> EventSubscription option \<Rightarrow> UPFContext \<Rightarrow> SubscriptionRecord option \<times> UPFContext" where
  "UpdateSubscription i subscription c =
     (case ctx_subscriptions c i of
        None \<Rightarrow> (None, c)
      | Some record \<Rightarrow>
          let record = record\<lparr>sub_Subscription := subscription\<rparr>
          in (Some record, c\<lparr>ctx_subscriptions := (ctx_subscriptions c)(i \<mapsto> record)\<rparr>))"

definition DeleteSubscription :: "string \<Rightarrow> UPFContext \<Rightarrow> bool \<times> UPFContext" where
  "DeleteSubscription i c =
     (if ctx_subscriptions c i = None then (False, c)
      else (True, c\<lparr>ctx_subscriptions := (ctx_subscriptions c)(i := None)\<rparr>))"

section \<open>The processor\<close>

definition badRequest :: "string \<Rightarrow> string \<Rightarrow> ProblemDetails" where
  "badRequest cause detail = \<lparr>pd_Status = 400, pd_Cause = cause, pd_Detail = detail, pd_Title = ''Malformed request''\<rparr>"

definition unsupported :: "string \<Rightarrow> string \<Rightarrow> ProblemDetails" where
  "unsupported cause detail = \<lparr>pd_Status = 501, pd_Cause = cause, pd_Detail = detail, pd_Title = ''Feature not supported''\<rparr>"

definition notFound :: "string \<Rightarrow> string \<Rightarrow> ProblemDetails" where
  "notFound cause detail = \<lparr>pd_Status = 404, pd_Cause = cause, pd_Detail = detail, pd_Title = ''Not found''\<rparr>"

definition supported_params :: "string list" where
  "supported_params = []"

fun validate_params :: "string list \<Rightarrow> ProblemDetails option" where
  "validate_params [] = None"
| "validate_params (param # ps) =
     (if \<not> List.member supported_params param
      then Some (unsupported ''QOS_MONITORING_PARAM_NOT_SUPPORTED''
        ''requested QoS monitoring parameters are not supported by the current UPF datapath'')
      else validate_params ps)"

fun validate_events :: "SbiEvent list \<Rightarrow> ProblemDetails option" where
  "validate_events [] = None"
| "validate_events (event # es) =
     (if se_Type event \<noteq> EventTypeQosMonitoring
      then Some (unsupported ''EVENT_NOT_SUPPORTED'' ''only QOS_MONITORING is supported'')
      else case se_QosMon event of
        None \<Rightarrow> Some (badRequest ''QOS_MONITORING_DATA_MISSING'' ''qosMon is required for QOS_MONITORING'')
      | Some params \<Rightarrow>
          if params = [] then Some (badRequest ''QOS_MONITORING_PARAMS_MISSING'' ''reqQosMonParams must not be empty'')
          else (case validate_params params of Some p \<Rightarrow> Some p | None \<Rightarrow> validate_events es))"

definition validateSubscription :: "sbi_env \<Rightarrow> EventSubscription \<Rightarrow> ProblemDetails option" where
  "validateSubscription E s =
     (if es_EventList s = [] then Some (badRequest ''EVENT_LIST_EMPTY'' ''eventList is required'')
      else if sb_ParseRequestURI E (es_EventNotifyURI s) \<noteq> None
      then Some (badRequest ''INVALID_NOTIFY_URI'' ''eventNotifyUri must be a valid absolute URI'')
      else validate_events (es_EventList s))"

definition empty_problem :: ProblemDetails where
  "empty_problem = badRequest ''SUBSCRIPTION_EMPTY'' ''subscription is required''"

definition missing_problem :: ProblemDetails where
  "missing_problem = notFound ''SUBSCRIPTION_NOT_FOUND'' ''subscription not found''"

definition CreateSubscription ::
  "sbi_env \<Rightarrow> gotime \<Rightarrow> EventSubscription option \<Rightarrow> UPFContext \<Rightarrow> (ProblemDetails + SubscriptionRecord) \<times> UPFContext" where
  "CreateSubscription E now req c =
     (case req of
        None \<Rightarrow> (Inl empty_problem, c)
      | Some s \<Rightarrow> (case validateSubscription E s of
          Some p \<Rightarrow> (Inl p, c)
        | None \<Rightarrow> (let (record, c) = SaveSubscription now req c in (Inr record, c))))"

definition GetSubscription :: "gotime \<Rightarrow> string \<Rightarrow> UPFContext \<Rightarrow> (ProblemDetails + SubscriptionRecord) \<times> UPFContext" where
  "GetSubscription now i c =
     (case FindSubscription now i c of (None, c) \<Rightarrow> (Inl missing_problem, c) | (Some record, c) \<Rightarrow> (Inr record, c))"

definition ModifySubscription ::
  "sbi_env \<Rightarrow> string \<Rightarrow> EventSubscription option \<Rightarrow> UPFContext \<Rightarrow> (ProblemDetails + SubscriptionRecord) \<times> UPFContext" where
  "ModifySubscription E i req c =
     (case req of
        None \<Rightarrow> (Inl empty_problem, c)
      | Some s \<Rightarrow> (case validateSubscription E s of
          Some p \<Rightarrow> (Inl p, c)
        | None \<Rightarrow> (case UpdateSubscription i req c of
            (None, c) \<Rightarrow> (Inl missing_problem, c)
          | (Some record, c) \<Rightarrow> (Inr record, c))))"

definition Processor_DeleteSubscription :: "string \<Rightarrow> UPFContext \<Rightarrow> ProblemDetails option \<times> UPFContext" where
  "Processor_DeleteSubscription i c =
     (case DeleteSubscription i c of (False, c) \<Rightarrow> (Some missing_problem, c) | (True, c) \<Rightarrow> (None, c))"

section \<open>The handlers\<close>

text \<open>A request with its decoded body; the answer is the status code.\<close>

datatype sbi_request =
    PostSubscription "EventSubscription option option"
  | GetSub string
  | PatchSubscription string "EventSubscription option option"
  | DeleteSub string

definition respond :: "nat \<Rightarrow> (ProblemDetails + SubscriptionRecord) \<times> UPFContext \<Rightarrow> nat \<times> UPFContext" where
  "respond code r = (case r of (Inl p, c) \<Rightarrow> (pd_Status p, c) | (Inr _, c) \<Rightarrow> (code, c))"

fun handle :: "sbi_env \<Rightarrow> gotime \<Rightarrow> sbi_request \<Rightarrow> UPFContext \<Rightarrow> nat \<times> UPFContext" where
  "handle E now (PostSubscription None) c = (400, c)"
| "handle E now (PostSubscription (Some req)) c = respond 201 (CreateSubscription E now req c)"
| "handle E now (GetSub i) c = respond 200 (GetSubscription now i c)"
| "handle E now (PatchSubscription i None) c = (400, c)"
| "handle E now (PatchSubscription i (Some req)) c = respond 200 (ModifySubscription E i req c)"
| "handle E now (DeleteSub i) c =
     (case Processor_DeleteSubscription i c of (Some p, c) \<Rightarrow> (pd_Status p, c) | (None, c) \<Rightarrow> (204, c))"

section \<open>Registration\<close>

text \<open>The answer of the repository: the flag \<open>oauth2\<close>, if it is there, and the location.\<close>

record nrf_response =
  nr_oauth2 :: "bool option"
  nr_Location :: string

record NfProfile =
  np_NfInstanceId :: string
  np_Ipv4Addresses :: "string list"
  np_NfServices :: "NfService list option"

text \<open>The fields of the profile that are the same for every instance are left out; \<open>ks\<close> is the order in which Go visits the map.\<close>

definition BuildNFProfile :: "string list \<Rightarrow> UPFContext \<Rightarrow> NfProfile" where
  "BuildNFProfile ks c =
     \<lparr>np_NfInstanceId = ctx_NfID c, np_Ipv4Addresses = [ctx_RegisterIPv4 c],
      np_NfServices = (let services = List.map_filter (ctx_NfServices c) ks in if services = [] then None else Some services)\<rparr>"

fun strings_Cut :: "string \<Rightarrow> string \<Rightarrow> (string \<times> string) option" where
  "strings_Cut sep s =
     (if take (length sep) s = sep then Some ([], drop (length sep) s)
      else case s of [] \<Rightarrow> None | x # xs \<Rightarrow> map_option (\<lambda>(a, b). (x # a, b)) (strings_Cut sep xs))"

text \<open>\<open>nrf\<close> is the client of the repository: what it answers when the profile is put under a base path.\<close>

definition RegisterNFInstance ::
  "(string \<Rightarrow> NfProfile \<Rightarrow> nrf_response option res) \<Rightarrow> string list \<Rightarrow> UPFContext \<Rightarrow> error option \<times> UPFContext" where
  "RegisterNFInstance nrf ks c =
     (if ctx_NrfURI c = '''' then (None, c)
      else case nrf (ctx_NrfURI c) (BuildNFProfile ks c) of
        Inl err \<Rightarrow> (Some err, c)
      | Inr None \<Rightarrow> (None, c)
      | Inr (Some r) \<Rightarrow>
          let c = (case nr_oauth2 r of None \<Rightarrow> c | Some b \<Rightarrow> c\<lparr>ctx_OAuth2Required := b\<rparr>);
              c = (if nr_Location r = '''' then c
                   else case strings_Cut ''/nnrf-nfm/'' (nr_Location r) of None \<Rightarrow> c | Some (uri, _) \<Rightarrow> c\<lparr>ctx_NrfURI := uri\<rparr>)
          in (None, c))"

definition DeregisterNFInstance :: "(string \<Rightarrow> string \<Rightarrow> error option) \<Rightarrow> UPFContext \<Rightarrow> error option" where
  "DeregisterNFInstance nrf c = (if ctx_NrfURI c = '''' \<or> ctx_NfID c = '''' then None else nrf (ctx_NrfURI c) (ctx_NfID c))"

section \<open>The store of subscriptions\<close>

text \<open>
  What a store that hands out keys promises: a record saved gets a new key, is found under it and displaces nothing, as
  long as there is room for it; deleting takes out exactly one record.
\<close>

fun save_all :: "('s \<Rightarrow> 'c \<Rightarrow> 'r \<times> 'c) \<Rightarrow> 's list \<Rightarrow> 'c \<Rightarrow> 'r list \<times> 'c" where
  "save_all save [] c = ([], c)"
| "save_all save (s # ss) c = (let (r, c) = save s c; (rs, c) = save_all save ss c in (r # rs, c))"

locale record_store =
  fixes look :: "'c \<Rightarrow> string \<Rightarrow> 'r option"
    and save :: "'s \<Rightarrow> 'c \<Rightarrow> 'r \<times> 'c"
    and del :: "string \<Rightarrow> 'c \<Rightarrow> bool \<times> 'c"
    and key :: "'r \<Rightarrow> string"
    and content :: "'r \<Rightarrow> 's"
    and room :: "nat \<Rightarrow> 'c \<Rightarrow> bool"
  assumes save_new: "room (Suc n) c \<Longrightarrow> save s c = (r, c') \<Longrightarrow>
      look c (key r) = None \<and> content r = s \<and> look c' = (look c)(key r \<mapsto> r) \<and> room n c'"
    and del_one: "del i c = (b, c') \<Longrightarrow> b = (look c i \<noteq> None) \<and> look c' = (look c)(i := None)"
begin

lemma save_all_found:
  "room (length ss) c \<Longrightarrow> save_all save ss c = (rs, c') \<Longrightarrow>
     map content rs = ss \<and> distinct (map key rs) \<and> (\<forall>r \<in> set rs. look c (key r) = None)
     \<and> look c' = look c ++ map_of (map (\<lambda>r. (key r, r)) rs)"
proof (induction ss arbitrary: c rs)
  case (Cons s ss)
  obtain r c1 where r: "save s c = (r, c1)" by fastforce
  obtain rs1 where rs1: "save_all save ss c1 = (rs1, c')" "rs = r # rs1"
    using Cons.prems(2) r by (auto split: prod.splits)
  have new: "look c (key r) = None" "content r = s" "look c1 = (look c)(key r \<mapsto> r)" "room (length ss) c1"
    using save_new [OF _ r, of "length ss"] Cons.prems(1) by auto
  note IH = Cons.IH [OF new(4) rs1(1)]
  have out: "key r \<notin> key ` set rs1" using IH new(3) by (metis fun_upd_same image_iff option.distinct(1))
  moreover have "look c (key q) = None" if "q \<in> set rs1" for q
    using IH new(1,3) that by (metis fun_upd_apply option.distinct(1))
  moreover have "map_of (map (\<lambda>r. (key r, r)) rs1) (key r) = None"
    using out by (auto simp: map_of_eq_None_iff)
  ultimately show ?case using IH new rs1(2)
    by (auto simp: map_add_def fun_eq_iff split: option.splits)
qed simp

lemma save_del: "room (Suc n) c \<Longrightarrow> save s c = (r, c1) \<Longrightarrow> del (key r) c1 = (b, c2) \<Longrightarrow> b \<and> look c2 = look c"
  using save_new [of n c s r c1] del_one [of "key r" c1 b c2] by auto

end

text \<open>Identifiers are those of a counter, which has not wrapped.\<close>

definition sub_room :: "nat \<Rightarrow> UPFContext \<Rightarrow> bool" where
  "sub_room n c = (unat (ctx_nextSubID c) + n < 2 ^ 64
     \<and> (\<forall>i \<in> dom (ctx_subscriptions c). \<exists>k \<le> unat (ctx_nextSubID c). i = dec_string k))"

lemma unat_plus_one64: "unat (w :: u64) + Suc n < 2 ^ 64 \<Longrightarrow> unat (w + 1) = Suc (unat w)"
  by (simp add: unat_word_ariths)

lemma SaveSubscription_new:
  assumes "sub_room (Suc n) c" and "SaveSubscription now s c = (r, c')"
  shows "ctx_subscriptions c (sub_ID r) = None \<and> sub_Subscription r = s
    \<and> ctx_subscriptions c' = (ctx_subscriptions c)(sub_ID r \<mapsto> r) \<and> sub_room n c'"
proof -
  let ?i = "dec_string (Suc (unat (ctx_nextSubID c)))"
  have cnt: "unat (ctx_nextSubID c + 1) = Suc (unat (ctx_nextSubID c))"
    using assms(1) unat_plus_one64 by (auto simp: sub_room_def)
  then have r: "r = \<lparr>sub_ID = ?i, sub_CreatedAt = now, sub_Subscription = s\<rparr>"
    and c': "c' = c\<lparr>ctx_nextSubID := ctx_nextSubID c + 1, ctx_subscriptions := (ctx_subscriptions c)(?i \<mapsto> r)\<rparr>"
    using assms(2) by (auto simp: SaveSubscription_def nextID_def Let_def simp del: dec_string.simps)
  have "ctx_subscriptions c ?i = None"
    using assms(1) dec_string_inj [of "Suc (unat (ctx_nextSubID c))"] by (fastforce simp: sub_room_def dom_def simp del: dec_string.simps)
  moreover have "sub_room n c'"
    using assms(1) cnt by (auto simp: sub_room_def c' simp del: dec_string.simps intro: le_SucI)
  ultimately show ?thesis by (simp add: r c' del: dec_string.simps)
qed

interpretation subs: record_store ctx_subscriptions "SaveSubscription now" DeleteSubscription sub_ID sub_Subscription sub_room
  for now
  by unfold_locales (blast dest: SaveSubscription_new, auto simp: DeleteSubscription_def split: if_splits)

lemma add_services_keep:
  "ctx_subscriptions (foldl (\<lambda>c n. c\<lparr>ctx_NfServices := (ctx_NfServices c)(n \<mapsto> nf_service c n)\<rparr>) c ns) = ctx_subscriptions c"
  "ctx_nextSubID (foldl (\<lambda>c n. c\<lparr>ctx_NfServices := (ctx_NfServices c)(n \<mapsto> nf_service c n)\<rparr>) c ns) = ctx_nextSubID c"
  by (induction ns arbitrary: c) auto

lemma Init_no_subscriptions: "ctx_subscriptions (snd (Init E now cfg c)) = Map.empty" "ctx_nextSubID (snd (Init E now cfg c)) = 0"
  by (auto simp: Init_def Let_def add_services_keep split: option.splits)

text \<open>
  After the context is set up, subscriptions that are saved get different identifiers, and each is found again under its
  identifier until it expires; finding it changes nothing.
\<close>

lemma saved_subscriptions_found:
  assumes "length ss < 2 ^ 64" "save_all (SaveSubscription now) ss (snd (Init E t0 cfg c)) = (rs, c')"
    and "r \<in> set rs" "\<not> isExpired t (sub_Subscription r)"
  shows "FindSubscription t (sub_ID r) c' = (Some r, c')" "distinct (map sub_ID rs)"
proof -
  have "sub_room (length ss) (snd (Init E t0 cfg c))" using assms(1)
    by (simp add: sub_room_def Init_no_subscriptions)
  note found = subs.save_all_found [OF this assms(2)]
  then show "distinct (map sub_ID rs)" by simp
  then have "map_of (map (\<lambda>r. (sub_ID r, r)) rs) (sub_ID r) = Some r"
    using assms(3) by (intro map_of_is_SomeI) (auto simp: comp_def)
  then show "FindSubscription t (sub_ID r) c' = (Some r, c')"
    using found assms(4) by (simp add: FindSubscription_def map_add_Some_iff)
qed

section \<open>What the interface answers\<close>

text \<open>Requests in the order in which they get the lock, each with the time at which it is handled.\<close>

fun handle_all :: "sbi_env \<Rightarrow> (gotime \<times> sbi_request) list \<Rightarrow> UPFContext \<Rightarrow> nat list \<times> UPFContext" where
  "handle_all E [] c = ([], c)"
| "handle_all E ((now, r) # rs) c = (let (code, c) = handle E now r c; (codes, c) = handle_all E rs c in (code # codes, c))"

text \<open>The status of a rejected body, read off its first event alone.\<close>

definition rejection :: "sbi_env \<Rightarrow> EventSubscription option option \<Rightarrow> nat" where
  "rejection E body =
     (case body of
        Some (Some s) \<Rightarrow>
          if es_EventList s = [] \<or> sb_ParseRequestURI E (es_EventNotifyURI s) \<noteq> None then 400
          else let event = hd (es_EventList s)
               in if se_Type event = EventTypeQosMonitoring \<and> se_QosMon event \<in> {None, Some []} then 400 else 501
      | _ \<Rightarrow> 400)"

fun request_status :: "sbi_env \<Rightarrow> sbi_request \<Rightarrow> nat" where
  "request_status E (PostSubscription body) = rejection E body"
| "request_status E (PatchSubscription i body) = rejection E body"
| "request_status E (GetSub i) = 404"
| "request_status E (DeleteSub i) = 404"

lemma validate_params_rejects:
  "ps \<noteq> [] \<Longrightarrow> validate_params ps = Some (unsupported ''QOS_MONITORING_PARAM_NOT_SUPPORTED''
     ''requested QoS monitoring parameters are not supported by the current UPF datapath'')"
  by (cases ps) (simp_all add: supported_params_def)

lemma validateSubscription_rejects:
  "\<exists>p. validateSubscription E s = Some p \<and> pd_Status p = rejection E (Some (Some s))"
  by (cases "es_EventList s")
    (auto simp: validateSubscription_def rejection_def badRequest_def unsupported_def validate_params_rejects Let_def split: option.splits)

lemma CreateSubscription_rejects:
  "respond 201 (CreateSubscription E now req c) = (rejection E (Some req), c)"
proof (cases req)
  case (Some s)
  then show ?thesis using validateSubscription_rejects [of E s] by (auto simp: CreateSubscription_def respond_def)
qed (simp add: CreateSubscription_def respond_def empty_problem_def badRequest_def rejection_def)

lemma ModifySubscription_rejects:
  "respond 200 (ModifySubscription E i req c) = (rejection E (Some req), c)"
proof (cases req)
  case (Some s)
  then show ?thesis using validateSubscription_rejects [of E s] by (auto simp: ModifySubscription_def respond_def)
qed (simp add: ModifySubscription_def respond_def empty_problem_def badRequest_def rejection_def)

lemma empty_store_misses:
  assumes "ctx_subscriptions c = Map.empty"
  shows "respond code (GetSubscription now i c) = (404, c)" "Processor_DeleteSubscription i c = (Some missing_problem, c)"
  using assms by (simp_all add: GetSubscription_def FindSubscription_def Processor_DeleteSubscription_def DeleteSubscription_def
    respond_def missing_problem_def notFound_def)

lemma handle_empty: "ctx_subscriptions c = Map.empty \<Longrightarrow> handle E now r c = (request_status E r, c)"
  by (cases "(E, now, r, c)" rule: handle.cases)
    (simp_all add: CreateSubscription_rejects ModifySubscription_rejects empty_store_misses,
     simp_all add: rejection_def missing_problem_def notFound_def)

text \<open>
  A subscription that has expired can still be modified, while reading it deletes it: \<open>UpdateSubscription\<close> does not look at the
  time.
\<close>

lemma update_revives_expired:
  assumes "ctx_subscriptions c i = Some r" "isExpired t (sub_Subscription r)" "\<not> isExpired t s"
  shows "fst (FindSubscription t i c) = None"
    and "fst (FindSubscription t i (snd (UpdateSubscription i s c))) = Some (r\<lparr>sub_Subscription := s\<rparr>)"
  using assms by (auto simp: FindSubscription_def UpdateSubscription_def Let_def)

text \<open>
  C35. The event exposure interface accepts no subscription: whatever requests arrive after \<open>Init\<close>, each creation and each
  modification is answered 400 or 501 as the first event of its body says, each query and each deletion is answered 404,
  and the context stays exactly as \<open>Init\<close> left it.
\<close>

theorem no_subscription_accepted:
  "handle_all E rs (snd (Init E now cfg c)) = (map (request_status E \<circ> snd) rs, snd (Init E now cfg c))"
  by (induction rs) (auto simp: handle_empty Init_no_subscriptions)

end
