(* ===== verification/Resources.thy ===== *)
theory Resources
  imports Factory
begin

text \<open>
  Opening and closing: which sockets, devices and connections the forwarders hold. \<open>NewDriver\<close> of
  \<^verbatim>\<open>internal/forwarder/driver.go\<close>, \<open>OpenGtp5gLink\<close>, \<open>OpenGtp5g\<close> with \<open>checkVersion\<close>, \<open>OpenServer\<close> of
  \<^verbatim>\<open>buffnetlink\<close>, the UDP and TUN backend of \<^verbatim>\<open>userspace\<close> and the start of its adaptive QoS controller. The operating
  system and the libraries are an oracle that says which call fails; a state is the set of what is held. Goroutines,
  which end with what they read from, are not counted, and closing never fails.
\<close>

section \<open>The operating system\<close>

datatype resource =
    UdpConn | TunFd | TunSocket | RouteConn | NlMux
  | LinkFile | LinkDevice | GtpConn | PsConn | BuffConn | BuffHandler | PerioServer
  | ReportConn | MasqueConn | DebugListener

datatype syscall =
    ResolveUDPAddr string | ListenUDP string | NlOpenRoute | NewMux
  | OpenDevNetTun | TUNSETIFF string | TUNSETOFFLOAD | LinkUp string | NewSocket | SIOCSIFMTU u32 | ParseCIDR string | CreateRoute string
  | ConnToFile | LinkCreate u32 | GetLink | NlOpenGeneric | NewClient | NlOpenPs | NewPsClient | GetVersionCall
  | GetFamily | NlOpenGroup | PushHandler | OpenPerio
  | MakeTLSConfig | ListenReport string int | ListenMasque string int | ListenDebug string int

text \<open>
  \<open>os_fails\<close> is the error of a call, if it fails. \<open>os_tunName\<close> is the name the kernel gives the device, NUL terminated;
  versions are compared by the library \<^verbatim>\<open>go-version\<close>, which reads a text or fails.
\<close>

record os_api =
  os_fails :: "syscall \<Rightarrow> error option"
  os_tunName :: "string \<Rightarrow> string"
  os_gtp5gVersion :: string
  os_NewVersion :: "string \<Rightarrow> nat res"

type_synonym held = "resource set"

section \<open>The TUN device\<close>

definition openTUN :: "os_api \<Rightarrow> string \<Rightarrow> held \<Rightarrow> string res \<times> held" where
  "openTUN OS name H =
     (case os_fails OS OpenDevNetTun of
        Some e \<Rightarrow> (Inl e, H)
      | None \<Rightarrow>
          let H = insert TunFd H in
          (case os_fails OS (TUNSETIFF name) of
             Some e \<Rightarrow> (Inl e, H - {TunFd})
           | None \<Rightarrow>
               (case os_fails OS TUNSETOFFLOAD of
                  Some e \<Rightarrow> (Inl e, H - {TunFd})
                | None \<Rightarrow> (Inr (takeWhile (\<lambda>c. c \<noteq> char_of (0::nat)) (os_tunName OS name)), H))))"

definition SetMTU :: "os_api \<Rightarrow> u32 \<Rightarrow> held \<Rightarrow> error option \<times> held" where
  "SetMTU OS mtu H =
     (case os_fails OS NewSocket of
        Some e \<Rightarrow> (Some e, H)
      | None \<Rightarrow> (let H = insert TunSocket H in (os_fails OS (SIOCSIFMTU mtu), H - {TunSocket})))"

section \<open>The backend of the userspace forwarder\<close>

text \<open>Which fields are not nil.\<close>

record udpTunBackend =
  bk_udp :: bool
  bk_tun :: bool
  bk_rt :: bool
  bk_mux :: bool

definition backend_close :: "udpTunBackend \<Rightarrow> held \<Rightarrow> held" where
  "backend_close b H =
     (let H = (if bk_udp b then H - {UdpConn} else H);
          H = (if bk_tun b then H - {TunFd} else H);
          H = (if bk_rt b then H - {RouteConn} else H)
      in if bk_mux b then H - {NlMux} else H)"

definition JoinHostPort :: "string \<Rightarrow> string \<Rightarrow> string" where
  "JoinHostPort host port = (if CHR '':'' \<in> set host then ''['' @ host @ '']:'' @ port else host @ '':'' @ port)"

definition bind_addr :: "IfInfo list \<Rightarrow> string" where
  "bind_addr ifaces =
     (case find (\<lambda>i. strings_EqualFold (if_Type i) ''N3'') ifaces of
        None \<Rightarrow> ''''
      | Some i \<Rightarrow> JoinHostPort (if_Addr i) (dec_string (nat UpfGtpDefaultPort_int)))"

definition need_tun :: "DnnList list \<Rightarrow> bool" where
  "need_tun dnns = list_ex (\<lambda>d. dnn_Cidr d \<noteq> '''') dnns"

definition backend_udp :: "os_api \<Rightarrow> string \<Rightarrow> udpTunBackend \<Rightarrow> held \<Rightarrow> udpTunBackend res \<times> held" where
  "backend_udp OS bindAddr b H =
     (case os_fails OS (ResolveUDPAddr bindAddr) of
        Some e \<Rightarrow> (Inl e, backend_close b H)
      | None \<Rightarrow>
          (case os_fails OS (ListenUDP bindAddr) of
             Some e \<Rightarrow> (Inl e, backend_close b H)
           | None \<Rightarrow> (Inr (b\<lparr>bk_udp := True\<rparr>), insert UdpConn H)))"

text \<open>\<open>routeAdd\<close> fills a request and sends it.\<close>

definition routeAdd :: "os_api \<Rightarrow> string \<Rightarrow> error option" where
  "routeAdd OS cidr = os_fails OS (CreateRoute cidr)"

fun add_routes :: "os_api \<Rightarrow> DnnList list \<Rightarrow> error option" where
  "add_routes OS [] = None"
| "add_routes OS (d # ds) =
     (if dnn_Cidr d = '''' then add_routes OS ds
      else case os_fails OS (ParseCIDR (dnn_Cidr d)) of
        Some e \<Rightarrow> Some e
      | None \<Rightarrow> (case routeAdd OS (dnn_Cidr d) of Some e \<Rightarrow> Some e | None \<Rightarrow> add_routes OS ds))"

definition backend_tun :: "os_api \<Rightarrow> options \<Rightarrow> DnnList list \<Rightarrow> udpTunBackend \<Rightarrow> held \<Rightarrow> udpTunBackend res \<times> held" where
  "backend_tun OS opts dnns b H =
     (case os_fails OS NlOpenRoute of
        Some e \<Rightarrow> (Inl e, backend_close b H)
      | None \<Rightarrow>
          let b = b\<lparr>bk_rt := True\<rparr>; H = insert RouteConn H in
          (case os_fails OS NewMux of
             Some e \<Rightarrow> (Inl e, backend_close b H)
           | None \<Rightarrow>
               let b = b\<lparr>bk_mux := True\<rparr>; H = insert NlMux H in
               (case openTUN OS (opt_tunName opts) H of
                  (Inl e, H) \<Rightarrow> (Inl e, backend_close b H)
                | (Inr name, H) \<Rightarrow>
                    let b = b\<lparr>bk_tun := True\<rparr> in
                    (case os_fails OS (LinkUp name) of
                       Some e \<Rightarrow> (Inl e, backend_close b H)
                     | None \<Rightarrow>
                         let (err, H) = (if opt_tunMTU opts \<noteq> 0 then SetMTU OS (opt_tunMTU opts) H else (None, H)) in
                         (case err of
                            Some e \<Rightarrow> (Inl e, backend_close b H)
                          | None \<Rightarrow>
                              (case add_routes OS dnns of
                                 Some e \<Rightarrow> (Inl e, backend_close b H)
                               | None \<Rightarrow> (Inr b, H)))))))"

definition no_backend :: udpTunBackend where
  "no_backend = \<lparr>bk_udp = False, bk_tun = False, bk_rt = False, bk_mux = False\<rparr>"

text \<open>No socket and no device needed: no backend.\<close>

definition newUDPTUNBackend ::
  "os_api \<Rightarrow> options \<Rightarrow> IfInfo list \<Rightarrow> DnnList list \<Rightarrow> held \<Rightarrow> udpTunBackend option res \<times> held" where
  "newUDPTUNBackend OS opts ifaces dnns H =
     (let bindAddr = bind_addr ifaces in
      if bindAddr = '''' \<and> \<not> need_tun dnns then (Inr None, H)
      else
        (case (if bindAddr \<noteq> '''' then backend_udp OS bindAddr no_backend H else (Inr no_backend, H)) of
           (Inl e, H) \<Rightarrow> (Inl e, H)
         | (Inr b, H) \<Rightarrow>
             (case (if need_tun dnns then backend_tun OS opts dnns b H else (Inr b, H)) of
                (Inl e, H) \<Rightarrow> (Inl e, H)
              | (Inr b, H) \<Rightarrow> (Inr (Some b), H))))"

section \<open>The adaptive QoS controller\<close>

record controller_io =
  ci_reportLn :: bool
  ci_masqueLn :: bool
  ci_debugLn :: bool

definition no_controller_io :: controller_io where
  "no_controller_io = \<lparr>ci_reportLn = False, ci_masqueLn = False, ci_debugLn = False\<rparr>"

definition startDebugServer :: "os_api \<Rightarrow> AdaptiveQoS \<Rightarrow> controller_io \<Rightarrow> held \<Rightarrow> error option \<times> controller_io \<times> held" where
  "startDebugServer OS q c H =
     (if aqc_DebugPort q \<le> 0 then (None, c, H)
      else case os_fails OS (ListenDebug (or_text ''0.0.0.0'' (aqc_DebugBindAddress q)) (aqc_DebugPort q)) of
        Some e \<Rightarrow> (Some e, c, H)
      | None \<Rightarrow> (None, c\<lparr>ci_debugLn := True\<rparr>, insert DebugListener H))"

definition controller_start :: "os_api \<Rightarrow> AdaptiveQoS \<Rightarrow> held \<Rightarrow> error option \<times> controller_io \<times> held" where
  "controller_start OS q H =
     (let c = no_controller_io in
      case os_fails OS MakeTLSConfig of
        Some e \<Rightarrow> (Some e, c, H)
      | None \<Rightarrow>
          (case os_fails OS (ListenReport (aqc_ReportBindAddress q) (aqc_ReportPort q)) of
             Some e \<Rightarrow> (Some e, c, H)
           | None \<Rightarrow>
               let c = c\<lparr>ci_reportLn := True\<rparr>; H = insert ReportConn H in
               (case os_fails OS (ListenMasque (aqc_MASQUEBindAddress q) (aqc_MASQUEPort q)) of
                  Some e \<Rightarrow> (Some e, c, H - {ReportConn})
                | None \<Rightarrow> startDebugServer OS q (c\<lparr>ci_masqueLn := True\<rparr>) (insert MasqueConn H))))"

definition controller_close :: "controller_io \<Rightarrow> held \<Rightarrow> held" where
  "controller_close c H =
     (let H = (if ci_masqueLn c then H - {MasqueConn} else H);
          H = (if ci_reportLn c then H - {ReportConn} else H)
      in if ci_debugLn c then H - {DebugListener} else H)"

section \<open>The userspace forwarder\<close>

text \<open>\<open>New\<close> and \<open>Close\<close> of the userspace driver; a controller that could not start is closed with the driver.\<close>

definition userspace_close :: "udpTunBackend option \<times> controller_io option \<Rightarrow> held \<Rightarrow> held" where
  "userspace_close d H =
     (let H = (case fst d of None \<Rightarrow> H | Some b \<Rightarrow> backend_close b H)
      in case snd d of None \<Rightarrow> H | Some c \<Rightarrow> controller_close c H)"

definition userspace_New :: "os_api \<Rightarrow> int \<Rightarrow> Config \<Rightarrow> held \<Rightarrow> (udpTunBackend option \<times> controller_io option) res \<times> held" where
  "userspace_New OS maxprocs cfg H =
     (case c_Gtpu cfg of
        None \<Rightarrow> (Inl (ErrMsg ''no Gtpu config''), H)
      | Some g \<Rightarrow>
          (case newUDPTUNBackend OS (optionsFromConfig maxprocs (Some (gt_Userspace g))) (gt_IfList g) (c_DnnList cfg) H of
             (Inl e, H) \<Rightarrow> (Inl e, H)
           | (Inr io, H) \<Rightarrow>
               (case newAdaptiveQoSController cfg of
                  None \<Rightarrow> (Inr (io, None), H)
                | Some ctl \<Rightarrow>
                    (case controller_start OS (ctl_cfg ctl) H of
                       (Some e, c, H) \<Rightarrow> (Inl e, userspace_close (io, Some c) H)
                     | (None, c, H) \<Rightarrow> (Inr (io, Some c), H)))))"

section \<open>The gtp5g forwarder\<close>

record Gtp5gLink =
  lk_rtconn :: bool
  lk_conn :: bool
  lk_f :: bool
  lk_link :: bool

definition link_Close :: "Gtp5gLink \<Rightarrow> held \<Rightarrow> held" where
  "link_Close g H =
     (let H = (if lk_f g then H - {LinkFile} else H);
          H = (if lk_conn g then H - {UdpConn} else H);
          H = (if lk_link g then H - {LinkDevice} else H)
      in if lk_rtconn g then H - {RouteConn} else H)"

definition OpenGtp5gLink :: "os_api \<Rightarrow> string \<Rightarrow> u32 \<Rightarrow> held \<Rightarrow> Gtp5gLink res \<times> held" where
  "OpenGtp5gLink OS addr mtu H =
     (let g = \<lparr>lk_rtconn = False, lk_conn = False, lk_f = False, lk_link = False\<rparr> in
      case os_fails OS NlOpenRoute of
        Some e \<Rightarrow> (Inl e, H)
      | None \<Rightarrow>
          let g = g\<lparr>lk_rtconn := True\<rparr>; H = insert RouteConn H in
          (case os_fails OS (ResolveUDPAddr addr) of
             Some e \<Rightarrow> (Inl e, link_Close g H)
           | None \<Rightarrow>
               (case os_fails OS (ListenUDP addr) of
                  Some e \<Rightarrow> (Inl e, link_Close g H)
                | None \<Rightarrow>
                    let g = g\<lparr>lk_conn := True\<rparr>; H = insert UdpConn H in
                    (case os_fails OS ConnToFile of
                       Some e \<Rightarrow> (Inl e, link_Close g H)
                     | None \<Rightarrow>
                         let g = g\<lparr>lk_f := True\<rparr>; H = insert LinkFile H in
                         (case os_fails OS (LinkCreate mtu) of
                            Some e \<Rightarrow> (Inl e, link_Close g H)
                          | None \<Rightarrow>
                              let H = insert LinkDevice H in
                              (case os_fails OS (LinkUp ''upfgtp'') of
                                 Some e \<Rightarrow> (Inl e, link_Close g H)
                               | None \<Rightarrow>
                                   (case os_fails OS GetLink of
                                      Some e \<Rightarrow> (Inl e, link_Close g H)
                                    | None \<Rightarrow> (Inr (g\<lparr>lk_link := True\<rparr>), H))))))))"

text \<open>\<open>OpenServer\<close> and \<open>Close\<close> of \<^verbatim>\<open>buffnetlink\<close>.\<close>

definition buff_OpenServer :: "os_api \<Rightarrow> held \<Rightarrow> error option \<times> held" where
  "buff_OpenServer OS H =
     (case os_fails OS GetFamily of
        Some e \<Rightarrow> (Some e, H)
      | None \<Rightarrow>
          (case os_fails OS NlOpenGroup of
             Some e \<Rightarrow> (Some e, H)
           | None \<Rightarrow>
               let H = insert BuffConn H in
               (case os_fails OS PushHandler of
                  Some e \<Rightarrow> (Some e, H)
                | None \<Rightarrow> (None, insert BuffHandler H))))"

definition buff_Close :: "held \<Rightarrow> held" where
  "buff_Close H = H - {BuffHandler} - {BuffConn}"

definition expectedMinGtp5gVersion :: string where
  "expectedMinGtp5gVersion = ''0.9.5''"

definition expectedMaxGtp5gVersion :: string where
  "expectedMaxGtp5gVersion = ''0.10.0''"

definition checkVersion :: "os_api \<Rightarrow> error option" where
  "checkVersion OS =
     (case os_fails OS GetVersionCall of
        Some e \<Rightarrow> Some e
      | None \<Rightarrow>
          (case os_NewVersion OS expectedMinGtp5gVersion of
             Inl e \<Rightarrow> Some e
           | Inr expMinVer \<Rightarrow>
               (case os_NewVersion OS expectedMaxGtp5gVersion of
                  Inl e \<Rightarrow> Some e
                | Inr expMaxVer \<Rightarrow>
                    (case os_NewVersion OS (os_gtp5gVersion OS) of
                       Inl e \<Rightarrow> Some e
                     | Inr nowVer \<Rightarrow>
                         if nowVer < expMinVer \<or> expMaxVer \<le> nowVer then Some (ErrMsg ''gtp5g version, please update it'') else None))))"

record Gtp5g_io =
  g5_mux :: bool
  g5_link :: "Gtp5gLink option"
  g5_conn :: bool
  g5_psConn :: bool
  g5_bsnl :: bool
  g5_ps :: bool

definition Gtp5g_Close :: "Gtp5g_io \<Rightarrow> held \<Rightarrow> held" where
  "Gtp5g_Close g H =
     (let H = (if g5_conn g then H - {GtpConn} else H);
          H = (if g5_psConn g then H - {PsConn} else H);
          H = (case g5_link g of None \<Rightarrow> H | Some l \<Rightarrow> link_Close l H);
          H = (if g5_mux g then H - {NlMux} else H);
          H = (if g5_bsnl g then buff_Close H else H)
      in if g5_ps g then H - {PerioServer} else H)"

text \<open>The connections of the clients, in the order of \<open>OpenGtp5g\<close>: a failure closes everything opened so far.\<close>

definition open_servers :: "os_api \<Rightarrow> Gtp5g_io \<Rightarrow> held \<Rightarrow> Gtp5g_io res \<times> held" where
  "open_servers OS g H =
     (case checkVersion OS of
        Some e \<Rightarrow> (Inl e, Gtp5g_Close g H)
      | None \<Rightarrow>
          (case buff_OpenServer OS H of
             (Some e, H) \<Rightarrow> (Inl e, Gtp5g_Close g H)
           | (None, H) \<Rightarrow>
               let g = g\<lparr>g5_bsnl := True\<rparr> in
               (case os_fails OS OpenPerio of
                  Some e \<Rightarrow> (Inl e, Gtp5g_Close g H)
                | None \<Rightarrow> (Inr (g\<lparr>g5_ps := True\<rparr>), insert PerioServer H))))"

definition open_clients :: "os_api \<Rightarrow> Gtp5g_io \<Rightarrow> held \<Rightarrow> Gtp5g_io res \<times> held" where
  "open_clients OS g H =
     (case os_fails OS NlOpenGeneric of
        Some e \<Rightarrow> (Inl e, Gtp5g_Close g H)
      | None \<Rightarrow>
          let g = g\<lparr>g5_conn := True\<rparr>; H = insert GtpConn H in
          (case os_fails OS NewClient of
             Some e \<Rightarrow> (Inl e, Gtp5g_Close g H)
           | None \<Rightarrow>
               (case os_fails OS NlOpenPs of
                  Some e \<Rightarrow> (Inl e, Gtp5g_Close g H)
                | None \<Rightarrow>
                    let g = g\<lparr>g5_psConn := True\<rparr>; H = insert PsConn H in
                    (case os_fails OS NewPsClient of
                       Some e \<Rightarrow> (Inl e, Gtp5g_Close g H)
                     | None \<Rightarrow> open_servers OS g H))))"

definition OpenGtp5g :: "os_api \<Rightarrow> string \<Rightarrow> u32 \<Rightarrow> held \<Rightarrow> Gtp5g_io res \<times> held" where
  "OpenGtp5g OS addr mtu H =
     (case os_fails OS NewMux of
        Some e \<Rightarrow> (Inl e, H)
      | None \<Rightarrow>
          let g = \<lparr>g5_mux = True, g5_link = None, g5_conn = False, g5_psConn = False, g5_bsnl = False, g5_ps = False\<rparr>;
              H = insert NlMux H in
          (case OpenGtp5gLink OS addr mtu H of
             (Inl e, H) \<Rightarrow> (Inl e, Gtp5g_Close g H)
           | (Inr link, H) \<Rightarrow> open_clients OS (g\<lparr>g5_link := Some link\<rparr>) H))"

section \<open>The forwarder\<close>

datatype forwarder = EmptyForwarder | Gtp5gForwarder Gtp5g_io | UserspaceForwarder "udpTunBackend option \<times> controller_io option"

fun forwarder_Close :: "forwarder \<Rightarrow> held \<Rightarrow> held" where
  "forwarder_Close EmptyForwarder H = H"
| "forwarder_Close (Gtp5gForwarder g) H = Gtp5g_Close g H"
| "forwarder_Close (UserspaceForwarder d) H = userspace_close d H"

text \<open>A network that cannot be parsed is skipped; a route that cannot be added is an error.\<close>

fun RouteAdd_all :: "os_api \<Rightarrow> DnnList list \<Rightarrow> error option" where
  "RouteAdd_all OS [] = None"
| "RouteAdd_all OS (d # ds) =
     (if os_fails OS (ParseCIDR (dnn_Cidr d)) \<noteq> None then RouteAdd_all OS ds
      else case os_fails OS (CreateRoute (dnn_Cidr d)) of Some e \<Rightarrow> Some e | None \<Rightarrow> RouteAdd_all OS ds)"

definition gtpu_addr :: "IfInfo list \<Rightarrow> string \<times> u32" where
  "gtpu_addr ifs = (case ifs of [] \<Rightarrow> ('''', 0) | i # _ \<Rightarrow> (if_Addr i @ '':'' @ dec_string (nat UpfGtpDefaultPort_int), if_MTU i))"

definition NewDriver :: "os_api \<Rightarrow> int \<Rightarrow> Config \<Rightarrow> held \<Rightarrow> forwarder res \<times> held" where
  "NewDriver OS maxprocs cfg H =
     (case c_Gtpu cfg of
        None \<Rightarrow> (Inl (ErrMsg ''no Gtpu config''), H)
      | Some g \<Rightarrow>
          if gt_Forwarder g = ''empty'' then (Inr EmptyForwarder, H)
          else if gt_Forwarder g = ''gtp5g'' then
            (let (gtpuAddr, mtu) = gtpu_addr (gt_IfList g) in
             if gtpuAddr = '''' then (Inl (ErrMsg ''not found GTP address''), H)
             else case OpenGtp5g OS gtpuAddr mtu H of
               (Inl e, H) \<Rightarrow> (Inl e, H)
             | (Inr d, H) \<Rightarrow>
                 if g5_link d = None then (Inl (ErrMsg ''gtp5g link is nil''), Gtp5g_Close d H)
                 else case RouteAdd_all OS (c_DnnList cfg) of
                   Some e \<Rightarrow> (Inl e, Gtp5g_Close d H)
                 | None \<Rightarrow> (Inr (Gtp5gForwarder d), H))
          else if gt_Forwarder g = ''userspace'' then
            (case userspace_New OS maxprocs cfg H of
               (Inl e, H) \<Rightarrow> (Inl e, H)
             | (Inr d, H) \<Rightarrow> (Inr (UserspaceForwarder d), H))
          else (Inl (ErrMsg ''not support forwarder''), H))"

section \<open>The contract of opening\<close>

text \<open>
  Opening that fails leaves what was held before; what it opens is its own and is released by closing, whatever
  else has been opened since.
\<close>

locale opener =
  fixes opn :: "held \<Rightarrow> 'a res \<times> held" and cls :: "'a \<Rightarrow> held \<Rightarrow> held" and own :: held
  assumes open_fails: "H \<inter> own = {} \<Longrightarrow> opn H = (Inl e, H') \<Longrightarrow> H' = H"
    and open_owns: "H \<inter> own = {} \<Longrightarrow> opn H = (Inr a, H') \<Longrightarrow> H \<subseteq> H' \<and> H' \<subseteq> H \<union> own"
    and close_releases: "H \<inter> own = {} \<Longrightarrow> opn H = (Inr a, H') \<Longrightarrow> X \<inter> own \<subseteq> H' \<Longrightarrow> cls a X = X - own"
begin

lemma close_at_once: "H \<inter> own = {} \<Longrightarrow> opn H = (Inr a, H') \<Longrightarrow> cls a H' = H"
  using open_owns [of H a H'] close_releases [of H a H' H'] by blast

end

text \<open>Opening one thing and then another, closing the first when the second fails.\<close>

locale two_openers = fst: opener opn1 cls1 own1 + snd: opener opn2 cls2 own2
  for opn1 :: "held \<Rightarrow> 'a res \<times> held" and cls1 own1 and opn2 :: "held \<Rightarrow> 'b res \<times> held" and cls2 own2 +
  assumes apart: "own1 \<inter> own2 = {}"
begin

lemma open_both:
  assumes "H \<inter> (own1 \<union> own2) = {}" "opn1 H = (Inr a, H1)"
  shows "opn2 H1 = (Inl e, H2) \<Longrightarrow> cls1 a H2 = H"
    and "opn2 H1 = (Inr b, H2) \<Longrightarrow> cls2 b (cls1 a H2) = H"
proof -
  have own: "H \<inter> own1 = {}" "H1 \<inter> own2 = {}"
    using assms(1) fst.open_owns [OF _ assms(2)] apart by blast+
  show "cls1 a H2 = H" if "opn2 H1 = (Inl e, H2)"
    using snd.open_fails [OF own(2) that] fst.close_at_once [OF own(1) assms(2)] by simp
  show "cls2 b (cls1 a H2) = H" if b: "opn2 H1 = (Inr b, H2)"
  proof -
    have H2: "H2 \<subseteq> H1 \<union> own2" and H1: "H1 \<subseteq> H \<union> own1" "H \<subseteq> H1" "H1 \<subseteq> H2"
      using fst.open_owns [OF own(1) assms(2)] snd.open_owns [OF own(2) b] by simp_all
    have "cls1 a H2 = H2 - own1"
      by (rule fst.close_releases [OF own(1) assms(2)]) (use H2 apart in blast)
    moreover have "cls2 b (H2 - own1) = H2 - own1 - own2"
      by (rule snd.close_releases [OF own(2) b]) blast
    ultimately show ?thesis using H1 H2 assms(1) by auto
  qed
qed

end

section \<open>The userspace forwarder releases everything\<close>

definition own_backend :: held where
  "own_backend = {UdpConn, TunFd, TunSocket, RouteConn, NlMux}"

definition own_controller :: held where
  "own_controller = {ReportConn, MasqueConn, DebugListener}"

text \<open>What the fields of the backend stand for.\<close>

definition backend_holds :: "udpTunBackend \<Rightarrow> held" where
  "backend_holds b = (if bk_udp b then {UdpConn} else {}) \<union> (if bk_tun b then {TunFd} else {}) \<union>
     (if bk_rt b then {RouteConn} else {}) \<union> (if bk_mux b then {NlMux} else {})"

definition controller_holds :: "controller_io \<Rightarrow> held" where
  "controller_holds c = (if ci_masqueLn c then {MasqueConn} else {}) \<union> (if ci_reportLn c then {ReportConn} else {}) \<union>
     (if ci_debugLn c then {DebugListener} else {})"

lemma backend_close_holds: "backend_close b H = H - backend_holds b"
  by (auto simp: backend_close_def backend_holds_def Let_def)

lemma controller_close_holds: "controller_close c H = H - controller_holds c"
  by (auto simp: controller_close_def controller_holds_def Let_def)

lemma no_backend_holds [simp]: "backend_holds no_backend = {}"
  by (simp add: backend_holds_def no_backend_def)

lemma backend_udp_opens:
  assumes "backend_udp OS addr b (H \<union> backend_holds b) = (r, H')" "H \<inter> own_backend = {}"
  shows "case r of Inl e \<Rightarrow> H' = H | Inr b' \<Rightarrow> H' = H \<union> backend_holds b'"
  using assms
  by (auto simp: backend_udp_def backend_close_holds backend_holds_def own_backend_def split: option.splits if_splits)

lemma SetMTU_held: "TunSocket \<notin> H \<Longrightarrow> snd (SetMTU OS mtu H) = H"
  by (simp add: SetMTU_def Let_def split: option.split)

lemma openTUN_opens:
  "TunFd \<notin> H \<Longrightarrow> openTUN OS name H = (r, H') \<Longrightarrow> H' = (case r of Inl _ \<Rightarrow> H | Inr _ \<Rightarrow> insert TunFd H)"
  by (auto simp: openTUN_def Let_def split: option.splits)

lemma backend_tun_opens:
  assumes "backend_tun OS opts dnns b (H \<union> backend_holds b) = (r, H')" "H \<inter> own_backend = {}"
    and b: "\<not> bk_tun b" "\<not> bk_rt b" "\<not> bk_mux b"
  shows "case r of Inl e \<Rightarrow> H' = H | Inr b' \<Rightarrow> H' = H \<union> backend_holds b'"
proof -
  let ?b1 = "b\<lparr>bk_rt := True\<rparr>" and ?b2 = "b\<lparr>bk_rt := True, bk_mux := True\<rparr>" and ?b3 = "b\<lparr>bk_rt := True, bk_mux := True, bk_tun := True\<rparr>"
  have fresh: "TunFd \<notin> H" "TunSocket \<notin> H" "RouteConn \<notin> H" "NlMux \<notin> H" "UdpConn \<notin> H"
    using assms(2) by (auto simp: own_backend_def)
  have holds: "insert RouteConn (H \<union> backend_holds b) = H \<union> backend_holds ?b1"
    "insert NlMux (H \<union> backend_holds ?b1) = H \<union> backend_holds ?b2"
    "insert TunFd (H \<union> backend_holds ?b2) = H \<union> backend_holds ?b3"
    using b by (auto simp: backend_holds_def)
  have free: "TunFd \<notin> H \<union> backend_holds ?b2" "TunSocket \<notin> H \<union> backend_holds ?b3"
    using fresh b by (auto simp: backend_holds_def)
  have closed: "backend_close b' (H \<union> backend_holds b') = H" for b'
    using assms(2) by (auto simp: backend_close_holds backend_holds_def own_backend_def)
  have mtu: "(if opt_tunMTU opts \<noteq> 0 then SetMTU OS (opt_tunMTU opts) K else (None, K)) =
      (fst (if opt_tunMTU opts \<noteq> 0 then SetMTU OS (opt_tunMTU opts) K else (None, K)), K)" if "TunSocket \<notin> K" for K
    using SetMTU_held [OF that, of OS "opt_tunMTU opts"] by (cases "SetMTU OS (opt_tunMTU opts) K") simp
  obtain r2 H2 where o: "openTUN OS (opt_tunName opts) (H \<union> backend_holds ?b2) = (r2, H2)" by force
  note H2 = openTUN_opens [OF free(1) o]
  show ?thesis
    using assms(1) H2 mtu [OF free(2)]
    by (cases r2) (auto simp: backend_tun_def Let_def holds o closed split: option.splits prod.splits)
qed

lemma newUDPTUNBackend_opens:
  assumes "newUDPTUNBackend OS opts ifs dnns H = (r, H')" "H \<inter> own_backend = {}"
  shows "case r of Inl e \<Rightarrow> H' = H | Inr None \<Rightarrow> H' = H | Inr (Some b) \<Rightarrow> H' = H \<union> backend_holds b"
proof -
  let ?one = "if bind_addr ifs \<noteq> [] then backend_udp OS (bind_addr ifs) no_backend H else (Inr no_backend, H)"
  obtain r1 H1 where o1: "?one = (r1, H1)" by force
  have one: "case r1 of Inl e \<Rightarrow> H1 = H | Inr b \<Rightarrow> H1 = H \<union> backend_holds b \<and> \<not> bk_tun b \<and> \<not> bk_rt b \<and> \<not> bk_mux b"
  proof (cases "bind_addr ifs = []")
    case False
    with o1 have u: "backend_udp OS (bind_addr ifs) no_backend (H \<union> backend_holds no_backend) = (r1, H1)" by simp
    then have "\<not> bk_tun b \<and> \<not> bk_rt b \<and> \<not> bk_mux b" if "r1 = Inr b" for b
      using that by (auto simp: backend_udp_def no_backend_def split: option.splits)
    with backend_udp_opens [OF u assms(2)] show ?thesis by (cases r1) auto
  qed (use o1 in \<open>auto simp: backend_holds_def no_backend_def\<close>)
  show ?thesis
  proof (cases "bind_addr ifs = [] \<and> \<not> need_tun dnns")
    case True
    with assms(1) show ?thesis by (auto simp: newUDPTUNBackend_def)
  next
    case some: False
    show ?thesis
    proof (cases r1)
      case (Inl e)
      with assms(1) some o1 one show ?thesis by (auto simp: newUDPTUNBackend_def Let_def)
    next
      case (Inr b)
      obtain r2 H2 where o2: "(if need_tun dnns then backend_tun OS opts dnns b H1 else (Inr b, H1)) = (r2, H2)" by force
      have "case r2 of Inl e \<Rightarrow> H2 = H | Inr b \<Rightarrow> H2 = H \<union> backend_holds b"
        using o2 one Inr backend_tun_opens [of OS opts dnns b H r2 H2] assms(2) by (auto split: if_splits)
      with assms(1) some o1 o2 Inr show ?thesis
        by (cases r2) (auto simp: newUDPTUNBackend_def Let_def)
    qed
  qed
qed

definition backend_opt_close :: "udpTunBackend option \<Rightarrow> held \<Rightarrow> held" where
  "backend_opt_close b H = (case b of None \<Rightarrow> H | Some b \<Rightarrow> backend_close b H)"

lemma holds_own: "backend_holds b \<subseteq> own_backend" "controller_holds c \<subseteq> own_controller"
  by (auto simp: backend_holds_def own_backend_def controller_holds_def own_controller_def)

interpretation backend: opener "newUDPTUNBackend OS opts ifs dnns" backend_opt_close own_backend
  for OS opts ifs dnns
proof
  fix H e H' a X
  assume fresh: "H \<inter> own_backend = {}"
  show "newUDPTUNBackend OS opts ifs dnns H = (Inl e, H') \<Longrightarrow> H' = H"
    using newUDPTUNBackend_opens [OF _ fresh] by fastforce
  assume a: "newUDPTUNBackend OS opts ifs dnns H = (Inr a, H')"
  then have H': "H' = H \<union> (case a of None \<Rightarrow> {} | Some b \<Rightarrow> backend_holds b)"
    using newUDPTUNBackend_opens [OF a fresh] by (simp split: option.splits)
  then show "H \<subseteq> H' \<and> H' \<subseteq> H \<union> own_backend" using holds_own(1) by (auto split: option.splits)
  show "backend_opt_close a X = X - own_backend" if "X \<inter> own_backend \<subseteq> H'"
    using that H' fresh holds_own(1) by (fastforce simp: backend_opt_close_def backend_close_holds split: option.splits)
qed

text \<open>The controller, closed when it does not start.\<close>

definition controller_open :: "os_api \<Rightarrow> AdaptiveQoS \<Rightarrow> held \<Rightarrow> controller_io res \<times> held" where
  "controller_open OS q H =
     (case controller_start OS q H of (Some e, c, H) \<Rightarrow> (Inl e, controller_close c H) | (None, c, H) \<Rightarrow> (Inr c, H))"

lemma controller_opens:
  assumes "controller_start OS q H = (err, c, H')" "H \<inter> own_controller = {}"
  shows "H' - controller_holds c = H" "err = None \<Longrightarrow> H' = H \<union> controller_holds c"
  using assms
  by (auto simp: controller_start_def startDebugServer_def controller_holds_def no_controller_io_def own_controller_def Let_def
      split: option.splits if_splits)

interpretation controller: opener "controller_open OS q" controller_close own_controller
  for OS q
proof
  fix H e H' a X
  assume fresh: "H \<inter> own_controller = {}"
  obtain err c H1 where st: "controller_start OS q H = (err, c, H1)" by (cases "controller_start OS q H") auto
  note o = controller_opens [OF st fresh]
  show "controller_open OS q H = (Inl e, H') \<Longrightarrow> H' = H"
    using o(1) st by (auto simp: controller_open_def controller_close_holds split: option.splits)
  assume "controller_open OS q H = (Inr a, H')"
  with st o(2) have H': "H' = H \<union> controller_holds a" by (auto simp: controller_open_def split: option.splits)
  then show "H \<subseteq> H' \<and> H' \<subseteq> H \<union> own_controller" using holds_own(2) by auto
  show "controller_close a X = X - own_controller" if "X \<inter> own_controller \<subseteq> H'"
    using that H' fresh holds_own(2) by (fastforce simp: controller_close_holds)
qed

interpretation userspace: two_openers "newUDPTUNBackend OS opts ifs dnns" backend_opt_close own_backend
    "controller_open OS q" controller_close own_controller
  for OS opts ifs dnns q
  by unfold_locales (auto simp: own_backend_def own_controller_def)

lemma userspace_New_releases:
  assumes "userspace_New OS m cfg {} = (r, H)"
  shows "case r of Inl e \<Rightarrow> H = {} | Inr d \<Rightarrow> userspace_close d H = {}"
proof (cases "c_Gtpu cfg")
  case (Some g)
  let ?open = "newUDPTUNBackend OS (optionsFromConfig m (Some (gt_Userspace g))) (gt_IfList g) (c_DnnList cfg)"
  obtain r1 H1 where o: "?open {} = (r1, H1)" by force
  show ?thesis
  proof (cases r1)
    case (Inl e)
    with o backend.open_fails [of "{}"] have "H1 = {}" by auto
    with assms Some o Inl show ?thesis by (auto simp: userspace_New_def)
  next
    case (Inr io)
    note both = userspace.open_both [OF _ o [unfolded Inr]]
    have close: "userspace_close (io, Some c) K = controller_close c (backend_opt_close io K)" for c K
      by (simp add: userspace_close_def backend_opt_close_def)
    have swap: "controller_close c (backend_opt_close io K) = backend_opt_close io (controller_close c K)" for c K
      by (auto simp: controller_close_holds backend_opt_close_def backend_close_holds split: option.split)
    show ?thesis
    proof (cases "newAdaptiveQoSController cfg")
      case None
      with assms Some o Inr backend.close_at_once [OF _ o [unfolded Inr]] show ?thesis
        by (auto simp: userspace_New_def userspace_close_def backend_opt_close_def)
    next
      case ctl: (Some ctl)
      obtain err c H2 where st: "controller_start OS (ctl_cfg ctl) H1 = (err, c, H2)"
        by (cases "controller_start OS (ctl_cfg ctl) H1") auto
      show ?thesis
        using assms Some o Inr ctl st both(1) [where q = "ctl_cfg ctl"] both(2) [where q = "ctl_cfg ctl"]
        by (cases err) (auto simp: userspace_New_def close controller_open_def swap)
    qed
  qed
qed (use assms in \<open>auto simp: userspace_New_def\<close>)

section \<open>What the gtp5g forwarder leaves behind\<close>

text \<open>The calls of \<open>OpenGtp5g\<close> up to the version check and after it; the first that fails decides what stays.\<close>

definition open_calls :: "string \<Rightarrow> u32 \<Rightarrow> syscall list" where
  "open_calls addr mtu = [NewMux, NlOpenRoute, ResolveUDPAddr addr, ListenUDP addr, ConnToFile, LinkCreate mtu, LinkUp ''upfgtp'', GetLink,
     NlOpenGeneric, NewClient, NlOpenPs, NewPsClient]"

definition server_calls :: "syscall list" where
  "server_calls = [GetFamily, NlOpenGroup, PushHandler, OpenPerio]"

definition first_failure :: "os_api \<Rightarrow> syscall list \<Rightarrow> syscall option" where
  "first_failure OS cs = find (\<lambda>c. os_fails OS c \<noteq> None) cs"

definition leaked :: "os_api \<Rightarrow> string \<Rightarrow> u32 \<Rightarrow> held" where
  "leaked OS addr mtu =
     (case first_failure OS (open_calls addr mtu) of
        Some c \<Rightarrow> if c \<in> {LinkUp ''upfgtp'', GetLink} then {LinkDevice} else {}
      | None \<Rightarrow> if checkVersion OS = None \<and> first_failure OS server_calls = Some PushHandler then {BuffConn} else {})"

lemma link_Close_set: "link_Close l H = H - ((if lk_f l then {LinkFile} else {}) \<union> (if lk_conn l then {UdpConn} else {}) \<union>
    (if lk_link l then {LinkDevice} else {}) \<union> (if lk_rtconn l then {RouteConn} else {}))"
  by (auto simp: link_Close_def Let_def)

definition open_link :: Gtp5gLink where
  "open_link = \<lparr>lk_rtconn = True, lk_conn = True, lk_f = True, lk_link = True\<rparr>"

definition link_calls :: "string \<Rightarrow> u32 \<Rightarrow> syscall list" where
  "link_calls addr mtu = [NlOpenRoute, ResolveUDPAddr addr, ListenUDP addr, ConnToFile, LinkCreate mtu, LinkUp ''upfgtp'', GetLink]"

lemma OpenGtp5gLink_held:
  "snd (OpenGtp5gLink OS addr mtu {NlMux}) =
     (case first_failure OS (link_calls addr mtu) of
        None \<Rightarrow> {NlMux, RouteConn, UdpConn, LinkFile, LinkDevice}
      | Some c \<Rightarrow> insert NlMux (if c \<in> {LinkUp ''upfgtp'', GetLink} then {LinkDevice} else {}))"
  "fst (OpenGtp5gLink OS addr mtu {NlMux}) = Inr l \<Longrightarrow> l = open_link \<and> first_failure OS (link_calls addr mtu) = None"
  "fst (OpenGtp5gLink OS addr mtu {NlMux}) = Inl e \<Longrightarrow> first_failure OS (link_calls addr mtu) \<noteq> None"
  by (auto simp: OpenGtp5gLink_def first_failure_def link_calls_def link_Close_set open_link_def Let_def split: option.splits)

definition opened :: Gtp5g_io where
  "opened = \<lparr>g5_mux = True, g5_link = Some open_link, g5_conn = True, g5_psConn = True, g5_bsnl = False, g5_ps = False\<rparr>"

definition opened_held :: held where
  "opened_held = {NlMux, RouteConn, UdpConn, LinkFile, LinkDevice, GtpConn, PsConn}"

lemma open_servers_held:
  assumes "open_servers OS opened opened_held = (r, H)"
  shows "case r of
      Inl e \<Rightarrow> H = (if checkVersion OS = None \<and> first_failure OS server_calls = Some PushHandler then {BuffConn} else {})
    | Inr g \<Rightarrow> Gtp5g_Close g H = {} \<and> g5_link g \<noteq> None \<and> checkVersion OS = None \<and> first_failure OS server_calls = None"
  using assms
  by (auto simp: open_servers_def buff_OpenServer_def opened_def opened_held_def first_failure_def server_calls_def Gtp5g_Close_def
      link_Close_set open_link_def buff_Close_def Let_def split: option.splits)

definition client_calls :: "syscall list" where
  "client_calls = [NlOpenGeneric, NewClient, NlOpenPs, NewPsClient]"

definition linked :: Gtp5g_io where
  "linked = opened\<lparr>g5_conn := False, g5_psConn := False\<rparr>"

lemma open_clients_held:
  assumes "open_clients OS linked {NlMux, RouteConn, UdpConn, LinkFile, LinkDevice} = (r, H)"
  shows "if first_failure OS client_calls = None then open_servers OS opened opened_held = (r, H)
    else (\<exists>e. r = Inl e) \<and> H = {}"
proof -
  have states: "linked\<lparr>g5_conn := True, g5_psConn := True\<rparr> = opened"
    "insert PsConn {GtpConn, NlMux, RouteConn, UdpConn, LinkFile, LinkDevice} = opened_held"
    by (auto simp: linked_def opened_def opened_held_def)
  have closed: "Gtp5g_Close linked {NlMux, RouteConn, UdpConn, LinkFile, LinkDevice} = {}"
    "Gtp5g_Close (linked\<lparr>g5_conn := True\<rparr>) {GtpConn, NlMux, RouteConn, UdpConn, LinkFile, LinkDevice} = {}"
    "Gtp5g_Close opened opened_held = {}"
    by (auto simp: Gtp5g_Close_def linked_def opened_def opened_held_def link_Close_set open_link_def Let_def)
  show ?thesis
    using assms by (auto simp: open_clients_def first_failure_def client_calls_def states closed Let_def split: option.splits)
qed

lemma first_failure_append:
  "first_failure OS (cs @ ds) = (case first_failure OS cs of None \<Rightarrow> first_failure OS ds | Some c \<Rightarrow> Some c)"
  by (induction cs) (auto simp: first_failure_def)

lemma open_calls_parts: "open_calls addr mtu = [NewMux] @ link_calls addr mtu @ client_calls"
  by (simp add: open_calls_def link_calls_def client_calls_def)

lemma first_failure_in: "first_failure OS cs = Some c \<Longrightarrow> c \<in> set cs"
  by (induction cs) (auto simp: first_failure_def split: if_splits)

lemma OpenGtp5g_held:
  assumes "OpenGtp5g OS addr mtu {} = (r, H)"
  shows "case r of Inl e \<Rightarrow> H = leaked OS addr mtu | Inr g \<Rightarrow> Gtp5g_Close g H = {} \<and> g5_link g \<noteq> None \<and> leaked OS addr mtu = {}"
proof (cases "os_fails OS NewMux")
  case (Some e)
  with assms show ?thesis by (auto simp: OpenGtp5g_def leaked_def first_failure_def open_calls_def)
next
  case mux: None
  then have "first_failure OS [NewMux] = None" by (simp add: first_failure_def)
  then have calls: "first_failure OS (open_calls addr mtu) =
      (case first_failure OS (link_calls addr mtu) of None \<Rightarrow> first_failure OS client_calls | Some c \<Rightarrow> Some c)"
    by (simp only: open_calls_parts first_failure_append option.simps)
  obtain rl Hl where l: "OpenGtp5gLink OS addr mtu {NlMux} = (rl, Hl)" by force
  note held = OpenGtp5gLink_held [of OS addr mtu, unfolded l fst_conv snd_conv]
  show ?thesis
  proof (cases rl)
    case (Inl e)
    then obtain c where "first_failure OS (link_calls addr mtu) = Some c" using held(3) by auto
    then show ?thesis
      using assms mux l Inl held(1) by (auto simp: OpenGtp5g_def leaked_def calls Gtp5g_Close_def Let_def)
  next
    case (Inr link)
    with held(2) have link: "link = open_link" "first_failure OS (link_calls addr mtu) = None" by simp_all
    have "open_clients OS linked {NlMux, RouteConn, UdpConn, LinkFile, LinkDevice} = (r, H)"
      using assms mux l Inr link held(1) by (simp add: OpenGtp5g_def linked_def opened_def Let_def)
    note clients = open_clients_held [OF this]
    show ?thesis
    proof (cases "first_failure OS client_calls")
      case None
      with clients have "open_servers OS opened opened_held = (r, H)" by simp
      from open_servers_held [OF this] show ?thesis
        using None link(2) by (cases r) (auto simp: leaked_def calls)
    next
      case (Some c)
      with first_failure_in [OF this] clients link(2) show ?thesis
        by (auto simp: leaked_def calls client_calls_def)
    qed
  qed
qed


definition ex_os :: os_api where
  "ex_os = \<lparr>os_fails = (\<lambda>c. if c = LinkUp ''upfgtp'' then Some (ErrMsg ''not permitted'') else None), os_tunName = (\<lambda>n. n),
     os_gtp5gVersion = ''0.9.5'', os_NewVersion = (\<lambda>s. Inr (if s = expectedMaxGtp5gVersion then 2 else 1))\<rparr>"

definition ex_gtp5g_config :: Config where
  "ex_gtp5g_config = ex_config\<lparr>c_Gtpu := Some \<lparr>gt_Forwarder = ''gtp5g'',
     gt_IfList = [\<lparr>if_Addr = ''127.0.0.8'', if_Type = ''N3'', if_Name = '''', if_IfName = '''', if_MTU = 1400\<rparr>],
     gt_Userspace = None, gt_AdaptiveQoS = None\<rparr>\<rparr>"


end
