(* ===== verification/Flow_Desc.thy ===== *)
theory Flow_Desc
  imports Sdf
begin

text \<open>
  The flow descriptions of the gtp5g forwarder, \<^verbatim>\<open>internal/forwarder/flowdesc.go\<close>: the parser of
  IPFilterRule texts. The parser of the userspace forwarder (theory \<open>Sdf\<close>) is a different one. The
  grammar in the comment of the source is given as a data type of rules with a printer, and parsing a
  printed rule gives back what it stands for.
\<close>

section \<open>The parser\<close>

record FlowDesc =
  fd_Action :: string
  fd_Dir :: string
  fd_Proto :: u8
  fd_Src :: IPNet
  fd_Dst :: IPNet
  fd_SrcPorts :: "u16 list list"
  fd_DstPorts :: "u16 list list"

text \<open>\<open>net.ParseIP\<close>: the 16-byte form of an address, \<open>None\<close> for \<open>nil\<close>.\<close>

definition net_ParseIP :: "(string \<Rightarrow> bytes option) \<Rightarrow> string \<Rightarrow> bytes option" where
  "net_ParseIP p6 s =
     map_option (\<lambda>ip. if length ip = 4 then replicate 10 0 @ [0xff, 0xff] @ ip else ip) (netip_ParseAddr p6 s)"

definition ParseFlowDescIPNet :: "(string \<Rightarrow> bytes option) \<Rightarrow> string \<Rightarrow> IPNet res" where
  "ParseFlowDescIPNet p6 s =
     (if s = ''any'' \<or> s = ''assigned'' then Inr \<lparr>net_IP = replicate 16 0, net_Mask = CIDRMask 0 128\<rparr>
      else case net_ParseCIDR p6 s of
        Some ipnet \<Rightarrow> Inr ipnet
      | None \<Rightarrow>
          (case net_ParseIP p6 s of
             None \<Rightarrow> Inl (ErrMsg ''invalid address'')
           | Some ip \<Rightarrow>
               let ip = (case ip_To4 ip of Some v4 \<Rightarrow> v4 | None \<Rightarrow> ip); n = length ip * 8
               in Inr \<lparr>net_IP = ip, net_Mask = CIDRMask n n\<rparr>))"

definition parse_u16 :: "string \<Rightarrow> u16 res" where
  "parse_u16 s = (case strconv_ParseUint s 16 of None \<Rightarrow> Inl (ErrMsg ''strconv.ParseUint'') | Some v \<Rightarrow> Inr (of_nat v))"

definition ParseFlowDescPorts :: "string \<Rightarrow> u16 list list res" where
  "ParseFlowDescPorts s =
     foldE (\<lambda>vals port.
       case strings_SplitN2 port (CHR ''-'') of
         [v] \<Rightarrow> bindE (parse_u16 v) (\<lambda>v. Inr (vals @ [[v]]))
       | [start, end] \<Rightarrow> bindE (parse_u16 start) (\<lambda>start. bindE (parse_u16 end) (\<lambda>end. Inr (vals @ [[start, end]])))
       | _ \<Rightarrow> Inl (ErrMsg ''invalid port'')) [] (strings_Split s (CHR '',''))"

definition fd_field :: "string list \<Rightarrow> nat \<Rightarrow> string res" where
  "fd_field token pos = (if length token \<le> pos then Inl (ErrMsg ''too few fields'') else Inr (token ! pos))"

definition parse_proto :: "string \<Rightarrow> u8 res" where
  "parse_proto t =
     (if t = ''ip'' then Inr 0xff
      else case strconv_ParseUint t 8 of None \<Rightarrow> Inl (ErrMsg ''strconv.ParseUint'') | Some v \<Rightarrow> Inr (of_nat v))"

definition ParseFlowDesc :: "(string \<Rightarrow> bytes option) \<Rightarrow> string \<Rightarrow> FlowDesc res" where
  "ParseFlowDesc p6 s =
     (let token = strings_Fields s in
      bindE (fd_field token 0) (\<lambda>action.
      if action \<noteq> ''permit'' then Inl (ErrMsg ''unknown action'') else
      bindE (fd_field token 1) (\<lambda>dir.
      if dir \<noteq> ''in'' \<and> dir \<noteq> ''out'' then Inl (ErrMsg ''unknown direction'') else
      bindE (fd_field token 2) (\<lambda>t. bindE (parse_proto t) (\<lambda>proto.
      bindE (fd_field token 3) (\<lambda>t.
      if t \<noteq> ''from'' then Inl (ErrMsg ''not match from'') else
      bindE (fd_field token 4) (\<lambda>t. bindE (ParseFlowDescIPNet p6 t) (\<lambda>src.
      bindE (fd_field token 5) (\<lambda>t.
      let (sports, pos) = (case ParseFlowDescPorts t of Inr sports \<Rightarrow> (sports, 6) | Inl _ \<Rightarrow> ([], 5)) in
      bindE (fd_field token pos) (\<lambda>t.
      if t \<noteq> ''to'' then Inl (ErrMsg ''not match to'') else
      bindE (fd_field token (pos + 1)) (\<lambda>t. bindE (ParseFlowDescIPNet p6 t) (\<lambda>dst.
      let dports = (if pos + 2 < length token
                    then (case ParseFlowDescPorts (token ! (pos + 2)) of Inr dports \<Rightarrow> dports | Inl _ \<Rightarrow> [])
                    else [])
      in Inr \<lparr>fd_Action = action, fd_Dir = dir, fd_Proto = proto, fd_Src = src, fd_Dst = dst,
              fd_SrcPorts = sports, fd_DstPorts = dports\<rparr>))))))))))))"

section \<open>The grammar\<close>

text \<open>The rules of the grammar, with IPv4 addresses, and how they are written.\<close>

datatype flow_addr = AddrAny | AddrAssigned | AddrHost u8 u8 u8 u8 | AddrNet u8 u8 u8 u8 nat

datatype flow_port = PortOne u16 | PortSpan u16 u16

record flow_rule =
  fr_out :: bool
  fr_proto :: "u8 option"
  fr_src :: flow_addr
  fr_sports :: "flow_port list"
  fr_dst :: flow_addr
  fr_dports :: "flow_port list"

fun addr_string :: "flow_addr \<Rightarrow> string" where
  "addr_string AddrAny = ''any''"
| "addr_string AddrAssigned = ''assigned''"
| "addr_string (AddrHost a b c d) = dotted [a, b, c, d]"
| "addr_string (AddrNet a b c d n) = dotted [a, b, c, d] @ ''/'' @ dec_string n"

fun port_string :: "flow_port \<Rightarrow> string" where
  "port_string (PortOne p) = dec_string (unat p)"
| "port_string (PortSpan p q) = dec_string (unat p) @ ''-'' @ dec_string (unat q)"

definition ports_tokens :: "flow_port list \<Rightarrow> string list" where
  "ports_tokens ps = (if ps = [] then [] else [join_with '','' (map port_string ps)])"

definition rule_tokens :: "flow_rule \<Rightarrow> string list" where
  "rule_tokens r =
     [''permit'', if fr_out r then ''out'' else ''in'',
      case fr_proto r of None \<Rightarrow> ''ip'' | Some p \<Rightarrow> dec_string (unat p), ''from'', addr_string (fr_src r)] @
     ports_tokens (fr_sports r) @ [''to'', addr_string (fr_dst r)] @ ports_tokens (fr_dports r)"

definition rule_string :: "flow_rule \<Rightarrow> string" where
  "rule_string r = join_with '' '' (rule_tokens r)"

text \<open>What a rule stands for.\<close>

fun addr_net :: "flow_addr \<Rightarrow> IPNet" where
  "addr_net AddrAny = \<lparr>net_IP = replicate 16 0, net_Mask = CIDRMask 0 128\<rparr>"
| "addr_net AddrAssigned = \<lparr>net_IP = replicate 16 0, net_Mask = CIDRMask 0 128\<rparr>"
| "addr_net (AddrHost a b c d) = \<lparr>net_IP = [a, b, c, d], net_Mask = CIDRMask 32 32\<rparr>"
| "addr_net (AddrNet a b c d n) =
     \<lparr>net_IP = map2 (AND) [a, b, c, d] (CIDRMask n 32), net_Mask = CIDRMask n 32\<rparr>"

fun port_range :: "flow_port \<Rightarrow> u16 list" where
  "port_range (PortOne p) = [p]"
| "port_range (PortSpan p q) = [p, q]"

fun addr_wf :: "flow_addr \<Rightarrow> bool" where
  "addr_wf (AddrNet a b c d n) = (n \<le> 32)"
| "addr_wf _ = True"

definition rule_desc :: "flow_rule \<Rightarrow> FlowDesc" where
  "rule_desc r = \<lparr>fd_Action = ''permit'', fd_Dir = (if fr_out r then ''out'' else ''in''),
     fd_Proto = (case fr_proto r of None \<Rightarrow> 0xff | Some p \<Rightarrow> p), fd_Src = addr_net (fr_src r),
     fd_Dst = addr_net (fr_dst r), fd_SrcPorts = map port_range (fr_sports r),
     fd_DstPorts = map port_range (fr_dports r)\<rparr>"

section \<open>Splitting and joining\<close>

lemma split_acc_word:
  "c \<notin> set x \<Longrightarrow> split_acc c w (x @ s) = (case s of [] \<Rightarrow> [rev w @ x] | _ \<Rightarrow> split_acc c (rev x @ w) s)"
  by (induction x arbitrary: w) (auto split: list.splits)

lemma join_with_Cons: "join_with sep (x # xs) = x @ (if xs = [] then [] else sep @ join_with sep xs)"
  by (cases xs) simp_all

lemma split_join:
  assumes "xs \<noteq> []" "\<forall>x \<in> set xs. c \<notin> set x"
  shows "strings_Split (join_with [c] xs) c = xs"
proof -
  have "split_acc c [] (join_with [c] xs) = xs" using assms
  proof (induction xs)
    case (Cons x xs)
    then show ?case
      using split_acc_word [of c x "[]" "[]"] split_acc_word [of c x "[]" "c # join_with [c] xs"]
      by (simp add: join_with_Cons)
  qed simp
  then show ?thesis by (simp add: strings_Split_def)
qed

lemma fields_acc_word:
  "\<forall>c \<in> set x. \<not> is_space c \<Longrightarrow> fields_acc w (x @ s) = fields_acc (rev x @ w) s"
  by (induction x arbitrary: w) auto

lemma fields_join:
  assumes "\<forall>x \<in> set xs. x \<noteq> [] \<and> (\<forall>c \<in> set x. \<not> is_space c)"
  shows "strings_Fields (join_with '' '' xs) = xs"
proof -
  have space: "is_space (CHR '' '')" by (simp add: is_space_def)
  have "fields_acc [] (join_with '' '' xs) = xs" using assms
  proof (induction xs)
    case (Cons x xs)
    then show ?case
      using fields_acc_word [of x "[]" "[]"] fields_acc_word [of x "[]" "CHR '' '' # join_with '' '' xs"] space
      by (simp add: join_with_Cons)
  qed simp
  then show ?thesis by (simp add: strings_Fields_def)
qed

lemma splitN2_word: "c \<notin> set x \<Longrightarrow> strings_SplitN2 x c = [x]"
  by (simp add: strings_SplitN2_def)

lemma splitN2_two: "c \<notin> set x \<Longrightarrow> strings_SplitN2 (x @ c # y) c = [x, y]"
  by (induction x) (auto simp: strings_SplitN2_def split: if_splits)

section \<open>Printed numbers and addresses\<close>

definition is_digit :: "char \<Rightarrow> bool" where
  "is_digit c \<longleftrightarrow> 48 \<le> (of_char c :: nat) \<and> (of_char c :: nat) \<le> 57"

lemma dec_string_digits: "c \<in> set (dec_string n) \<Longrightarrow> is_digit c"
proof (induction n arbitrary: c rule: dec_string.induct)
  case (1 n)
  have "is_digit (digit_char m)" if "m < 10" for m using that by (simp add: is_digit_def digit_char_def)
  with 1 show ?case by (subst (asm) (2) dec_string.simps) (auto split: if_splits)
qed

lemma is_digit_neq:
  "is_digit c \<Longrightarrow> c \<notin> {CHR ''.'', CHR '':'', CHR ''%'', CHR ''/'', CHR '','', CHR ''-'', CHR ''a'', CHR ''i'', CHR ''t''}"
  by (auto simp: is_digit_def)

lemma is_digit_not_space: "is_digit c \<Longrightarrow> \<not> is_space c"
  by (auto simp: is_digit_def is_space_def)

lemma dec_string_free:
  "c \<in> {CHR ''.'', CHR '':'', CHR ''%'', CHR ''/'', CHR '','', CHR ''-''} \<Longrightarrow> c \<notin> set (dec_string n)"
  using dec_string_digits [of c n] is_digit_neq [of c] by blast

lemma digit_val_char: "n < 10 \<Longrightarrow> digit_val (digit_char n) = Some n"
  by (simp add: digit_val_def digit_char_def)

lemma digits_val_append:
  "digits_val acc (xs @ ys) = Option.bind (digits_val acc xs) (\<lambda>a. digits_val a ys)"
  by (induction xs arbitrary: acc) (auto split: option.splits)

lemma digits_val_dec: "digits_val 0 (dec_string n) = Some n"
proof (induction n rule: dec_string.induct)
  case (1 n)
  then show ?case by (subst dec_string.simps) (simp add: digit_val_char digits_val_append)
qed

lemma ParseUint_dec: "strconv_ParseUint (dec_string n) b = (if n < 2 ^ b then Some n else None)"
  by (simp add: strconv_ParseUint_def digits_val_dec)

lemma dec_string_length: "n < 10 ^ k \<Longrightarrow> 0 < k \<Longrightarrow> length (dec_string n) \<le> k"
proof (induction k arbitrary: n)
  case (Suc k)
  show ?case
  proof (cases "n < 10")
    case False
    with Suc have "length (dec_string (n div 10)) \<le> k" by (cases k) auto
    with False show ?thesis by (subst dec_string.simps) simp
  qed (simp add: dec_string.simps)
qed simp

lemma dec_string_hd: "0 < n \<Longrightarrow> hd (dec_string n) \<noteq> CHR ''0''"
proof (induction n rule: dec_string.induct)
  case (1 n)
  have "digit_char 0 = CHR ''0''" by (simp add: digit_char_def char_of_def Let_def bit_0)
  then have "digit_char n = CHR ''0'' \<Longrightarrow> n < 10 \<Longrightarrow> n = 0" using digit_char_inj [of n 0] by simp
  with 1 show ?case by (subst dec_string.simps) auto
qed

lemma ipv4_field_dec: "ipv4_field (dec_string (unat (x :: u8))) = Some x"
proof -
  have x: "unat x < 256" using unsigned_less [of x] by simp
  have "length (dec_string (unat x)) \<le> 3" using dec_string_length [of "unat x" 3] x by simp
  moreover have "length (dec_string (unat x)) = 1 \<or> hd (dec_string (unat x)) \<noteq> CHR ''0''"
    using dec_string_hd [of "unat x"] by (cases "unat x = 0") (simp_all add: dec_string.simps [of 0])
  ultimately show ?thesis using x by (auto simp: ipv4_field_def digits_val_dec)
qed

lemma parse_ipv4_dotted: "parse_ipv4 (dotted [a, b, c, d]) = Some [a, b, c, d]"
proof -
  have "strings_Split (dotted [a, b, c, d]) (CHR ''.'') = map (\<lambda>x. dec_string (unat x)) [a, b, c, d]"
    unfolding dotted_def by (rule split_join) (auto dest: dec_string_digits is_digit_neq)
  then show ?thesis by (simp add: parse_ipv4_def ipv4_field_dec)
qed

lemma find_app: "find P (xs @ ys) = (case find P xs of None \<Rightarrow> find P ys | Some x \<Rightarrow> Some x)"
  by (induction xs) auto

lemma ParseAddr_dotted: "netip_ParseAddr p6 (dotted [a, b, c, d]) = Some [a, b, c, d]"
proof -
  have "find (\<lambda>c. c \<in> {CHR ''.'', CHR '':'', CHR ''%''}) (dec_string n) = None" for n
    by (auto simp: find_None_iff dest: dec_string_digits is_digit_neq)
  then have "find (\<lambda>c. c \<in> {CHR ''.'', CHR '':'', CHR ''%''}) (dotted [a, b, c, d]) = Some (CHR ''.'')"
    by (simp add: dotted_def find_app)
  with parse_ipv4_dotted show ?thesis by (simp add: netip_ParseAddr_def)
qed

lemma dotted_chars: "x \<in> set (dotted [a, b, c, d]) \<Longrightarrow> is_digit x \<or> x = CHR ''.''"
  by (auto simp: dotted_def dest: dec_string_digits)

lemma dotted_nonempty [simp]: "dotted [a, b, c, d] \<noteq> []"
  by (simp add: dotted_def)

lemma dotted_not_word: "dotted [a, b, c, d] @ s \<noteq> CHR ''a'' # w"
  using is_digit_neq [of "CHR ''a''"] dotted_chars [of "hd (dotted [a, b, c, d])" a b c d]
  by (cases "dotted [a, b, c, d]") auto

lemma IPNet_addr: "addr_wf x \<Longrightarrow> ParseFlowDescIPNet p6 (addr_string x) = Inr (addr_net x)"
proof (cases x)
  case (AddrHost a b c d)
  have "CHR ''/'' \<notin> set (dotted [a, b, c, d])" using dotted_chars is_digit_neq by blast
  with AddrHost show ?thesis
    using dotted_not_word [of a b c d "[]"]
    by (simp add: ParseFlowDescIPNet_def net_ParseCIDR_def splitN2_word net_ParseIP_def ParseAddr_dotted ip_To4_def nth_append)
next
  case (AddrNet a b c d n)
  assume "addr_wf x"
  moreover have "CHR ''/'' \<notin> set (dotted [a, b, c, d])" using dotted_chars is_digit_neq by blast
  ultimately show ?thesis
    using dotted_not_word [of a b c d] AddrNet
    by (simp add: ParseFlowDescIPNet_def net_ParseCIDR_def splitN2_two ParseAddr_dotted digits_val_dec Let_def)
qed (simp_all add: ParseFlowDescIPNet_def)

lemma parse_u16_dec: "parse_u16 (dec_string (unat (p :: u16))) = Inr p"
  using unsigned_less [of p] by (simp add: parse_u16_def ParseUint_dec)

lemma Ports_string:
  assumes "ps \<noteq> []"
  shows "ParseFlowDescPorts (join_with '','' (map port_string ps)) = Inr (map port_range ps)"
proof -
  have port: "CHR '','' \<notin> set (port_string p)" for p by (cases p) (auto dest: dec_string_digits is_digit_neq)
  have "strings_Split (join_with '','' (map port_string ps)) (CHR '','') = map port_string ps"
    using assms port by (intro split_join) auto
  moreover have "foldE (\<lambda>vals port.
       case strings_SplitN2 port (CHR ''-'') of
         [v] \<Rightarrow> bindE (parse_u16 v) (\<lambda>v. Inr (vals @ [[v]]))
       | [start, end] \<Rightarrow> bindE (parse_u16 start) (\<lambda>start. bindE (parse_u16 end) (\<lambda>end. Inr (vals @ [[start, end]])))
       | _ \<Rightarrow> Inl (ErrMsg ''invalid port'')) vals (map port_string ps) = Inr (vals @ map port_range ps)" for vals
  proof (induction ps arbitrary: vals)
    case (Cons p ps)
    then show ?case
      by (cases p) (simp_all add: splitN2_word splitN2_two dec_string_free parse_u16_dec)
  qed simp
  ultimately show ?thesis by (simp add: ParseFlowDescPorts_def)
qed

section \<open>Properties\<close>

lemma proto_string: "parse_proto (case p of None \<Rightarrow> ''ip'' | Some p \<Rightarrow> dec_string (unat p)) =
  Inr (case p of None \<Rightarrow> 0xff | Some p \<Rightarrow> p)"
proof (cases p)
  case (Some q)
  have "hd (dec_string (unat q)) \<noteq> CHR ''i''"
    using dec_string_digits [of "CHR ''i''" "unat q"] is_digit_neq [of "CHR ''i''"]
    by (metis dec_string_nonempty(1) hd_in_set insertCI)
  then have "dec_string (unat q) \<noteq> ''ip''" by auto
  then show ?thesis using Some unsigned_less [of q] by (simp add: parse_proto_def ParseUint_dec)
qed (simp add: parse_proto_def)

lemma addr_string_clean: "addr_string x \<noteq> [] \<and> (\<forall>c \<in> set (addr_string x). \<not> is_space c)"
proof (cases x)
  case AddrHost
  then show ?thesis by (auto dest!: dotted_chars dest: is_digit_not_space simp: is_space_def)
next
  case AddrNet
  then show ?thesis by (auto dest!: dotted_chars dec_string_digits dest: is_digit_not_space simp: is_space_def)
qed (auto simp: is_space_def)

lemma port_string_clean: "port_string p \<noteq> [] \<and> (\<forall>c \<in> set (port_string p). is_digit c \<or> c = CHR ''-'')"
  by (cases p) (auto dest: dec_string_digits)

lemma set_join_with: "c \<in> set (join_with sep xs) \<Longrightarrow> c \<in> set sep \<or> (\<exists>x \<in> set xs. c \<in> set x)"
  by (induction xs) (auto simp: join_with_Cons split: if_splits)

lemma ports_tokens_clean: "t \<in> set (ports_tokens ps) \<Longrightarrow> t \<noteq> [] \<and> (\<forall>c \<in> set t. \<not> is_space c)"
proof -
  assume "t \<in> set (ports_tokens ps)"
  then have t: "ps \<noteq> []" "t = join_with '','' (map port_string ps)" by (auto simp: ports_tokens_def split: if_splits)
  have "\<not> is_space c" if "c \<in> set t" for c
    using set_join_with [OF that [unfolded t(2)]] port_string_clean is_digit_not_space
    by (auto simp: is_space_def)
  moreover have "t \<noteq> []" using t port_string_clean [of "hd ps"] by (cases ps) (auto simp: join_with_Cons)
  ultimately show ?thesis by blast
qed

lemma rule_tokens_clean: "t \<in> set (rule_tokens r) \<Longrightarrow> t \<noteq> [] \<and> (\<forall>c \<in> set t. \<not> is_space c)"
proof -
  assume "t \<in> set (rule_tokens r)"
  then consider "t \<in> {''permit'', ''out'', ''in'', ''ip'', ''from'', ''to''}" | p :: u8 where "t = dec_string (unat p)"
    | x where "t = addr_string x" | ps where "t \<in> set (ports_tokens ps)"
    by (auto simp: rule_tokens_def split: if_splits option.splits)
  then show ?thesis
  proof cases
    case 1
    then show ?thesis by (auto simp: is_space_def)
  next
    case 2
    then show ?thesis by (auto dest: dec_string_digits is_digit_not_space)
  qed (auto simp: addr_string_clean dest: ports_tokens_clean)
qed

lemma Ports_to: "ParseFlowDescPorts ''to'' = Inl (ErrMsg ''strconv.ParseUint'')"
  by (simp add: ParseFlowDescPorts_def strings_Split_def splitN2_word parse_u16_def strconv_ParseUint_def digit_val_def)

text \<open>
  C30. Parsing undoes printing: every rule of the grammar in the source's comment (with the action
  \<open>permit\<close> and IPv4 addresses) is accepted, whatever its direction, protocol, addresses and port lists, and
  yields the networks, masks and port ranges it stands for.
\<close>

theorem flowdesc_roundtrip:
  assumes "addr_wf (fr_src r)" "addr_wf (fr_dst r)"
  shows "ParseFlowDesc p6 (rule_string r) = Inr (rule_desc r)"
proof -
  have toks: "strings_Fields (rule_string r) = rule_tokens r"
    unfolding rule_string_def by (rule fields_join) (use rule_tokens_clean in blast)
  note defs = ParseFlowDesc_def toks rule_tokens_def fd_field_def ports_tokens_def proto_string IPNet_addr [OF assms(1)]
    IPNet_addr [OF assms(2)] Ports_string Ports_to rule_desc_def
  show ?thesis
    by (cases "fr_sports r = []"; cases "fr_dports r = []") (simp_all add: defs)
qed

definition ex_rule :: flow_rule where
  "ex_rule = \<lparr>fr_out = True, fr_proto = Some 17, fr_src = AddrNet 10 60 0 0 16, fr_sports = [PortOne 53, PortSpan 1000 2000],
     fr_dst = AddrAssigned, fr_dports = []\<rparr>"

theorem flowdesc_roundtrip_witness:
  "rule_string ex_rule = ''permit out 17 from 10.60.0.0/16 53,1000-2000 to assigned'' \<and>
   ParseFlowDesc (\<lambda>_. None) (rule_string ex_rule) = Inr (rule_desc ex_rule)"
  using flowdesc_roundtrip [of ex_rule "\<lambda>_. None"]
  by (simp add: ex_rule_def rule_string_def rule_tokens_def ports_tokens_def dotted_def dec_string.simps digit_char_def char_of_def
      bit_0 Let_def)

text \<open>
  A destination port list that does not parse is dropped without an error: a description without
  destination ports followed by any other word is accepted and means the same as without the word, so the
  filter covers every destination port.
\<close>

theorem flowdesc_bad_dst_ports:
  assumes "addr_wf (fr_src r)" "addr_wf (fr_dst r)" "fr_dports r = []"
    and "w \<noteq> []" "\<forall>c \<in> set w. \<not> is_space c" "ParseFlowDescPorts w = Inl e"
  shows "ParseFlowDesc p6 (rule_string r @ '' '' @ w) = Inr (rule_desc r)"
proof -
  have join: "xs \<noteq> [] \<Longrightarrow> join_with '' '' xs @ '' '' @ w = join_with '' '' (xs @ [w])" for xs
    by (induction xs) (auto simp: join_with_Cons)
  have "rule_string r @ '' '' @ w = join_with '' '' (rule_tokens r @ [w])"
    unfolding rule_string_def by (rule join) (simp add: rule_tokens_def)
  then have toks: "strings_Fields (rule_string r @ CHR '' '' # w) = rule_tokens r @ [w]"
    using fields_join [of "rule_tokens r @ [w]"] rule_tokens_clean assms(4,5) by auto
  note defs = ParseFlowDesc_def toks rule_tokens_def fd_field_def ports_tokens_def proto_string IPNet_addr [OF assms(1)]
    IPNet_addr [OF assms(2)] Ports_string Ports_to rule_desc_def assms(3,6)
  show ?thesis by (cases "fr_sports r = []") (simp_all add: defs)
qed

theorem flowdesc_bad_dst_ports_witness:
  "ParseFlowDesc (\<lambda>_. None) (rule_string ex_rule @ '' '' @ ''80-http'') = Inr (rule_desc ex_rule) \<and>
   fd_DstPorts (rule_desc ex_rule) = []"
  using flowdesc_bad_dst_ports [of ex_rule "''80-http''" "ErrMsg ''strconv.ParseUint''" "\<lambda>_. None"]
  by (simp add: ex_rule_def is_space_def rule_desc_def ParseFlowDescPorts_def strings_Split_def strings_SplitN2_def
      parse_u16_def strconv_ParseUint_def digit_val_def)

end
