(* ===== verification/Driver_If.thy ===== *)
theory Driver_If
  imports Ie
begin

text \<open>
  The interface between the PFCP server and the forwarders, \<open>forwarder.Driver\<close> of
  \<^verbatim>\<open>internal/forwarder/driver.go\<close>, as a record of operations on an abstract driver state \<open>'d\<close>, and
  the forwarder that does nothing (\<^verbatim>\<open>internal/forwarder/empty.go\<close>). An operation that panics has no
  result. The locale \<open>rule_store\<close> is the contract the PFCP server relies on: which rules a driver holds
  after each operation. It is interpreted on the empty forwarder here and on the userspace forwarder in
  \<open>Userspace_Driver\<close>.
\<close>

section \<open>The interface\<close>

record ('ie, 'd) driver_api =
  dr_CreatePDR :: "u64 \<Rightarrow> 'ie \<Rightarrow> 'd \<Rightarrow> ('d \<times> error option) option"
  dr_UpdatePDR :: "u64 \<Rightarrow> 'ie \<Rightarrow> 'd \<Rightarrow> ('d \<times> error option) option"
  dr_RemovePDR :: "u64 \<Rightarrow> 'ie \<Rightarrow> 'd \<Rightarrow> ('d \<times> error option) option"
  dr_CreateFAR :: "u64 \<Rightarrow> 'ie \<Rightarrow> 'd \<Rightarrow> ('d \<times> error option) option"
  dr_UpdateFAR :: "u64 \<Rightarrow> 'ie \<Rightarrow> 'd \<Rightarrow> ('d \<times> error option) option"
  dr_RemoveFAR :: "u64 \<Rightarrow> 'ie \<Rightarrow> 'd \<Rightarrow> ('d \<times> error option) option"
  dr_CreateQER :: "u64 \<Rightarrow> 'ie \<Rightarrow> 'd \<Rightarrow> ('d \<times> error option) option"
  dr_UpdateQER :: "u64 \<Rightarrow> 'ie \<Rightarrow> 'd \<Rightarrow> ('d \<times> error option) option"
  dr_RemoveQER :: "u64 \<Rightarrow> 'ie \<Rightarrow> 'd \<Rightarrow> ('d \<times> error option) option"
  dr_CreateURR :: "u64 \<Rightarrow> 'ie \<Rightarrow> 'd \<Rightarrow> ('d \<times> error option) option"
  dr_UpdateURR :: "u64 \<Rightarrow> 'ie \<Rightarrow> 'd \<Rightarrow> ('d \<times> USAReport list res) option"
  dr_RemoveURR :: "u64 \<Rightarrow> 'ie \<Rightarrow> 'd \<Rightarrow> ('d \<times> USAReport list res) option"
  dr_QueryURR :: "u64 \<Rightarrow> u32 \<Rightarrow> 'd \<Rightarrow> ('d \<times> USAReport list res) option"
  dr_CreateBAR :: "u64 \<Rightarrow> 'ie \<Rightarrow> 'd \<Rightarrow> ('d \<times> error option) option"
  dr_UpdateBAR :: "u64 \<Rightarrow> 'ie \<Rightarrow> 'd \<Rightarrow> ('d \<times> error option) option"
  dr_RemoveBAR :: "u64 \<Rightarrow> 'ie \<Rightarrow> 'd \<Rightarrow> ('d \<times> error option) option"

section \<open>The empty forwarder\<close>

definition nop :: "u64 \<Rightarrow> 'ie \<Rightarrow> unit \<Rightarrow> (unit \<times> error option) option" where
  "nop seid req d = Some (d, None)"

definition nop_usage :: "u64 \<Rightarrow> 'x \<Rightarrow> unit \<Rightarrow> (unit \<times> USAReport list res) option" where
  "nop_usage seid req d = Some (d, Inr [])"

definition Empty :: "('ie, unit) driver_api" where
  "Empty = \<lparr>dr_CreatePDR = nop, dr_UpdatePDR = nop, dr_RemovePDR = nop,
     dr_CreateFAR = nop, dr_UpdateFAR = nop, dr_RemoveFAR = nop,
     dr_CreateQER = nop, dr_UpdateQER = nop, dr_RemoveQER = nop,
     dr_CreateURR = nop, dr_UpdateURR = nop_usage, dr_RemoveURR = nop_usage, dr_QueryURR = nop_usage,
     dr_CreateBAR = nop, dr_UpdateBAR = nop, dr_RemoveBAR = nop\<rparr>"

section \<open>Operations as data\<close>

text \<open>
  The sixteen operations fall into four groups. \<open>run\<close> executes one and says whether it returned an
  error, which is what the laws of the contract speak about.
\<close>

datatype kind = KPDR | KFAR | KQER | KURR | KBAR

datatype 'ie dop = DCreate kind 'ie | DUpdate kind 'ie | DRemove kind 'ie | DQuery u32

definition ok_err :: "'d \<times> error option \<Rightarrow> 'd \<times> bool" where
  "ok_err r = (fst r, snd r = None)"

definition ok_res :: "'d \<times> 'a res \<Rightarrow> 'd \<times> bool" where
  "ok_res r = (fst r, is_ok (snd r))"

fun run :: "('ie, 'd) driver_api \<Rightarrow> 'ie dop \<Rightarrow> u64 \<Rightarrow> 'd \<Rightarrow> ('d \<times> bool) option" where
  "run D (DCreate KPDR i) seid d = map_option ok_err (dr_CreatePDR D seid i d)"
| "run D (DCreate KFAR i) seid d = map_option ok_err (dr_CreateFAR D seid i d)"
| "run D (DCreate KQER i) seid d = map_option ok_err (dr_CreateQER D seid i d)"
| "run D (DCreate KURR i) seid d = map_option ok_err (dr_CreateURR D seid i d)"
| "run D (DCreate KBAR i) seid d = map_option ok_err (dr_CreateBAR D seid i d)"
| "run D (DUpdate KPDR i) seid d = map_option ok_err (dr_UpdatePDR D seid i d)"
| "run D (DUpdate KFAR i) seid d = map_option ok_err (dr_UpdateFAR D seid i d)"
| "run D (DUpdate KQER i) seid d = map_option ok_err (dr_UpdateQER D seid i d)"
| "run D (DUpdate KURR i) seid d = map_option ok_res (dr_UpdateURR D seid i d)"
| "run D (DUpdate KBAR i) seid d = map_option ok_err (dr_UpdateBAR D seid i d)"
| "run D (DRemove KPDR i) seid d = map_option ok_err (dr_RemovePDR D seid i d)"
| "run D (DRemove KFAR i) seid d = map_option ok_err (dr_RemoveFAR D seid i d)"
| "run D (DRemove KQER i) seid d = map_option ok_err (dr_RemoveQER D seid i d)"
| "run D (DRemove KURR i) seid d = map_option ok_res (dr_RemoveURR D seid i d)"
| "run D (DRemove KBAR i) seid d = map_option ok_err (dr_RemoveBAR D seid i d)"
| "run D (DQuery u) seid d = map_option ok_res (dr_QueryURR D seid u d)"

text \<open>The name of a rule within a session.\<close>

datatype rule_id = RPDR u16 | RFAR u32 | RQER u32 | RURR u32 | RBAR u8

text \<open>The rule a Remove element names: what its accessor reads.\<close>

fun named_rule :: "'ie ie_api \<Rightarrow> kind \<Rightarrow> 'ie \<Rightarrow> rule_id option" where
  "named_rule A KPDR i = (case ie_PDRID A i of Inl _ \<Rightarrow> None | Inr x \<Rightarrow> Some (RPDR x))"
| "named_rule A KFAR i = (case ie_u32 A A_FARID i of Inl _ \<Rightarrow> None | Inr x \<Rightarrow> Some (RFAR x))"
| "named_rule A KQER i = (case ie_u32 A A_QERID i of Inl _ \<Rightarrow> None | Inr x \<Rightarrow> Some (RQER x))"
| "named_rule A KURR i = (case ie_u32 A A_URRID i of Inl _ \<Rightarrow> None | Inr x \<Rightarrow> Some (RURR x))"
| "named_rule A KBAR i = (case ie_u8 A A_BARID i of Inl _ \<Rightarrow> None | Inr x \<Rightarrow> Some (RBAR x))"

text \<open>
  The PDR a Create PDR or Update PDR element names: the last PDR ID among its children, as both the
  session and the forwarder read it; a child that cannot be read is skipped.
\<close>

definition child_PDRID :: "'ie ie_api \<Rightarrow> 'ie list \<Rightarrow> u16" where
  "child_PDRID A ies =
     foldl (\<lambda>v i. if ie_Type A i = T_PDRID then (case ie_PDRID A i of Inl _ \<Rightarrow> v | Inr x \<Rightarrow> x) else v) 0 ies"

fun created_rule :: "'ie ie_api \<Rightarrow> kind \<Rightarrow> 'ie \<Rightarrow> rule_id option" where
  "created_rule A KPDR i = (case ie_group A G_CreatePDR i of Inl _ \<Rightarrow> None | Inr ies \<Rightarrow> Some (RPDR (child_PDRID A ies)))"
| "created_rule A k i = named_rule A k i"

section \<open>The contract\<close>

text \<open>
  \<open>rules d seid\<close> are the rules a driver in state \<open>d\<close> holds for a session. The laws: an operation
  concerns its session only; creating a rule adds at most the rule it names; updating and querying add
  nothing and drop nothing; removing a rule drops it, and if it fails, the rule was not there. The first
  parameter of the locale is the set of operations the laws hold for (elements the library reads
  consistently).
\<close>

locale rule_store =
  fixes wf :: "'ie dop \<Rightarrow> bool" and A :: "'ie ie_api" and D :: "('ie, 'd) driver_api"
    and rules :: "'d \<Rightarrow> u64 \<Rightarrow> rule_id set"
  assumes other: "run D op seid d = Some (d', ok) \<Longrightarrow> seid' \<noteq> seid \<Longrightarrow> rules d' seid' = rules d seid'"
    and create: "run D (DCreate k i) seid d = Some (d', ok) \<Longrightarrow> wf (DCreate k i) \<Longrightarrow> created_rule A k i = Some r \<Longrightarrow>
        rules d' seid \<subseteq> insert r (rules d seid)"
    and update: "run D (DUpdate k i) seid d = Some (d', ok) \<Longrightarrow> rules d' seid = rules d seid"
    and query: "run D (DQuery u) seid d = Some (d', ok) \<Longrightarrow> rules d' seid = rules d seid"
    and remove: "run D (DRemove k i) seid d = Some (d', ok) \<Longrightarrow> named_rule A k i = Some r \<Longrightarrow>
        rules d' seid = rules d seid - {r}"

lemma run_intros:
  "dr_CreatePDR D j i d = Some (d', e) \<Longrightarrow> run D (DCreate KPDR i) j d = Some (d', e = None)"
  "dr_CreateFAR D j i d = Some (d', e) \<Longrightarrow> run D (DCreate KFAR i) j d = Some (d', e = None)"
  "dr_CreateQER D j i d = Some (d', e) \<Longrightarrow> run D (DCreate KQER i) j d = Some (d', e = None)"
  "dr_CreateURR D j i d = Some (d', e) \<Longrightarrow> run D (DCreate KURR i) j d = Some (d', e = None)"
  "dr_CreateBAR D j i d = Some (d', e) \<Longrightarrow> run D (DCreate KBAR i) j d = Some (d', e = None)"
  "dr_UpdatePDR D j i d = Some (d', e) \<Longrightarrow> run D (DUpdate KPDR i) j d = Some (d', e = None)"
  "dr_UpdateFAR D j i d = Some (d', e) \<Longrightarrow> run D (DUpdate KFAR i) j d = Some (d', e = None)"
  "dr_UpdateQER D j i d = Some (d', e) \<Longrightarrow> run D (DUpdate KQER i) j d = Some (d', e = None)"
  "dr_UpdateURR D j i d = Some (d', r) \<Longrightarrow> run D (DUpdate KURR i) j d = Some (d', is_ok r)"
  "dr_UpdateBAR D j i d = Some (d', e) \<Longrightarrow> run D (DUpdate KBAR i) j d = Some (d', e = None)"
  "dr_RemovePDR D j i d = Some (d', e) \<Longrightarrow> run D (DRemove KPDR i) j d = Some (d', e = None)"
  "dr_RemoveFAR D j i d = Some (d', e) \<Longrightarrow> run D (DRemove KFAR i) j d = Some (d', e = None)"
  "dr_RemoveQER D j i d = Some (d', e) \<Longrightarrow> run D (DRemove KQER i) j d = Some (d', e = None)"
  "dr_RemoveURR D j i d = Some (d', r) \<Longrightarrow> run D (DRemove KURR i) j d = Some (d', is_ok r)"
  "dr_RemoveBAR D j i d = Some (d', e) \<Longrightarrow> run D (DRemove KBAR i) j d = Some (d', e = None)"
  "dr_QueryURR D j u d = Some (d', r) \<Longrightarrow> run D (DQuery u) j d = Some (d', is_ok r)"
  by (simp_all add: ok_err_def ok_res_def)

context rule_store
begin

lemmas others = run_intros [THEN other]
lemmas creates = run_intros(1-5) [THEN create]
lemmas updates = run_intros(6-10) [THEN update]
lemmas removes = run_intros(11-15) [THEN remove]
lemmas queries = run_intros(16) [THEN query]

end

interpretation empty_store: rule_store "\<lambda>_. True" A Empty "\<lambda>_ _. {}" for A :: "'ie ie_api"
  by unfold_locales simp_all

end
