(* ===== verification/Gtp5g_Attrs.thy ===== *)
theory Gtp5g_Attrs
  imports Flow_Desc Driver_If
begin

text \<open>
  The gtp5g forwarder, \<^verbatim>\<open>internal/forwarder/gtp5g.go\<close>, first part: how the information elements of a rule
  become the netlink attributes the kernel module reads. The attribute numbers of the library
  \<^verbatim>\<open>go-gtp5gnl\<close> are kept symbolic, one data type for each nesting level. What else the code takes from
  libraries is in the record \<open>g5_lib\<close>: the accessors of \<open>go-pfcp\<close> (theory \<open>Ie\<close> and the full SDF filter),
  the flag tests of its structures, the byte order of the machine and the constants of the module. A wrapped
  error is the error itself; logging is left out. \<open>None\<close> is a panic.
\<close>

section \<open>Attributes\<close>

datatype flow_attr = FLOW_DESCRIPTION_ACTION | FLOW_DESCRIPTION_DIRECTION | FLOW_DESCRIPTION_PROTOCOL
  | FLOW_DESCRIPTION_SRC_IPV4 | FLOW_DESCRIPTION_SRC_MASK | FLOW_DESCRIPTION_DEST_IPV4 | FLOW_DESCRIPTION_DEST_MASK | FLOW_DESCRIPTION_SRC_PORT | FLOW_DESCRIPTION_DEST_PORT
datatype sdf_attr = SDF_FILTER_FLOW_DESCRIPTION | SDF_FILTER_TOS_TRAFFIC_CLASS
  | SDF_FILTER_SECURITY_PARAMETER_INDEX | SDF_FILTER_FLOW_LABEL | SDF_FILTER_SDF_FILTER_ID
datatype pdi_attr_type = PDI_SRC_INTF | PDI_F_TEID | PDI_UE_ADDR_IPV4 | PDI_SDF_FILTER
datatype fteid_attr = F_TEID_I_TEID | F_TEID_GTPU_ADDR_IPV4
datatype pdr_attr = PDR_PRECEDENCE | PDR_PDI | PDR_OUTER_HEADER_REMOVAL | PDR_FAR_ID | PDR_QER_ID | PDR_URR_ID | PDR_UNIX_SOCKET_PATH
datatype outer_attr = OUTER_HEADER_CREATION_DESCRIPTION | OUTER_HEADER_CREATION_O_TEID
  | OUTER_HEADER_CREATION_PORT | OUTER_HEADER_CREATION_PEER_ADDR_IPV4
datatype fwd_attr = FORWARDING_PARAMETER_OUTER_HEADER_CREATION | FORWARDING_PARAMETER_FORWARDING_POLICY
  | FORWARDING_PARAMETER_PFCPSM_REQ_FLAGS
datatype far_attr = FAR_APPLY_ACTION | FAR_FORWARDING_PARAMETER | FAR_BAR_ID
datatype mbr_attr = QER_MBR_UL_HIGH32 | QER_MBR_UL_LOW8 | QER_MBR_DL_HIGH32 | QER_MBR_DL_LOW8
datatype gbr_attr = QER_GBR_UL_HIGH32 | QER_GBR_UL_LOW8 | QER_GBR_DL_HIGH32 | QER_GBR_DL_LOW8
datatype qer_attr_type = QER_CORR_ID | QER_GATE | QER_MBR | QER_GBR | QER_QFI | QER_RQI | QER_PPI
datatype threshold_attr = URR_VOLUME_THRESHOLD_FLAG | URR_VOLUME_THRESHOLD_TOVOL | URR_VOLUME_THRESHOLD_UVOL | URR_VOLUME_THRESHOLD_DVOL
datatype quota_attr = URR_VOLUME_QUOTA_FLAG | URR_VOLUME_QUOTA_TOVOL | URR_VOLUME_QUOTA_UVOL | URR_VOLUME_QUOTA_DVOL
datatype urr_attr = URR_MEASUREMENT_METHOD | URR_REPORTING_TRIGGER | URR_MEASUREMENT_PERIOD
  | URR_MEASUREMENT_INFO | URR_VOLUME_THRESHOLD | URR_VOLUME_QUOTA
datatype bar_attr_type = BAR_DOWNLINK_DATA_NOTIFICATION_DELAY | BAR_BUFFERING_PACKETS_COUNT

datatype attr_type =
    AFlow flow_attr
  | ASdf sdf_attr
  | APdi pdi_attr_type
  | AFteid fteid_attr
  | APdr pdr_attr
  | AOuter outer_attr
  | AFwd fwd_attr
  | AFar far_attr
  | AMbr mbr_attr
  | AGbr gbr_attr
  | AQer qer_attr_type
  | AThreshold threshold_attr
  | AQuota quota_attr
  | AUrr urr_attr
  | ABar bar_attr_type

datatype attr = Attr attr_type attr_value
and attr_value =
    AttrU8 u8 | AttrU16 u16 | AttrU32 u32 | AttrU64 u64 | AttrBytes bytes | AttrString string
  | AttrList "attr list"

text \<open>The constants \<open>SDF_FILTER_PERMIT\<close>, \<open>SDF_FILTER_IN\<close> and \<open>SDF_FILTER_OUT\<close> are the library's.\<close>

record SDFFields =
  sf_HasFD :: bool
  sf_FlowDescription :: string
  sf_HasTTC :: bool
  sf_HasSPI :: bool
  sf_HasFL :: bool
  sf_HasBID :: bool
  sf_SDFFilterID :: u32

record 'ie g5_lib =
  gl_api :: "'ie ie_api"
  gl_p6 :: "string \<Rightarrow> bytes option"
  gl_SDFFilter :: "'ie \<Rightarrow> SDFFields res"
  gl_HasTEID :: "OuterHeaderFields \<Rightarrow> bool"
  gl_HasIPv4 :: "OuterHeaderFields \<Rightarrow> bool"
  gl_HasTOVOL :: "VolumeFields \<Rightarrow> bool"
  gl_HasULVOL :: "VolumeFields \<Rightarrow> bool"
  gl_HasDLVOL :: "VolumeFields \<Rightarrow> bool"
  gl_little_endian :: bool
  gl_SDF_FILTER_PERMIT :: u8
  gl_SDF_FILTER_IN :: u8
  gl_SDF_FILTER_OUT :: u8
  gl_PdrAddrForNetlink :: string
  gl_MaxNetlinkUsageReportNum :: nat

section \<open>Loops that may panic or return an error\<close>

fun bindR :: "'a res option \<Rightarrow> ('a \<Rightarrow> 'b res option) \<Rightarrow> 'b res option" where
  "bindR None f = None"
| "bindR (Some (Inl e)) f = Some (Inl e)"
| "bindR (Some (Inr a)) f = f a"

fun foldR :: "('s \<Rightarrow> 'a \<Rightarrow> 's res option) \<Rightarrow> 's \<Rightarrow> 'a list \<Rightarrow> 's res option" where
  "foldR f s [] = Some (Inr s)"
| "foldR f s (x # xs) = bindR (f s x) (\<lambda>s'. foldR f s' xs)"

text \<open>\<open>if err != nil { break }\<close> inside a switch: the element is skipped.\<close>

definition or_skip :: "'a res \<Rightarrow> 's \<Rightarrow> ('a \<Rightarrow> 's) \<Rightarrow> 's" where
  "or_skip r s f = (case r of Inl _ \<Rightarrow> s | Inr v \<Rightarrow> f v)"

section \<open>Flow descriptions and SDF filters\<close>

definition put_native32 :: "bool \<Rightarrow> u32 \<Rightarrow> bytes" where
  "put_native32 le w = (if le then put_le32 w else put_be32 w)"

definition convert_port :: "u16 list \<Rightarrow> u32" where
  "convert_port p = (case p of
     [a] \<Rightarrow> push_bit 16 (ucast a) OR ucast a
   | [a, b] \<Rightarrow> push_bit 16 (ucast a) OR ucast b
   | _ \<Rightarrow> 0)"

definition convertSlice :: "bool \<Rightarrow> u16 list list \<Rightarrow> bytes" where
  "convertSlice le ports = concat (map (\<lambda>p. put_native32 le (convert_port p)) ports)"

definition newFlowDesc :: "'ie g5_lib \<Rightarrow> string \<Rightarrow> bool \<Rightarrow> attr list res" where
  "newFlowDesc L s swapSrcDst =
     bindE (ParseFlowDesc (gl_p6 L) s) (\<lambda>fd.
     let fd = (if swapSrcDst
               then fd\<lparr>fd_Src := fd_Dst fd, fd_Dst := fd_Src fd, fd_SrcPorts := fd_DstPorts fd, fd_DstPorts := fd_SrcPorts fd\<rparr>
               else fd) in
     if fd_Action fd \<noteq> ''permit'' then Inl (ErrMsg ''not support action'') else
     bindE (if fd_Dir fd = ''in'' then Inr (gl_SDF_FILTER_IN L)
            else if fd_Dir fd = ''out'' then Inr (gl_SDF_FILTER_OUT L)
            else Inl (ErrMsg ''not support dir'')) (\<lambda>dir.
     Inr [Attr (AFlow FLOW_DESCRIPTION_ACTION) (AttrU8 (gl_SDF_FILTER_PERMIT L)),
          Attr (AFlow FLOW_DESCRIPTION_DIRECTION) (AttrU8 dir),
          Attr (AFlow FLOW_DESCRIPTION_PROTOCOL) (AttrU8 (fd_Proto fd)),
          Attr (AFlow FLOW_DESCRIPTION_SRC_IPV4) (AttrBytes (net_IP (fd_Src fd))),
          Attr (AFlow FLOW_DESCRIPTION_SRC_MASK) (AttrBytes (net_Mask (fd_Src fd))),
          Attr (AFlow FLOW_DESCRIPTION_DEST_IPV4) (AttrBytes (net_IP (fd_Dst fd))),
          Attr (AFlow FLOW_DESCRIPTION_DEST_MASK) (AttrBytes (net_Mask (fd_Dst fd))),
          Attr (AFlow FLOW_DESCRIPTION_SRC_PORT) (AttrBytes (convertSlice (gl_little_endian L) (fd_SrcPorts fd))),
          Attr (AFlow FLOW_DESCRIPTION_DEST_PORT) (AttrBytes (convertSlice (gl_little_endian L) (fd_DstPorts fd)))]))"

text \<open>The bytes of the element are indexed without a check of the first, so an empty payload panics.\<close>

definition newSdfFilter :: "'ie g5_lib \<Rightarrow> 'ie \<Rightarrow> u8 \<Rightarrow> attr list res option" where
  "newSdfFilter L i srcIf =
     (let payload = ie_Payload (gl_api L) i in
      if payload = [] then None
      else
        let hasFD = (payload ! 0 AND 1 \<noteq> 0) in
        if hasFD \<and> length payload < 4 then Some (Inl (ErrMsg ''SDF Filter IE with FD flag needs Length of Flow Description''))
        else if hasFD \<and> int (length payload) - 4 < int (unat (be16 (payload ! 2) (payload ! 3)))
        then Some (Inl (ErrMsg ''SDF Filter FDLength exceeds available payload''))
        else Some (
          bindE (gl_SDFFilter L i) (\<lambda>v.
          bindE (if sf_HasFD v
                 then bindE (newFlowDesc L (sf_FlowDescription v) (srcIf = ie_SrcInterfaceAccess (gl_api L)))
                        (\<lambda>fd. Inr [Attr (ASdf SDF_FILTER_FLOW_DESCRIPTION) (AttrList fd)])
                 else Inr []) (\<lambda>attrs.
          Inr (attrs @
            (if sf_HasTTC v then [Attr (ASdf SDF_FILTER_TOS_TRAFFIC_CLASS) (AttrU16 29)] else []) @
            (if sf_HasSPI v then [Attr (ASdf SDF_FILTER_SECURITY_PARAMETER_INDEX) (AttrU32 30)] else []) @
            (if sf_HasFL v then [Attr (ASdf SDF_FILTER_FLOW_LABEL) (AttrU32 31)] else []) @
            (if sf_HasBID v then [Attr (ASdf SDF_FILTER_SDF_FILTER_ID) (AttrU32 (sf_SDFFilterID v))] else []))))))"

section \<open>PDRs\<close>

record 'ie pdi_loop =
  pl_attrs :: "attr list"
  pl_srcIf :: u8
  pl_sdfIEs :: "'ie list"

definition newPdi_step :: "'ie ie_api \<Rightarrow> 'ie pdi_loop \<Rightarrow> 'ie \<Rightarrow> 'ie pdi_loop res" where
  "newPdi_step A st x =
     (case ie_Type A x of
        T_SourceInterface \<Rightarrow>
          Inr (or_skip (ie_u8 A A_SourceInterface x) st (\<lambda>v.
            st\<lparr>pl_attrs := pl_attrs st @ [Attr (APdi PDI_SRC_INTF) (AttrU8 v)], pl_srcIf := v\<rparr>))
      | T_FTEID \<Rightarrow>
          Inr (or_skip (ie_FTEID A x) st (\<lambda>(teid, ip).
            st\<lparr>pl_attrs := pl_attrs st @ [Attr (APdi PDI_F_TEID) (AttrList
                 [Attr (AFteid F_TEID_I_TEID) (AttrU32 teid), Attr (AFteid F_TEID_GTPU_ADDR_IPV4) (AttrBytes ip)])]\<rparr>))
      | T_UEIPAddress \<Rightarrow>
          Inr (or_skip (ie_UEIPAddress A x) st (\<lambda>v.
            st\<lparr>pl_attrs := pl_attrs st @ [Attr (APdi PDI_UE_ADDR_IPV4) (AttrBytes v)]\<rparr>))
      | T_SDFFilter \<Rightarrow>
          if length (ie_Payload A x) < 3 then Inl (ErrMsg ''SDF Filter IE payload too short'')
          else Inr (st\<lparr>pl_sdfIEs := pl_sdfIEs st @ [x]\<rparr>)
      | _ \<Rightarrow> Inr st)"

definition newPdi :: "'ie g5_lib \<Rightarrow> 'ie \<Rightarrow> attr list res option" where
  "newPdi L i =
     (case bindE (ie_group (gl_api L) G_PDI i)
        (foldE (newPdi_step (gl_api L)) \<lparr>pl_attrs = [], pl_srcIf = 0, pl_sdfIEs = []\<rparr>) of
        Inl e \<Rightarrow> Some (Inl e)
      | Inr st \<Rightarrow>
          foldR (\<lambda>attrs x. bindR (newSdfFilter L x (pl_srcIf st))
            (\<lambda>v. Some (Inr (attrs @ [Attr (APdi PDI_SDF_FILTER) (AttrList v)])))) (pl_attrs st) (pl_sdfIEs st))"

text \<open>The state of the loops over the elements of a rule: its identifier and the attributes.\<close>

type_synonym rule_attrs = "u64 \<times> attr list"

definition add_attr :: "rule_attrs \<Rightarrow> attr \<Rightarrow> rule_attrs" where
  "add_attr st a = (fst st, snd st @ [a])"

definition pdi_attr :: "'ie g5_lib \<Rightarrow> rule_attrs \<Rightarrow> 'ie \<Rightarrow> rule_attrs res option" where
  "pdi_attr L st i = bindR (newPdi L i) (\<lambda>v.
     Some (Inr (if v \<noteq> [] then add_attr st (Attr (APdr PDR_PDI) (AttrList v)) else st)))"

definition create_pdr_attr :: "'ie g5_lib \<Rightarrow> rule_attrs \<Rightarrow> 'ie \<Rightarrow> rule_attrs res option" where
  "create_pdr_attr L st i =
     (let A = gl_api L in
      case ie_Type A i of
        T_PDRID \<Rightarrow> Some (bindE (ie_PDRID A i) (\<lambda>v. Inr (ucast v, snd st)))
      | T_Precedence \<Rightarrow> Some (bindE (ie_u32 A A_Precedence i) (\<lambda>v. Inr (add_attr st (Attr (APdr PDR_PRECEDENCE) (AttrU32 v)))))
      | T_PDI \<Rightarrow> pdi_attr L st i
      | T_OuterHeaderRemoval \<Rightarrow>
          Some (bindE (ie_u8 A A_OuterHeaderRemovalDescription i) (\<lambda>v. Inr (add_attr st (Attr (APdr PDR_OUTER_HEADER_REMOVAL) (AttrU8 v)))))
      | T_FARID \<Rightarrow> Some (bindE (ie_u32 A A_FARID i) (\<lambda>v. Inr (add_attr st (Attr (APdr PDR_FAR_ID) (AttrU32 v)))))
      | T_QERID \<Rightarrow> Some (Inr (or_skip (ie_u32 A A_QERID i) st (\<lambda>v. add_attr st (Attr (APdr PDR_QER_ID) (AttrU32 v)))))
      | T_URRID \<Rightarrow> Some (Inr (or_skip (ie_u32 A A_URRID i) st (\<lambda>v. add_attr st (Attr (APdr PDR_URR_ID) (AttrU32 v)))))
      | _ \<Rightarrow> Some (Inr st))"

definition update_pdr_attr :: "'ie g5_lib \<Rightarrow> rule_attrs \<Rightarrow> 'ie \<Rightarrow> rule_attrs res option" where
  "update_pdr_attr L st i =
     (let A = gl_api L in
      case ie_Type A i of
        T_PDRID \<Rightarrow> Some (bindE (ie_PDRID A i) (\<lambda>v. Inr (ucast v, snd st)))
      | T_Precedence \<Rightarrow> Some (Inr (or_skip (ie_u32 A A_Precedence i) st (\<lambda>v. add_attr st (Attr (APdr PDR_PRECEDENCE) (AttrU32 v)))))
      | T_PDI \<Rightarrow> pdi_attr L st i
      | T_OuterHeaderRemoval \<Rightarrow>
          Some (Inr (or_skip (ie_u8 A A_OuterHeaderRemovalDescription i) st (\<lambda>v. add_attr st (Attr (APdr PDR_OUTER_HEADER_REMOVAL) (AttrU8 v)))))
      | T_FARID \<Rightarrow> Some (Inr (or_skip (ie_u32 A A_FARID i) st (\<lambda>v. add_attr st (Attr (APdr PDR_FAR_ID) (AttrU32 v)))))
      | T_QERID \<Rightarrow> Some (Inr (or_skip (ie_u32 A A_QERID i) st (\<lambda>v. add_attr st (Attr (APdr PDR_QER_ID) (AttrU32 v)))))
      | T_URRID \<Rightarrow> Some (Inr (or_skip (ie_u32 A A_URRID i) st (\<lambda>v. add_attr st (Attr (APdr PDR_URR_ID) (AttrU32 v)))))
      | _ \<Rightarrow> Some (Inr st))"

section \<open>FARs\<close>

definition UpfGtpDefaultPort_u16 :: u16 where
  "UpfGtpDefaultPort_u16 = 2152"

definition outer_header_attrs :: "'ie g5_lib \<Rightarrow> OuterHeaderFields \<Rightarrow> attr list" where
  "outer_header_attrs L v =
     [Attr (AOuter OUTER_HEADER_CREATION_DESCRIPTION) (AttrU16 (oh_Description v))] @
     (if gl_HasTEID L v
      then [Attr (AOuter OUTER_HEADER_CREATION_O_TEID) (AttrU32 (oh_TEID v)), Attr (AOuter OUTER_HEADER_CREATION_PORT) (AttrU16 UpfGtpDefaultPort_u16)]
      else [Attr (AOuter OUTER_HEADER_CREATION_PORT) (AttrU16 (oh_PortNumber v))]) @
     (if gl_HasIPv4 L v then [Attr (AOuter OUTER_HEADER_CREATION_PEER_ADDR_IPV4) (AttrBytes (oh_IPv4Address v))] else [])"

definition forwarding_attr :: "'ie g5_lib \<Rightarrow> attr list \<Rightarrow> 'ie \<Rightarrow> attr list" where
  "forwarding_attr L attrs x =
     (let A = gl_api L in
      case ie_Type A x of
        T_OuterHeaderCreation \<Rightarrow>
          or_skip (ie_ParseOuterHeaderCreation A (ie_Payload A x)) attrs (\<lambda>v.
            attrs @ [Attr (AFwd FORWARDING_PARAMETER_OUTER_HEADER_CREATION) (AttrList (outer_header_attrs L v))])
      | T_ForwardingPolicy \<Rightarrow>
          or_skip (ie_string A A_ForwardingPolicyIdentifier x) attrs (\<lambda>v.
            attrs @ [Attr (AFwd FORWARDING_PARAMETER_FORWARDING_POLICY) (AttrString v)])
      | T_PFCPSMReqFlags \<Rightarrow>
          or_skip (ie_u8 A A_PFCPSMReqFlags x) attrs (\<lambda>v. attrs @ [Attr (AFwd FORWARDING_PARAMETER_PFCPSM_REQ_FLAGS) (AttrU8 v)])
      | _ \<Rightarrow> attrs)"

definition newForwardingParameter :: "'ie g5_lib \<Rightarrow> 'ie list \<Rightarrow> attr list" where
  "newForwardingParameter L ies = foldl (forwarding_attr L) [] ies"

definition forwarding_param_attr :: "'ie g5_lib \<Rightarrow> group_acc \<Rightarrow> rule_attrs \<Rightarrow> 'ie \<Rightarrow> rule_attrs res" where
  "forwarding_param_attr L g st i =
     bindE (ie_group (gl_api L) g i) (\<lambda>xs.
     let v = newForwardingParameter L xs
     in Inr (if v \<noteq> [] then add_attr st (Attr (AFar FAR_FORWARDING_PARAMETER) (AttrList v)) else st))"

definition read_action :: "'ie ie_api \<Rightarrow> 'ie \<Rightarrow> ApplyAction res" where
  "read_action A i = bindE (ie_octets A A_ApplyAction i) ApplyAction_Unmarshal"

definition create_far_attr :: "'ie g5_lib \<Rightarrow> rule_attrs \<Rightarrow> 'ie \<Rightarrow> rule_attrs res" where
  "create_far_attr L st i =
     (let A = gl_api L in
      case ie_Type A i of
        T_FARID \<Rightarrow> bindE (ie_u32 A A_FARID i) (\<lambda>v. Inr (ucast v, snd st))
      | T_ApplyAction \<Rightarrow> bindE (read_action A i) (\<lambda>act. Inr (add_attr st (Attr (AFar FAR_APPLY_ACTION) (AttrU16 (aa_Flags act)))))
      | T_ForwardingParameters \<Rightarrow> forwarding_param_attr L G_ForwardingParameters st i
      | T_BARID \<Rightarrow> Inr (or_skip (ie_u8 A A_BARID i) st (\<lambda>v. add_attr st (Attr (AFar FAR_BAR_ID) (AttrU8 v))))
      | _ \<Rightarrow> Inr st)"

section \<open>QERs\<close>

text \<open>A rate of 40 bits as its high 32 and low 8 bits.\<close>

definition rate_attrs :: "attr_type \<Rightarrow> attr_type \<Rightarrow> attr_type \<Rightarrow> attr_type \<Rightarrow> u64 \<Rightarrow> u64 \<Rightarrow> attr_value" where
  "rate_attrs ulh ull dlh dll ul dl = AttrList
     [Attr ulh (AttrU32 (ucast (drop_bit 8 ul))), Attr ull (AttrU8 (ucast ul)),
      Attr dlh (AttrU32 (ucast (drop_bit 8 dl))), Attr dll (AttrU8 (ucast dl))]"

text \<open>The loops of \<open>CreateQER\<close> and \<open>UpdateQER\<close> have the same body.\<close>

definition qer_attr :: "'ie g5_lib \<Rightarrow> rule_attrs \<Rightarrow> 'ie \<Rightarrow> rule_attrs" where
  "qer_attr L st i =
     (let A = gl_api L in
      case ie_Type A i of
        T_QERID \<Rightarrow> or_skip (ie_u32 A A_QERID i) st (\<lambda>v. (ucast v, snd st))
      | T_QERCorrelationID \<Rightarrow> or_skip (ie_u32 A A_QERCorrelationID i) st (\<lambda>v. add_attr st (Attr (AQer QER_CORR_ID) (AttrU32 v)))
      | T_GateStatus \<Rightarrow> or_skip (ie_u8 A A_GateStatus i) st (\<lambda>v. add_attr st (Attr (AQer QER_GATE) (AttrU8 v)))
      | T_MBR \<Rightarrow>
          or_skip (ie_u64 A A_MBRUL i) st (\<lambda>ul. or_skip (ie_u64 A A_MBRDL i) st (\<lambda>dl.
            add_attr st (Attr (AQer QER_MBR) (rate_attrs (AMbr QER_MBR_UL_HIGH32) (AMbr QER_MBR_UL_LOW8) (AMbr QER_MBR_DL_HIGH32) (AMbr QER_MBR_DL_LOW8) ul dl))))
      | T_GBR \<Rightarrow>
          or_skip (ie_u64 A A_GBRUL i) st (\<lambda>ul. or_skip (ie_u64 A A_GBRDL i) st (\<lambda>dl.
            add_attr st (Attr (AQer QER_GBR) (rate_attrs (AGbr QER_GBR_UL_HIGH32) (AGbr QER_GBR_UL_LOW8) (AGbr QER_GBR_DL_HIGH32) (AGbr QER_GBR_DL_LOW8) ul dl))))
      | T_QFI \<Rightarrow> or_skip (ie_u8 A A_QFI i) st (\<lambda>v. add_attr st (Attr (AQer QER_QFI) (AttrU8 v)))
      | T_RQI \<Rightarrow> or_skip (ie_u8 A A_RQI i) st (\<lambda>v. add_attr st (Attr (AQer QER_RQI) (AttrU8 v)))
      | T_PagingPolicyIndicator \<Rightarrow> or_skip (ie_u8 A A_PagingPolicyIndicator i) st (\<lambda>v. add_attr st (Attr (AQer QER_PPI) (AttrU8 v)))
      | _ \<Rightarrow> st)"

section \<open>URRs\<close>

definition newVolumeThreshold :: "'ie g5_lib \<Rightarrow> 'ie \<Rightarrow> attr list res" where
  "newVolumeThreshold L i =
     bindE (ie_Volume (gl_api L) A_VolumeThreshold i) (\<lambda>v.
     Inr ([Attr (AThreshold URR_VOLUME_THRESHOLD_FLAG) (AttrU8 (vf_Flags v))] @
       (if gl_HasTOVOL L v then [Attr (AThreshold URR_VOLUME_THRESHOLD_TOVOL) (AttrU64 (vf_TotalVolume v))] else []) @
       (if gl_HasULVOL L v then [Attr (AThreshold URR_VOLUME_THRESHOLD_UVOL) (AttrU64 (vf_UplinkVolume v))] else []) @
       (if gl_HasDLVOL L v then [Attr (AThreshold URR_VOLUME_THRESHOLD_DVOL) (AttrU64 (vf_DownlinkVolume v))] else [])))"

definition newVolumeQuota :: "'ie g5_lib \<Rightarrow> 'ie \<Rightarrow> attr list res" where
  "newVolumeQuota L i =
     bindE (ie_Volume (gl_api L) A_VolumeQuota i) (\<lambda>v.
     Inr ([Attr (AQuota URR_VOLUME_QUOTA_FLAG) (AttrU8 (vf_Flags v))] @
       (if gl_HasTOVOL L v then [Attr (AQuota URR_VOLUME_QUOTA_TOVOL) (AttrU64 (vf_TotalVolume v))] else []) @
       (if gl_HasULVOL L v then [Attr (AQuota URR_VOLUME_QUOTA_UVOL) (AttrU64 (vf_UplinkVolume v))] else []) @
       (if gl_HasDLVOL L v then [Attr (AQuota URR_VOLUME_QUOTA_DVOL) (AttrU64 (vf_DownlinkVolume v))] else [])))"

text \<open>A duration is cut to 32 bits of nanoseconds when it becomes an attribute.\<close>

record urr_loop =
  ul_urrid :: u32
  ul_rptTrig :: ReportingTrigger
  ul_period :: duration
  ul_attrs :: "attr list"

definition ul_add :: "urr_loop \<Rightarrow> attr \<Rightarrow> urr_loop" where
  "ul_add st a = st\<lparr>ul_attrs := ul_attrs st @ [a]\<rparr>"

definition create_urr_attr :: "'ie g5_lib \<Rightarrow> urr_loop \<Rightarrow> 'ie \<Rightarrow> urr_loop res" where
  "create_urr_attr L st i =
     (let A = gl_api L in
      case ie_Type A i of
        T_URRID \<Rightarrow> bindE (ie_u32 A A_URRID i) (\<lambda>v. Inr (st\<lparr>ul_urrid := v\<rparr>))
      | T_MeasurementMethod \<Rightarrow> bindE (ie_u8 A A_MeasurementMethod i) (\<lambda>v. Inr (ul_add st (Attr (AUrr URR_MEASUREMENT_METHOD) (AttrU8 v))))
      | T_ReportingTriggers \<Rightarrow>
          bindE (ie_octets A A_ReportingTriggers i) (\<lambda>v. bindE (ReportingTrigger_Unmarshal v) (\<lambda>t.
            Inr (ul_add (st\<lparr>ul_rptTrig := t\<rparr>) (Attr (AUrr URR_REPORTING_TRIGGER) (AttrU32 (rt_Flags t))))))
      | T_MeasurementPeriod \<Rightarrow>
          bindE (ie_duration A A_MeasurementPeriod i) (\<lambda>p.
            if p \<le> 0 then Inl (ErrMsg ''invalid measurement period'')
            else Inr (ul_add (st\<lparr>ul_period := p\<rparr>) (Attr (AUrr URR_MEASUREMENT_PERIOD) (AttrU32 (of_int p)))))
      | T_MeasurementInformation \<Rightarrow>
          bindE (ie_u8 A A_MeasurementInformation i) (\<lambda>v. Inr (ul_add st (Attr (AUrr URR_MEASUREMENT_INFO) (AttrU64 (ucast v)))))
      | T_VolumeThreshold \<Rightarrow>
          Inr (or_skip (newVolumeThreshold L i) st (\<lambda>v. ul_add st (Attr (AUrr URR_VOLUME_THRESHOLD) (AttrList v))))
      | T_VolumeQuota \<Rightarrow> Inr (or_skip (newVolumeQuota L i) st (\<lambda>v. ul_add st (Attr (AUrr URR_VOLUME_QUOTA) (AttrList v))))
      | _ \<Rightarrow> Inr st)"

definition update_urr_attr :: "'ie g5_lib \<Rightarrow> rule_attrs \<Rightarrow> 'ie \<Rightarrow> rule_attrs res" where
  "update_urr_attr L st i =
     (let A = gl_api L in
      case ie_Type A i of
        T_URRID \<Rightarrow> bindE (ie_u32 A A_URRID i) (\<lambda>v. Inr (ucast v, snd st))
      | T_MeasurementMethod \<Rightarrow> bindE (ie_u8 A A_MeasurementMethod i) (\<lambda>v. Inr (add_attr st (Attr (AUrr URR_MEASUREMENT_METHOD) (AttrU8 v))))
      | T_ReportingTriggers \<Rightarrow>
          bindE (ie_octets A A_ReportingTriggers i) (\<lambda>v. bindE (ReportingTrigger_Unmarshal v) (\<lambda>t.
            Inr (add_attr st (Attr (AUrr URR_REPORTING_TRIGGER) (AttrU32 (rt_Flags t))))))
      | T_MeasurementPeriod \<Rightarrow>
          bindE (ie_duration A A_MeasurementPeriod i) (\<lambda>p. Inr (add_attr st (Attr (AUrr URR_MEASUREMENT_PERIOD) (AttrU32 (of_int p)))))
      | T_MeasurementInformation \<Rightarrow>
          bindE (ie_u8 A A_MeasurementInformation i) (\<lambda>v. Inr (add_attr st (Attr (AUrr URR_MEASUREMENT_INFO) (AttrU64 (ucast v)))))
      | T_VolumeThreshold \<Rightarrow>
          Inr (or_skip (newVolumeThreshold L i) st (\<lambda>v. add_attr st (Attr (AUrr URR_VOLUME_THRESHOLD) (AttrList v))))
      | T_VolumeQuota \<Rightarrow> Inr (or_skip (newVolumeQuota L i) st (\<lambda>v. add_attr st (Attr (AUrr URR_VOLUME_QUOTA) (AttrList v))))
      | _ \<Rightarrow> Inr st)"

section \<open>BARs\<close>

text \<open>The loops of \<open>CreateBAR\<close> and \<open>UpdateBAR\<close> have the same body. A delay is cut to 8 bits of nanoseconds.\<close>

definition bar_attr :: "'ie g5_lib \<Rightarrow> rule_attrs \<Rightarrow> 'ie \<Rightarrow> rule_attrs res" where
  "bar_attr L st i =
     (let A = gl_api L in
      case ie_Type A i of
        T_BARID \<Rightarrow> bindE (ie_u8 A A_BARID i) (\<lambda>v. Inr (ucast v, snd st))
      | T_DownlinkDataNotificationDelay \<Rightarrow>
          bindE (ie_duration A A_DownlinkDataNotificationDelay i) (\<lambda>v.
            Inr (add_attr st (Attr (ABar BAR_DOWNLINK_DATA_NOTIFICATION_DELAY) (AttrU8 (of_int v)))))
      | T_SuggestedBufferingPacketsCount \<Rightarrow>
          bindE (ie_u8 A A_SuggestedBufferingPacketsCount i) (\<lambda>v.
            Inr (add_attr st (Attr (ABar BAR_BUFFERING_PACKETS_COUNT) (AttrU16 (ucast v)))))
      | _ \<Rightarrow> Inr st)"

end
