(* ===== verification/Perio.thy ===== *)
theory Perio
  imports Report
begin

text \<open>
  The server of periodic usage reports of the gtp5g forwarder, \<^verbatim>\<open>internal/forwarder/perio/server.go\<close>. One
  goroutine serves the events of a bounded channel; every period in use has a ticker goroutine that sends
  a timeout event into the same channel. The handlers of the events are functions; the goroutines are a
  step relation over the channel, the tickers and the place at which the server is, so that blocking on a
  full channel and on the rendezvous of \<open>stopTicker\<close> is visible. The order of map iteration and the query
  function are parameters.
\<close>

section \<open>Data\<close>

definition EVENT_CHANNEL_LEN :: nat where
  "EVENT_CHANNEL_LEN = 512"

datatype EventType = TYPE_PERIO_ADD | TYPE_PERIO_DEL | TYPE_PERIO_TIMEOUT | TYPE_SERVER_CLOSE

record Event =
  eType :: EventType
  ev_lSeid :: u64
  ev_urrid :: u32
  ev_period :: duration

record PERIOGroup =
  pg_urrids :: "u64 \<rightharpoonup> u32 set"
  pg_period :: duration

type_synonym groups = "duration \<rightharpoonup> PERIOGroup"

record perio_env =
  pv_rng :: ranges
  pv_rngD :: "duration set \<Rightarrow> duration list"
  pv_query :: "(u64 \<rightharpoonup> u32 list) \<Rightarrow> (u64 \<rightharpoonup> USAReport list) res"

definition perio_env_ok :: "perio_env \<Rightarrow> bool" where
  "perio_env_ok E \<longleftrightarrow> go_ranges (pv_rng E) \<and> is_range (pv_rngD E)"

section \<open>Events\<close>

text \<open>\<open>TYPE_PERIO_ADD\<close>; the second component is the period whose ticker is started.\<close>

definition serve_add :: "Event \<Rightarrow> groups \<Rightarrow> groups \<times> duration option" where
  "serve_add e l =
     (let (g, new) = (case l (ev_period e) of
            Some g \<Rightarrow> (g, None)
          | None \<Rightarrow> (\<lparr>pg_urrids = Map.empty, pg_period = ev_period e\<rparr>, Some (ev_period e)));
          ids = (case pg_urrids g (ev_lSeid e) of None \<Rightarrow> {} | Some ids \<Rightarrow> ids);
          g = g\<lparr>pg_urrids := (pg_urrids g)(ev_lSeid e \<mapsto> insert (ev_urrid e) ids)\<rparr>
      in (l(ev_period e \<mapsto> g), new))"

text \<open>
  \<open>TYPE_PERIO_DEL\<close>: the first group that has the URR loses it; the second component is the period whose
  ticker has to be stopped, and whose group is deleted after that.
\<close>

definition group_del :: "Event \<Rightarrow> PERIOGroup \<Rightarrow> PERIOGroup" where
  "group_del e g =
     (let ids = (case pg_urrids g (ev_lSeid e) of None \<Rightarrow> {} | Some ids \<Rightarrow> ids) - {ev_urrid e}
      in g\<lparr>pg_urrids := (pg_urrids g)(ev_lSeid e := (if ids = {} then None else Some ids))\<rparr>)"

definition group_has :: "PERIOGroup \<Rightarrow> u64 \<Rightarrow> u32 \<Rightarrow> bool" where
  "group_has g seid u = (case pg_urrids g seid of None \<Rightarrow> False | Some ids \<Rightarrow> u \<in> ids)"

fun del_loop :: "Event \<Rightarrow> duration list \<Rightarrow> groups \<Rightarrow> groups \<times> duration option" where
  "del_loop e [] l = (l, None)"
| "del_loop e (p # ps) l =
     (case l p of
        None \<Rightarrow> del_loop e ps l
      | Some g \<Rightarrow>
          if group_has g (ev_lSeid e) (ev_urrid e) then
            (let g = group_del e g in (l(p \<mapsto> g), if pg_urrids g = Map.empty then Some p else None))
          else del_loop e ps l)"

definition serve_del :: "perio_env \<Rightarrow> Event \<Rightarrow> groups \<Rightarrow> groups \<times> duration option" where
  "serve_del E e l = del_loop e (pv_rngD E (dom l)) l"

text \<open>\<open>TYPE_PERIO_TIMEOUT\<close>: the URRs to query, and the reports for the handler.\<close>

definition query_map :: "ranges \<Rightarrow> PERIOGroup \<Rightarrow> u64 \<rightharpoonup> u32 list" where
  "query_map R g = (\<lambda>seid. case pg_urrids g seid of None \<Rightarrow> None | Some ids \<Rightarrow> if ids = {} then None else Some (rng32 R ids))"

definition serve_timeout :: "perio_env \<Rightarrow> Event \<Rightarrow> groups \<Rightarrow> SessReport list" where
  "serve_timeout E e l =
     (case l (ev_period e) of
        None \<Rightarrow> []
      | Some g \<Rightarrow>
          (case pv_query E (query_map (pv_rng E) g) of
             Inl _ \<Rightarrow> []
           | Inr seidUsars \<Rightarrow>
               map (\<lambda>seid. \<lparr>sr_SEID = seid,
                     sr_Reports = map (\<lambda>r. USAR (or_trigger USAR_TRIG_PERIO r)) (the (seidUsars seid))\<rparr>)
                 (rng64 (pv_rng E) (dom seidUsars))))"

section \<open>Goroutines\<close>

text \<open>
  A ticker waits in its \<open>select\<close> or has received a tick and is sending. The server waits for an event, is
  inside \<open>stopTicker\<close> for the first of a list of periods (the rest follow; the flag says whether it returns
  once the list is done), or has returned and closed the channel. Sending on the closed channel panics.
\<close>

datatype ticker = Waiting | Firing

datatype serve_pc = Serving | Stopping "duration list" bool | Returned | Crashed

record perio_state =
  evtCh :: "Event list"
  perioList :: groups
  tickers :: "duration \<rightharpoonup> ticker"
  pc :: serve_pc
  notified :: "SessReport list"

definition OpenServer :: perio_state where
  "OpenServer = \<lparr>evtCh = [], perioList = Map.empty, tickers = Map.empty, pc = Serving, notified = []\<rparr>"

definition mk_event :: "EventType \<Rightarrow> u64 \<Rightarrow> u32 \<Rightarrow> duration \<Rightarrow> Event" where
  "mk_event t seid u p = \<lparr>eType = t, ev_lSeid = seid, ev_urrid = u, ev_period = p\<rparr>"

text \<open>What the clients send: \<open>AddPeriodReportTimer\<close>, \<open>DelPeriodReportTimer\<close> and \<open>Close\<close>.\<close>

definition AddPeriodReportTimer :: "u64 \<Rightarrow> u32 \<Rightarrow> duration \<Rightarrow> Event" where
  "AddPeriodReportTimer seid u p = mk_event TYPE_PERIO_ADD seid u p"

definition DelPeriodReportTimer :: "u64 \<Rightarrow> u32 \<Rightarrow> Event" where
  "DelPeriodReportTimer seid u = mk_event TYPE_PERIO_DEL seid u 0"

definition Close_event :: Event where
  "Close_event = mk_event TYPE_SERVER_CLOSE 0 0 0"

text \<open>The body of the loop of \<open>Serve\<close>, up to the first rendezvous.\<close>

definition stop_list :: "duration option \<Rightarrow> serve_pc" where
  "stop_list p = (case p of None \<Rightarrow> Serving | Some p \<Rightarrow> Stopping [p] False)"

definition serve_event :: "perio_env \<Rightarrow> Event \<Rightarrow> perio_state \<Rightarrow> perio_state" where
  "serve_event E e s =
     (case eType e of
        TYPE_PERIO_ADD \<Rightarrow>
          let (l, new) = serve_add e (perioList s)
          in s\<lparr>perioList := l, tickers := (case new of None \<Rightarrow> tickers s | Some p \<Rightarrow> (tickers s)(p \<mapsto> Waiting))\<rparr>
      | TYPE_PERIO_DEL \<Rightarrow>
          let (l, stop) = serve_del E e (perioList s) in s\<lparr>perioList := l, pc := stop_list stop\<rparr>
      | TYPE_PERIO_TIMEOUT \<Rightarrow> s\<lparr>notified := notified s @ serve_timeout E e (perioList s)\<rparr>
      | TYPE_SERVER_CLOSE \<Rightarrow>
          (let ps = pv_rngD E (dom (perioList s))
           in if ps = [] then s\<lparr>pc := Returned\<rparr> else s\<lparr>pc := Stopping ps True\<rparr>))"

text \<open>After the rendezvous: \<open>delete(s.perioList, period)\<close>, and the next period or the loop.\<close>

definition stopped :: "perio_state \<Rightarrow> perio_state" where
  "stopped s = (case pc s of
     Stopping (p # ps) c \<Rightarrow>
       s\<lparr>perioList := (perioList s)(p := None), tickers := (tickers s)(p := None),
         pc := (if ps \<noteq> [] then Stopping ps c else if c then Returned else Serving)\<rparr>
   | _ \<Rightarrow> s)"

inductive perio_step :: "perio_env \<Rightarrow> perio_state \<Rightarrow> perio_state \<Rightarrow> bool" for E where
  client: "pc s \<noteq> Returned \<Longrightarrow> pc s \<noteq> Crashed \<Longrightarrow> length (evtCh s) < EVENT_CHANNEL_LEN \<Longrightarrow> eType e \<noteq> TYPE_PERIO_TIMEOUT \<Longrightarrow>
    perio_step E s (s\<lparr>evtCh := evtCh s @ [e]\<rparr>)"
| client_closed: "pc s = Returned \<Longrightarrow> perio_step E s (s\<lparr>pc := Crashed\<rparr>)"
| tick: "tickers s p = Some Waiting \<Longrightarrow> perio_step E s (s\<lparr>tickers := (tickers s)(p \<mapsto> Firing)\<rparr>)"
| send: "tickers s p = Some Firing \<Longrightarrow> length (evtCh s) < EVENT_CHANNEL_LEN \<Longrightarrow>
    perio_step E s (s\<lparr>evtCh := evtCh s @ [mk_event TYPE_PERIO_TIMEOUT 0 0 p], tickers := (tickers s)(p \<mapsto> Waiting)\<rparr>)"
| serve: "pc s = Serving \<Longrightarrow> evtCh s = e # es \<Longrightarrow> perio_step E s (serve_event E e (s\<lparr>evtCh := es\<rparr>))"
| rendezvous: "pc s = Stopping (p # ps) c \<Longrightarrow> tickers s p = Some Waiting \<Longrightarrow> perio_step E s (stopped s)"

inductive perio_reachable :: "perio_env \<Rightarrow> perio_state \<Rightarrow> bool" for E where
  start: "perio_reachable E OpenServer"
| step: "perio_reachable E s \<Longrightarrow> perio_step E s s' \<Longrightarrow> perio_reachable E s'"

inductive_cases perio_stepE: "perio_step E s s'"

section \<open>The timers\<close>

text \<open>The abstract state: which URR is reported in which period.\<close>

definition timers :: "groups \<Rightarrow> (u64 \<times> u32 \<times> duration) set" where
  "timers l = {(i, u, p). \<exists>g. l p = Some g \<and> group_has g i u}"

definition group_ok :: "duration \<Rightarrow> PERIOGroup \<Rightarrow> bool" where
  "group_ok p g \<longleftrightarrow> pg_period g = p \<and> finite (dom (pg_urrids g)) \<and>
     (\<forall>i ids. pg_urrids g i = Some ids \<longrightarrow> finite ids \<and> ids \<noteq> {})"

definition groups_ok :: "groups \<Rightarrow> bool" where
  "groups_ok l \<longleftrightarrow> finite (dom l) \<and> (\<forall>p g. l p = Some g \<longrightarrow> group_ok p g)"

lemma groups_okD: "groups_ok l \<Longrightarrow> finite (dom l)" "groups_ok l \<Longrightarrow> l p = Some g \<Longrightarrow> group_ok p g"
  by (auto simp: groups_ok_def)

lemma timers_upd: "timers (l(p \<mapsto> g)) = {(i, u, q) \<in> timers l. q \<noteq> p} \<union> {(i, u, p) | i u. group_has g i u}"
  by (auto simp: timers_def)

lemma timers_del: "timers (l(p := None)) = {(i, u, q) \<in> timers l. q \<noteq> p}"
  by (auto simp: timers_def)

lemma group_has_none: "pg_urrids g = Map.empty \<Longrightarrow> \<not> group_has g i u"
  by (simp add: group_has_def)

lemma serve_add_spec:
  assumes "serve_add e l = (l', new)" "groups_ok l"
  shows "timers l' = insert (ev_lSeid e, ev_urrid e, ev_period e) (timers l)"
    and "dom l' = insert (ev_period e) (dom l)" and "new = (if ev_period e \<in> dom l then None else Some (ev_period e))"
    and "groups_ok l'" and "\<And>p g. l' p = Some g \<Longrightarrow> pg_urrids g = Map.empty \<Longrightarrow> l p = Some g"
proof -
  define g0 where "g0 = (case l (ev_period e) of Some g \<Rightarrow> g | None \<Rightarrow> \<lparr>pg_urrids = Map.empty, pg_period = ev_period e\<rparr>)"
  define ids where "ids = (case pg_urrids g0 (ev_lSeid e) of None \<Rightarrow> {} | Some ids \<Rightarrow> ids)"
  define g1 where "g1 = g0\<lparr>pg_urrids := (pg_urrids g0)(ev_lSeid e \<mapsto> insert (ev_urrid e) ids)\<rparr>"
  have l': "l' = l(ev_period e \<mapsto> g1)" and new: "new = (if ev_period e \<in> dom l then None else Some (ev_period e))"
    using assms(1) by (auto simp: serve_add_def g0_def ids_def g1_def Let_def split: option.splits)
  have ok0: "group_ok (ev_period e) g0"
    using groups_okD(2) [OF assms(2)] by (auto simp: g0_def group_ok_def split: option.splits)
  then have "finite ids" by (auto simp: ids_def group_ok_def split: option.splits)
  with ok0 have ok1: "group_ok (ev_period e) g1" by (auto simp: g1_def group_ok_def)
  have has0: "group_has g0 i u \<longleftrightarrow> (i, u, ev_period e) \<in> timers l" for i u
    by (auto simp: timers_def g0_def group_has_def split: option.splits)
  have has1: "group_has g1 i u \<longleftrightarrow> i = ev_lSeid e \<and> u = ev_urrid e \<or> group_has g0 i u" for i u
    by (auto simp: g1_def group_has_def ids_def split: option.splits)
  show "timers l' = insert (ev_lSeid e, ev_urrid e, ev_period e) (timers l)"
    unfolding l' timers_upd by (auto simp: has1 has0)
  show "dom l' = insert (ev_period e) (dom l)" "new = (if ev_period e \<in> dom l then None else Some (ev_period e))"
    using new by (auto simp: l')
  show "groups_ok l'" using assms(2) ok1 by (auto simp: groups_ok_def l')
  show "l p = Some g" if "l' p = Some g" "pg_urrids g = Map.empty" for p g
    using that by (auto simp: l' g1_def split: if_splits dest: fun_cong)
qed

lemma group_del_has: "group_has (group_del e g) i u \<longleftrightarrow> group_has g i u \<and> (i, u) \<noteq> (ev_lSeid e, ev_urrid e)"
  by (auto simp: group_has_def group_del_def Let_def split: option.splits)

lemma group_del_ok: "group_ok p g \<Longrightarrow> group_ok p (group_del e g)"
  by (auto simp: group_ok_def group_del_def Let_def split: option.splits if_splits)

text \<open>What \<open>TYPE_PERIO_DEL\<close> does: nothing, or one timer of the URR goes.\<close>

lemma del_loop_spec:
  assumes "del_loop e ps l = (l', stop)" "groups_ok l"
  shows "(\<forall>p \<in> set ps. (ev_lSeid e, ev_urrid e, p) \<notin> timers l) \<and> l' = l \<and> stop = None \<or>
    (\<exists>p \<in> set ps. \<exists>g. l p = Some g \<and> (ev_lSeid e, ev_urrid e, p) \<in> timers l \<and> l' = l(p \<mapsto> group_del e g) \<and>
       stop = (if pg_urrids (group_del e g) = Map.empty then Some p else None))"
  using assms
proof (induction e ps l rule: del_loop.induct)
  case (2 e p ps l)
  show ?case
  proof (cases "\<exists>g. l p = Some g \<and> group_has g (ev_lSeid e) (ev_urrid e)")
    case True
    then obtain g where g: "l p = Some g" "group_has g (ev_lSeid e) (ev_urrid e)" by blast
    then have "(ev_lSeid e, ev_urrid e, p) \<in> timers l" by (auto simp: timers_def)
    moreover have "l' = l(p \<mapsto> group_del e g)" "stop = (if pg_urrids (group_del e g) = Map.empty then Some p else None)"
      using g "2.prems"(1) by (simp_all add: Let_def)
    ultimately show ?thesis using g(1) by (intro disjI2 bexI [of _ p] exI [of _ g]) simp_all
  next
    case False
    then have "(ev_lSeid e, ev_urrid e, p) \<notin> timers l" by (auto simp: timers_def)
    moreover have "del_loop e ps l = (l', stop)" using False "2.prems"(1) by (auto split: option.splits)
    ultimately show ?thesis using "2.IH" "2.prems"(2) False by (cases "l p") auto
  qed
qed simp

lemma serve_del_spec:
  assumes "serve_del E e l = (l', stop)" "groups_ok l" "perio_env_ok E"
  shows "(\<forall>p. (ev_lSeid e, ev_urrid e, p) \<notin> timers l) \<and> l' = l \<and> stop = None \<or>
    (\<exists>p g. l p = Some g \<and> (ev_lSeid e, ev_urrid e, p) \<in> timers l \<and> l' = l(p \<mapsto> group_del e g) \<and>
       timers l' = timers l - {(ev_lSeid e, ev_urrid e, p)} \<and>
       stop = (if pg_urrids (group_del e g) = Map.empty then Some p else None))"
proof -
  have rng: "set (pv_rngD E (dom l)) = dom l"
    using assms(2,3) by (simp add: groups_okD(1) perio_env_ok_def)
  have dom: "(i, u, p) \<in> timers l \<Longrightarrow> p \<in> dom l" for i u p by (auto simp: timers_def)
  have del: "timers (l(p \<mapsto> group_del e g)) = timers l - {(ev_lSeid e, ev_urrid e, p)}" if "l p = Some g" for p g
    unfolding timers_upd group_del_has using that by (auto simp: timers_def)
  from del_loop_spec [OF assms(1) [unfolded serve_del_def] assms(2), unfolded rng] show ?thesis
  proof
    assume "\<exists>p \<in> dom l. \<exists>g. l p = Some g \<and> (ev_lSeid e, ev_urrid e, p) \<in> timers l \<and> l' = l(p \<mapsto> group_del e g) \<and>
       stop = (if pg_urrids (group_del e g) = Map.empty then Some p else None)"
    then show ?thesis using del by blast
  qed (use dom in blast)
qed

section \<open>The invariant\<close>

definition pc_ok :: "perio_state \<Rightarrow> bool" where
  "pc_ok s = (case pc s of
     Serving \<Rightarrow> (\<forall>p g. perioList s p = Some g \<longrightarrow> pg_urrids g \<noteq> Map.empty)
   | Stopping ps True \<Rightarrow> ps \<noteq> [] \<and> distinct ps \<and> set ps = dom (perioList s)
   | Stopping ps False \<Rightarrow> (\<exists>p g. ps = [p] \<and> perioList s p = Some g \<and> pg_urrids g = Map.empty \<and>
       (\<forall>q g. perioList s q = Some g \<longrightarrow> q \<noteq> p \<longrightarrow> pg_urrids g \<noteq> Map.empty))
   | _ \<Rightarrow> perioList s = Map.empty)"

definition perio_inv :: "perio_state \<Rightarrow> bool" where
  "perio_inv s \<longleftrightarrow> groups_ok (perioList s) \<and> dom (tickers s) = dom (perioList s) \<and>
     length (evtCh s) \<le> EVENT_CHANNEL_LEN \<and> pc_ok s"

lemma pc_ok_frame [simp]:
  "pc_ok (s\<lparr>evtCh := q\<rparr>) = pc_ok s" "pc_ok (s\<lparr>tickers := t\<rparr>) = pc_ok s"
  "pc_ok (s\<lparr>evtCh := q, tickers := t\<rparr>) = pc_ok s"
  by (auto simp: pc_ok_def split: serve_pc.splits bool.splits)

lemma perio_invD:
  assumes "perio_inv s"
  shows "groups_ok (perioList s)" "dom (tickers s) = dom (perioList s)" "length (evtCh s) \<le> EVENT_CHANNEL_LEN" "pc_ok s"
  using assms by (simp_all add: perio_inv_def)

lemma groups_ok_del: "groups_ok l \<Longrightarrow> l p = Some g \<Longrightarrow> groups_ok (l(p \<mapsto> group_del e g))"
  using group_del_ok by (auto simp: groups_ok_def)

lemma serve_event_inv:
  assumes "perio_inv s" "pc s = Serving" "perio_env_ok E"
  shows "perio_inv (serve_event E e s)"
proof -
  note inv = perio_invD [OF assms(1)]
  have full: "perioList s p = Some g \<Longrightarrow> pg_urrids g \<noteq> Map.empty" for p g using inv(4) assms(2) by (simp add: pc_ok_def)
  show ?thesis
  proof (cases "eType e")
    case TYPE_PERIO_ADD
    obtain l new where add: "serve_add e (perioList s) = (l, new)" by fastforce
    note a = serve_add_spec [OF add inv(1)]
    have "\<forall>p g. l p = Some g \<longrightarrow> pg_urrids g \<noteq> Map.empty" using a(5) full by blast
    with a(1-4) inv TYPE_PERIO_ADD assms(2) add show ?thesis
      by (auto simp: perio_inv_def serve_event_def pc_ok_def split: option.splits if_splits)
  next
    case TYPE_PERIO_DEL
    obtain l stop where del: "serve_del E e (perioList s) = (l, stop)" by fastforce
    from serve_del_spec [OF del inv(1) assms(3)] show ?thesis
    proof (elim disjE exE conjE)
      assume "l = perioList s" "stop = None"
      with inv TYPE_PERIO_DEL assms(2) del show ?thesis
        by (simp add: perio_inv_def serve_event_def pc_ok_def stop_list_def)
    next
      fix p g
      assume d: "perioList s p = Some g" "l = (perioList s)(p \<mapsto> group_del e g)"
        "stop = (if pg_urrids (group_del e g) = Map.empty then Some p else None)"
      have "pc_ok (s\<lparr>perioList := l, pc := stop_list stop\<rparr>)"
        using full d by (auto simp: pc_ok_def stop_list_def)
      moreover have "dom l = dom (perioList s)" using d by auto
      ultimately show ?thesis
        using inv groups_ok_del [OF inv(1) d(1)] TYPE_PERIO_DEL del d(2) by (simp add: perio_inv_def serve_event_def)
    qed
  next
    case TYPE_PERIO_TIMEOUT
    with inv assms(2) show ?thesis by (simp add: perio_inv_def serve_event_def pc_ok_def)
  next
    case TYPE_SERVER_CLOSE
    have r: "distinct (pv_rngD E (dom (perioList s)))" "set (pv_rngD E (dom (perioList s))) = dom (perioList s)"
      using assms(3) groups_okD(1) [OF inv(1)] by (simp_all add: perio_env_ok_def)
    then have "pv_rngD E (dom (perioList s)) = [] \<Longrightarrow> perioList s = Map.empty" by auto
    with r inv TYPE_SERVER_CLOSE show ?thesis by (auto simp: perio_inv_def serve_event_def pc_ok_def Let_def)
  qed
qed

lemma groups_ok_remove: "groups_ok l \<Longrightarrow> groups_ok (l(p := None))"
  by (auto simp: groups_ok_def)

lemma stopped_inv:
  assumes "perio_inv s" "pc s = Stopping (p # ps) c"
  shows "perio_inv (stopped s)"
proof -
  note inv = perio_invD [OF assms(1)]
  have "pc_ok (stopped s)"
  proof (cases c)
    case True
    with inv(4) assms(2) have ps: "distinct (p # ps)" "set (p # ps) = dom (perioList s)" by (simp_all add: pc_ok_def)
    then have "dom ((perioList s)(p := None)) = set ps" by auto
    moreover from this have "ps = [] \<Longrightarrow> (perioList s)(p := None) = Map.empty" by (metis dom_eq_empty_conv set_empty)
    ultimately show ?thesis using ps(1) True assms(2) by (simp add: pc_ok_def stopped_def)
  next
    case False
    with inv(4) assms(2) show ?thesis by (auto simp: pc_ok_def stopped_def split: if_splits)
  qed
  with inv groups_ok_remove show ?thesis by (simp add: perio_inv_def stopped_def assms(2))
qed

lemma reachable_perio_inv:
  assumes "perio_reachable E s" "perio_env_ok E"
  shows "perio_inv s"
  using assms(1)
proof induction
  case start
  show ?case by (simp add: perio_inv_def OpenServer_def groups_ok_def pc_ok_def)
next
  case (step s s')
  note inv = perio_invD [OF step.IH]
  from step.hyps(2) show ?case
  proof cases
    case (serve e es)
    have "perio_inv (s\<lparr>evtCh := es\<rparr>)" using inv serve by (simp add: perio_inv_def)
    with serve assms(2) show ?thesis by (simp add: serve_event_inv)
  next
    case (rendezvous p ps c)
    with step.IH show ?thesis by (simp add: stopped_inv)
  next
    case client
    with inv show ?thesis by (simp add: perio_inv_def)
  next
    case client_closed
    with inv show ?thesis by (simp add: perio_inv_def pc_ok_def)
  next
    case tick
    with inv show ?thesis by (auto simp: perio_inv_def)
  next
    case send
    with inv show ?thesis by (auto simp: perio_inv_def)
  qed
qed

section \<open>Properties\<close>

text \<open>
  C27. Tickers are neither missing nor leaked: in every reachable state in which the server waits for
  events, a ticker runs for a period exactly when some URR is reported in that period, and once the
  server has returned no ticker is left.
\<close>

theorem perio_tickers_exact:
  assumes "perio_reachable E s" "perio_env_ok E"
  shows "(pc s = Serving \<longrightarrow> (tickers s p \<noteq> None \<longleftrightarrow> (\<exists>i u. (i, u, p) \<in> timers (perioList s)))) \<and>
    (pc s = Returned \<longrightarrow> tickers s = Map.empty)"
proof -
  note inv = perio_invD [OF reachable_perio_inv [OF assms]]
  have "(\<exists>i u. group_has g i u) \<longleftrightarrow> pg_urrids g \<noteq> Map.empty" if "perioList s p = Some g" for g
  proof
    assume "pg_urrids g \<noteq> Map.empty"
    then obtain i ids where ids: "pg_urrids g i = Some ids" by fastforce
    with groups_okD(2) [OF inv(1) that] have "ids \<noteq> {}" by (simp add: group_ok_def)
    then obtain u where "u \<in> ids" by blast
    with ids have "group_has g i u" by (simp add: group_has_def)
    then show "\<exists>i u. group_has g i u" by blast
  qed (auto simp: group_has_none)
  moreover have "tickers s p \<noteq> None \<longleftrightarrow> perioList s p \<noteq> None" using inv(2) by (metis domIff)
  ultimately have "pc s = Serving \<Longrightarrow> tickers s p \<noteq> None \<longleftrightarrow> (\<exists>i u. (i, u, p) \<in> timers (perioList s))"
    using inv(4) by (auto simp: timers_def pc_ok_def)
  moreover have "pc s = Returned \<Longrightarrow> tickers s = Map.empty"
    using inv(2,4) by (simp add: pc_ok_def)
  ultimately show ?thesis by blast
qed

definition ex_perio :: perio_env where
  "ex_perio = \<lparr>pv_rng = sorted_ranges, pv_rngD = sorted_list_of_set, pv_query = (\<lambda>_. Inr Map.empty)\<rparr>"

lemma ex_perio_ok: "perio_env_ok ex_perio"
  by (simp add: perio_env_ok_def ex_perio_def is_range_sorted)

definition ex_add :: Event where
  "ex_add = AddPeriodReportTimer 1 2 30"

definition ex_started :: perio_state where
  "ex_started = OpenServer\<lparr>perioList := [30 \<mapsto> \<lparr>pg_urrids = [1 \<mapsto> {2}], pg_period = 30\<rparr>], tickers := [30 \<mapsto> Waiting]\<rparr>"

lemma ex_started: "perio_reachable E ex_started"
proof -
  have "perio_step E OpenServer (OpenServer\<lparr>evtCh := [ex_add]\<rparr>)"
    using perio_step.client [of OpenServer ex_add E]
    by (simp add: OpenServer_def EVENT_CHANNEL_LEN_def ex_add_def AddPeriodReportTimer_def mk_event_def)
  moreover have "serve_event E ex_add (OpenServer\<lparr>evtCh := [ex_add], evtCh := []\<rparr>) = ex_started"
    by (simp add: serve_event_def ex_add_def AddPeriodReportTimer_def mk_event_def serve_add_def ex_started_def OpenServer_def)
  then have "perio_step E (OpenServer\<lparr>evtCh := [ex_add]\<rparr>) ex_started"
    using perio_step.serve [of "OpenServer\<lparr>evtCh := [ex_add]\<rparr>" ex_add "[]" E] by (simp add: OpenServer_def)
  ultimately show ?thesis using perio_reachable.intros by metis
qed

theorem perio_tickers_exact_witness:
  "tickers ex_started 30 \<noteq> None \<and> (\<exists>i u. (i, u, 30) \<in> timers (perioList ex_started)) \<and>
   tickers ex_started 31 = None \<and> (\<nexists>i u. (i, u, 31) \<in> timers (perioList ex_started))"
proof -
  have "pc ex_started = Serving" "tickers ex_started 30 \<noteq> None" "tickers ex_started 31 = None"
    by (simp_all add: ex_started_def OpenServer_def)
  with perio_tickers_exact [OF ex_started ex_perio_ok, of 30] perio_tickers_exact [OF ex_started ex_perio_ok, of 31]
  show ?thesis by simp
qed

text \<open>
  C29. What the events do to the set of timers: adding puts in exactly the named timer; deleting takes out
  exactly one of the URR's timers if there is any, whatever the order in which the periods are visited,
  and no timer of another URR; a timeout changes none.
\<close>

theorem perio_serve_timers:
  assumes "perio_reachable E s" "perio_env_ok E" "pc s = Serving"
  shows "timers (perioList (serve_event E (AddPeriodReportTimer i u p) s)) = insert (i, u, p) (timers (perioList s)) \<and>
    timers (perioList (serve_event E (mk_event TYPE_PERIO_TIMEOUT 0 0 p) s)) = timers (perioList s) \<and>
    (if \<exists>q. (i, u, q) \<in> timers (perioList s)
     then \<exists>q. (i, u, q) \<in> timers (perioList s) \<and>
       timers (perioList (serve_event E (DelPeriodReportTimer i u) s)) = timers (perioList s) - {(i, u, q)}
     else timers (perioList (serve_event E (DelPeriodReportTimer i u) s)) = timers (perioList s))"
proof -
  note inv = perio_invD [OF reachable_perio_inv [OF assms(1,2)]]
  obtain l new where add: "serve_add (AddPeriodReportTimer i u p) (perioList s) = (l, new)" by fastforce
  have "perioList (serve_event E (AddPeriodReportTimer i u p) s) = l"
    using add by (simp add: serve_event_def AddPeriodReportTimer_def mk_event_def)
  with serve_add_spec(1) [OF add inv(1)]
  have 1: "timers (perioList (serve_event E (AddPeriodReportTimer i u p) s)) = insert (i, u, p) (timers (perioList s))"
    by (simp add: AddPeriodReportTimer_def mk_event_def)
  have 2: "timers (perioList (serve_event E (mk_event TYPE_PERIO_TIMEOUT 0 0 p) s)) = timers (perioList s)"
    by (simp add: serve_event_def mk_event_def)
  obtain l' stop where del: "serve_del E (DelPeriodReportTimer i u) (perioList s) = (l', stop)" by fastforce
  have e: "ev_lSeid (DelPeriodReportTimer i u) = i" "ev_urrid (DelPeriodReportTimer i u) = u"
    "perioList (serve_event E (DelPeriodReportTimer i u) s) = l'"
    using del by (simp_all add: serve_event_def DelPeriodReportTimer_def mk_event_def)
  from serve_del_spec [OF del inv(1) assms(2)] 1 2 show ?thesis unfolding e by (metis (no_types, lifting))
qed

theorem perio_serve_timers_witness:
  "timers (perioList (serve_event ex_perio (AddPeriodReportTimer 1 2 60) ex_started)) = {(1, 2, 60), (1, 2, 30)} \<and>
   timers (perioList (serve_event ex_perio (DelPeriodReportTimer 1 2) ex_started)) = {}"
proof -
  have t: "timers (perioList ex_started) = {(1, 2, 30)}"
    by (auto simp: timers_def ex_started_def group_has_def split: if_splits option.splits)
  have "pc ex_started = Serving" by (simp add: ex_started_def OpenServer_def)
  from perio_serve_timers [OF ex_started ex_perio_ok this, of 1 2 60] show ?thesis unfolding t by auto
qed

text \<open>
  C28. When stopping a ticker blocks for ever: while the server is inside \<open>stopTicker\<close>, it stays there
  in every continuation exactly when the ticker has received a tick and the event channel is full. In every
  other state the ticker can be stopped.
\<close>

lemma perio_stuck:
  assumes "perio_step E s s'" "pc s = Stopping (p # ps) c" "tickers s p = Some Firing" "length (evtCh s) = EVENT_CHANNEL_LEN"
  shows "pc s' = pc s \<and> tickers s' p = Some Firing \<and> evtCh s' = evtCh s"
  using assms by cases auto

lemma perio_stuck_forever:
  assumes "(perio_step E)\<^sup>*\<^sup>* s s'" "pc s = Stopping (p # ps) c" "tickers s p = Some Firing" "length (evtCh s) = EVENT_CHANNEL_LEN"
  shows "pc s' = pc s \<and> tickers s' p = Some Firing \<and> evtCh s' = evtCh s"
  using assms(1)
proof induction
  case (step t t')
  then show ?case using perio_stuck [OF step.hyps(2), of p ps c] assms(2-4) by simp
qed (simp add: assms)

theorem perio_stop_stuck_iff:
  assumes "perio_reachable E s" "perio_env_ok E" "pc s = Stopping (p # ps) c"
  shows "(\<forall>s'. (perio_step E)\<^sup>*\<^sup>* s s' \<longrightarrow> pc s' = pc s) \<longleftrightarrow>
    tickers s p = Some Firing \<and> length (evtCh s) = EVENT_CHANNEL_LEN"
proof
  note inv = perio_invD [OF reachable_perio_inv [OF assms(1,2)]]
  have "p \<in> dom (perioList s)" using inv(4) assms(3) by (cases c) (auto simp: pc_ok_def)
  then obtain t where t: "tickers s p = Some t" using inv(2) by blast
  have stop: "pc (stopped s') \<noteq> pc s" if "pc s' = pc s" for s'
    using that assms(3) by (auto simp: stopped_def)
  assume stuck: "\<forall>s'. (perio_step E)\<^sup>*\<^sup>* s s' \<longrightarrow> pc s' = pc s"
  show "tickers s p = Some Firing \<and> length (evtCh s) = EVENT_CHANNEL_LEN"
  proof (rule ccontr)
    assume neg: "\<not> ?thesis"
    show False
    proof (cases t)
      case Waiting
      then have "perio_step E s (stopped s)" using t assms(3) perio_step.rendezvous by blast
      with stuck stop show False by blast
    next
      case Firing
      with neg t inv(3) have "length (evtCh s) < EVENT_CHANNEL_LEN" by simp
      with Firing t obtain s1 where s1: "perio_step E s s1" "pc s1 = pc s" "tickers s1 p = Some Waiting"
        using perio_step.send [of s p E] by auto
      then have "perio_step E s1 (stopped s1)" using assms(3) perio_step.rendezvous by metis
      with s1(1) have "(perio_step E)\<^sup>*\<^sup>* s (stopped s1)" by (meson rtranclp.simps)
      with stuck stop s1(2) show False by blast
    qed
  qed
next
  assume "tickers s p = Some Firing \<and> length (evtCh s) = EVENT_CHANNEL_LEN"
  with perio_stuck_forever [OF _ assms(3)] show "\<forall>s'. (perio_step E)\<^sup>*\<^sup>* s s' \<longrightarrow> pc s' = pc s" by blast
qed

text \<open>The stuck state can be reached: a tick arrives between a deletion and the stop, and clients fill the channel.\<close>

definition ex_stopping :: perio_state where
  "ex_stopping = OpenServer\<lparr>perioList := [30 \<mapsto> \<lparr>pg_urrids = Map.empty, pg_period = 30\<rparr>], tickers := [30 \<mapsto> Firing],
     pc := Stopping [30] False\<rparr>"

lemma ex_stopping:
  assumes "perio_env_ok E"
  shows "perio_reachable E ex_stopping"
proof -
  let ?e = "DelPeriodReportTimer 1 2"
  let ?s1 = "ex_started\<lparr>evtCh := [?e]\<rparr>" and ?s2 = "ex_started\<lparr>evtCh := [?e], tickers := [30 \<mapsto> Firing]\<rparr>"
  have e: "eType ?e = TYPE_PERIO_DEL" "ev_lSeid ?e = 1" "ev_urrid ?e = 2" by (simp_all add: DelPeriodReportTimer_def mk_event_def)
  have "perio_step E ex_started ?s1"
    using perio_step.client [of ex_started ?e E] e by (simp add: ex_started_def OpenServer_def EVENT_CHANNEL_LEN_def)
  moreover have "perio_step E ?s1 ?s2"
    using perio_step.tick [of ?s1 30 E] by (simp add: ex_started_def OpenServer_def)
  moreover have "serve_event E ?e (?s2\<lparr>evtCh := []\<rparr>) = ex_stopping"
    using assms e
    by (simp add: serve_event_def ex_started_def ex_stopping_def OpenServer_def serve_del_def perio_env_ok_def group_has_def
        group_del_def stop_list_def Let_def)
  then have "perio_step E ?s2 ex_stopping"
    using perio_step.serve [of ?s2 ?e "[]" E] by (simp add: ex_started_def OpenServer_def)
  ultimately show ?thesis using ex_started perio_reachable.step by metis
qed

lemma fill_channel:
  assumes "perio_reachable E s" "pc s = Stopping ps c" "evtCh s = []" "eType e \<noteq> TYPE_PERIO_TIMEOUT"
  shows "n \<le> EVENT_CHANNEL_LEN \<Longrightarrow> perio_reachable E (s\<lparr>evtCh := replicate n e\<rparr>)"
proof (induction n)
  case 0
  have "s\<lparr>evtCh := []\<rparr> = s" using assms(3) by (cases s) simp
  with assms(1) show ?case by simp
next
  case (Suc n)
  let ?s = "s\<lparr>evtCh := replicate n e\<rparr>"
  have "perio_step E ?s (?s\<lparr>evtCh := evtCh ?s @ [e]\<rparr>)" using Suc.prems assms(2,4) by (intro perio_step.client) simp_all
  with Suc show ?case by (auto simp: replicate_append_same intro: perio_reachable.step)
qed

definition ex_stuck :: perio_state where
  "ex_stuck = ex_stopping\<lparr>evtCh := replicate EVENT_CHANNEL_LEN ex_add\<rparr>"

lemma ex_stuck_reachable: "perio_env_ok E \<Longrightarrow> perio_reachable E ex_stuck"
  unfolding ex_stuck_def
  by (rule fill_channel [OF ex_stopping, of _ "[30]" False]) (simp_all add: ex_stopping_def OpenServer_def ex_add_def AddPeriodReportTimer_def mk_event_def)

lemma ex_stuck_fields: "pc ex_stuck = Stopping [30] False" "tickers ex_stuck 30 = Some Firing" "length (evtCh ex_stuck) = EVENT_CHANNEL_LEN"
  by (simp_all add: ex_stuck_def ex_stopping_def)

theorem perio_stop_stuck_iff_witness:
  "\<not> (\<exists>s'. (perio_step ex_perio)\<^sup>*\<^sup>* ex_stuck s' \<and> pc s' \<noteq> Stopping [30] False)"
  using perio_stop_stuck_iff [OF ex_stuck_reachable [OF ex_perio_ok] ex_perio_ok ex_stuck_fields(1)] ex_stuck_fields by simp

text \<open>
  The server can deadlock: for every order of map iteration and every query function there is a
  reachable state from which the server never serves another event.
\<close>

theorem perio_deadlock_reachable:
  assumes "perio_env_ok E"
  shows "\<exists>s. perio_reachable E s \<and> evtCh s \<noteq> [] \<and> (\<forall>s'. (perio_step E)\<^sup>*\<^sup>* s s' \<longrightarrow> pc s' \<noteq> Serving \<and> evtCh s' = evtCh s)"
proof (intro exI conjI allI impI)
  show "perio_reachable E ex_stuck" by (rule ex_stuck_reachable [OF assms])
  show "evtCh ex_stuck \<noteq> []" by (simp add: ex_stuck_def EVENT_CHANNEL_LEN_def)
  fix s' assume "(perio_step E)\<^sup>*\<^sup>* ex_stuck s'"
  from perio_stuck_forever [OF this ex_stuck_fields] show "pc s' \<noteq> Serving" "evtCh s' = evtCh ex_stuck"
    by (simp_all add: ex_stuck_fields)
qed

theorem perio_deadlock_reachable_witness:
  "\<exists>s. perio_reachable ex_perio s \<and> evtCh s \<noteq> [] \<and> (\<forall>s'. (perio_step ex_perio)\<^sup>*\<^sup>* s s' \<longrightarrow> pc s' \<noteq> Serving \<and> evtCh s' = evtCh s)"
  by (rule perio_deadlock_reachable [OF ex_perio_ok])

text \<open>
  A timeout asks the kernel for exactly the URRs that are reported in its period, each once, and every
  report passed on carries the trigger of a periodic report.
\<close>

theorem perio_timeout_queries:
  assumes "perio_reachable E s" "perio_env_ok E" "perioList s p = Some g"
    and "pv_query E (query_map (pv_rng E) g) = Inr answer" "finite (dom answer)"
  shows "(\<forall>i u. (i, u, p) \<in> timers (perioList s) \<longleftrightarrow>
      (\<exists>ids. query_map (pv_rng E) g i = Some ids \<and> distinct ids \<and> u \<in> set ids)) \<and>
    (let out = serve_timeout E (mk_event TYPE_PERIO_TIMEOUT 0 0 p) (perioList s)
     in set (map sr_SEID out) = dom answer \<and> distinct (map sr_SEID out) \<and>
       (\<forall>r \<in> set out. \<forall>x \<in> set (sr_Reports r). \<exists>u. x = USAR u \<and> UT_PERIO (USARTrigger u)))"
proof -
  note inv = perio_invD [OF reachable_perio_inv [OF assms(1,2)]]
  have g: "group_ok p g" using groups_okD(2) [OF inv(1) assms(3)] .
  have r: "is_range (rng32 (pv_rng E))" "is_range (rng64 (pv_rng E))" using assms(2) by (simp_all add: perio_env_ok_def go_rangesD)
  have "(i, u, p) \<in> timers (perioList s) \<longleftrightarrow>
      (\<exists>ids. query_map (pv_rng E) g i = Some ids \<and> distinct ids \<and> u \<in> set ids)" for i u
    using g r(1) assms(3) by (auto simp: timers_def query_map_def group_has_def group_ok_def split: option.splits)
  moreover have "(w OR f) AND f = f" for w f :: u32 by (rule bit_word_eqI) (auto simp: bit_simps)
  then have "UT_PERIO (USARTrigger (or_trigger USAR_TRIG_PERIO u))" for u
    by (simp add: UT_PERIO_def) (simp add: USAR_TRIG_PERIO_def)
  ultimately show ?thesis
    using r(2) assms(3-5) by (auto simp: serve_timeout_def mk_event_def Let_def comp_def image_image)
qed

definition ex_query :: perio_env where
  "ex_query = ex_perio\<lparr>pv_query := (\<lambda>m. Inr (\<lambda>i. map_option (map (\<lambda>u. zero_usage\<lparr>URRID := u\<rparr>)) (m i)))\<rparr>"

theorem perio_timeout_queries_witness:
  "\<exists>r. r \<in> set (serve_timeout ex_query (mk_event TYPE_PERIO_TIMEOUT 0 0 30) (perioList ex_started)) \<and> sr_SEID r = 1 \<and>
     (\<forall>x \<in> set (sr_Reports r). \<exists>u. x = USAR u \<and> UT_PERIO (USARTrigger u))"
proof -
  let ?g = "\<lparr>pg_urrids = [1 \<mapsto> {2}], pg_period = 30\<rparr>" and ?out = "serve_timeout ex_query (mk_event TYPE_PERIO_TIMEOUT 0 0 30) (perioList ex_started)"
  have ok: "perio_env_ok ex_query" using ex_perio_ok by (simp add: ex_query_def perio_env_ok_def)
  have l: "perioList ex_started 30 = Some ?g" by (simp add: ex_started_def)
  have q: "query_map (pv_rng ex_query) ?g = [1 \<mapsto> [2]]"
    by (rule ext) (simp add: query_map_def ex_query_def ex_perio_def sorted_ranges_def)
  have "(\<lambda>i. map_option f ([(1 :: u64) \<mapsto> x] i)) = [1 \<mapsto> f x]" for f :: "u32 list \<Rightarrow> USAReport list" and x by (rule ext) simp
  then have A: "pv_query ex_query (query_map (pv_rng ex_query) ?g) = Inr [1 \<mapsto> [zero_usage\<lparr>URRID := 2\<rparr>]]"
    unfolding q by (simp add: ex_query_def del: fun_upd_apply)
  have B: "finite (dom [1 :: u64 \<mapsto> [zero_usage\<lparr>URRID := 2\<rparr>]])" by simp
  note res = perio_timeout_queries [OF ex_started ok l A B, THEN conjunct2, unfolded Let_def]
  from res [THEN conjunct1] have "set (map sr_SEID ?out) = {1}" by simp
  then have "1 \<in> sr_SEID ` set ?out" by (simp only: set_map insertI1)
  then obtain r where r: "r \<in> set ?out" "sr_SEID r = 1" by (rule imageE) simp
  with bspec [OF res [THEN conjunct2, THEN conjunct2] r(1)] show ?thesis by blast
qed

end
