(* ===== verification/Gtp5g.thy ===== *)
theory Gtp5g
  imports Gtp5g_Attrs Perio Gtpv1 "HOL-Library.Monad_Syntax"
begin

text \<open>
  The gtp5g forwarder, \<^verbatim>\<open>internal/forwarder/gtp5g.go\<close>, second part: the operations. Each turns its element
  into attributes and issues a command to the kernel module. The module is reached through the library
  \<^verbatim>\<open>go-gtp5gnl\<close>, so it is a parameter: the record \<open>kernel_api\<close> of the commands the code issues, over an
  abstract kernel state \<open>'k\<close>. The queue of buffered packets belongs to the PFCP server, which the code reaches
  by the callback \<open>PopBufPkt\<close>: another parameter, over an abstract state \<open>'h\<close>. The state of the forwarder
  also lists the events sent to the server of periodic reports and the packets written to the link.
\<close>

section \<open>The kernel module\<close>

type_synonym oid = "u64 \<times> u64"

text \<open>The reports and rules the library returns.\<close>

record kreport =
  kr_SEID :: u64
  kr_URRID :: u32
  kr_QueryUrrRef :: u32
  kr_StartTime :: gotime
  kr_EndTime :: gotime
  kr_USARTrigger :: u32
  kr_TotalVolume :: u64
  kr_UplinkVolume :: u64
  kr_DownlinkVolume :: u64
  kr_TotalPktNum :: u64
  kr_UplinkPktNum :: u64
  kr_DownlinkPktNum :: u64

record kcreation =
  kc_PeerAddr :: bytes
  kc_Port :: u16
  kc_TEID :: u32

text \<open>\<open>kf_Creation\<close> is \<open>far.Param.Creation\<close>, \<open>None\<close> when either is nil.\<close>

record kfar =
  kf_Action :: u16
  kf_PDRIDs :: "u16 list"
  kf_Creation :: "kcreation option"

record 'k kernel_api =
  ka_Create :: "kind \<Rightarrow> oid \<Rightarrow> attr list \<Rightarrow> 'k \<Rightarrow> 'k \<times> error option"
  ka_Update :: "kind \<Rightarrow> oid \<Rightarrow> attr list \<Rightarrow> 'k \<Rightarrow> 'k \<times> error option"
  ka_Remove :: "kind \<Rightarrow> oid \<Rightarrow> 'k \<Rightarrow> 'k \<times> error option"
  ka_UpdateURR :: "oid \<Rightarrow> attr list \<Rightarrow> 'k \<Rightarrow> 'k \<times> kreport list res"
  ka_RemoveURR :: "oid \<Rightarrow> 'k \<Rightarrow> 'k \<times> kreport list res"
  ka_GetReport :: "oid \<Rightarrow> 'k \<Rightarrow> 'k \<times> kreport list res"
  ka_GetMultiReports :: "oid list \<Rightarrow> 'k \<Rightarrow> 'k \<times> kreport list res"
  ka_GetFAR :: "oid \<Rightarrow> 'k \<Rightarrow> kfar res"
  ka_GetPDR_QERIDs :: "oid \<Rightarrow> 'k \<Rightarrow> u32 list res"
  ka_GetQER_QFI :: "oid \<Rightarrow> 'k \<Rightarrow> u8 res"
  ka_WriteTo :: "bytes \<Rightarrow> bytes \<times> u16 \<Rightarrow> error option"

record ('ie, 'k, 'h) g5_env =
  ge_lib :: "'ie g5_lib"
  ge_kernel :: "'k kernel_api"
  ge_Pop :: "u64 \<Rightarrow> u16 \<Rightarrow> 'h \<Rightarrow> 'h \<times> bytes option"

record ('k, 'h) Gtp5g =
  g_kernel :: 'k
  g_handler :: 'h
  g_events :: "Event list"
  g_written :: "(bytes \<times> bytes \<times> u16) list"

section \<open>Reports\<close>

definition volume_of :: "kreport \<Rightarrow> VolumeMeasure" where
  "volume_of r = \<lparr>vm_Flags = 0, TotalVolume = kr_TotalVolume r, UplinkVolume = kr_UplinkVolume r,
     DownlinkVolume = kr_DownlinkVolume r, TotalPktNum = kr_TotalPktNum r, UplinkPktNum = kr_UplinkPktNum r,
     DownlinkPktNum = kr_DownlinkPktNum r\<rparr>"

text \<open>The report without its trigger, as the queries build it, and with the trigger of the module.\<close>

definition usar_of :: "kreport \<Rightarrow> USAReport" where
  "usar_of r = zero_usage\<lparr>URRID := kr_URRID r, QueryUrrRef := kr_QueryUrrRef r, StartTime := kr_StartTime r,
     EndTime := kr_EndTime r, VolumMeasure := volume_of r\<rparr>"

definition usar_trig_of :: "kreport \<Rightarrow> USAReport" where
  "usar_trig_of r = (usar_of r)\<lparr>USARTrigger := \<lparr>ut_Flags = kr_USARTrigger r\<rparr>\<rparr>"

section \<open>Packets\<close>

definition WritePacket ::
  "'k kernel_api \<Rightarrow> kfar \<Rightarrow> u8 option \<Rightarrow> bytes \<Rightarrow> ('k, 'h) Gtp5g \<Rightarrow> (('k, 'h) Gtp5g \<times> error option) option" where
  "WritePacket K far qer pkt d =
     (case kf_Creation far of
        None \<Rightarrow> Some (d, Some (ErrMsg ''far param not found''))
      | Some hc \<Rightarrow>
          let addr = (kc_PeerAddr hc, kc_Port hc);
              msg = \<lparr>m_Flags = 0x34, m_Type = MsgTypeTPDU, m_TEID = kc_TEID hc, m_SequenceNumber = 0, m_NPDUNumber = 0,
                m_Exts = (case qer of None \<Rightarrow> [] | Some qfi \<Rightarrow> [\<lparr>PDUType = 0, QoSFlowID = qfi\<rparr>]), m_Payload = pkt\<rparr>
          in do {
            (b, _) \<leftarrow> Message_Encode msg (replicate (Message_Len msg) 0);
            (case ka_WriteTo K b addr of
               Some err \<Rightarrow> Some (d, Some err)
             | None \<Rightarrow> Some (d\<lparr>g_written := g_written d @ [(b, addr)]\<rparr>, None))
          })"

text \<open>
  \<open>for { pkt, ok := Pop(...); if !ok { break }; ... }\<close>: the loop ends when the queue is empty, so a callback that
  always has a packet would keep it running; not returning is \<open>None\<close>, as is a panic of the body.
\<close>

partial_function (option) pop_loop ::
  "(u64 \<Rightarrow> u16 \<Rightarrow> 'h \<Rightarrow> 'h \<times> bytes option) \<Rightarrow> (bytes \<Rightarrow> ('k, 'h) Gtp5g \<Rightarrow> ('k, 'h) Gtp5g option) \<Rightarrow> u64 \<Rightarrow> u16 \<Rightarrow>
   ('k, 'h) Gtp5g \<Rightarrow> ('k, 'h) Gtp5g option" where
  "pop_loop pop body seid pdrid d =
     (case pop seid pdrid (g_handler d) of
        (h, None) \<Rightarrow> Some (d\<lparr>g_handler := h\<rparr>)
      | (h, Some pkt) \<Rightarrow> do { d \<leftarrow> body pkt (d\<lparr>g_handler := h\<rparr>); pop_loop pop body seid pdrid d })"

text \<open>The first QER of the PDR that has a QoS flow identifier.\<close>

fun first_qfi :: "'k kernel_api \<Rightarrow> u64 \<Rightarrow> u32 list \<Rightarrow> 'k \<Rightarrow> u8 option" where
  "first_qfi K seid [] k = None"
| "first_qfi K seid (q # qs) k =
     (case ka_GetQER_QFI K (seid, ucast q) k of
        Inl _ \<Rightarrow> first_qfi K seid qs k
      | Inr qfi \<Rightarrow> if qfi \<noteq> 0 then Some qfi else first_qfi K seid qs k)"

definition applyAction ::
  "('ie, 'k, 'h) g5_env \<Rightarrow> u64 \<Rightarrow> u64 \<Rightarrow> ApplyAction \<Rightarrow> ('k, 'h) Gtp5g \<Rightarrow> ('k, 'h) Gtp5g option" where
  "applyAction E lSeid farid action d =
     (let K = ge_kernel E in
      case ka_GetFAR K (lSeid, farid) (g_kernel d) of
        Inl _ \<Rightarrow> Some d
      | Inr far \<Rightarrow>
          if kf_Action far AND APPLY_ACT_BUFF = 0 then Some d
          else if AA_DROP action then
            foldO (\<lambda>d pdrid. pop_loop (ge_Pop E) (\<lambda>_ d. Some d) lSeid pdrid d) d (kf_PDRIDs far)
          else if AA_FORW action then
            foldO (\<lambda>d pdrid.
              case ka_GetPDR_QERIDs K (lSeid, ucast pdrid) (g_kernel d) of
                Inl _ \<Rightarrow> Some d
              | Inr qers \<Rightarrow>
                  let qer = first_qfi K lSeid qers (g_kernel d)
                  in pop_loop (ge_Pop E) (\<lambda>pkt d. map_option fst (WritePacket K far qer pkt d)) lSeid pdrid d)
              d (kf_PDRIDs far)
          else Some d)"

section \<open>PDRs\<close>

text \<open>Issue a command that changes the kernel.\<close>

definition kcall :: "('k \<Rightarrow> 'k \<times> 'r) \<Rightarrow> ('k, 'h) Gtp5g \<Rightarrow> ('k, 'h) Gtp5g \<times> 'r" where
  "kcall f d = (let (k, r) = f (g_kernel d) in (d\<lparr>g_kernel := k\<rparr>, r))"

definition Gtp5g_CreatePDR ::
  "('ie, 'k, 'h) g5_env \<Rightarrow> u64 \<Rightarrow> 'ie \<Rightarrow> ('k, 'h) Gtp5g \<Rightarrow> (('k, 'h) Gtp5g \<times> error option) option" where
  "Gtp5g_CreatePDR E lSeid req d =
     (case ie_group (gl_api (ge_lib E)) G_CreatePDR req of
        Inl err \<Rightarrow> Some (d, Some err)
      | Inr ies \<Rightarrow>
          (case foldR (create_pdr_attr (ge_lib E)) (0, []) ies of
             None \<Rightarrow> None
           | Some (Inl err) \<Rightarrow> Some (d, Some err)
           | Some (Inr (pdrid, attrs)) \<Rightarrow>
               let attrs = attrs @ [Attr (APdr PDR_UNIX_SOCKET_PATH) (AttrString (gl_PdrAddrForNetlink (ge_lib E)))]
               in Some (kcall (ka_Create (ge_kernel E) KPDR (lSeid, pdrid) attrs) d)))"

definition Gtp5g_UpdatePDR ::
  "('ie, 'k, 'h) g5_env \<Rightarrow> u64 \<Rightarrow> 'ie \<Rightarrow> ('k, 'h) Gtp5g \<Rightarrow> (('k, 'h) Gtp5g \<times> error option) option" where
  "Gtp5g_UpdatePDR E lSeid req d =
     (case ie_group (gl_api (ge_lib E)) G_UpdatePDR req of
        Inl err \<Rightarrow> Some (d, Some err)
      | Inr ies \<Rightarrow>
          (case foldR (update_pdr_attr (ge_lib E)) (0, []) ies of
             None \<Rightarrow> None
           | Some (Inl err) \<Rightarrow> Some (d, Some err)
           | Some (Inr (pdrid, attrs)) \<Rightarrow> Some (kcall (ka_Update (ge_kernel E) KPDR (lSeid, pdrid) attrs) d)))"

definition Gtp5g_RemovePDR ::
  "('ie, 'k, 'h) g5_env \<Rightarrow> u64 \<Rightarrow> 'ie \<Rightarrow> ('k, 'h) Gtp5g \<Rightarrow> ('k, 'h) Gtp5g \<times> error option" where
  "Gtp5g_RemovePDR E lSeid req d =
     (case ie_PDRID (gl_api (ge_lib E)) req of
        Inl _ \<Rightarrow> (d, Some (ErrMsg ''not found PDRID''))
      | Inr v \<Rightarrow> kcall (ka_Remove (ge_kernel E) KPDR (lSeid, ucast v)) d)"

section \<open>FARs\<close>

definition Gtp5g_CreateFAR ::
  "('ie, 'k, 'h) g5_env \<Rightarrow> u64 \<Rightarrow> 'ie \<Rightarrow> ('k, 'h) Gtp5g \<Rightarrow> ('k, 'h) Gtp5g \<times> error option" where
  "Gtp5g_CreateFAR E lSeid req d =
     (case bindE (ie_group (gl_api (ge_lib E)) G_CreateFAR req) (foldE (create_far_attr (ge_lib E)) (0, [])) of
        Inl err \<Rightarrow> (d, Some err)
      | Inr (farid, attrs) \<Rightarrow> kcall (ka_Create (ge_kernel E) KFAR (lSeid, farid) attrs) d)"

text \<open>
  The loop of \<open>UpdateFAR\<close> acts on the new action as soon as it reads it, with the FAR identifier read so far.
\<close>

definition update_far_step ::
  "('ie, 'k, 'h) g5_env \<Rightarrow> u64 \<Rightarrow> rule_attrs \<Rightarrow> 'ie \<Rightarrow> ('k, 'h) Gtp5g \<Rightarrow> (('k, 'h) Gtp5g \<times> rule_attrs res) option" where
  "update_far_step E lSeid st i d =
     (let L = ge_lib E; A = gl_api L in
      case ie_Type A i of
        T_FARID \<Rightarrow> Some (d, bindE (ie_u32 A A_FARID i) (\<lambda>v. Inr (ucast v, snd st)))
      | T_ApplyAction \<Rightarrow>
          (case read_action A i of
             Inl err \<Rightarrow> Some (d, Inl err)
           | Inr act \<Rightarrow>
               map_option (\<lambda>d. (d, Inr (add_attr st (Attr (AFar FAR_APPLY_ACTION) (AttrU16 (aa_Flags act))))))
                 (applyAction E lSeid (fst st) act d))
      | T_UpdateForwardingParameters \<Rightarrow> Some (d, forwarding_param_attr L G_UpdateForwardingParameters st i)
      | T_BARID \<Rightarrow> Some (d, Inr (or_skip (ie_u8 A A_BARID i) st (\<lambda>v. add_attr st (Attr (AFar FAR_BAR_ID) (AttrU8 v)))))
      | _ \<Rightarrow> Some (d, Inr st))"

fun update_far_loop ::
  "('ie, 'k, 'h) g5_env \<Rightarrow> u64 \<Rightarrow> rule_attrs \<Rightarrow> 'ie list \<Rightarrow> ('k, 'h) Gtp5g \<Rightarrow> (('k, 'h) Gtp5g \<times> rule_attrs res) option" where
  "update_far_loop E lSeid st [] d = Some (d, Inr st)"
| "update_far_loop E lSeid st (i # is) d =
     (case update_far_step E lSeid st i d of
        None \<Rightarrow> None
      | Some (d, Inl err) \<Rightarrow> Some (d, Inl err)
      | Some (d, Inr st) \<Rightarrow> update_far_loop E lSeid st is d)"

definition Gtp5g_UpdateFAR ::
  "('ie, 'k, 'h) g5_env \<Rightarrow> u64 \<Rightarrow> 'ie \<Rightarrow> ('k, 'h) Gtp5g \<Rightarrow> (('k, 'h) Gtp5g \<times> error option) option" where
  "Gtp5g_UpdateFAR E lSeid req d =
     (case ie_group (gl_api (ge_lib E)) G_UpdateFAR req of
        Inl err \<Rightarrow> Some (d, Some err)
      | Inr ies \<Rightarrow>
          (case update_far_loop E lSeid (0, []) ies d of
             None \<Rightarrow> None
           | Some (d, Inl err) \<Rightarrow> Some (d, Some err)
           | Some (d, Inr (farid, attrs)) \<Rightarrow> Some (kcall (ka_Update (ge_kernel E) KFAR (lSeid, farid) attrs) d)))"

definition Gtp5g_RemoveFAR ::
  "('ie, 'k, 'h) g5_env \<Rightarrow> u64 \<Rightarrow> 'ie \<Rightarrow> ('k, 'h) Gtp5g \<Rightarrow> ('k, 'h) Gtp5g \<times> error option" where
  "Gtp5g_RemoveFAR E lSeid req d =
     (case ie_u32 (gl_api (ge_lib E)) A_FARID req of
        Inl _ \<Rightarrow> (d, Some (ErrMsg ''not found FARID''))
      | Inr v \<Rightarrow> kcall (ka_Remove (ge_kernel E) KFAR (lSeid, ucast v)) d)"

section \<open>QERs\<close>

definition Gtp5g_CreateQER ::
  "('ie, 'k, 'h) g5_env \<Rightarrow> u64 \<Rightarrow> 'ie \<Rightarrow> ('k, 'h) Gtp5g \<Rightarrow> ('k, 'h) Gtp5g \<times> error option" where
  "Gtp5g_CreateQER E lSeid req d =
     (case ie_group (gl_api (ge_lib E)) G_CreateQER req of
        Inl err \<Rightarrow> (d, Some err)
      | Inr ies \<Rightarrow>
          let (qerid, attrs) = foldl (qer_attr (ge_lib E)) (0, []) ies
          in kcall (ka_Create (ge_kernel E) KQER (lSeid, qerid) attrs) d)"

definition Gtp5g_UpdateQER ::
  "('ie, 'k, 'h) g5_env \<Rightarrow> u64 \<Rightarrow> 'ie \<Rightarrow> ('k, 'h) Gtp5g \<Rightarrow> ('k, 'h) Gtp5g \<times> error option" where
  "Gtp5g_UpdateQER E lSeid req d =
     (case ie_group (gl_api (ge_lib E)) G_UpdateQER req of
        Inl err \<Rightarrow> (d, Some err)
      | Inr ies \<Rightarrow>
          let (qerid, attrs) = foldl (qer_attr (ge_lib E)) (0, []) ies
          in kcall (ka_Update (ge_kernel E) KQER (lSeid, qerid) attrs) d)"

definition Gtp5g_RemoveQER ::
  "('ie, 'k, 'h) g5_env \<Rightarrow> u64 \<Rightarrow> 'ie \<Rightarrow> ('k, 'h) Gtp5g \<Rightarrow> ('k, 'h) Gtp5g \<times> error option" where
  "Gtp5g_RemoveQER E lSeid req d =
     (case ie_u32 (gl_api (ge_lib E)) A_QERID req of
        Inl _ \<Rightarrow> (d, Some (ErrMsg ''not found QERID''))
      | Inr v \<Rightarrow> kcall (ka_Remove (ge_kernel E) KQER (lSeid, ucast v)) d)"

section \<open>URRs\<close>

definition send_event :: "Event \<Rightarrow> ('k, 'h) Gtp5g \<Rightarrow> ('k, 'h) Gtp5g" where
  "send_event e d = d\<lparr>g_events := g_events d @ [e]\<rparr>"

definition Gtp5g_CreateURR ::
  "('ie, 'k, 'h) g5_env \<Rightarrow> u64 \<Rightarrow> 'ie \<Rightarrow> ('k, 'h) Gtp5g \<Rightarrow> ('k, 'h) Gtp5g \<times> error option" where
  "Gtp5g_CreateURR E lSeid req d =
     (case bindE (ie_group (gl_api (ge_lib E)) G_CreateURR req)
        (foldE (create_urr_attr (ge_lib E)) \<lparr>ul_urrid = 0, ul_rptTrig = \<lparr>rt_Flags = 0\<rparr>, ul_period = 0, ul_attrs = []\<rparr>) of
        Inl err \<Rightarrow> (d, Some err)
      | Inr st \<Rightarrow>
          if RT_PERIO (ul_rptTrig st) \<and> ul_period st \<le> 0 then (d, Some (ErrMsg ''invalid measurement period''))
          else
            let d = (if RT_PERIO (ul_rptTrig st)
                     then send_event (AddPeriodReportTimer lSeid (ul_urrid st) (ul_period st)) d else d)
            in kcall (ka_Create (ge_kernel E) KURR (lSeid, ucast (ul_urrid st)) (ul_attrs st)) d)"

text \<open>The reports a command returned.\<close>

definition usage_result :: "(kreport \<Rightarrow> USAReport) \<Rightarrow> ('k, 'h) Gtp5g \<times> kreport list res \<Rightarrow> ('k, 'h) Gtp5g \<times> USAReport list res" where
  "usage_result f r = (fst r, bindE (snd r) (\<lambda>rs. Inr (map f rs)))"

definition Gtp5g_UpdateURR ::
  "('ie, 'k, 'h) g5_env \<Rightarrow> u64 \<Rightarrow> 'ie \<Rightarrow> ('k, 'h) Gtp5g \<Rightarrow> ('k, 'h) Gtp5g \<times> USAReport list res" where
  "Gtp5g_UpdateURR E lSeid req d =
     (case bindE (ie_group (gl_api (ge_lib E)) G_UpdateURR req) (foldE (update_urr_attr (ge_lib E)) (0, [])) of
        Inl err \<Rightarrow> (d, Inl err)
      | Inr (urrid, attrs) \<Rightarrow> usage_result usar_trig_of (kcall (ka_UpdateURR (ge_kernel E) (lSeid, urrid) attrs) d))"

definition Gtp5g_RemoveURR ::
  "('ie, 'k, 'h) g5_env \<Rightarrow> u64 \<Rightarrow> 'ie \<Rightarrow> ('k, 'h) Gtp5g \<Rightarrow> ('k, 'h) Gtp5g \<times> USAReport list res" where
  "Gtp5g_RemoveURR E lSeid req d =
     (case ie_u32 (gl_api (ge_lib E)) A_URRID req of
        Inl _ \<Rightarrow> (d, Inl (ErrMsg ''not found URRID''))
      | Inr v \<Rightarrow>
          usage_result usar_trig_of
            (kcall (ka_RemoveURR (ge_kernel E) (lSeid, ucast v)) (send_event (DelPeriodReportTimer lSeid v) d)))"

section \<open>BARs\<close>

definition Gtp5g_CreateBAR ::
  "('ie, 'k, 'h) g5_env \<Rightarrow> u64 \<Rightarrow> 'ie \<Rightarrow> ('k, 'h) Gtp5g \<Rightarrow> ('k, 'h) Gtp5g \<times> error option" where
  "Gtp5g_CreateBAR E lSeid req d =
     (case bindE (ie_group (gl_api (ge_lib E)) G_CreateBAR req) (foldE (bar_attr (ge_lib E)) (0, [])) of
        Inl err \<Rightarrow> (d, Some err)
      | Inr (barid, attrs) \<Rightarrow> kcall (ka_Create (ge_kernel E) KBAR (lSeid, barid) attrs) d)"

definition Gtp5g_UpdateBAR ::
  "('ie, 'k, 'h) g5_env \<Rightarrow> u64 \<Rightarrow> 'ie \<Rightarrow> ('k, 'h) Gtp5g \<Rightarrow> ('k, 'h) Gtp5g \<times> error option" where
  "Gtp5g_UpdateBAR E lSeid req d =
     (case bindE (ie_group (gl_api (ge_lib E)) G_UpdateBAR req) (foldE (bar_attr (ge_lib E)) (0, [])) of
        Inl err \<Rightarrow> (d, Some err)
      | Inr (barid, attrs) \<Rightarrow> kcall (ka_Update (ge_kernel E) KBAR (lSeid, barid) attrs) d)"

definition Gtp5g_RemoveBAR ::
  "('ie, 'k, 'h) g5_env \<Rightarrow> u64 \<Rightarrow> 'ie \<Rightarrow> ('k, 'h) Gtp5g \<Rightarrow> ('k, 'h) Gtp5g \<times> error option" where
  "Gtp5g_RemoveBAR E lSeid req d =
     (case ie_u8 (gl_api (ge_lib E)) A_BARID req of
        Inl _ \<Rightarrow> (d, Some (ErrMsg ''not found BARID''))
      | Inr v \<Rightarrow> kcall (ka_Remove (ge_kernel E) KBAR (lSeid, ucast v)) d)"

section \<open>Queries\<close>

text \<open>The two netlink connections of the code lead to the same kernel module.\<close>

definition Gtp5g_QueryURR ::
  "('ie, 'k, 'h) g5_env \<Rightarrow> u64 \<Rightarrow> u32 \<Rightarrow> ('k, 'h) Gtp5g \<Rightarrow> ('k, 'h) Gtp5g \<times> USAReport list res" where
  "Gtp5g_QueryURR E lSeid urrid d = usage_result usar_of (kcall (ka_GetReport (ge_kernel E) (lSeid, ucast urrid)) d)"

text \<open>The loop of \<open>queryMultiURR\<close>: a command is issued when enough identifiers have been collected.\<close>

fun multi_loop ::
  "'k kernel_api \<Rightarrow> nat \<Rightarrow> oid list \<Rightarrow> kreport list \<Rightarrow> oid list \<Rightarrow> 'k \<Rightarrow> 'k \<times> (oid list \<times> kreport list) res" where
  "multi_loop K n oids reports [] k = (k, Inr (oids, reports))"
| "multi_loop K n oids reports (x # xs) k =
     (let oids = oids @ [x] in
      if n \<le> length oids then
        (case ka_GetMultiReports K oids k of
           (k, Inl err) \<Rightarrow> (k, Inl err)
         | (k, Inr rs) \<Rightarrow> multi_loop K n [] (reports @ rs) xs k)
      else multi_loop K n oids reports xs k)"

definition multi_query :: "'k kernel_api \<Rightarrow> nat \<Rightarrow> oid list \<Rightarrow> 'k \<Rightarrow> 'k \<times> kreport list res" where
  "multi_query K n xs k =
     (case multi_loop K n [] [] xs k of
        (k, Inl err) \<Rightarrow> (k, Inl err)
      | (k, Inr (oids, reports)) \<Rightarrow>
          if oids \<noteq> [] then
            (case ka_GetMultiReports K oids k of
               (k, Inl err) \<Rightarrow> (k, Inl err)
             | (k, Inr rs) \<Rightarrow> (k, Inr (reports @ rs)))
          else (k, Inr reports))"

definition group_reports :: "kreport list \<Rightarrow> u64 \<rightharpoonup> USAReport list" where
  "group_reports rs =
     foldl (\<lambda>m r. m(kr_SEID r \<mapsto> (case m (kr_SEID r) of None \<Rightarrow> [] | Some us \<Rightarrow> us) @ [usar_of r])) Map.empty rs"

definition urr_oids :: "ranges \<Rightarrow> (u64 \<rightharpoonup> u32 list) \<Rightarrow> oid list" where
  "urr_oids R m = concat (map (\<lambda>seid. map (\<lambda>u. (seid, ucast u)) (the (m seid))) (rng64 R (dom m)))"

definition queryMultiURR ::
  "('ie, 'k, 'h) g5_env \<Rightarrow> ranges \<Rightarrow> (u64 \<rightharpoonup> u32 list) \<Rightarrow> ('k, 'h) Gtp5g \<Rightarrow> ('k, 'h) Gtp5g \<times> (u64 \<rightharpoonup> USAReport list) res" where
  "queryMultiURR E R m d =
     (case kcall (multi_query (ge_kernel E) (gl_MaxNetlinkUsageReportNum (ge_lib E)) (urr_oids R m)) d of
        (d, Inl err) \<Rightarrow> (d, Inl err)
      | (d, Inr reports) \<Rightarrow> (d, Inr (group_reports reports)))"

section \<open>The driver\<close>

definition gtp5g_driver :: "('ie, 'k, 'h) g5_env \<Rightarrow> ('ie, ('k, 'h) Gtp5g) driver_api" where
  "gtp5g_driver E =
     \<lparr>dr_CreatePDR = Gtp5g_CreatePDR E,
      dr_UpdatePDR = Gtp5g_UpdatePDR E,
      dr_RemovePDR = (\<lambda>seid i d. Some (Gtp5g_RemovePDR E seid i d)),
      dr_CreateFAR = (\<lambda>seid i d. Some (Gtp5g_CreateFAR E seid i d)),
      dr_UpdateFAR = Gtp5g_UpdateFAR E,
      dr_RemoveFAR = (\<lambda>seid i d. Some (Gtp5g_RemoveFAR E seid i d)),
      dr_CreateQER = (\<lambda>seid i d. Some (Gtp5g_CreateQER E seid i d)),
      dr_UpdateQER = (\<lambda>seid i d. Some (Gtp5g_UpdateQER E seid i d)),
      dr_RemoveQER = (\<lambda>seid i d. Some (Gtp5g_RemoveQER E seid i d)),
      dr_CreateURR = (\<lambda>seid i d. Some (Gtp5g_CreateURR E seid i d)),
      dr_UpdateURR = (\<lambda>seid i d. Some (Gtp5g_UpdateURR E seid i d)),
      dr_RemoveURR = (\<lambda>seid i d. Some (Gtp5g_RemoveURR E seid i d)),
      dr_QueryURR = (\<lambda>seid u d. Some (Gtp5g_QueryURR E seid u d)),
      dr_CreateBAR = (\<lambda>seid i d. Some (Gtp5g_CreateBAR E seid i d)),
      dr_UpdateBAR = (\<lambda>seid i d. Some (Gtp5g_UpdateBAR E seid i d)),
      dr_RemoveBAR = (\<lambda>seid i d. Some (Gtp5g_RemoveBAR E seid i d))\<rparr>"

section \<open>Lemmas\<close>

lemma kcall_eq: "kcall f d = (d', r) \<longleftrightarrow> (\<exists>k. f (g_kernel d) = (k, r) \<and> d' = d\<lparr>g_kernel := k\<rparr>)"
  by (auto simp: kcall_def split: prod.splits)

lemma kcall_kernel: "kcall f d = (d', r) \<Longrightarrow> f (g_kernel d) = (g_kernel d', r)"
  by (auto simp: kcall_eq)

lemma WritePacket_total: "\<exists>d' err. WritePacket K far qer pkt d = Some (d', err)"
proof (cases "kf_Creation far")
  case (Some hc)
  then show ?thesis by (auto simp: WritePacket_def Message_Encode_eq Let_def split: option.splits)
qed (simp add: WritePacket_def)

end
