(* ===== verification/Gtp5g_Driver.thy ===== *)
theory Gtp5g_Driver
  imports Gtp5g
begin

text \<open>
  The gtp5g forwarder keeps the contract of a driver (\<open>rule_store\<close>), provided the kernel module keeps its
  own: \<open>kernel_ok\<close> says which rules the module holds after each command. Building the attributes of a rule
  never panics.
\<close>

section \<open>What the code relies on\<close>

fun rule_of :: "kind \<Rightarrow> u64 \<Rightarrow> rule_id" where
  "rule_of KPDR i = RPDR (ucast i)"
| "rule_of KFAR i = RFAR (ucast i)"
| "rule_of KQER i = RQER (ucast i)"
| "rule_of KURR i = RURR (ucast i)"
| "rule_of KBAR i = RBAR (ucast i)"

text \<open>
  The module stores rules under a session and an identifier: creating adds at most the named rule,
  updating and querying keep the set of rules, removing drops the named rule (it fails only if there is
  none).
\<close>

definition kernel_ok :: "'k kernel_api \<Rightarrow> ('k \<Rightarrow> u64 \<Rightarrow> rule_id set) \<Rightarrow> bool" where
  "kernel_ok K rules \<longleftrightarrow>
     (\<forall>k kd i x as. let k' = fst (ka_Create K kd (i, x) as k)
        in rules k' i \<subseteq> insert (rule_of kd x) (rules k i) \<and> (\<forall>j. j \<noteq> i \<longrightarrow> rules k' j = rules k j)) \<and>
     (\<forall>k kd o' as. rules (fst (ka_Update K kd o' as k)) = rules k) \<and>
     (\<forall>k kd i x. rules (fst (ka_Remove K kd (i, x) k)) = (rules k)(i := rules k i - {rule_of kd x})) \<and>
     (\<forall>k o' as. rules (fst (ka_UpdateURR K o' as k)) = rules k) \<and>
     (\<forall>k i x. rules (fst (ka_RemoveURR K (i, x) k)) = (rules k)(i := rules k i - {rule_of KURR x})) \<and>
     (\<forall>k o'. rules (fst (ka_GetReport K o' k)) = rules k)"

lemma kernel_okD:
  assumes "kernel_ok K rules"
  shows "ka_Create K kd (i, x) as k = (k', e) \<Longrightarrow> rules k' i \<subseteq> insert (rule_of kd x) (rules k i)"
    and "ka_Create K kd (i, x) as k = (k', e) \<Longrightarrow> j \<noteq> i \<Longrightarrow> rules k' j = rules k j"
    and "ka_Update K kd o' as k = (k', e) \<Longrightarrow> rules k' = rules k"
    and "ka_Remove K kd (i, x) k = (k', e) \<Longrightarrow> rules k' = (rules k)(i := rules k i - {rule_of kd x})"
    and "ka_UpdateURR K o' as k = (k', r) \<Longrightarrow> rules k' = rules k"
    and "ka_RemoveURR K (i, x) k = (k', r) \<Longrightarrow> rules k' = (rules k)(i := rules k i - {rule_of KURR x})"
    and "ka_GetReport K o' k = (k', r) \<Longrightarrow> rules k' = rules k"
  using assms unfolding kernel_ok_def Let_def by (metis fst_conv)+

text \<open>
  The elements the library reads consistently: the identifier the accessor of a grouped Create element
  returns is the one its children carry.
\<close>

fun g5_wf :: "'ie g5_lib \<Rightarrow> 'ie dop \<Rightarrow> bool" where
  "g5_wf L (DCreate KFAR i) =
     (case bindE (ie_group (gl_api L) G_CreateFAR i) (foldE (create_far_attr L) (0, [])) of
        Inl _ \<Rightarrow> True | Inr (x, _) \<Rightarrow> ie_u32 (gl_api L) A_FARID i = Inr (ucast x))"
| "g5_wf L (DCreate KQER i) =
     (case ie_group (gl_api L) G_CreateQER i of
        Inl _ \<Rightarrow> True | Inr ies \<Rightarrow> ie_u32 (gl_api L) A_QERID i = Inr (ucast (fst (foldl (qer_attr L) (0, []) ies))))"
| "g5_wf L (DCreate KURR i) =
     (case bindE (ie_group (gl_api L) G_CreateURR i)
        (foldE (create_urr_attr L) \<lparr>ul_urrid = 0, ul_rptTrig = \<lparr>rt_Flags = 0\<rparr>, ul_period = 0, ul_attrs = []\<rparr>) of
        Inl _ \<Rightarrow> True | Inr st \<Rightarrow> ie_u32 (gl_api L) A_URRID i = Inr (ul_urrid st))"
| "g5_wf L (DCreate KBAR i) =
     (case bindE (ie_group (gl_api L) G_CreateBAR i) (foldE (bar_attr L) (0, [])) of
        Inl _ \<Rightarrow> True | Inr (x, _) \<Rightarrow> ie_u8 (gl_api L) A_BARID i = Inr (ucast x))"
| "g5_wf L _ = True"

section \<open>Panics\<close>

lemma foldR_total:
  assumes "\<And>s x. x \<in> set xs \<Longrightarrow> f s x \<noteq> None"
  shows "foldR f s xs \<noteq> None"
  using assms
proof (induction xs arbitrary: s)
  case (Cons x xs)
  then obtain r where r: "f s x = Some r" by fastforce
  with Cons show ?case by (cases r) auto
qed simp

lemma newPdi_sdf_long:
  assumes "foldE (newPdi_step A) st ies = Inr st'" "\<forall>x \<in> set (pl_sdfIEs st). 3 \<le> length (ie_Payload A x)"
  shows "\<forall>x \<in> set (pl_sdfIEs st'). 3 \<le> length (ie_Payload A x)"
proof (rule foldE_invariant [OF assms(1), where P = "\<lambda>st. \<forall>x \<in> set (pl_sdfIEs st). 3 \<le> length (ie_Payload A x)"])
  show "\<forall>x \<in> set (pl_sdfIEs st). 3 \<le> length (ie_Payload A x)" by (fact assms(2))
next
  fix s x t
  assume "\<forall>x \<in> set (pl_sdfIEs s). 3 \<le> length (ie_Payload A x)" "newPdi_step A s x = Inr t"
  then show "\<forall>x \<in> set (pl_sdfIEs t). 3 \<le> length (ie_Payload A x)"
    by (cases "ie_Type A x") (auto simp: newPdi_step_def or_skip_def split: if_splits sum.splits)
qed

lemma newPdi_total: "newPdi L i \<noteq> None"
proof (cases "bindE (ie_group (gl_api L) G_PDI i) (foldE (newPdi_step (gl_api L)) \<lparr>pl_attrs = [], pl_srcIf = 0, pl_sdfIEs = []\<rparr>)")
  case (Inr st)
  then obtain ies where "foldE (newPdi_step (gl_api L)) \<lparr>pl_attrs = [], pl_srcIf = 0, pl_sdfIEs = []\<rparr> ies = Inr st"
    by (auto simp: bindE_Inr_iff)
  from newPdi_sdf_long [OF this] have long: "x \<in> set (pl_sdfIEs st) \<Longrightarrow> ie_Payload (gl_api L) x \<noteq> []" for x by force
  have bind: "bindR r (\<lambda>v. Some (Inr (g v))) \<noteq> None" if "r \<noteq> None" for r :: "attr list res option" and g :: "attr list \<Rightarrow> attr list"
    using that by (cases r; cases "the r") auto
  have "newSdfFilter L x (pl_srcIf st) \<noteq> None" if "x \<in> set (pl_sdfIEs st)" for x
    using long [OF that] by (simp add: newSdfFilter_def Let_def)
  then have "foldR (\<lambda>attrs x. bindR (newSdfFilter L x (pl_srcIf st))
      (\<lambda>v. Some (Inr (attrs @ [Attr (APdi PDI_SDF_FILTER) (AttrList v)])))) (pl_attrs st) (pl_sdfIEs st) \<noteq> None"
    by (intro foldR_total) (rule bind)
  with Inr show ?thesis by (simp add: newPdi_def)
qed (simp add: newPdi_def)

lemma pdi_attr_total: "pdi_attr L st i \<noteq> None"
proof -
  obtain r where "newPdi L i = Some r" using newPdi_total by fastforce
  then show ?thesis by (cases r) (auto simp: pdi_attr_def)
qed

lemma pdr_attr_total: "create_pdr_attr L st i \<noteq> None" "update_pdr_attr L st i \<noteq> None"
  using pdi_attr_total [of L st i] by (cases "ie_Type (gl_api L) i"; simp add: create_pdr_attr_def update_pdr_attr_def Let_def)+

text \<open>
  C22. No PDR makes the forwarder panic: whatever elements the control plane sends, creating and updating
  a PDR returns. The length check in \<open>newPdi\<close> is what keeps the unchecked index in \<open>newSdfFilter\<close> in range.
\<close>

theorem gtp5g_pdr_no_panic: "Gtp5g_CreatePDR E seid req d \<noteq> None \<and> Gtp5g_UpdatePDR E seid req d \<noteq> None"
proof
  have "foldR (create_pdr_attr (ge_lib E)) (0, []) ies \<noteq> None" for ies by (intro foldR_total pdr_attr_total)
  then show "Gtp5g_CreatePDR E seid req d \<noteq> None"
    by (simp add: Gtp5g_CreatePDR_def Let_def not_None_eq [symmetric] del: not_None_eq split: sum.split option.split prod.split)
  have "foldR (update_pdr_attr (ge_lib E)) (0, []) ies \<noteq> None" for ies by (intro foldR_total pdr_attr_total)
  then show "Gtp5g_UpdatePDR E seid req d \<noteq> None"
    by (simp add: Gtp5g_UpdatePDR_def not_None_eq [symmetric] del: not_None_eq split: sum.split option.split prod.split)
qed

section \<open>The contract\<close>

text \<open>Acting on a changed action touches no rule.\<close>

lemma pop_loop_kernel:
  assumes "pop_loop pop body seid pdrid d = Some d'"
    and "\<And>pkt d d'. body pkt d = Some d' \<Longrightarrow> g_kernel d' = g_kernel d"
  shows "g_kernel d' = g_kernel d"
proof -
  let ?keeps = "\<lambda>body. \<forall>pkt d d'. body pkt d = Some d' \<longrightarrow> g_kernel d' = g_kernel d"
  have "?keeps body \<longrightarrow> g_kernel d' = g_kernel d"
  proof (rule pop_loop.raw_induct [where P = "\<lambda>pop body seid pdrid d d'. ?keeps body \<longrightarrow> g_kernel d' = g_kernel d", OF _ assms(1)], rule impI)
    fix loop pop body seid pdrid d d'
    assume IH: "\<And>pop body seid pdrid d d'. loop pop body seid pdrid d = Some d' \<Longrightarrow> ?keeps body \<longrightarrow> g_kernel d' = g_kernel d"
      and keeps: "?keeps body"
      and "(case pop seid pdrid (g_handler d) of (h, None) \<Rightarrow> Some (d\<lparr>g_handler := h\<rparr>)
        | (h, Some pkt) \<Rightarrow> body pkt (d\<lparr>g_handler := h\<rparr>) \<bind> loop pop body seid pdrid) = Some d'"
    then consider h where "d' = d\<lparr>g_handler := h\<rparr>"
      | h pkt d1 where "body pkt (d\<lparr>g_handler := h\<rparr>) = Some d1" "loop pop body seid pdrid d1 = Some d'"
      by (auto split: prod.splits option.splits simp: bind_eq_Some_conv)
    then show "g_kernel d' = g_kernel d"
    proof cases
      case 2
      with keeps have "g_kernel d1 = g_kernel d" by fastforce
      with IH [OF 2(2)] keeps show ?thesis by simp
    qed simp
  qed
  with assms(2) show ?thesis by blast
qed

lemma WritePacket_kernel: "WritePacket K far qer pkt d = Some (d', e) \<Longrightarrow> g_kernel d' = g_kernel d"
  by (auto simp: WritePacket_def Let_def bind_eq_Some_conv split: option.splits prod.splits)

definition drop_pdr :: "('ie, 'k, 'h) g5_env \<Rightarrow> u64 \<Rightarrow> ('k, 'h) Gtp5g \<Rightarrow> u16 \<Rightarrow> ('k, 'h) Gtp5g option" where
  "drop_pdr E seid d pdrid = pop_loop (ge_Pop E) (\<lambda>_ d. Some d) seid pdrid d"

definition forward_pdr :: "('ie, 'k, 'h) g5_env \<Rightarrow> u64 \<Rightarrow> kfar \<Rightarrow> ('k, 'h) Gtp5g \<Rightarrow> u16 \<Rightarrow> ('k, 'h) Gtp5g option" where
  "forward_pdr E seid far d pdrid =
     (case ka_GetPDR_QERIDs (ge_kernel E) (seid, ucast pdrid) (g_kernel d) of
        Inl _ \<Rightarrow> Some d
      | Inr qers \<Rightarrow>
          let qer = first_qfi (ge_kernel E) seid qers (g_kernel d)
          in pop_loop (ge_Pop E) (\<lambda>pkt d. map_option fst (WritePacket (ge_kernel E) far qer pkt d)) seid pdrid d)"

lemma applyAction_eq:
  "applyAction E seid farid act d =
     (case ka_GetFAR (ge_kernel E) (seid, farid) (g_kernel d) of
        Inl _ \<Rightarrow> Some d
      | Inr far \<Rightarrow>
          if kf_Action far AND APPLY_ACT_BUFF = 0 then Some d
          else if AA_DROP act then foldO (drop_pdr E seid) d (kf_PDRIDs far)
          else if AA_FORW act then foldO (forward_pdr E seid far) d (kf_PDRIDs far)
          else Some d)"
  unfolding applyAction_def drop_pdr_def [abs_def] forward_pdr_def [abs_def] by (simp add: Let_def)

lemma drop_pdr_kernel: "drop_pdr E seid d p = Some d' \<Longrightarrow> g_kernel d' = g_kernel d"
  unfolding drop_pdr_def by (erule pop_loop_kernel) simp

lemma forward_pdr_kernel: "forward_pdr E seid far d p = Some d' \<Longrightarrow> g_kernel d' = g_kernel d"
  by (auto simp: forward_pdr_def Let_def split: sum.splits elim!: pop_loop_kernel dest: WritePacket_kernel)

lemma applyAction_kernel:
  assumes "applyAction E seid farid act d = Some d'"
  shows "g_kernel d' = g_kernel d"
proof (cases "ka_GetFAR (ge_kernel E) (seid, farid) (g_kernel d)")
  case (Inr far)
  have "foldO (drop_pdr E seid) d ps = Some d' \<Longrightarrow> ?thesis" for ps
    by (erule foldO_invariant) (auto dest: drop_pdr_kernel)
  moreover have "foldO (forward_pdr E seid far) d ps = Some d' \<Longrightarrow> ?thesis" for ps
    by (erule foldO_invariant) (auto dest: forward_pdr_kernel)
  ultimately show ?thesis using assms Inr by (auto simp: applyAction_eq split: if_splits)
qed (use assms in \<open>simp add: applyAction_eq\<close>)

lemma update_far_step_kernel: "update_far_step E seid st i d = Some (d', r) \<Longrightarrow> g_kernel d' = g_kernel d"
  by (cases "ie_Type (gl_api (ge_lib E)) i")
    (auto simp: update_far_step_def Let_def split: sum.splits dest: applyAction_kernel)

lemma update_far_loop_kernel: "update_far_loop E seid st is d = Some (d', r) \<Longrightarrow> g_kernel d' = g_kernel d"
proof (induction E seid st "is" d rule: update_far_loop.induct)
  case (2 E seid st i "is" d)
  from "2.prems" obtain d1 r1 where s: "update_far_step E seid st i d = Some (d1, r1)" by (auto split: option.splits)
  show ?case
  proof (cases r1)
    case (Inr st1)
    with s "2.prems" "2.IH" [OF s refl Inr] update_far_step_kernel [OF s] show ?thesis by simp
  qed (use s "2.prems" update_far_step_kernel [OF s] in simp)
qed simp

lemma create_pdr_attr_id:
  assumes "create_pdr_attr L st i = Some (Inr st')"
  shows "fst st' = (if ie_Type (gl_api L) i = T_PDRID then (case ie_PDRID (gl_api L) i of Inl _ \<Rightarrow> fst st | Inr x \<Rightarrow> ucast x) else fst st)"
proof -
  have pdi: "pdi_attr L st i = Some (Inr st') \<Longrightarrow> fst st' = fst st"
    unfolding pdi_attr_def by (cases "newPdi L i"; cases "the (newPdi L i)") (auto simp: add_attr_def split: if_splits)
  show ?thesis
    using assms pdi
    by (cases "ie_Type (gl_api L) i")
      (auto simp: create_pdr_attr_def Let_def add_attr_def or_skip_def bindE_Inr_iff split: sum.splits)
qed

lemma create_pdr_ids:
  assumes "foldR (create_pdr_attr L) st ies = Some (Inr st')" "fst st = ucast (v :: u16)"
  shows "fst st' = ucast (foldl (\<lambda>v i. if ie_Type (gl_api L) i = T_PDRID then
      (case ie_PDRID (gl_api L) i of Inl _ \<Rightarrow> v | Inr x \<Rightarrow> x) else v) v ies)"
  using assms
proof (induction ies arbitrary: st v)
  case (Cons i ies)
  then obtain st1 where s: "create_pdr_attr L st i = Some (Inr st1)" "foldR (create_pdr_attr L) st1 ies = Some (Inr st')"
    by (cases "create_pdr_attr L st i"; cases "the (create_pdr_attr L st i)") auto
  have "fst st1 = ucast (if ie_Type (gl_api L) i = T_PDRID then (case ie_PDRID (gl_api L) i of Inl _ \<Rightarrow> v | Inr x \<Rightarrow> x) else v)"
    using create_pdr_attr_id [OF s(1)] Cons.prems(2) by (simp split: sum.splits)
  from Cons.IH [OF s(2) this] show ?case by simp
qed simp

text \<open>The commands each operation issues.\<close>

lemma g5_CreatePDR_step:
  assumes "Gtp5g_CreatePDR E seid i d = Some (d', e)"
  shows "g_kernel d' = g_kernel d \<or> (\<exists>ies attrs. ie_group (gl_api (ge_lib E)) G_CreatePDR i = Inr ies \<and>
    ka_Create (ge_kernel E) KPDR (seid, ucast (child_PDRID (gl_api (ge_lib E)) ies)) attrs (g_kernel d) = (g_kernel d', e))"
  using assms create_pdr_ids [of "ge_lib E" "(0, [])" _ _ 0]
  by (auto simp: Gtp5g_CreatePDR_def child_PDRID_def Let_def split: sum.splits option.splits prod.splits dest!: kcall_kernel)

lemma g5_Update_steps:
  assumes "kernel_ok (ge_kernel E) rules"
  shows "Gtp5g_UpdatePDR E seid i d = Some (d', e) \<Longrightarrow> rules (g_kernel d') = rules (g_kernel d)"
    and "Gtp5g_UpdateFAR E seid i d = Some (d', e) \<Longrightarrow> rules (g_kernel d') = rules (g_kernel d)"
    and "Gtp5g_UpdateQER E seid i d = (d', e) \<Longrightarrow> rules (g_kernel d') = rules (g_kernel d)"
    and "Gtp5g_UpdateURR E seid i d = (d', r) \<Longrightarrow> rules (g_kernel d') = rules (g_kernel d)"
    and "Gtp5g_UpdateBAR E seid i d = (d', e) \<Longrightarrow> rules (g_kernel d') = rules (g_kernel d)"
    and "Gtp5g_QueryURR E seid u d = (d', r) \<Longrightarrow> rules (g_kernel d') = rules (g_kernel d)"
proof -
  note k = kernel_okD [OF assms]
  show "Gtp5g_UpdatePDR E seid i d = Some (d', e) \<Longrightarrow> rules (g_kernel d') = rules (g_kernel d)"
    by (auto simp: Gtp5g_UpdatePDR_def split: sum.splits option.splits prod.splits dest!: kcall_kernel k(3))
  show "Gtp5g_UpdateFAR E seid i d = Some (d', e) \<Longrightarrow> rules (g_kernel d') = rules (g_kernel d)"
    by (auto simp: Gtp5g_UpdateFAR_def split: sum.splits option.splits prod.splits dest!: kcall_kernel k(3) update_far_loop_kernel)
  show "Gtp5g_UpdateQER E seid i d = (d', e) \<Longrightarrow> rules (g_kernel d') = rules (g_kernel d)"
    by (auto simp: Gtp5g_UpdateQER_def split: sum.splits prod.splits dest!: kcall_kernel k(3))
  show "Gtp5g_UpdateURR E seid i d = (d', r) \<Longrightarrow> rules (g_kernel d') = rules (g_kernel d)"
    by (auto simp: Gtp5g_UpdateURR_def usage_result_def kcall_def split: sum.splits prod.splits dest!: k(5))
  show "Gtp5g_UpdateBAR E seid i d = (d', e) \<Longrightarrow> rules (g_kernel d') = rules (g_kernel d)"
    by (auto simp: Gtp5g_UpdateBAR_def split: sum.splits prod.splits dest!: kcall_kernel k(3))
  show "Gtp5g_QueryURR E seid u d = (d', r) \<Longrightarrow> rules (g_kernel d') = rules (g_kernel d)"
    by (auto simp: Gtp5g_QueryURR_def usage_result_def kcall_def split: prod.splits dest!: k(7))
qed

lemma g5_Remove_steps:
  assumes "kernel_ok (ge_kernel E) rules" "A = gl_api (ge_lib E)"
  shows "Gtp5g_RemovePDR E seid i d = (d', e) \<Longrightarrow> rules (g_kernel d') =
      (case ie_PDRID A i of Inl _ \<Rightarrow> rules (g_kernel d) | Inr x \<Rightarrow> (rules (g_kernel d))(seid := rules (g_kernel d) seid - {RPDR x}))"
    and "Gtp5g_RemoveFAR E seid i d = (d', e) \<Longrightarrow> rules (g_kernel d') =
      (case ie_u32 A A_FARID i of Inl _ \<Rightarrow> rules (g_kernel d) | Inr x \<Rightarrow> (rules (g_kernel d))(seid := rules (g_kernel d) seid - {RFAR x}))"
    and "Gtp5g_RemoveQER E seid i d = (d', e) \<Longrightarrow> rules (g_kernel d') =
      (case ie_u32 A A_QERID i of Inl _ \<Rightarrow> rules (g_kernel d) | Inr x \<Rightarrow> (rules (g_kernel d))(seid := rules (g_kernel d) seid - {RQER x}))"
    and "Gtp5g_RemoveURR E seid i d = (d', r) \<Longrightarrow> rules (g_kernel d') =
      (case ie_u32 A A_URRID i of Inl _ \<Rightarrow> rules (g_kernel d) | Inr x \<Rightarrow> (rules (g_kernel d))(seid := rules (g_kernel d) seid - {RURR x}))"
    and "Gtp5g_RemoveBAR E seid i d = (d', e) \<Longrightarrow> rules (g_kernel d') =
      (case ie_u8 A A_BARID i of Inl _ \<Rightarrow> rules (g_kernel d) | Inr x \<Rightarrow> (rules (g_kernel d))(seid := rules (g_kernel d) seid - {RBAR x}))"
proof -
  note k = kernel_okD [OF assms(1)]
  have casts: "ucast (ucast (p :: u16) :: u64) = p" "ucast (ucast (x :: u32) :: u64) = x" "ucast (ucast (b :: u8) :: u64) = b" for p x b
    by (simp_all add: ucast_up_ucast_id is_up)
  note defs = assms(2) casts
  show "Gtp5g_RemovePDR E seid i d = (d', e) \<Longrightarrow> rules (g_kernel d') =
      (case ie_PDRID A i of Inl _ \<Rightarrow> rules (g_kernel d) | Inr x \<Rightarrow> (rules (g_kernel d))(seid := rules (g_kernel d) seid - {RPDR x}))"
    by (auto simp: Gtp5g_RemovePDR_def defs split: sum.splits dest!: kcall_kernel k(4))
  show "Gtp5g_RemoveFAR E seid i d = (d', e) \<Longrightarrow> rules (g_kernel d') =
      (case ie_u32 A A_FARID i of Inl _ \<Rightarrow> rules (g_kernel d) | Inr x \<Rightarrow> (rules (g_kernel d))(seid := rules (g_kernel d) seid - {RFAR x}))"
    by (auto simp: Gtp5g_RemoveFAR_def defs split: sum.splits dest!: kcall_kernel k(4))
  show "Gtp5g_RemoveQER E seid i d = (d', e) \<Longrightarrow> rules (g_kernel d') =
      (case ie_u32 A A_QERID i of Inl _ \<Rightarrow> rules (g_kernel d) | Inr x \<Rightarrow> (rules (g_kernel d))(seid := rules (g_kernel d) seid - {RQER x}))"
    by (auto simp: Gtp5g_RemoveQER_def defs split: sum.splits dest!: kcall_kernel k(4))
  show "Gtp5g_RemoveURR E seid i d = (d', r) \<Longrightarrow> rules (g_kernel d') =
      (case ie_u32 A A_URRID i of Inl _ \<Rightarrow> rules (g_kernel d) | Inr x \<Rightarrow> (rules (g_kernel d))(seid := rules (g_kernel d) seid - {RURR x}))"
    by (auto simp: Gtp5g_RemoveURR_def usage_result_def send_event_def kcall_def defs split: sum.splits prod.splits dest!: k(6))
  show "Gtp5g_RemoveBAR E seid i d = (d', e) \<Longrightarrow> rules (g_kernel d') =
      (case ie_u8 A A_BARID i of Inl _ \<Rightarrow> rules (g_kernel d) | Inr x \<Rightarrow> (rules (g_kernel d))(seid := rules (g_kernel d) seid - {RBAR x}))"
    by (auto simp: Gtp5g_RemoveBAR_def defs split: sum.splits dest!: kcall_kernel k(4))
qed

definition creates :: "('ie, 'k, 'h) g5_env \<Rightarrow> kind \<Rightarrow> 'ie \<Rightarrow> u64 \<Rightarrow> ('k, 'h) Gtp5g \<Rightarrow> ('k, 'h) Gtp5g \<Rightarrow> bool" where
  "creates E kd i seid d d' \<longleftrightarrow> g_kernel d' = g_kernel d \<or>
     (\<exists>x attrs e. ka_Create (ge_kernel E) kd (seid, x) attrs (g_kernel d) = (g_kernel d', e) \<and>
        (g5_wf (ge_lib E) (DCreate kd i) \<longrightarrow> created_rule (gl_api (ge_lib E)) kd i = Some (rule_of kd x)))"

lemma creates_kcall:
  assumes "kcall (ka_Create (ge_kernel E) kd (seid, x) attrs) d = (d', e)"
    and "g5_wf (ge_lib E) (DCreate kd i) \<Longrightarrow> created_rule (gl_api (ge_lib E)) kd i = Some (rule_of kd x)"
  shows "creates E kd i seid d d'"
  using kcall_kernel [OF assms(1)] assms(2) by (auto simp: creates_def)

lemma g5_Create_steps:
  shows "Gtp5g_CreatePDR E seid i d = Some (d', e) \<Longrightarrow> creates E KPDR i seid d d'"
    and "Gtp5g_CreateFAR E seid i d = (d', e) \<Longrightarrow> creates E KFAR i seid d d'"
    and "Gtp5g_CreateQER E seid i d = (d', e) \<Longrightarrow> creates E KQER i seid d d'"
    and "Gtp5g_CreateURR E seid i d = (d', e) \<Longrightarrow> creates E KURR i seid d d'"
    and "Gtp5g_CreateBAR E seid i d = (d', e) \<Longrightarrow> creates E KBAR i seid d d'"
proof -
  have casts: "ucast (ucast (p :: u16) :: u64) = p" "ucast (ucast (x :: u32) :: u64) = x" for p x
    by (simp_all add: ucast_up_ucast_id is_up)
  show "Gtp5g_CreatePDR E seid i d = Some (d', e) \<Longrightarrow> creates E KPDR i seid d d'"
    using g5_CreatePDR_step [of E seid i d d' e] by (fastforce simp: creates_def casts)
  show "Gtp5g_CreateFAR E seid i d = (d', e) \<Longrightarrow> creates E KFAR i seid d d'"
    by (auto simp: Gtp5g_CreateFAR_def split: sum.splits prod.splits elim!: creates_kcall) (auto simp: creates_def)
  show "Gtp5g_CreateQER E seid i d = (d', e) \<Longrightarrow> creates E KQER i seid d d'"
    by (auto simp: Gtp5g_CreateQER_def Let_def split: sum.splits prod.splits elim!: creates_kcall) (auto simp: creates_def)
  show "Gtp5g_CreateBAR E seid i d = (d', e) \<Longrightarrow> creates E KBAR i seid d d'"
    by (auto simp: Gtp5g_CreateBAR_def split: sum.splits prod.splits elim!: creates_kcall) (auto simp: creates_def)
  have send: "creates E KURR i seid (send_event ev d) d' \<Longrightarrow> creates E KURR i seid d d'" for ev
    by (simp add: creates_def send_event_def)
  show "Gtp5g_CreateURR E seid i d = (d', e) \<Longrightarrow> creates E KURR i seid d d'"
  proof (cases "bindE (ie_group (gl_api (ge_lib E)) G_CreateURR i)
      (foldE (create_urr_attr (ge_lib E)) \<lparr>ul_urrid = 0, ul_rptTrig = \<lparr>rt_Flags = 0\<rparr>, ul_period = 0, ul_attrs = []\<rparr>)")
    case (Inr st)
    assume run: "Gtp5g_CreateURR E seid i d = (d', e)"
    have wf: "g5_wf (ge_lib E) (DCreate KURR i) \<Longrightarrow> created_rule (gl_api (ge_lib E)) KURR i = Some (rule_of KURR (ucast (ul_urrid st)))"
      using Inr by (simp add: casts)
    from run Inr consider "d' = d" | d1 where "d1 = d \<or> (\<exists>ev. d1 = send_event ev d)"
        "kcall (ka_Create (ge_kernel E) KURR (seid, ucast (ul_urrid st)) (ul_attrs st)) d1 = (d', e)"
      by (auto simp: Gtp5g_CreateURR_def Let_def split: if_splits)
    then show ?thesis
    proof cases
      case 2
      from creates_kcall [OF 2(2) wf] 2(1) send show ?thesis by blast
    qed (simp add: creates_def)
  qed (simp add: Gtp5g_CreateURR_def creates_def)
qed

lemma creates_rules:
  assumes "kernel_ok (ge_kernel E) rules" "creates E kd i seid d d'"
  shows "j \<noteq> seid \<Longrightarrow> rules (g_kernel d') j = rules (g_kernel d) j"
    and "g5_wf (ge_lib E) (DCreate kd i) \<Longrightarrow> created_rule (gl_api (ge_lib E)) kd i = Some r \<Longrightarrow>
      rules (g_kernel d') seid \<subseteq> insert r (rules (g_kernel d) seid)"
proof -
  note k = kernel_okD(1,2) [OF assms(1)]
  show "j \<noteq> seid \<Longrightarrow> rules (g_kernel d') j = rules (g_kernel d) j" using assms(2) k(2) by (auto simp: creates_def)
  show "rules (g_kernel d') seid \<subseteq> insert r (rules (g_kernel d) seid)"
    if "g5_wf (ge_lib E) (DCreate kd i)" "created_rule (gl_api (ge_lib E)) kd i = Some r"
    using assms(2) that by (auto simp: creates_def dest!: k(1) subsetD)
qed

text \<open>The three groups of operations, by the operation as data.\<close>

lemma g5_run_create: "run (gtp5g_driver E) (DCreate kd i) seid d = Some (d', ok) \<Longrightarrow> creates E kd i seid d d'"
  by (cases kd) (auto simp: gtp5g_driver_def ok_err_def intro: g5_Create_steps(1) g5_Create_steps(2-5) [OF prod.collapse [symmetric]])

lemma g5_run_update:
  assumes "kernel_ok (ge_kernel E) rules"
  shows "run (gtp5g_driver E) (DUpdate kd i) seid d = Some (d', ok) \<Longrightarrow> rules (g_kernel d') = rules (g_kernel d)"
    and "run (gtp5g_driver E) (DQuery u) seid d = Some (d', ok) \<Longrightarrow> rules (g_kernel d') = rules (g_kernel d)"
proof -
  note up = g5_Update_steps [OF assms] 
  note fsts = up(3-6) [OF prod.collapse [symmetric]]
  show "run (gtp5g_driver E) (DUpdate kd i) seid d = Some (d', ok) \<Longrightarrow> rules (g_kernel d') = rules (g_kernel d)"
    by (cases kd) (auto simp: gtp5g_driver_def ok_err_def ok_res_def fsts dest: up(1,2))
  show "run (gtp5g_driver E) (DQuery u) seid d = Some (d', ok) \<Longrightarrow> rules (g_kernel d') = rules (g_kernel d)"
    by (auto simp: gtp5g_driver_def ok_res_def fsts)
qed

lemma g5_run_remove:
  assumes "kernel_ok (ge_kernel E) rules"
  shows "run (gtp5g_driver E) (DRemove kd i) seid d = Some (d', ok) \<Longrightarrow> rules (g_kernel d') =
    (case named_rule (gl_api (ge_lib E)) kd i of None \<Rightarrow> rules (g_kernel d)
     | Some r \<Rightarrow> (rules (g_kernel d))(seid := rules (g_kernel d) seid - {r}))"
proof -
  note rm = g5_Remove_steps [OF assms refl]
  assume "run (gtp5g_driver E) (DRemove kd i) seid d = Some (d', ok)"
  then show ?thesis
    by (cases kd) (auto simp: gtp5g_driver_def ok_err_def ok_res_def rm [OF prod.collapse [symmetric]] split: sum.splits)
qed

lemma g5_store:
  assumes "kernel_ok (ge_kernel E) rules"
  shows "rule_store (g5_wf (ge_lib E)) (gl_api (ge_lib E)) (gtp5g_driver E) (\<lambda>d. rules (g_kernel d))"
proof
  fix op seid d d' ok seid'
  assume run: "run (gtp5g_driver E) op seid d = Some (d', ok)" and "seid' \<noteq> seid"
  then show "rules (g_kernel d') seid' = rules (g_kernel d) seid'"
    by (cases op) (auto simp del: run.simps dest!: g5_run_create creates_rules(1) [OF assms] g5_run_update [OF assms] g5_run_remove [OF assms] split: option.splits)
next
  fix k i seid d d' ok r
  assume "run (gtp5g_driver E) (DCreate k i) seid d = Some (d', ok)" "g5_wf (ge_lib E) (DCreate k i)"
    "created_rule (gl_api (ge_lib E)) k i = Some r"
  then show "rules (g_kernel d') seid \<subseteq> insert r (rules (g_kernel d) seid)"
    by (intro creates_rules(2) [OF assms g5_run_create])
next
  show "rules (g_kernel d') seid = rules (g_kernel d) seid"
    if "run (gtp5g_driver E) (DUpdate k i) seid d = Some (d', ok)" for k i seid d d' ok
    using g5_run_update(1) [OF assms that] by simp
  show "rules (g_kernel d') seid = rules (g_kernel d) seid"
    if "run (gtp5g_driver E) (DQuery u) seid d = Some (d', ok)" for u seid d d' ok
    using g5_run_update(2) [OF assms that] by simp
  show "rules (g_kernel d') seid = rules (g_kernel d) seid - {r}"
    if "run (gtp5g_driver E) (DRemove k i) seid d = Some (d', ok)" "named_rule (gl_api (ge_lib E)) k i = Some r" for k i seid d d' ok r
    using g5_run_remove [OF assms that(1)] that(2) by simp
qed


text \<open>A kernel that remembers the rules only.\<close>

definition ex_kernel :: "(u64 \<Rightarrow> rule_id set) kernel_api" where
  "ex_kernel = \<lparr>ka_Create = (\<lambda>kd (i, x) as k. (k(i := insert (rule_of kd x) (k i)), None)),
     ka_Update = (\<lambda>kd o' as k. (k, None)),
     ka_Remove = (\<lambda>kd (i, x) k. (k(i := k i - {rule_of kd x}), if rule_of kd x \<in> k i then None else Some (ErrMsg ''ENOENT''))),
     ka_UpdateURR = (\<lambda>o' as k. (k, Inr [])),
     ka_RemoveURR = (\<lambda>(i, x) k. (k(i := k i - {rule_of KURR x}), Inr [])),
     ka_GetReport = (\<lambda>o' k. (k, Inr [])), ka_GetMultiReports = (\<lambda>os k. (k, Inr [])),
     ka_GetFAR = (\<lambda>o' k. Inr \<lparr>kf_Action = APPLY_ACT_BUFF, kf_PDRIDs = [1],
       kf_Creation = Some \<lparr>kc_PeerAddr = [10, 0, 0, 1], kc_Port = 2152, kc_TEID = 7\<rparr>\<rparr>),
     ka_GetPDR_QERIDs = (\<lambda>o' k. Inr [9]), ka_GetQER_QFI = (\<lambda>o' k. Inr 5), ka_WriteTo = (\<lambda>b a. None)\<rparr>"

definition ex_lib :: "tree g5_lib" where
  "ex_lib = \<lparr>gl_api = tree_api, gl_p6 = (\<lambda>_. None), gl_SDFFilter = (\<lambda>_. Inl (ErrIE ''SDFFilter'')),
     gl_HasTEID = (\<lambda>_. True), gl_HasIPv4 = (\<lambda>_. True), gl_HasTOVOL = (\<lambda>_. True), gl_HasULVOL = (\<lambda>_. True),
     gl_HasDLVOL = (\<lambda>_. True), gl_little_endian = True, gl_SDF_FILTER_PERMIT = 1, gl_SDF_FILTER_IN = 1,
     gl_SDF_FILTER_OUT = 2, gl_PdrAddrForNetlink = ''/tmp/free5gc_unix_sock'', gl_MaxNetlinkUsageReportNum = 2\<rparr>"

definition ex_g5 :: "(tree, u64 \<Rightarrow> rule_id set, bytes list) g5_env" where
  "ex_g5 = \<lparr>ge_lib = ex_lib, ge_kernel = ex_kernel,
     ge_Pop = (\<lambda>seid p h. case h of [] \<Rightarrow> ([], None) | pkt # h \<Rightarrow> (h, Some pkt))\<rparr>"

lemma ex_kernel_ok: "kernel_ok ex_kernel (\<lambda>k. k)"
  by (auto simp: kernel_ok_def ex_kernel_def)


end
