(* ===== verification/Pfcp_Session.thy ===== *)
theory Pfcp_Session
  imports Driver_If "HOL-Library.Monad_Syntax"
begin

text \<open>
  The PFCP sessions of \<^verbatim>\<open>internal/pfcp/node.go\<close>: what a session remembers of its rules, the operations
  that keep this memory and the driver in step, and its queues of buffered packets. A session and the
  state of the driver are passed together; \<open>None\<close> is a panic, which only the driver can cause here.
\<close>

section \<open>Data\<close>

definition BUFFQ_LEN :: nat where
  "BUFFQ_LEN = 512"

record PDRInfo =
  RelatedURRIDs :: "u32 set"

record URRInfo =
  ui_removed :: bool
  ui_SEQN :: u32
  ui_MeasureMethod :: MeasureMethod
  ui_MeasureInformation :: MeasureInformation
  ui_refPdrNum :: u16

text \<open>
  \<open>s_rnode\<close> is the address of the remote node. A channel is the list of the packets in it.
\<close>

record Sess =
  s_rnode :: nat
  s_LocalID :: u64
  s_RemoteID :: u64
  s_PDRIDs :: "u16 \<rightharpoonup> PDRInfo"
  s_FARIDs :: "u32 set"
  s_QERIDs :: "u32 set"
  s_URRIDs :: "u32 \<rightharpoonup> URRInfo"
  s_BARIDs :: "u8 set"
  s_q :: "u16 \<rightharpoonup> bytes list"
  s_qlen :: nat

type_synonym 'd ss = "Sess \<times> 'd"

section \<open>Buffered packets\<close>

definition Sess_Push :: "u16 \<Rightarrow> bytes \<Rightarrow> Sess \<Rightarrow> Sess" where
  "Sess_Push pdrid p s =
     (let q = (case s_q s pdrid of None \<Rightarrow> [] | Some q \<Rightarrow> q);
          q = (if length q < s_qlen s then q @ [p] else q)
      in s\<lparr>s_q := (s_q s)(pdrid \<mapsto> q)\<rparr>)"

definition Sess_Len :: "u16 \<Rightarrow> Sess \<Rightarrow> nat" where
  "Sess_Len pdrid s = (case s_q s pdrid of None \<Rightarrow> 0 | Some q \<Rightarrow> length q)"

definition Sess_Pop :: "u16 \<Rightarrow> Sess \<Rightarrow> Sess \<times> bytes option" where
  "Sess_Pop pdrid s =
     (case s_q s pdrid of
        None \<Rightarrow> (s, None)
      | Some [] \<Rightarrow> (s, None)
      | Some (pkt # q) \<Rightarrow> (s\<lparr>s_q := (s_q s)(pdrid \<mapsto> q)\<rparr>, Some pkt))"

section \<open>PDRs\<close>

text \<open>The loop over the children of a Create PDR: the PDR's identifier and its URRs, each counted.\<close>

definition count_ref :: "u32 \<Rightarrow> Sess \<Rightarrow> Sess" where
  "count_ref urrid s =
     (case s_URRIDs s urrid of
        None \<Rightarrow> s
      | Some info \<Rightarrow> s\<lparr>s_URRIDs := (s_URRIDs s)(urrid \<mapsto> info\<lparr>ui_refPdrNum := ui_refPdrNum info + 1\<rparr>)\<rparr>)"

definition create_pdr_step ::
  "'ie ie_api \<Rightarrow> u16 \<times> u32 set \<times> Sess \<Rightarrow> 'ie \<Rightarrow> u16 \<times> u32 set \<times> Sess" where
  "create_pdr_step A st i =
     (let (pdrid, urrids, s) = st in
      case ie_Type A i of
        T_PDRID \<Rightarrow> (case ie_PDRID A i of Inl _ \<Rightarrow> st | Inr v \<Rightarrow> (v, urrids, s))
      | T_URRID \<Rightarrow> (case ie_u32 A A_URRID i of Inl _ \<Rightarrow> st | Inr v \<Rightarrow> (pdrid, insert v urrids, count_ref v s))
      | _ \<Rightarrow> st)"

definition Sess_CreatePDR ::
  "('ie, 'd) driver_api \<Rightarrow> 'ie ie_api \<Rightarrow> 'ie \<Rightarrow> 'd ss \<Rightarrow> ('d ss \<times> error option) option" where
  "Sess_CreatePDR D A req sd =
     (case ie_group A G_CreatePDR req of
        Inl err \<Rightarrow> Some (sd, Some err)
      | Inr ies \<Rightarrow>
          let (s, d) = sd;
              (pdrid, urrids, s) = foldl (create_pdr_step A) (0, {}, s) ies;
              s = s\<lparr>s_PDRIDs := (s_PDRIDs s)(pdrid \<mapsto> \<lparr>RelatedURRIDs = urrids\<rparr>)\<rparr>
          in do {
            (d, err) \<leftarrow> dr_CreatePDR D (s_LocalID s) req d;
            Some ((s, d), err)
          })"

definition diassociateURR ::
  "('ie, 'd) driver_api \<Rightarrow> u32 \<Rightarrow> 'd ss \<Rightarrow> ('d ss \<times> USAReport list) option" where
  "diassociateURR D urrid sd =
     (let (s, d) = sd in
      case s_URRIDs s urrid of
        None \<Rightarrow> Some (sd, [])
      | Some info \<Rightarrow>
          if 0 < ui_refPdrNum info then
            let info = info\<lparr>ui_refPdrNum := ui_refPdrNum info - 1\<rparr>;
                s = s\<lparr>s_URRIDs := (s_URRIDs s)(urrid \<mapsto> info)\<rparr>
            in if ui_refPdrNum info = 0 then do {
                 (d, r) \<leftarrow> dr_QueryURR D (s_LocalID s) urrid d;
                 Some ((s, d), case r of Inl _ \<Rightarrow> [] | Inr usars \<Rightarrow> map (or_trigger USAR_TRIG_TERMR) usars)
               }
               else Some ((s, d), [])
          else Some (sd, []))"

text \<open>The loop over the URRs a PDR no longer uses.\<close>

definition diassociate_step ::
  "('ie, 'd) driver_api \<Rightarrow> 'd ss \<times> USAReport list \<Rightarrow> u32 \<Rightarrow> ('d ss \<times> USAReport list) option" where
  "diassociate_step D st urrid =
     do { (sd, usar) \<leftarrow> diassociateURR D urrid (fst st); Some (sd, snd st @ usar) }"

text \<open>The loop over the children of an Update PDR.\<close>

definition update_pdr_step :: "'ie ie_api \<Rightarrow> u16 \<times> u32 set \<Rightarrow> 'ie \<Rightarrow> u16 \<times> u32 set" where
  "update_pdr_step A st i =
     (let (pdrid, urrids) = st in
      case ie_Type A i of
        T_PDRID \<Rightarrow> (case ie_PDRID A i of Inl _ \<Rightarrow> st | Inr v \<Rightarrow> (v, urrids))
      | T_URRID \<Rightarrow> (case ie_u32 A A_URRID i of Inl _ \<Rightarrow> st | Inr v \<Rightarrow> (pdrid, insert v urrids))
      | _ \<Rightarrow> st)"

definition Sess_UpdatePDR ::
  "('ie, 'd) driver_api \<Rightarrow> 'ie ie_api \<Rightarrow> ranges \<Rightarrow> 'ie \<Rightarrow> 'd ss \<Rightarrow> ('d ss \<times> USAReport list res) option" where
  "Sess_UpdatePDR D A R req sd =
     (case ie_group A G_UpdatePDR req of
        Inl err \<Rightarrow> Some (sd, Inl err)
      | Inr ies \<Rightarrow>
          let (s, d) = sd;
              (pdrid, newUrrids) = foldl (update_pdr_step A) (0, {}) ies
          in case s_PDRIDs s pdrid of
               None \<Rightarrow> Some (sd, Inl (ErrSessRuleNotFound ''UpdatePDR''))
             | Some pdrInfo \<Rightarrow> do {
                 (d, err) \<leftarrow> dr_UpdatePDR D (s_LocalID s) req d;
                 case err of
                   Some e \<Rightarrow> Some ((s, d), Inl e)
                 | None \<Rightarrow> do {
                     ((s, d), usars) \<leftarrow> foldO (\<lambda>st urrid. if urrid \<in> newUrrids then Some st else diassociate_step D st urrid)
                        ((s, d), []) (rng32 R (RelatedURRIDs pdrInfo));
                     Some ((s\<lparr>s_PDRIDs := (s_PDRIDs s)(pdrid \<mapsto> pdrInfo\<lparr>RelatedURRIDs := newUrrids\<rparr>)\<rparr>, d), Inr usars)
                   }
               })"

definition Sess_RemovePDR ::
  "('ie, 'd) driver_api \<Rightarrow> 'ie ie_api \<Rightarrow> ranges \<Rightarrow> 'ie \<Rightarrow> 'd ss \<Rightarrow> ('d ss \<times> USAReport list res) option" where
  "Sess_RemovePDR D A R req sd =
     (let (s, d) = sd in
      case ie_PDRID A req of
        Inl err \<Rightarrow> Some (sd, Inl err)
      | Inr pdrid \<Rightarrow>
          (case s_PDRIDs s pdrid of
             None \<Rightarrow> Some (sd, Inl (ErrSessRuleNotFound ''RemovePDR''))
           | Some pdrInfo \<Rightarrow> do {
               (d, err) \<leftarrow> dr_RemovePDR D (s_LocalID s) req d;
               case err of
                 Some e \<Rightarrow> Some ((s, d), Inl e)
               | None \<Rightarrow> do {
                   ((s, d), usars) \<leftarrow> foldO (diassociate_step D) ((s, d), []) (rng32 R (RelatedURRIDs pdrInfo));
                   Some ((s\<lparr>s_PDRIDs := (s_PDRIDs s)(pdrid := None)\<rparr>, d), Inr usars)
                 }
             }))"

section \<open>FARs and QERs\<close>

definition Sess_CreateFAR ::
  "('ie, 'd) driver_api \<Rightarrow> 'ie ie_api \<Rightarrow> 'ie \<Rightarrow> 'd ss \<Rightarrow> ('d ss \<times> error option) option" where
  "Sess_CreateFAR D A req sd =
     (case ie_u32 A A_FARID req of
        Inl err \<Rightarrow> Some (sd, Some err)
      | Inr fid \<Rightarrow>
          let (s, d) = sd; s = s\<lparr>s_FARIDs := insert fid (s_FARIDs s)\<rparr>
          in do { (d, err) \<leftarrow> dr_CreateFAR D (s_LocalID s) req d; Some ((s, d), err) })"

definition Sess_UpdateFAR ::
  "('ie, 'd) driver_api \<Rightarrow> 'ie ie_api \<Rightarrow> 'ie \<Rightarrow> 'd ss \<Rightarrow> ('d ss \<times> error option) option" where
  "Sess_UpdateFAR D A req sd =
     (let (s, d) = sd in
      case ie_u32 A A_FARID req of
        Inl err \<Rightarrow> Some (sd, Some err)
      | Inr fid \<Rightarrow>
          if fid \<notin> s_FARIDs s then Some (sd, Some (ErrSessRuleNotFound ''UpdateFAR''))
          else do { (d, err) \<leftarrow> dr_UpdateFAR D (s_LocalID s) req d; Some ((s, d), err) })"

definition Sess_RemoveFAR ::
  "('ie, 'd) driver_api \<Rightarrow> 'ie ie_api \<Rightarrow> 'ie \<Rightarrow> 'd ss \<Rightarrow> ('d ss \<times> error option) option" where
  "Sess_RemoveFAR D A req sd =
     (let (s, d) = sd in
      case ie_u32 A A_FARID req of
        Inl err \<Rightarrow> Some (sd, Some err)
      | Inr fid \<Rightarrow>
          if fid \<notin> s_FARIDs s then Some (sd, Some (ErrSessRuleNotFound ''RemoveFAR''))
          else do {
            (d, err) \<leftarrow> dr_RemoveFAR D (s_LocalID s) req d;
            Some ((if err = None then s\<lparr>s_FARIDs := s_FARIDs s - {fid}\<rparr> else s, d), err)
          })"

definition Sess_CreateQER ::
  "('ie, 'd) driver_api \<Rightarrow> 'ie ie_api \<Rightarrow> 'ie \<Rightarrow> 'd ss \<Rightarrow> ('d ss \<times> error option) option" where
  "Sess_CreateQER D A req sd =
     (case ie_u32 A A_QERID req of
        Inl err \<Rightarrow> Some (sd, Some err)
      | Inr qid \<Rightarrow>
          let (s, d) = sd; s = s\<lparr>s_QERIDs := insert qid (s_QERIDs s)\<rparr>
          in do { (d, err) \<leftarrow> dr_CreateQER D (s_LocalID s) req d; Some ((s, d), err) })"

definition Sess_UpdateQER ::
  "('ie, 'd) driver_api \<Rightarrow> 'ie ie_api \<Rightarrow> 'ie \<Rightarrow> 'd ss \<Rightarrow> ('d ss \<times> error option) option" where
  "Sess_UpdateQER D A req sd =
     (let (s, d) = sd in
      case ie_u32 A A_QERID req of
        Inl err \<Rightarrow> Some (sd, Some err)
      | Inr qid \<Rightarrow>
          if qid \<notin> s_QERIDs s then Some (sd, Some (ErrSessRuleNotFound ''UpdateQER''))
          else do { (d, err) \<leftarrow> dr_UpdateQER D (s_LocalID s) req d; Some ((s, d), err) })"

definition Sess_RemoveQER ::
  "('ie, 'd) driver_api \<Rightarrow> 'ie ie_api \<Rightarrow> 'ie \<Rightarrow> 'd ss \<Rightarrow> ('d ss \<times> error option) option" where
  "Sess_RemoveQER D A req sd =
     (let (s, d) = sd in
      case ie_u32 A A_QERID req of
        Inl err \<Rightarrow> Some (sd, Some err)
      | Inr qid \<Rightarrow>
          if qid \<notin> s_QERIDs s then Some (sd, Some (ErrSessRuleNotFound ''RemoveQER''))
          else do {
            (d, err) \<leftarrow> dr_RemoveQER D (s_LocalID s) req d;
            Some ((if err = None then s\<lparr>s_QERIDs := s_QERIDs s - {qid}\<rparr> else s, d), err)
          })"

section \<open>URRs\<close>

definition read_method :: "'ie ie_api \<Rightarrow> 'ie \<Rightarrow> MeasureMethod" where
  "read_method A i = \<lparr>DURAT = ie_Has A Has_DURAT i, VOLUM = ie_Has A Has_VOLUM i, EVENT = ie_Has A Has_EVENT i\<rparr>"

definition first_info :: "'ie ie_api \<Rightarrow> 'ie \<Rightarrow> 'ie" where
  "first_info A req =
     (case find (\<lambda>x. ie_Type A x = T_MeasurementInformation) (ie_ChildIEs A req) of
        None \<Rightarrow> ie_empty A | Some x \<Rightarrow> x)"

definition read_info :: "'ie ie_api \<Rightarrow> 'ie \<Rightarrow> MeasureInformation \<Rightarrow> MeasureInformation" where
  "read_info A i m =
     m\<lparr>MBQE := ie_Has A Has_MBQE i, INAM := ie_Has A Has_INAM i, RADI := ie_Has A Has_RADI i,
       ISTM := ie_Has A Has_ISTM i, MNOP := ie_Has A Has_MNOP i\<rparr>"

definition no_info :: MeasureInformation where
  "no_info = \<lparr>MBQE = False, INAM = False, RADI = False, ISTM = False, MNOP = False, SSPOC = False,
     ASPOC = False, CIAM = False\<rparr>"

definition Sess_CreateURR ::
  "('ie, 'd) driver_api \<Rightarrow> 'ie ie_api \<Rightarrow> 'ie \<Rightarrow> 'd ss \<Rightarrow> ('d ss \<times> error option) option" where
  "Sess_CreateURR D A req sd =
     (case ie_u32 A A_URRID req of
        Inl err \<Rightarrow> Some (sd, Some err)
      | Inr uid \<Rightarrow>
          let (s, d) = sd;
              info = \<lparr>ui_removed = False, ui_SEQN = 0, ui_MeasureMethod = read_method A req,
                      ui_MeasureInformation = read_info A (first_info A req) no_info, ui_refPdrNum = 0\<rparr>;
              s = s\<lparr>s_URRIDs := (s_URRIDs s)(uid \<mapsto> info)\<rparr>
          in do { (d, err) \<leftarrow> dr_CreateURR D (s_LocalID s) req d; Some ((s, d), err) })"

definition update_urr_step :: "'ie ie_api \<Rightarrow> URRInfo \<Rightarrow> 'ie \<Rightarrow> URRInfo" where
  "update_urr_step A info x =
     (case ie_Type A x of
        T_MeasurementMethod \<Rightarrow> info\<lparr>ui_MeasureMethod := read_method A x\<rparr>
      | T_MeasurementInformation \<Rightarrow> info\<lparr>ui_MeasureInformation := read_info A x (ui_MeasureInformation info)\<rparr>
      | _ \<Rightarrow> info)"

definition Sess_UpdateURR ::
  "('ie, 'd) driver_api \<Rightarrow> 'ie ie_api \<Rightarrow> 'ie \<Rightarrow> 'd ss \<Rightarrow> ('d ss \<times> USAReport list res) option" where
  "Sess_UpdateURR D A req sd =
     (let (s, d) = sd in
      case ie_u32 A A_URRID req of
        Inl err \<Rightarrow> Some (sd, Inl err)
      | Inr uid \<Rightarrow>
          (case s_URRIDs s uid of
             None \<Rightarrow> Some (sd, Inl (ErrSessRuleNotFound ''UpdateURR''))
           | Some info \<Rightarrow>
               let info = foldl (update_urr_step A) info (ie_ChildIEs A req);
                   s = s\<lparr>s_URRIDs := (s_URRIDs s)(uid \<mapsto> info)\<rparr>
               in do { (d, r) \<leftarrow> dr_UpdateURR D (s_LocalID s) req d; Some ((s, d), r) }))"

definition Sess_RemoveURR ::
  "('ie, 'd) driver_api \<Rightarrow> 'ie ie_api \<Rightarrow> 'ie \<Rightarrow> 'd ss \<Rightarrow> ('d ss \<times> USAReport list res) option" where
  "Sess_RemoveURR D A req sd =
     (let (s, d) = sd in
      case ie_u32 A A_URRID req of
        Inl err \<Rightarrow> Some (sd, Inl err)
      | Inr uid \<Rightarrow>
          (case s_URRIDs s uid of
             None \<Rightarrow> Some (sd, Inl (ErrSessRuleNotFound ''RemoveURR''))
           | Some info \<Rightarrow>
               let s = s\<lparr>s_URRIDs := (s_URRIDs s)(uid \<mapsto> info\<lparr>ui_removed := True\<rparr>)\<rparr>
               in do {
                 (d, r) \<leftarrow> dr_RemoveURR D (s_LocalID s) req d;
                 Some ((s, d), bindE r (\<lambda>usars. Inr (map (or_trigger USAR_TRIG_TERMR) usars)))
               }))"

definition Sess_QueryURR ::
  "('ie, 'd) driver_api \<Rightarrow> 'ie ie_api \<Rightarrow> 'ie \<Rightarrow> 'd ss \<Rightarrow> ('d ss \<times> USAReport list res) option" where
  "Sess_QueryURR D A req sd =
     (let (s, d) = sd in
      case ie_u32 A A_URRID req of
        Inl err \<Rightarrow> Some (sd, Inl err)
      | Inr uid \<Rightarrow>
          if s_URRIDs s uid = None then Some (sd, Inl (ErrSessRuleNotFound ''QueryURR''))
          else do {
            (d, r) \<leftarrow> dr_QueryURR D (s_LocalID s) uid d;
            Some ((s, d), bindE r (\<lambda>usars. Inr (map (or_trigger USAR_TRIG_IMMER) usars)))
          })"

definition URRSeq :: "u32 \<Rightarrow> Sess \<Rightarrow> Sess \<times> u32" where
  "URRSeq urrid s =
     (case s_URRIDs s urrid of
        None \<Rightarrow> (s, 0)
      | Some info \<Rightarrow> (s\<lparr>s_URRIDs := (s_URRIDs s)(urrid \<mapsto> info\<lparr>ui_SEQN := ui_SEQN info + 1\<rparr>)\<rparr>, ui_SEQN info))"

section \<open>BARs\<close>

definition Sess_CreateBAR ::
  "('ie, 'd) driver_api \<Rightarrow> 'ie ie_api \<Rightarrow> 'ie \<Rightarrow> 'd ss \<Rightarrow> ('d ss \<times> error option) option" where
  "Sess_CreateBAR D A req sd =
     (case ie_u8 A A_BARID req of
        Inl err \<Rightarrow> Some (sd, Some err)
      | Inr bid \<Rightarrow>
          let (s, d) = sd; s = s\<lparr>s_BARIDs := insert bid (s_BARIDs s)\<rparr>
          in do { (d, err) \<leftarrow> dr_CreateBAR D (s_LocalID s) req d; Some ((s, d), err) })"

definition Sess_UpdateBAR ::
  "('ie, 'd) driver_api \<Rightarrow> 'ie ie_api \<Rightarrow> 'ie \<Rightarrow> 'd ss \<Rightarrow> ('d ss \<times> error option) option" where
  "Sess_UpdateBAR D A req sd =
     (let (s, d) = sd in
      case ie_u8 A A_BARID req of
        Inl err \<Rightarrow> Some (sd, Some err)
      | Inr bid \<Rightarrow>
          if bid \<notin> s_BARIDs s then Some (sd, Some (ErrSessRuleNotFound ''UpdateBAR''))
          else do { (d, err) \<leftarrow> dr_UpdateBAR D (s_LocalID s) req d; Some ((s, d), err) })"

definition Sess_RemoveBAR ::
  "('ie, 'd) driver_api \<Rightarrow> 'ie ie_api \<Rightarrow> 'ie \<Rightarrow> 'd ss \<Rightarrow> ('d ss \<times> error option) option" where
  "Sess_RemoveBAR D A req sd =
     (let (s, d) = sd in
      case ie_u8 A A_BARID req of
        Inl err \<Rightarrow> Some (sd, Some err)
      | Inr bid \<Rightarrow>
          if bid \<notin> s_BARIDs s then Some (sd, Some (ErrSessRuleNotFound ''RemoveBAR''))
          else do {
            (d, err) \<leftarrow> dr_RemoveBAR D (s_LocalID s) req d;
            Some ((if err = None then s\<lparr>s_BARIDs := s_BARIDs s - {bid}\<rparr> else s, d), err)
          })"

section \<open>Closing a session\<close>

text \<open>
  A loop over rules that ignores errors, and one that collects the usage reports of the operations
  that succeed.
\<close>

definition ignore_err :: "('d ss \<Rightarrow> ('d ss \<times> error option) option) \<Rightarrow> 'd ss \<Rightarrow> 'd ss option" where
  "ignore_err f sd = map_option fst (f sd)"

definition collect ::
  "('d ss \<Rightarrow> ('d ss \<times> USAReport list res) option) \<Rightarrow> 'd ss \<times> USAReport list \<Rightarrow> ('d ss \<times> USAReport list) option" where
  "collect f st =
     do { (sd, r) \<leftarrow> f (fst st); Some (sd, case r of Inl _ \<Rightarrow> snd st | Inr usars \<Rightarrow> snd st @ usars) }"

definition Sess_Close ::
  "('ie, 'd) driver_api \<Rightarrow> 'ie ie_api \<Rightarrow> ranges \<Rightarrow> 'd ss \<Rightarrow> ('d ss \<times> USAReport list) option" where
  "Sess_Close D A R sd = do {
     sd \<leftarrow> foldO (\<lambda>sd x. ignore_err (Sess_RemoveFAR D A (ie_NewRemoveFAR A x)) sd) sd (rng32 R (s_FARIDs (fst sd)));
     sd \<leftarrow> foldO (\<lambda>sd x. ignore_err (Sess_RemoveQER D A (ie_NewRemoveQER A x)) sd) sd (rng32 R (s_QERIDs (fst sd)));
     (sd, usars) \<leftarrow> foldO (\<lambda>st x. collect (Sess_RemoveURR D A (ie_NewRemoveURR A x)) st) (sd, [])
        (rng32 R (dom (s_URRIDs (fst sd))));
     sd \<leftarrow> foldO (\<lambda>sd x. ignore_err (Sess_RemoveBAR D A (ie_NewRemoveBAR A x)) sd) sd (rng8 R (s_BARIDs (fst sd)));
     foldO (\<lambda>st x. collect (Sess_RemovePDR D A R (ie_NewRemovePDR A x)) st) (sd, usars)
        (rng16 R (dom (s_PDRIDs (fst sd))))
   }"

section \<open>What a session tracks\<close>

text \<open>The rules a session remembers; a URR marked as removed only waits for its last report.\<close>

definition tracked :: "Sess \<Rightarrow> rule_id set" where
  "tracked s = RPDR ` dom (s_PDRIDs s) \<union> RFAR ` s_FARIDs s \<union> RQER ` s_QERIDs s \<union> 
     RURR ` {u. \<exists>i. s_URRIDs s u = Some i \<and> \<not> ui_removed i} \<union> RBAR ` s_BARIDs s"

lemma tracked_simps [simp]:
  "RPDR x \<in> tracked s \<longleftrightarrow> x \<in> dom (s_PDRIDs s)" "RFAR y \<in> tracked s \<longleftrightarrow> y \<in> s_FARIDs s"
  "RQER y \<in> tracked s \<longleftrightarrow> y \<in> s_QERIDs s" "RURR y \<in> tracked s \<longleftrightarrow> (\<exists>i. s_URRIDs s y = Some i \<and> \<not> ui_removed i)"
  "RBAR z \<in> tracked s \<longleftrightarrow> z \<in> s_BARIDs s"
  by (auto simp: tracked_def)

text \<open>The fields no rule operation changes.\<close>

definition same_sess :: "Sess \<Rightarrow> Sess \<Rightarrow> bool" where
  "same_sess s s' \<longleftrightarrow> s_LocalID s' = s_LocalID s \<and> s_RemoteID s' = s_RemoteID s \<and> s_rnode s' = s_rnode s \<and>
     s_q s' = s_q s \<and> s_qlen s' = s_qlen s"

lemma same_sess_refl [simp]: "same_sess s s"
  by (simp add: same_sess_def)

lemma same_sess_trans: "same_sess s t \<Longrightarrow> same_sess t u \<Longrightarrow> same_sess s u"
  by (simp add: same_sess_def)

lemma count_ref_frame [simp]:
  "same_sess s (count_ref u s)" "tracked (count_ref u s) = tracked s" "s_PDRIDs (count_ref u s) = s_PDRIDs s"
  by (auto simp: count_ref_def same_sess_def tracked_def split: option.splits)

lemma create_pdr_loop:
  "foldl (create_pdr_step A) (p, us, s) ies = (p', us', s') \<Longrightarrow>
     same_sess s s' \<and> tracked s' = tracked s \<and>
     p' = foldl (\<lambda>v i. if ie_Type A i = T_PDRID then (case ie_PDRID A i of Inl _ \<Rightarrow> v | Inr x \<Rightarrow> x) else v) p ies"
proof (induction ies arbitrary: p us s)
  case (Cons i ies)
  obtain q vs t where step: "create_pdr_step A (p, us, s) i = (q, vs, t)" by (metis prod_cases3)
  then have t: "same_sess s t" "tracked t = tracked s"
    "q = (if ie_Type A i = T_PDRID then (case ie_PDRID A i of Inl _ \<Rightarrow> p | Inr x \<Rightarrow> x) else p)"
    by (auto simp: create_pdr_step_def split: ie_type.splits sum.splits)
  have "foldl (create_pdr_step A) (q, vs, t) ies = (p', us', s')" using Cons.prems step by simp
  from Cons.IH [OF this] t show ?case by (auto intro: same_sess_trans)
qed simp

lemma update_urr_removed [simp]: "ui_removed (foldl (update_urr_step A) i xs) = ui_removed i"
  by (induction xs arbitrary: i) (simp_all add: update_urr_step_def split: ie_type.splits)

lemma update_pdr_loop:
  assumes "foldl (update_pdr_step A) (p, us) ies = (p', us')"
  shows "p' = foldl (\<lambda>v i. if ie_Type A i = T_PDRID then (case ie_PDRID A i of Inl _ \<Rightarrow> v | Inr x \<Rightarrow> x) else v) p ies"
  using assms
proof (induction ies arbitrary: p us)
  case (Cons i ies)
  obtain q vs where step: "update_pdr_step A (p, us) i = (q, vs)" by fastforce
  then have "q = (if ie_Type A i = T_PDRID then (case ie_PDRID A i of Inl _ \<Rightarrow> p | Inr x \<Rightarrow> x) else p)"
    by (auto simp: update_pdr_step_def split: ie_type.splits sum.splits)
  with Cons.IH [of q vs] Cons.prems step show ?case by simp
qed simp

end
