(* ===== verification/Pfcp_Contract.thy ===== *)
theory Pfcp_Contract
  imports Pfcp_Session
begin

text \<open>
  What the sessions achieve with any driver that keeps the contract \<open>rule_store\<close>: every operation
  keeps the rules the driver holds among those the session tracks and leaves other sessions alone, and
  closing a session leaves no rule of it in the driver.
\<close>

context rule_store
begin

text \<open>A session and the driver, before and after.\<close>

definition sess_step :: "'d ss \<Rightarrow> 'd ss \<Rightarrow> bool" where
  "sess_step sd sd' \<longleftrightarrow> same_sess (fst sd) (fst sd') \<and>
     (\<forall>j. j \<noteq> s_LocalID (fst sd) \<longrightarrow> rules (snd sd') j = rules (snd sd) j) \<and>
     (rules (snd sd) (s_LocalID (fst sd)) \<subseteq> tracked (fst sd) \<longrightarrow>
        rules (snd sd') (s_LocalID (fst sd)) \<subseteq> tracked (fst sd'))"

lemma sess_step_refl [simp]: "sess_step sd sd"
  by (simp add: sess_step_def)

lemma sess_step_trans: "sess_step x y \<Longrightarrow> sess_step y z \<Longrightarrow> sess_step x z"
  by (auto simp: sess_step_def same_sess_def)

lemma sess_stepI:
  assumes "same_sess s s'" "\<And>j. j \<noteq> s_LocalID s \<Longrightarrow> rules d' j = rules d j"
    and "rules d (s_LocalID s) \<subseteq> tracked s \<Longrightarrow> rules d' (s_LocalID s) \<subseteq> tracked s'"
  shows "sess_step (s, d) (s', d')"
  using assms by (simp add: sess_step_def)

text \<open>Creating rules.\<close>

lemma CreatePDR_step:
  assumes "Sess_CreatePDR D A req (s, d) = Some ((s', d'), e)" "wf (DCreate KPDR req)"
  shows "sess_step (s, d) (s', d')"
proof (cases "ie_group A G_CreatePDR req")
  case (Inr ies)
  obtain p us t where loop: "foldl (create_pdr_step A) (0, {}, s) ies = (p, us, t)" by (metis prod_cases3)
  note t = create_pdr_loop [OF loop, THEN conjunct1] create_pdr_loop [OF loop, THEN conjunct2, THEN conjunct1]
    create_pdr_loop [OF loop, THEN conjunct2, THEN conjunct2]
  from assms(1) Inr loop have s': "s' = t\<lparr>s_PDRIDs := (s_PDRIDs t)(p \<mapsto> \<lparr>RelatedURRIDs = us\<rparr>)\<rparr>"
    and d': "dr_CreatePDR D (s_LocalID t) req d = Some (d', e)"
    by (auto simp: Sess_CreatePDR_def bind_eq_Some_conv)
  have id: "s_LocalID t = s_LocalID s" using t(1) by (simp add: same_sess_def)
  have tr: "tracked s' = insert (RPDR p) (tracked s)"
    using t(2) by (auto simp: s' tracked_def)
  have "created_rule A KPDR req = Some (RPDR p)"
    using Inr t(3) by (simp add: child_PDRID_def)
  with creates(1) [OF d'] assms(2) tr id others(1) [OF d'] show ?thesis
    using t(1) by (intro sess_stepI) (auto simp: s' same_sess_def)
qed (use assms in \<open>auto simp: Sess_CreatePDR_def\<close>)

lemma CreateFAR_step:
  assumes "Sess_CreateFAR D A req (s, d) = Some ((s', d'), e)" "wf (DCreate KFAR req)"
  shows "sess_step (s, d) (s', d')"
proof (cases "ie_u32 A A_FARID req")
  case (Inr x)
  with assms(1) have s': "s' = s\<lparr>s_FARIDs := insert x (s_FARIDs s)\<rparr>"
    and d': "dr_CreateFAR D (s_LocalID s) req d = Some (d', e)"
    by (auto simp: Sess_CreateFAR_def bind_eq_Some_conv)
  have "tracked s' = insert (RFAR x) (tracked s)" by (auto simp: s' tracked_def)
  with creates(2) [OF d'] others(2) [OF d'] assms(2) Inr show ?thesis
    by (intro sess_stepI) (auto simp: s' same_sess_def)
qed (use assms in \<open>auto simp: Sess_CreateFAR_def\<close>)

lemma CreateQER_step:
  assumes "Sess_CreateQER D A req (s, d) = Some ((s', d'), e)" "wf (DCreate KQER req)"
  shows "sess_step (s, d) (s', d')"
proof (cases "ie_u32 A A_QERID req")
  case (Inr x)
  with assms(1) have s': "s' = s\<lparr>s_QERIDs := insert x (s_QERIDs s)\<rparr>"
    and d': "dr_CreateQER D (s_LocalID s) req d = Some (d', e)"
    by (auto simp: Sess_CreateQER_def bind_eq_Some_conv)
  have "tracked s' = insert (RQER x) (tracked s)" by (auto simp: s' tracked_def)
  with creates(3) [OF d'] others(3) [OF d'] assms(2) Inr show ?thesis
    by (intro sess_stepI) (auto simp: s' same_sess_def)
qed (use assms in \<open>auto simp: Sess_CreateQER_def\<close>)

lemma CreateURR_step:
  assumes "Sess_CreateURR D A req (s, d) = Some ((s', d'), e)" "wf (DCreate KURR req)"
  shows "sess_step (s, d) (s', d')"
proof (cases "ie_u32 A A_URRID req")
  case (Inr x)
  with assms(1) obtain info where s': "s' = s\<lparr>s_URRIDs := (s_URRIDs s)(x \<mapsto> info)\<rparr>" "\<not> ui_removed info"
    and d': "dr_CreateURR D (s_LocalID s) req d = Some (d', e)"
    by (auto simp: Sess_CreateURR_def bind_eq_Some_conv Let_def)
  have "tracked s' = insert (RURR x) (tracked s)" by (auto simp: s' tracked_def)
  with creates(4) [OF d'] others(4) [OF d'] assms(2) Inr show ?thesis
    by (intro sess_stepI) (auto simp: s' same_sess_def)
qed (use assms in \<open>auto simp: Sess_CreateURR_def\<close>)

lemma CreateBAR_step:
  assumes "Sess_CreateBAR D A req (s, d) = Some ((s', d'), e)" "wf (DCreate KBAR req)"
  shows "sess_step (s, d) (s', d')"
proof (cases "ie_u8 A A_BARID req")
  case (Inr x)
  with assms(1) have s': "s' = s\<lparr>s_BARIDs := insert x (s_BARIDs s)\<rparr>"
    and d': "dr_CreateBAR D (s_LocalID s) req d = Some (d', e)"
    by (auto simp: Sess_CreateBAR_def bind_eq_Some_conv)
  have "tracked s' = insert (RBAR x) (tracked s)" by (auto simp: s' tracked_def)
  with creates(5) [OF d'] others(5) [OF d'] assms(2) Inr show ?thesis
    by (intro sess_stepI) (auto simp: s' same_sess_def)
qed (use assms in \<open>auto simp: Sess_CreateBAR_def\<close>)

lemmas create_steps = CreatePDR_step CreateFAR_step CreateQER_step CreateURR_step CreateBAR_step

text \<open>Updating and querying.\<close>

lemma UpdateFAR_step:
  "Sess_UpdateFAR D A req (s, d) = Some ((s', d'), e) \<Longrightarrow> sess_step (s, d) (s', d')"
  by (auto simp: Sess_UpdateFAR_def bind_eq_Some_conv sess_step_def updates(2) others(7)
      split: sum.splits if_splits)

lemma UpdateQER_step:
  "Sess_UpdateQER D A req (s, d) = Some ((s', d'), e) \<Longrightarrow> sess_step (s, d) (s', d')"
  by (auto simp: Sess_UpdateQER_def bind_eq_Some_conv sess_step_def updates(3) others(8)
      split: sum.splits if_splits)

lemma UpdateBAR_step:
  "Sess_UpdateBAR D A req (s, d) = Some ((s', d'), e) \<Longrightarrow> sess_step (s, d) (s', d')"
  by (auto simp: Sess_UpdateBAR_def bind_eq_Some_conv sess_step_def updates(5) others(10)
      split: sum.splits if_splits)

lemma tracked_info: "s_URRIDs s x = Some j \<Longrightarrow> ui_removed i = ui_removed j \<Longrightarrow> tracked (s\<lparr>s_URRIDs := (s_URRIDs s)(x \<mapsto> i)\<rparr>) = tracked s"
  by (auto simp: tracked_def)

lemma UpdateURR_step:
  "Sess_UpdateURR D A req (s, d) = Some ((s', d'), r) \<Longrightarrow> sess_step (s, d) (s', d')"
  by (auto simp: Sess_UpdateURR_def bind_eq_Some_conv sess_step_def same_sess_def tracked_info updates(4) others(9)
      Let_def split: sum.splits option.splits)

lemma QueryURR_step:
  "Sess_QueryURR D A req (s, d) = Some ((s', d'), r) \<Longrightarrow> sess_step (s, d) (s', d')"
  by (auto simp: Sess_QueryURR_def bind_eq_Some_conv sess_step_def queries others(16)
      split: sum.splits if_splits)

text \<open>A step that in addition keeps the rules of the session itself.\<close>

definition query_step :: "'d ss \<Rightarrow> 'd ss \<Rightarrow> bool" where
  "query_step sd sd' \<longleftrightarrow> same_sess (fst sd) (fst sd') \<and> tracked (fst sd') = tracked (fst sd) \<and>
     s_PDRIDs (fst sd') = s_PDRIDs (fst sd) \<and> (\<forall>j. rules (snd sd') j = rules (snd sd) j)"

lemma query_step_refl [simp]: "query_step sd sd"
  by (simp add: query_step_def)

lemma query_step_trans: "query_step x y \<Longrightarrow> query_step y z \<Longrightarrow> query_step x z"
  by (auto simp: query_step_def same_sess_def)

lemma query_all: "dr_QueryURR D j u d = Some (d', r) \<Longrightarrow> rules d' k = rules d k"
  using queries [of j u d d' r] others(16) [of j u d d' r k] by (cases "k = j") simp_all

lemma diassociateURR_step: "diassociateURR D u sd = Some (sd', us) \<Longrightarrow> query_step sd sd'"
  by (auto simp: diassociateURR_def bind_eq_Some_conv query_step_def same_sess_def tracked_info query_all Let_def
      split: option.splits if_splits prod.splits)

lemma diassociate_loop:
  assumes "foldO (\<lambda>st u. if u \<in> keep then Some st else diassociate_step D st u) st us = Some st'"
  shows "query_step (fst st) (fst st')"
  by (rule foldO_invariant [OF assms, where P = "\<lambda>st'. query_step (fst st) (fst st')"])
     (auto simp: diassociate_step_def bind_eq_Some_conv split: if_splits
       intro: query_step_trans dest!: diassociateURR_step)

lemma diassociate_all:
  "foldO (diassociate_step D) st us = Some st' \<Longrightarrow> query_step (fst st) (fst st')"
  using diassociate_loop [of "{}" st us st'] by simp

lemma tracked_drop_pdr: "tracked (s\<lparr>s_PDRIDs := (s_PDRIDs s)(x := None)\<rparr>) = tracked s - {RPDR x}"
  by (auto simp: tracked_def)

lemma tracked_set_pdr: "s_PDRIDs s x \<noteq> None \<Longrightarrow> tracked (s\<lparr>s_PDRIDs := (s_PDRIDs s)(x \<mapsto> i)\<rparr>) = tracked s"
  by (auto simp: tracked_def)

lemma UpdatePDR_step:
  assumes "Sess_UpdatePDR D A R req (s, d) = Some ((s', d'), r)"
  shows "sess_step (s, d) (s', d')"
proof (cases "ie_group A G_UpdatePDR req")
  case (Inr ies)
  obtain p us where loop: "foldl (update_pdr_step A) (0, {}) ies = (p, us)" by fastforce
  show ?thesis
  proof (cases "s_PDRIDs s p")
    case (Some info)
    with assms Inr loop obtain d1 e where d1: "dr_UpdatePDR D (s_LocalID s) req d = Some (d1, e)"
      by (auto simp: Sess_UpdatePDR_def bind_eq_Some_conv)
    have step1: "sess_step (s, d) (s, d1)"
      using updates(1) [OF d1] others(6) [OF d1] by (simp add: sess_step_def)
    show ?thesis
    proof (cases e)
      case None
      with assms Inr loop Some d1 obtain t us' where
        loop2: "foldO (\<lambda>st u. if u \<in> us then Some st else diassociate_step D st u) ((s, d1), [])
                  (rng32 R (RelatedURRIDs info)) = Some ((t, d'), us')"
        and s': "s' = t\<lparr>s_PDRIDs := (s_PDRIDs t)(p \<mapsto> info\<lparr>RelatedURRIDs := us\<rparr>)\<rparr>"
        by (auto simp: Sess_UpdatePDR_def bind_eq_Some_conv)
      have q: "query_step (s, d1) (t, d')" using diassociate_loop [OF loop2] by simp
      then have "tracked s' = tracked t" "tracked t = tracked s" using Some
tracked_set_pdr [of t p "info\<lparr>RelatedURRIDs := us\<rparr>"]
        by (auto simp: s' query_step_def)
      with q have "sess_step (s, d1) (s', d')"
        by (auto simp: sess_step_def query_step_def same_sess_def s')
      with step1 show ?thesis by (rule sess_step_trans)
    qed (use assms Inr loop Some d1 step1 in \<open>auto simp: Sess_UpdatePDR_def\<close>)
  qed (use assms Inr loop in \<open>auto simp: Sess_UpdatePDR_def\<close>)
qed (use assms in \<open>auto simp: Sess_UpdatePDR_def\<close>)

lemmas update_steps = UpdatePDR_step UpdateFAR_step UpdateQER_step UpdateURR_step UpdateBAR_step QueryURR_step

text \<open>Removing: the rule is gone afterwards, and nothing is added.\<close>

definition covered :: "'d ss \<Rightarrow> bool" where
  "covered sd \<longleftrightarrow> rules (snd sd) (s_LocalID (fst sd)) \<subseteq> tracked (fst sd)"

definition remove_step :: "rule_id set \<Rightarrow> 'd ss \<Rightarrow> 'd ss \<Rightarrow> bool" where
  "remove_step X sd sd' \<longleftrightarrow> sess_step sd sd' \<and>
     (covered sd \<longrightarrow> rules (snd sd') (s_LocalID (fst sd)) \<subseteq> rules (snd sd) (s_LocalID (fst sd)) - X)"

lemma remove_step_refl [simp]: "remove_step {} sd sd"
  by (simp add: remove_step_def)

lemma remove_step_trans: "remove_step X x y \<Longrightarrow> remove_step Y y z \<Longrightarrow> remove_step (X \<union> Y) x z"
  by (auto simp: remove_step_def sess_step_def same_sess_def covered_def)

lemma remove_stepI:
  assumes "same_sess s s'" "\<And>j. j \<noteq> s_LocalID s \<Longrightarrow> rules d' j = rules d j"
    and "rules d' (s_LocalID s) = rules d (s_LocalID s) - {r}" "tracked s - {r} \<subseteq> tracked s'"
  shows "remove_step {r} (s, d) (s', d')"
  using assms by (auto simp: remove_step_def sess_step_def)

lemma remove_step_untracked: "r \<notin> tracked s \<Longrightarrow> remove_step {r} (s, d) (s, d)"
  by (auto simp: remove_step_def covered_def)

lemma RemoveFAR_step:
  assumes "Sess_RemoveFAR D A req (s, d) = Some ((s', d'), e)" "ie_u32 A A_FARID req = Inr x"
  shows "remove_step {RFAR x} (s, d) (s', d')"
proof (cases "x \<in> s_FARIDs s")
  case True
  with assms have s': "s' = (if e = None then s\<lparr>s_FARIDs := s_FARIDs s - {x}\<rparr> else s)"
    and d': "dr_RemoveFAR D (s_LocalID s) req d = Some (d', e)"
    by (auto simp: Sess_RemoveFAR_def bind_eq_Some_conv split: if_splits)
  show ?thesis
    using removes(2) [OF d'] others(12) [OF d'] assms(2)
    by (intro remove_stepI) (auto simp: s' same_sess_def tracked_def)
qed (use assms in \<open>simp add: Sess_RemoveFAR_def remove_step_untracked\<close>)

lemma RemoveQER_step:
  assumes "Sess_RemoveQER D A req (s, d) = Some ((s', d'), e)" "ie_u32 A A_QERID req = Inr x"
  shows "remove_step {RQER x} (s, d) (s', d')"
proof (cases "x \<in> s_QERIDs s")
  case True
  with assms have s': "s' = (if e = None then s\<lparr>s_QERIDs := s_QERIDs s - {x}\<rparr> else s)"
    and d': "dr_RemoveQER D (s_LocalID s) req d = Some (d', e)"
    by (auto simp: Sess_RemoveQER_def bind_eq_Some_conv split: if_splits)
  show ?thesis
    using removes(3) [OF d'] others(13) [OF d'] assms(2)
    by (intro remove_stepI) (auto simp: s' same_sess_def tracked_def)
qed (use assms in \<open>simp add: Sess_RemoveQER_def remove_step_untracked\<close>)

lemma RemoveBAR_step:
  assumes "Sess_RemoveBAR D A req (s, d) = Some ((s', d'), e)" "ie_u8 A A_BARID req = Inr x"
  shows "remove_step {RBAR x} (s, d) (s', d')"
proof (cases "x \<in> s_BARIDs s")
  case True
  with assms have s': "s' = (if e = None then s\<lparr>s_BARIDs := s_BARIDs s - {x}\<rparr> else s)"
    and d': "dr_RemoveBAR D (s_LocalID s) req d = Some (d', e)"
    by (auto simp: Sess_RemoveBAR_def bind_eq_Some_conv split: if_splits)
  show ?thesis
    using removes(5) [OF d'] others(15) [OF d'] assms(2)
    by (intro remove_stepI) (auto simp: s' same_sess_def tracked_def)
qed (use assms in \<open>simp add: Sess_RemoveBAR_def remove_step_untracked\<close>)

lemma RemoveURR_step:
  assumes "Sess_RemoveURR D A req (s, d) = Some ((s', d'), r)" "ie_u32 A A_URRID req = Inr x"
  shows "remove_step {RURR x} (s, d) (s', d')"
proof (cases "s_URRIDs s x")
  case (Some info)
  with assms obtain r' where s': "s' = s\<lparr>s_URRIDs := (s_URRIDs s)(x \<mapsto> info\<lparr>ui_removed := True\<rparr>)\<rparr>"
    and d': "dr_RemoveURR D (s_LocalID s) req d = Some (d', r')"
    by (auto simp: Sess_RemoveURR_def bind_eq_Some_conv Let_def)
  show ?thesis
    using removes(4) [OF d'] others(14) [OF d'] assms(2) Some
    by (intro remove_stepI) (auto simp: s' same_sess_def tracked_def)
qed (use assms in \<open>simp add: Sess_RemoveURR_def remove_step_untracked domIff\<close>)

lemma RemovePDR_step:
  assumes "Sess_RemovePDR D A R req (s, d) = Some ((s', d'), r)" "ie_PDRID A req = Inr x"
  shows "remove_step {RPDR x} (s, d) (s', d')"
proof (cases "s_PDRIDs s x")
  case (Some info)
  with assms obtain d1 e where d1: "dr_RemovePDR D (s_LocalID s) req d = Some (d1, e)"
    by (auto simp: Sess_RemovePDR_def bind_eq_Some_conv)
  note gone = removes(1) [OF d1] others(11) [OF d1]
  show ?thesis
  proof (cases e)
    case None
    with assms Some d1 obtain t us where
      loop: "foldO (diassociate_step D) ((s, d1), []) (rng32 R (RelatedURRIDs info)) = Some ((t, d'), us)"
      and s': "s' = t\<lparr>s_PDRIDs := (s_PDRIDs t)(x := None)\<rparr>"
      by (auto simp: Sess_RemovePDR_def bind_eq_Some_conv)
    have q: "query_step (s, d1) (t, d')" using diassociate_all [OF loop] by simp
    then have "tracked s - {RPDR x} \<subseteq> tracked s'" using tracked_drop_pdr [of t x] by (auto simp: s' query_step_def)
    with q gone assms(2) show ?thesis
      by (intro remove_stepI) (auto simp: query_step_def same_sess_def s')
  next
    case (Some e')
    with assms \<open>s_PDRIDs s x = Some info\<close> d1 have "s' = s" "d' = d1" by (auto simp: Sess_RemovePDR_def)
    with gone assms(2) show ?thesis by (intro remove_stepI) auto
  qed
qed (use assms in \<open>simp add: Sess_RemovePDR_def remove_step_untracked domIff\<close>)

lemma remove_unread:
  "Sess_RemoveFAR D A req sd = Some (sd', e) \<Longrightarrow> ie_u32 A A_FARID req = Inl x \<Longrightarrow> sd' = sd"
  "Sess_RemoveQER D A req sd = Some (sd', e) \<Longrightarrow> ie_u32 A A_QERID req = Inl x \<Longrightarrow> sd' = sd"
  "Sess_RemoveBAR D A req sd = Some (sd', e) \<Longrightarrow> ie_u8 A A_BARID req = Inl x \<Longrightarrow> sd' = sd"
  "Sess_RemoveURR D A req sd = Some (sd', r) \<Longrightarrow> ie_u32 A A_URRID req = Inl x \<Longrightarrow> sd' = sd"
  "Sess_RemovePDR D A R req sd = Some (sd', r) \<Longrightarrow> ie_PDRID A req = Inl x \<Longrightarrow> sd' = sd"
  by (auto simp: Sess_RemoveFAR_def Sess_RemoveQER_def Sess_RemoveBAR_def Sess_RemoveURR_def Sess_RemovePDR_def
      split: prod.splits)

lemma remove_step_sess: "remove_step X sd sd' \<Longrightarrow> sess_step sd sd'"
  by (simp add: remove_step_def)

lemma RemoveFAR_sess: "Sess_RemoveFAR D A req (s, d) = Some ((s', d'), e) \<Longrightarrow> sess_step (s, d) (s', d')"
  by (cases "ie_u32 A A_FARID req") (auto dest: remove_unread(1) RemoveFAR_step intro: remove_step_sess)

lemma RemoveQER_sess: "Sess_RemoveQER D A req (s, d) = Some ((s', d'), e) \<Longrightarrow> sess_step (s, d) (s', d')"
  by (cases "ie_u32 A A_QERID req") (auto dest: remove_unread(2) RemoveQER_step intro: remove_step_sess)

lemma RemoveBAR_sess: "Sess_RemoveBAR D A req (s, d) = Some ((s', d'), e) \<Longrightarrow> sess_step (s, d) (s', d')"
  by (cases "ie_u8 A A_BARID req") (auto dest: remove_unread(3) RemoveBAR_step intro: remove_step_sess)

lemma RemoveURR_sess: "Sess_RemoveURR D A req (s, d) = Some ((s', d'), r) \<Longrightarrow> sess_step (s, d) (s', d')"
  by (cases "ie_u32 A A_URRID req") (auto dest: remove_unread(4) RemoveURR_step intro: remove_step_sess)

lemma RemovePDR_sess: "Sess_RemovePDR D A R req (s, d) = Some ((s', d'), r) \<Longrightarrow> sess_step (s, d) (s', d')"
  by (cases "ie_PDRID A req") (auto dest: remove_unread(5) RemovePDR_step intro: remove_step_sess)

lemmas remove_steps = RemoveFAR_sess RemoveQER_sess RemoveBAR_sess RemoveURR_sess RemovePDR_sess

lemma ignore_err_remove:
  assumes "ignore_err f sd = Some sd'"
    and "\<And>s d s' d' e. f (s, d) = Some ((s', d'), e) \<Longrightarrow> remove_step X (s, d) (s', d')"
  shows "remove_step X sd sd'"
  using assms(1) by (cases sd; cases sd') (auto simp: ignore_err_def intro: assms(2))

lemma collect_remove:
  assumes "collect f st = Some st'"
    and "\<And>s d s' d' r. f (s, d) = Some ((s', d'), r) \<Longrightarrow> remove_step X (s, d) (s', d')"
  shows "remove_step X (fst st) (fst st')"
  using assms(1) by (cases "fst st"; cases "fst st'") (auto simp: collect_def bind_eq_Some_conv intro: assms(2))

lemma remove_step_covered:
  "remove_step X sd sd' \<Longrightarrow> covered sd \<Longrightarrow>
     covered sd' \<and> s_LocalID (fst sd') = s_LocalID (fst sd) \<and>
     rules (snd sd') (s_LocalID (fst sd)) \<subseteq> rules (snd sd) (s_LocalID (fst sd)) - X"
  by (simp add: remove_step_def covered_def sess_step_def same_sess_def)

text \<open>A loop of removals.\<close>

lemma remove_loop:
  assumes "foldO f st xs = Some st'"
    and "\<And>st x st'. f st x = Some st' \<Longrightarrow> remove_step {c x} (p st) (p st')"
  shows "remove_step (c ` set xs) (p st) (p st')"
  using assms(1)
proof (induction xs arbitrary: st)
  case (Cons x xs)
  then obtain t where t: "f st x = Some t" "foldO f t xs = Some st'" by (auto simp: bind_eq_Some_conv)
  from remove_step_trans [OF assms(2) [OF t(1)] Cons.IH [OF t(2)]] show ?case by simp
qed simp

theorem Close_step:
  assumes "Sess_Close D A R (s, d) = Some ((s', d'), us)" "remove_ies_ok A" "go_ranges R"
  shows "sess_step (s, d) (s', d')" "covered (s, d) \<Longrightarrow> rules d' (s_LocalID s) = {}"
proof -
  note names = assms(2) [unfolded remove_ies_ok_def]
  from assms(1) obtain sd1 sd2 sd3 us3 sd4 where
    l1: "foldO (\<lambda>sd x. ignore_err (Sess_RemoveFAR D A (ie_NewRemoveFAR A x)) sd) (s, d) (rng32 R (s_FARIDs s)) = Some sd1"
    and l2: "foldO (\<lambda>sd x. ignore_err (Sess_RemoveQER D A (ie_NewRemoveQER A x)) sd) sd1 (rng32 R (s_QERIDs (fst sd1))) = Some sd2"
    and l3: "foldO (\<lambda>st x. collect (Sess_RemoveURR D A (ie_NewRemoveURR A x)) st) (sd2, [])
        (rng32 R (dom (s_URRIDs (fst sd2)))) = Some (sd3, us3)"
    and l4: "foldO (\<lambda>sd x. ignore_err (Sess_RemoveBAR D A (ie_NewRemoveBAR A x)) sd) sd3 (rng8 R (s_BARIDs (fst sd3))) = Some sd4"
    and l5: "foldO (\<lambda>st x. collect (Sess_RemovePDR D A R (ie_NewRemovePDR A x)) st) (sd4, us3)
        (rng16 R (dom (s_PDRIDs (fst sd4)))) = Some ((s', d'), us)"
    by (auto simp: Sess_Close_def bind_eq_Some_conv)
  note r = is_range_set [OF go_rangesD(3) [OF assms(3)] finite] is_range_set [OF go_rangesD(1) [OF assms(3)] finite]
    is_range_set [OF go_rangesD(2) [OF assms(3)] finite]
  have r1: "remove_step (RFAR ` s_FARIDs s) (s, d) sd1"
    using remove_loop [OF l1, where c = RFAR and p = "\<lambda>x. x"] ignore_err_remove RemoveFAR_step names
    unfolding r by blast
  have r2: "remove_step (RQER ` s_QERIDs (fst sd1)) sd1 sd2"
    using remove_loop [OF l2, where c = RQER and p = "\<lambda>x. x"] ignore_err_remove RemoveQER_step names
    unfolding r by blast
  have r3: "remove_step (RURR ` dom (s_URRIDs (fst sd2))) sd2 sd3"
    using remove_loop [OF l3, where c = RURR and p = fst] collect_remove RemoveURR_step names
    unfolding r fst_conv by blast
  have r4: "remove_step (RBAR ` s_BARIDs (fst sd3)) sd3 sd4"
    using remove_loop [OF l4, where c = RBAR and p = "\<lambda>x. x"] ignore_err_remove RemoveBAR_step names
    unfolding r by blast
  have r5: "remove_step (RPDR ` dom (s_PDRIDs (fst sd4))) sd4 (s', d')"
    using remove_loop [OF l5, where c = RPDR and p = fst] collect_remove RemovePDR_step names
    unfolding r fst_conv by blast
  note rs = r1 r2 r3 r4 r5
  show "sess_step (s, d) (s', d')"
    using rs by (blast intro: sess_step_trans remove_step_sess)
  show "rules d' (s_LocalID s) = {}" if c0: "covered (s, d)"
  proof -
    note c1 = remove_step_covered [OF r1 c0]
    note c2 = remove_step_covered [OF r2 conjunct1 [OF c1]]
    note c3 = remove_step_covered [OF r3 conjunct1 [OF c2]]
    note c4 = remove_step_covered [OF r4 conjunct1 [OF c3]]
    note c5 = remove_step_covered [OF r5 conjunct1 [OF c4]]
    note cs = c1 c2 c3 c4 c5
    have "r \<notin> rules d' (s_LocalID s)" for r
    proof (cases r)
      case (RPDR x) with cs show ?thesis by (fastforce simp: covered_def)
    next
      case (RFAR x) with c0 cs show ?thesis by (fastforce simp: covered_def)
    next
      case (RQER x) with cs show ?thesis by (fastforce simp: covered_def)
    next
      case (RURR x) with cs show ?thesis by (fastforce simp: covered_def)
    next
      case (RBAR x) with cs show ?thesis by (fastforce simp: covered_def)
    qed
    then show ?thesis by blast
  qed
qed

end

end
