(* ===== verification/Pfcp_Node.thy ===== *)
theory Pfcp_Node
  imports Pfcp_Contract
begin

text \<open>
  The tables of sessions of \<^verbatim>\<open>internal/pfcp/node.go\<close>: the local node, which gives out local session
  identifiers and reuses freed ones, and the remote nodes, each with the sessions it created. Remote nodes
  are shared by pointer, so they live in a store indexed by address. Reading through a nil pointer, an index
  out of range, and a slice that cannot grow are panics.
\<close>

section \<open>Data\<close>

record LocalNode =
  ln_sess :: "Sess option list"
  ln_free :: "u64 list"

record RemoteNode =
  rn_ID :: string
  rn_addr :: string
  rn_sess :: "u64 set"

record 'd nodes =
  nd_lnode :: LocalNode
  nd_heap :: "nat \<rightharpoonup> RemoteNode"
  nd_next :: nat
  nd_driver :: 'd

text \<open>A slice of pointers cannot have more elements than the address space holds.\<close>

definition go_slice_max :: nat where
  "go_slice_max = 2 ^ 60"

section \<open>The local node\<close>

definition LocalNode_Sess :: "u64 \<Rightarrow> LocalNode \<Rightarrow> Sess res" where
  "LocalNode_Sess lSeid n =
     (if lSeid = 0 then Inl ErrInvalidSEID
      else if lSeid > of_nat (length (ln_sess n)) then Inl (ErrSessNotFound lSeid)
      else case ln_sess n ! (unat lSeid - 1) of
             None \<Rightarrow> Inl (ErrSessNotFound lSeid)
           | Some s \<Rightarrow> Inr s)"

text \<open>The loop reads the fields of every entry, so a deleted session panics.\<close>

fun remote_loop :: "(nat \<rightharpoonup> RemoteNode) \<Rightarrow> u64 \<Rightarrow> string \<Rightarrow> Sess option list \<Rightarrow> Sess res option" where
  "remote_loop h rSeid addr [] = Some (Inl (ErrSessNotFound rSeid))"
| "remote_loop h rSeid addr (None # ss) = None"
| "remote_loop h rSeid addr (Some s # ss) =
     (if s_RemoteID s = rSeid then
        (case h (s_rnode s) of
           None \<Rightarrow> None
         | Some n \<Rightarrow> if rn_addr n = addr then Some (Inr s) else remote_loop h rSeid addr ss)
      else remote_loop h rSeid addr ss)"

definition RemoteSess :: "u64 \<Rightarrow> string \<Rightarrow> ('d, 'z) nodes_scheme \<Rightarrow> Sess res option" where
  "RemoteSess rSeid addr st = remote_loop (nd_heap st) rSeid addr (ln_sess (nd_lnode st))"

definition new_sess :: "u64 \<Rightarrow> nat \<Rightarrow> Sess" where
  "new_sess rSeid qlen =
     \<lparr>s_rnode = 0, s_LocalID = 0, s_RemoteID = rSeid, s_PDRIDs = Map.empty, s_FARIDs = {}, s_QERIDs = {},
      s_URRIDs = Map.empty, s_BARIDs = {}, s_q = Map.empty, s_qlen = qlen\<rparr>"

text \<open>Storing a session, which the program reaches through a pointer, back in its slot.\<close>

definition put_sess :: "Sess \<Rightarrow> LocalNode \<Rightarrow> LocalNode" where
  "put_sess s n = n\<lparr>ln_sess := (ln_sess n)[unat (s_LocalID s) - 1 := Some s]\<rparr>"

definition LocalNode_NewSess :: "u64 \<Rightarrow> nat \<Rightarrow> LocalNode \<Rightarrow> (LocalNode \<times> Sess) option" where
  "LocalNode_NewSess rSeid qlen n =
     (let s = new_sess rSeid qlen in
      if ln_free n \<noteq> [] then
        let s = s\<lparr>s_LocalID := last (ln_free n)\<rparr>;
            n = n\<lparr>ln_free := butlast (ln_free n)\<rparr>;
            i = s_LocalID s - 1
        in if unat i < length (ln_sess n)
           then Some (n\<lparr>ln_sess := (ln_sess n)[unat i := Some s]\<rparr>, s) else None
      else if length (ln_sess n) < go_slice_max then
        let s = s\<lparr>s_LocalID := of_nat (length (ln_sess n) + 1)\<rparr>
        in Some (n\<lparr>ln_sess := ln_sess n @ [Some s]\<rparr>, s)
      else None)"

text \<open>
  Deleting returns the usage reports; the caller's pointer to the session sees its state after
  \<open>Close\<close>, which is returned as well.
\<close>

definition LocalNode_DeleteSess ::
  "('ie, 'd) driver_api \<Rightarrow> 'ie ie_api \<Rightarrow> ranges \<Rightarrow> u64 \<Rightarrow> LocalNode \<times> 'd \<Rightarrow>
     ((LocalNode \<times> 'd) \<times> (Sess \<times> USAReport list) res) option" where
  "LocalNode_DeleteSess D A R lSeid nd =
     (let (n, d) = nd in
      if lSeid = 0 then Some (nd, Inl ErrInvalidSEID)
      else if lSeid > of_nat (length (ln_sess n)) then Some (nd, Inl (ErrSessNotFound lSeid))
      else
        let i = unat lSeid - 1 in
        case ln_sess n ! i of
          None \<Rightarrow> Some (nd, Inl (ErrSessNotFound lSeid))
        | Some s \<Rightarrow> do {
            ((s, d), usars) \<leftarrow> Sess_Close D A R (s, d);
            Some ((n\<lparr>ln_sess := (ln_sess n)[i := None], ln_free := ln_free n @ [lSeid]\<rparr>, d), Inr (s, usars))
          })"

definition LocalNode_Reset ::
  "('ie, 'd) driver_api \<Rightarrow> 'ie ie_api \<Rightarrow> ranges \<Rightarrow> LocalNode \<times> 'd \<Rightarrow> (LocalNode \<times> 'd) option" where
  "LocalNode_Reset D A R nd = do {
     d \<leftarrow> foldO (\<lambda>d x. case x of
                  None \<Rightarrow> Some d
                | Some s \<Rightarrow> map_option (\<lambda>r. snd (fst r)) (Sess_Close D A R (s, d))) (snd nd) (ln_sess (fst nd));
     Some (\<lparr>ln_sess = [], ln_free = []\<rparr>, d)
   }"

section \<open>Remote nodes\<close>

definition NewRemoteNode :: "string \<Rightarrow> string \<Rightarrow> RemoteNode" where
  "NewRemoteNode nid addr = \<lparr>rn_ID = nid, rn_addr = addr, rn_sess = {}\<rparr>"

definition RemoteNode_Sess :: "nat \<Rightarrow> u64 \<Rightarrow> ('d, 'z) nodes_scheme \<Rightarrow> Sess res option" where
  "RemoteNode_Sess a lSeid st = do {
     n \<leftarrow> nd_heap st a;
     Some (if lSeid \<notin> rn_sess n then Inl (ErrSessNotFound lSeid) else LocalNode_Sess lSeid (nd_lnode st))
   }"

definition RemoteNode_NewSess ::
  "nat \<Rightarrow> u64 \<Rightarrow> ('d, 'z) nodes_scheme \<Rightarrow> (('d, 'z) nodes_scheme \<times> Sess) option" where
  "RemoteNode_NewSess a rSeid st = do {
     (ln, s) \<leftarrow> LocalNode_NewSess rSeid BUFFQ_LEN (nd_lnode st);
     n \<leftarrow> nd_heap st a;
     let s = s\<lparr>s_rnode := a\<rparr>;
     Some (st\<lparr>nd_lnode := put_sess s ln,
              nd_heap := (nd_heap st)(a \<mapsto> n\<lparr>rn_sess := insert (s_LocalID s) (rn_sess n)\<rparr>)\<rparr>, s)
   }"

definition RemoteNode_DeleteSess ::
  "('ie, 'd) driver_api \<Rightarrow> 'ie ie_api \<Rightarrow> ranges \<Rightarrow> nat \<Rightarrow> u64 \<Rightarrow> ('d, 'z) nodes_scheme \<Rightarrow>
     (('d, 'z) nodes_scheme \<times> Sess option \<times> USAReport list) option" where
  "RemoteNode_DeleteSess D A R a lSeid st = do {
     n \<leftarrow> nd_heap st a;
     if lSeid \<notin> rn_sess n then Some (st, None, [])
     else do {
       let h = (nd_heap st)(a \<mapsto> n\<lparr>rn_sess := rn_sess n - {lSeid}\<rparr>);
       ((ln, d), r) \<leftarrow> LocalNode_DeleteSess D A R lSeid (nd_lnode st, nd_driver st);
       let st = st\<lparr>nd_heap := h, nd_lnode := ln, nd_driver := d\<rparr>;
       Some (case r of Inl _ \<Rightarrow> (st, None, []) | Inr (s, usars) \<Rightarrow> (st, Some s, usars))
     }
   }"

definition RemoteNode_Reset ::
  "('ie, 'd) driver_api \<Rightarrow> 'ie ie_api \<Rightarrow> ranges \<Rightarrow> nat \<Rightarrow> ('d, 'z) nodes_scheme \<Rightarrow> ('d, 'z) nodes_scheme option" where
  "RemoteNode_Reset D A R a st = do {
     n \<leftarrow> nd_heap st a;
     st \<leftarrow> foldO (\<lambda>st lSeid. map_option fst (RemoteNode_DeleteSess D A R a lSeid st)) st (rng64 R (rn_sess n));
     n \<leftarrow> nd_heap st a;
     Some (st\<lparr>nd_heap := (nd_heap st)(a \<mapsto> n\<lparr>rn_sess := {}\<rparr>)\<rparr>)
   }"

section \<open>The local node as a table\<close>

text \<open>
  The local node implements a finite map from identifiers to sessions. The free list holds exactly the
  identifiers of the empty slots, each once, and a session knows its own identifier.
\<close>

definition ln_abs :: "LocalNode \<Rightarrow> u64 \<rightharpoonup> Sess" where
  "ln_abs n = (\<lambda>i. case LocalNode_Sess i n of Inl _ \<Rightarrow> None | Inr s \<Rightarrow> Some s)"

definition slot :: "LocalNode \<Rightarrow> u64 \<Rightarrow> bool" where
  "slot n i \<longleftrightarrow> 0 < unat i \<and> unat i \<le> length (ln_sess n)"

definition ln_wf :: "LocalNode \<Rightarrow> bool" where
  "ln_wf n \<longleftrightarrow> length (ln_sess n) \<le> go_slice_max \<and> distinct (ln_free n) \<and>
     (\<forall>i. i \<in> set (ln_free n) \<longleftrightarrow> slot n i \<and> ln_sess n ! (unat i - Suc 0) = None) \<and>
     (\<forall>i s. slot n i \<longrightarrow> ln_sess n ! (unat i - Suc 0) = Some s \<longrightarrow> s_LocalID s = i)"

lemma ln_wfI:
  assumes "length (ln_sess n) \<le> go_slice_max" "distinct (ln_free n)"
    and "\<And>i. i \<in> set (ln_free n) \<longleftrightarrow> slot n i \<and> ln_sess n ! (unat i - Suc 0) = None"
    and "\<And>i s. slot n i \<Longrightarrow> ln_sess n ! (unat i - Suc 0) = Some s \<Longrightarrow> s_LocalID s = i"
  shows "ln_wf n"
  using assms unfolding ln_wf_def by blast

lemma ln_wfD:
  assumes "ln_wf n"
  shows "length (ln_sess n) \<le> go_slice_max" "distinct (ln_free n)"
    and "\<And>i. i \<in> set (ln_free n) \<longleftrightarrow> slot n i \<and> ln_sess n ! (unat i - Suc 0) = None"
    and "\<And>i s. slot n i \<Longrightarrow> ln_sess n ! (unat i - Suc 0) = Some s \<Longrightarrow> s_LocalID s = i"
  using assms unfolding ln_wf_def by blast+

lemma unat_of_len: "m \<le> go_slice_max \<Longrightarrow> unat (of_nat m :: u64) = m"
  by (simp add: unat_of_nat go_slice_max_def)

lemma unat_of_Suc: "m < go_slice_max \<Longrightarrow> unat (1 + of_nat m :: u64) = Suc m"
  using unat_of_len [of "Suc m"] by simp

lemma ln_abs_slot:
  assumes "ln_wf n"
  shows "ln_abs n i = (if slot n i then ln_sess n ! (unat i - Suc 0) else None)"
proof -
  have "unat (of_nat (length (ln_sess n)) :: u64) = length (ln_sess n)"
    using assms by (simp add: ln_wf_def unat_of_len)
  then have "i > of_nat (length (ln_sess n)) \<longleftrightarrow> unat i > length (ln_sess n)" by (simp add: word_less_nat_alt)
  then show ?thesis
    by (auto simp: ln_abs_def LocalNode_Sess_def slot_def unat_gt_0 split: option.splits)
qed

lemma ln_abs_Sess: "LocalNode_Sess i n = Inr s \<longleftrightarrow> ln_abs n i = Some s"
  by (simp add: ln_abs_def split: sum.splits)

lemma ln_abs_None: "(\<exists>e. LocalNode_Sess i n = Inl e) \<longleftrightarrow> ln_abs n i = None"
  by (cases "LocalNode_Sess i n") (simp_all add: ln_abs_def)

lemma ln_wf_LocalID: "ln_wf n \<Longrightarrow> ln_abs n i = Some s \<Longrightarrow> s_LocalID s = i"
  by (simp add: ln_abs_slot ln_wf_def split: if_splits)

lemma ln_wf_empty: "ln_wf \<lparr>ln_sess = [], ln_free = []\<rparr>"
  by (auto simp: ln_wf_def slot_def)

lemma slot_bound: "slot n i \<Longrightarrow> unat i - Suc 0 < length (ln_sess n)"
  by (auto simp: slot_def)

lemma slot_inj: "slot n i \<Longrightarrow> slot n j \<Longrightarrow> unat i - Suc 0 = unat j - Suc 0 \<longleftrightarrow> i = j"
  by (auto simp: slot_def word_unat_eq_iff)

text \<open>Changing a session in place.\<close>

lemma put_sess_refines:
  assumes "ln_wf n" "ln_abs n i = Some s" "s_LocalID s' = i"
  shows "ln_wf (put_sess s' n)" "ln_abs (put_sess s' n) = (ln_abs n)(i \<mapsto> s')"
proof -
  have i: "slot n i" "ln_sess n ! (unat i - Suc 0) = Some s"
    using assms(1,2) by (auto simp: ln_abs_slot split: if_splits)
  note bound = slot_bound [OF i(1)]
  have slots: "slot (put_sess s' n) j = slot n j" for j by (simp add: slot_def put_sess_def)
  have nth: "slot n j \<Longrightarrow> ln_sess (put_sess s' n) ! (unat j - Suc 0) = (if j = i then Some s' else ln_sess n ! (unat j - Suc 0))" for j
    using slot_inj [OF i(1)] bound by (simp add: put_sess_def assms(3) nth_list_update)
  have free: "ln_free (put_sess s' n) = ln_free n" by (simp add: put_sess_def)
  show wf: "ln_wf (put_sess s' n)"
  proof (rule ln_wfI)
    show "length (ln_sess (put_sess s' n)) \<le> go_slice_max" using ln_wfD(1) [OF assms(1)] by (simp add: put_sess_def)
    show "distinct (ln_free (put_sess s' n))" using ln_wfD(2) [OF assms(1)] by (simp add: free)
    fix j
    show "j \<in> set (ln_free (put_sess s' n)) \<longleftrightarrow> slot (put_sess s' n) j \<and> ln_sess (put_sess s' n) ! (unat j - Suc 0) = None"
      using nth [of j] i unfolding free slots ln_wfD(3) [OF assms(1)] by (cases "j = i"; cases "slot n j") simp_all
    show "s_LocalID t = j" if "slot (put_sess s' n) j" "ln_sess (put_sess s' n) ! (unat j - Suc 0) = Some t" for t
      using that nth [of j] ln_wfD(4) [OF assms(1), of j t] assms(3) by (auto simp: slots split: if_splits)
  qed
  show "ln_abs (put_sess s' n) = (ln_abs n)(i \<mapsto> s')"
    using nth i(1) by (auto simp: fun_eq_iff ln_abs_slot [OF wf] ln_abs_slot [OF assms(1)] slots)
qed

text \<open>A new session.\<close>

lemma NewSess_refines:
  assumes "ln_wf n" "LocalNode_NewSess r q n = Some (n', s)"
  shows "ln_wf n'" "ln_abs n (s_LocalID s) = None" "ln_abs n' = (ln_abs n)(s_LocalID s \<mapsto> s)" "s_LocalID s \<noteq> 0"
    "s = (new_sess r q)\<lparr>s_LocalID := s_LocalID s\<rparr>"
proof -
  let ?i = "s_LocalID s"
  have "ln_wf n' \<and> ln_abs n ?i = None \<and> ln_abs n' = (ln_abs n)(?i \<mapsto> s) \<and> ?i \<noteq> 0 \<and>
    s = (new_sess r q)\<lparr>s_LocalID := ?i\<rparr>"
  proof (cases "ln_free n = []")
    case True
    with assms(2) have len: "length (ln_sess n) < go_slice_max"
      and s: "s = (new_sess r q)\<lparr>s_LocalID := of_nat (length (ln_sess n) + 1)\<rparr>"
      and n': "n' = n\<lparr>ln_sess := ln_sess n @ [Some s]\<rparr>"
      by (auto simp: LocalNode_NewSess_def Let_def split: if_splits)
    have u: "unat ?i = Suc (length (ln_sess n))" using unat_of_Suc [OF len] by (simp add: s)
    have slots: "slot n' j \<longleftrightarrow> slot n j \<or> j = ?i" for j
      using u by (auto simp: slot_def n' le_Suc_eq word_unat_eq_iff)
    have new: "\<not> slot n ?i" using u by (simp add: slot_def)
    have nth: "slot n j \<Longrightarrow> ln_sess n' ! (unat j - Suc 0) = ln_sess n ! (unat j - Suc 0)" for j
      using slot_bound [of n j] by (simp add: n' nth_append)
    have free': "ln_free n' = []" using True by (simp add: n')
    have nth_new: "ln_sess n' ! (unat ?i - Suc 0) = Some s" using u by (simp add: n')
    have wf: "ln_wf n'"
    proof (rule ln_wfI)
      show "length (ln_sess n') \<le> go_slice_max" "distinct (ln_free n')" using len True by (simp_all add: n')
      fix j
      show "j \<in> set (ln_free n') \<longleftrightarrow> slot n' j \<and> ln_sess n' ! (unat j - Suc 0) = None"
        using nth [of j] nth_new ln_wfD(3) [OF assms(1), of j] True unfolding slots free' by auto
      show "s_LocalID t = j" if "slot n' j" "ln_sess n' ! (unat j - Suc 0) = Some t" for t
      proof (cases "j = ?i")
        case True
        with that(2) nth_new have "Some t = Some s" by metis
        with True show ?thesis by blast
      next
        case False
        with that(1) have "slot n j" by (simp add: slots)
        with that(2) nth [of j] show ?thesis by (intro ln_wfD(4) [OF assms(1)]) simp_all
      qed
    qed
    moreover have "ln_abs n' = (ln_abs n)(?i \<mapsto> s)"
      using nth nth_new new by (auto simp: fun_eq_iff ln_abs_slot [OF wf] ln_abs_slot [OF assms(1)] slots)
    moreover have "ln_abs n ?i = None" using new by (simp add: ln_abs_slot [OF assms(1)])
    ultimately show ?thesis using u s by auto
  next
    case False
    let ?i' = "last (ln_free n)"
    have free: "?i' \<in> set (ln_free n)" using False by simp
    then have i: "slot n ?i'" "ln_sess n ! (unat ?i' - Suc 0) = None" using assms(1) by (auto simp: ln_wf_def)
    have pred: "unat (?i' - 1) = unat ?i' - Suc 0"
      using i(1) by (metis One_nat_def Suc_leI slot_def unat_1 unat_sub word_le_nat_alt)
    with False i(1) assms(2) have s: "s = (new_sess r q)\<lparr>s_LocalID := ?i'\<rparr>"
      and n': "n' = n\<lparr>ln_free := butlast (ln_free n), ln_sess := (ln_sess n)[unat ?i' - Suc 0 := Some s]\<rparr>"
      by (auto simp: LocalNode_NewSess_def slot_def Let_def split: if_splits)
    have id: "?i = ?i'" by (simp add: s)
    note bound = slot_bound [OF i(1)]
    have slots: "slot n' j = slot n j" for j by (simp add: slot_def n')
    have nth: "slot n j \<Longrightarrow> ln_sess n' ! (unat j - Suc 0) = (if j = ?i' then Some s else ln_sess n ! (unat j - Suc 0))" for j
      using slot_inj [OF i(1)] bound by (simp add: n' nth_list_update)
    have "distinct (butlast (ln_free n) @ [?i'])" using assms(1) False by (simp add: ln_wf_def)
    then have fr: "set (ln_free n') = set (ln_free n) - {?i'}" "distinct (ln_free n')"
      using arg_cong [OF append_butlast_last_id [OF False], of set] by (auto simp: n')
    have wf: "ln_wf n'"
    proof (rule ln_wfI)
      show "length (ln_sess n') \<le> go_slice_max" "distinct (ln_free n')"
        using ln_wfD(1) [OF assms(1)] fr(2) by (simp_all add: n')
      fix j
      show "j \<in> set (ln_free n') \<longleftrightarrow> slot n' j \<and> ln_sess n' ! (unat j - Suc 0) = None"
        using nth [of j] unfolding slots fr(1) Diff_iff ln_wfD(3) [OF assms(1)] by (cases "j = ?i'"; cases "slot n j") simp_all
      show "s_LocalID t = j" if "slot n' j" "ln_sess n' ! (unat j - Suc 0) = Some t" for t
        using that nth [of j] ln_wfD(4) [OF assms(1), of j t] id unfolding slots by (auto split: if_splits)
    qed
    moreover have "ln_abs n' = (ln_abs n)(?i \<mapsto> s)"
      using nth i(1) by (auto simp: fun_eq_iff ln_abs_slot [OF wf] ln_abs_slot [OF assms(1)] slots id)
    moreover have "ln_abs n ?i = None" using i by (simp add: ln_abs_slot [OF assms(1)] id)
    moreover have "?i \<noteq> 0" using i(1) by (auto simp: id slot_def)
    ultimately show ?thesis using s id by auto
  qed
  then show "ln_wf n'" "ln_abs n ?i = None" "ln_abs n' = (ln_abs n)(?i \<mapsto> s)" "?i \<noteq> 0"
    "s = (new_sess r q)\<lparr>s_LocalID := ?i\<rparr>" by blast+
qed

text \<open>Deleting a session.\<close>

lemma DeleteSess_refines:
  assumes "ln_wf n" "LocalNode_DeleteSess D A R i (n, d) = Some ((n', d'), res)"
  shows "case ln_abs n i of
      None \<Rightarrow> n' = n \<and> d' = d \<and> (\<exists>e. res = Inl e)
    | Some s \<Rightarrow> \<exists>s' us. Sess_Close D A R (s, d) = Some ((s', d'), us) \<and> res = Inr (s', us) \<and>
        ln_wf n' \<and> ln_abs n' = (ln_abs n)(i := None) \<and> ln_free n' = ln_free n @ [i]"
proof (cases "ln_abs n i")
  case None
  have len: "unat (of_nat (length (ln_sess n)) :: u64) = length (ln_sess n)"
    using assms(1) by (simp add: ln_wf_def unat_of_len)
  show ?thesis
    using None assms(2) len
    by (auto simp: LocalNode_DeleteSess_def ln_abs_slot [OF assms(1)] slot_def word_less_nat_alt unat_gt_0 Let_def
        split: if_splits)
next
  case (Some s)
  have len: "unat (of_nat (length (ln_sess n)) :: u64) = length (ln_sess n)"
    using assms(1) by (simp add: ln_wf_def unat_of_len)
  have i: "slot n i" "ln_sess n ! (unat i - Suc 0) = Some s"
    using Some by (auto simp: ln_abs_slot [OF assms(1)] split: if_splits)
  note bound = slot_bound [OF i(1)]
  from assms(2) i len obtain s' us where close: "Sess_Close D A R (s, d) = Some ((s', d'), us)"
    and n': "n' = n\<lparr>ln_sess := (ln_sess n)[unat i - Suc 0 := None], ln_free := ln_free n @ [i]\<rparr>" and res: "res = Inr (s', us)"
    by (auto simp: LocalNode_DeleteSess_def slot_def word_less_nat_alt bind_eq_Some_conv Let_def split: if_splits)
  have slots: "slot n' j = slot n j" for j by (simp add: slot_def n')
  have nth: "slot n j \<Longrightarrow> ln_sess n' ! (unat j - Suc 0) = (if j = i then None else ln_sess n ! (unat j - Suc 0))" for j
    using slot_inj [OF i(1)] bound by (simp add: n' nth_list_update)
  have new: "i \<notin> set (ln_free n)" using i by (simp add: ln_wfD(3) [OF assms(1)])
  have wf: "ln_wf n'"
  proof (rule ln_wfI)
    show "length (ln_sess n') \<le> go_slice_max" "distinct (ln_free n')"
      using ln_wfD(1,2) [OF assms(1)] new by (simp_all add: n')
    fix j
    show "j \<in> set (ln_free n') \<longleftrightarrow> slot n' j \<and> ln_sess n' ! (unat j - Suc 0) = None"
      using nth [of j] i(1) ln_wfD(3) [OF assms(1), of j] unfolding slots by (auto simp: n')
    show "s_LocalID t = j" if "slot n' j" "ln_sess n' ! (unat j - Suc 0) = Some t" for t
      using that nth [of j] ln_wfD(4) [OF assms(1), of j t] unfolding slots by (auto split: if_splits)
  qed
  moreover have "ln_abs n' = (ln_abs n)(i := None)"
    using nth by (auto simp: fun_eq_iff ln_abs_slot [OF wf] ln_abs_slot [OF assms(1)] slots)
  ultimately show ?thesis using Some close res by (simp add: n')
qed

end
