(* ===== verification/Pfcp_Node_Inv.thy ===== *)
theory Pfcp_Node_Inv
  imports Pfcp_Node
begin

text \<open>
  The invariant of the PFCP tables and the driver together: live sessions and the sessions remote nodes
  remember are the same, and the driver holds rules only for live sessions, each of them tracked by its
  session. Every operation on the tables keeps it, with any driver that keeps the contract.
\<close>

section \<open>The invariant\<close>

definition sessions :: "('d, 'z) nodes_scheme \<Rightarrow> u64 \<rightharpoonup> Sess" where
  "sessions st = ln_abs (nd_lnode st)"

definition rules_tracked :: "('d \<Rightarrow> u64 \<Rightarrow> rule_id set) \<Rightarrow> ('d, 'z) nodes_scheme \<Rightarrow> bool" where
  "rules_tracked rules st \<longleftrightarrow>
     (\<forall>i. rules (nd_driver st) i \<subseteq> (case sessions st i of None \<Rightarrow> {} | Some s \<Rightarrow> tracked s))"

definition owned :: "('d, 'z) nodes_scheme \<Rightarrow> bool" where
  "owned st \<longleftrightarrow>
     (\<forall>i s. sessions st i = Some s \<longrightarrow> (\<exists>n. nd_heap st (s_rnode s) = Some n \<and> i \<in> rn_sess n)) \<and>
     (\<forall>a n i. nd_heap st a = Some n \<longrightarrow> i \<in> rn_sess n \<longrightarrow> (\<exists>s. sessions st i = Some s \<and> s_rnode s = a))"

definition nodes_inv :: "('d \<Rightarrow> u64 \<Rightarrow> rule_id set) \<Rightarrow> ('d, 'z) nodes_scheme \<Rightarrow> bool" where
  "nodes_inv rules st \<longleftrightarrow> ln_wf (nd_lnode st) \<and> owned st \<and> rules_tracked rules st \<and>
     (\<forall>a. nd_next st \<le> a \<longrightarrow> nd_heap st a = None)"

lemma nodes_invD:
  assumes "nodes_inv rules st"
  shows "ln_wf (nd_lnode st)" "owned st" "rules_tracked rules st" "nd_next st \<le> a \<Longrightarrow> nd_heap st a = None"
  using assms by (simp_all add: nodes_inv_def)

lemma ownedD:
  assumes "owned st"
  shows "sessions st i = Some s \<Longrightarrow> \<exists>n. nd_heap st (s_rnode s) = Some n \<and> i \<in> rn_sess n"
    and "nd_heap st a = Some n \<Longrightarrow> i \<in> rn_sess n \<Longrightarrow> \<exists>s. sessions st i = Some s \<and> s_rnode s = a"
  using assms unfolding owned_def by blast+

lemma ownedI:
  assumes "\<And>i s. sessions st i = Some s \<Longrightarrow> \<exists>n. nd_heap st (s_rnode s) = Some n \<and> i \<in> rn_sess n"
    and "\<And>a n i. nd_heap st a = Some n \<Longrightarrow> i \<in> rn_sess n \<Longrightarrow> \<exists>s. sessions st i = Some s \<and> s_rnode s = a"
  shows "owned st"
  using assms unfolding owned_def by blast

lemma rules_trackedD:
  assumes "rules_tracked rules st"
  shows "sessions st i = None \<Longrightarrow> rules (nd_driver st) i = {}"
    and "sessions st i = Some s \<Longrightarrow> rules (nd_driver st) i \<subseteq> tracked s"
  using assms [unfolded rules_tracked_def, rule_format, of i] by auto

lemma sessions_LocalID: "nodes_inv rules st \<Longrightarrow> sessions st i = Some s \<Longrightarrow> s_LocalID s = i"
  by (auto simp: sessions_def nodes_inv_def intro: ln_wf_LocalID)

lemma tracked_new [simp]: "tracked (new_sess r q) = {}" "tracked (s\<lparr>s_LocalID := i\<rparr>) = tracked s"
  "tracked (s\<lparr>s_rnode := a\<rparr>) = tracked s" "tracked (s\<lparr>s_q := m\<rparr>) = tracked s"
  by (simp_all add: tracked_def new_sess_def)

text \<open>Storing a session with its new rules.\<close>

lemma put_sess_inv:
  assumes inv: "nodes_inv rules st" and s: "sessions st i = Some s"
    and id': "s_LocalID s' = i" "s_rnode s' = s_rnode s"
    and step: "\<forall>j. j \<noteq> i \<longrightarrow> rules d' j = rules (nd_driver st) j" "rules d' i \<subseteq> tracked s'"
  shows "nodes_inv rules (st\<lparr>nd_lnode := put_sess s' (nd_lnode st), nd_driver := d'\<rparr>)"
    and "sessions (st\<lparr>nd_lnode := put_sess s' (nd_lnode st), nd_driver := d'\<rparr>) = (sessions st)(i \<mapsto> s')"
proof -
  let ?st = "st\<lparr>nd_lnode := put_sess s' (nd_lnode st), nd_driver := d'\<rparr>"
  note put = put_sess_refines [OF nodes_invD(1) [OF inv] s [unfolded sessions_def] id'(1)]
  show ses: "sessions ?st = (sessions st)(i \<mapsto> s')" using put(2) by (simp add: sessions_def)
  note own = ownedD [OF nodes_invD(2) [OF inv]]
  have "owned ?st"
  proof (rule ownedI)
    show "\<exists>n. nd_heap ?st (s_rnode t) = Some n \<and> j \<in> rn_sess n" if "sessions ?st j = Some t" for j t
      using that own(1) [of j] own(1) [OF s] id'(2) by (auto simp: ses split: if_splits)
    show "\<exists>t. sessions ?st j = Some t \<and> s_rnode t = a" if "nd_heap ?st a = Some n" "j \<in> rn_sess n" for a n j
      using that own(2) [of a n j] s id'(2) by (auto simp: ses)
  qed
  moreover have "rules_tracked rules ?st"
    unfolding rules_tracked_def
  proof
    fix j
    show "rules (nd_driver ?st) j \<subseteq> (case sessions ?st j of None \<Rightarrow> {} | Some s \<Rightarrow> tracked s)"
      using nodes_invD(3) [OF inv, unfolded rules_tracked_def, rule_format, of j] step
      by (cases "j = i") (auto simp: ses)
  qed
  ultimately show "nodes_inv rules ?st"
    using put(1) nodes_invD(4) [OF inv] by (simp add: nodes_inv_def)
qed

lemma put_same_inv:
  assumes inv: "nodes_inv rules st" and s: "sessions st i = Some s"
    and id': "s_LocalID s' = i" "s_rnode s' = s_rnode s" "tracked s' = tracked s"
  shows "nodes_inv rules (st\<lparr>nd_lnode := put_sess s' (nd_lnode st)\<rparr>)"
    and "sessions (st\<lparr>nd_lnode := put_sess s' (nd_lnode st)\<rparr>) = (sessions st)(i \<mapsto> s')"
proof -
  have "st\<lparr>nd_lnode := put_sess s' (nd_lnode st), nd_driver := nd_driver st\<rparr> = st\<lparr>nd_lnode := put_sess s' (nd_lnode st)\<rparr>"
    by simp
  with put_sess_inv [OF inv s id'(1,2), of "nd_driver st"] rules_trackedD(2) [OF nodes_invD(3) [OF inv] s] id'(3)
  show "nodes_inv rules (st\<lparr>nd_lnode := put_sess s' (nd_lnode st)\<rparr>)"
    and "sessions (st\<lparr>nd_lnode := put_sess s' (nd_lnode st)\<rparr>) = (sessions st)(i \<mapsto> s')" by simp_all
qed

context rule_store
begin

text \<open>Operations on one session.\<close>

lemma update_inv:
  assumes inv: "nodes_inv rules st" and s: "sessions st i = Some s"
    and step: "sess_step (s, nd_driver st) (s', d')"
  shows "nodes_inv rules (st\<lparr>nd_lnode := put_sess s' (nd_lnode st), nd_driver := d'\<rparr>)"
    and "sessions (st\<lparr>nd_lnode := put_sess s' (nd_lnode st), nd_driver := d'\<rparr>) = (sessions st)(i \<mapsto> s')"
proof -
  from step sessions_LocalID [OF inv s] rules_trackedD(2) [OF nodes_invD(3) [OF inv] s]
  have "s_LocalID s' = i" "s_rnode s' = s_rnode s" "\<forall>j. j \<noteq> i \<longrightarrow> rules d' j = rules (nd_driver st) j"
    "rules d' i \<subseteq> tracked s'"
    by (simp_all add: sess_step_def same_sess_def)
  note put_sess_inv [OF inv s this]
  then show "nodes_inv rules (st\<lparr>nd_lnode := put_sess s' (nd_lnode st), nd_driver := d'\<rparr>)"
    and "sessions (st\<lparr>nd_lnode := put_sess s' (nd_lnode st), nd_driver := d'\<rparr>) = (sessions st)(i \<mapsto> s')" by simp_all
qed

lemma covered_session:
  "nodes_inv rules st \<Longrightarrow> sessions st i = Some s \<Longrightarrow> covered (s, nd_driver st)"
  using sessions_LocalID [of rules st i s] rules_trackedD(2) [OF nodes_invD(3) [of rules st]] by (simp add: covered_def)

text \<open>A new session starts with no rules in the driver.\<close>

lemma NewSess_inv:
  assumes inv: "nodes_inv rules st" and new: "RemoteNode_NewSess a r st = Some (st', s)"
  shows "nodes_inv rules st'" "sessions st (s_LocalID s) = None" "sessions st' = (sessions st)(s_LocalID s \<mapsto> s)"
    "nd_driver st' = nd_driver st" "rules (nd_driver st) (s_LocalID s) = {}" "s_RemoteID s = r" "s_rnode s = a"
    "s_LocalID s \<noteq> 0" "nd_next st' = nd_next st"
proof -
  from new obtain ln s0 n where ln: "LocalNode_NewSess r BUFFQ_LEN (nd_lnode st) = Some (ln, s0)"
    and n: "nd_heap st a = Some n" and s: "s = s0\<lparr>s_rnode := a\<rparr>"
    and st': "st' = st\<lparr>nd_lnode := put_sess s ln,
       nd_heap := (nd_heap st)(a \<mapsto> n\<lparr>rn_sess := insert (s_LocalID s) (rn_sess n)\<rparr>)\<rparr>"
    by (auto simp: RemoteNode_NewSess_def bind_eq_Some_conv Let_def)
  let ?i = "s_LocalID s"
  have id: "s_LocalID s0 = ?i" by (simp add: s)
  note l = NewSess_refines [OF nodes_invD(1) [OF inv] ln, unfolded id]
  note p = put_sess_refines [OF l(1), of ?i s0 s, unfolded l(3)]
  show fresh: "sessions st ?i = None" using l(2) by (simp add: sessions_def)
  show ses: "sessions st' = (sessions st)(?i \<mapsto> s)" using p(2) by (simp add: sessions_def st')
  show "nd_driver st' = nd_driver st" "nd_next st' = nd_next st" by (simp_all add: st')
  show empty: "rules (nd_driver st) ?i = {}"
    using rules_trackedD(1) [OF nodes_invD(3) [OF inv] fresh] .
  have "s_RemoteID s0 = r" by (subst l(5)) (simp add: new_sess_def)
  then show "s_RemoteID s = r" "?i \<noteq> 0" using l(4) by (simp_all add: s)
  show srn: "s_rnode s = a" by (simp add: s)
  have heap: "nd_heap st' = (nd_heap st)(a \<mapsto> n\<lparr>rn_sess := insert ?i (rn_sess n)\<rparr>)" by (simp add: st')
  note own = ownedD [OF nodes_invD(2) [OF inv]]
  have "owned st'"
  proof (rule ownedI)
    show "\<exists>n. nd_heap st' (s_rnode t) = Some n \<and> j \<in> rn_sess n" if "sessions st' j = Some t" for j t
      using that [unfolded ses] own(1) [of j t] n srn unfolding heap by (auto split: if_splits)
    show "\<exists>t. sessions st' j = Some t \<and> s_rnode t = b" if "nd_heap st' b = Some m" "j \<in> rn_sess m" for b m j
      using that [unfolded heap] own(2) [of b m j] own(2) [of a n j] n fresh srn unfolding ses
      by (cases "j = ?i"; cases "b = a") auto
  qed
  moreover have "rules_tracked rules st'"
    using nodes_invD(3) [OF inv] empty unfolding rules_tracked_def ses by (simp add: st')
  ultimately show "nodes_inv rules st'"
    using p(1) nodes_invD(4) [OF inv] n by (auto simp: nodes_inv_def st')
qed

text \<open>Deleting a session removes all its rules from the driver.\<close>

lemma DeleteSess_inv:
  assumes inv: "nodes_inv rules st" and del: "RemoteNode_DeleteSess D A R a i st = Some (st', cl, us)"
    and lib: "remove_ies_ok A" "go_ranges R" and n: "nd_heap st a = Some n" "i \<in> rn_sess n"
  shows "nodes_inv rules st'" "sessions st' = (sessions st)(i := None)" "rules (nd_driver st') i = {}"
    "nd_heap st' = (nd_heap st)(a \<mapsto> n\<lparr>rn_sess := rn_sess n - {i}\<rparr>)" "nd_next st' = nd_next st"
    "\<exists>s s'. sessions st i = Some s \<and> cl = Some s' \<and> Sess_Close D A R (s, nd_driver st) = Some ((s', nd_driver st'), us)"
    "\<forall>j. j \<noteq> i \<longrightarrow> rules (nd_driver st') j = rules (nd_driver st) j"
proof -
  note own = ownedD [OF nodes_invD(2) [OF inv]]
  from own(2) [OF n] obtain s where s: "sessions st i = Some s" "s_rnode s = a" by blast
  from del n obtain ln d r where ln: "LocalNode_DeleteSess D A R i (nd_lnode st, nd_driver st) = Some ((ln, d), r)"
    and st': "(st', cl, us) = (case r of
        Inl _ \<Rightarrow> (st\<lparr>nd_heap := (nd_heap st)(a \<mapsto> n\<lparr>rn_sess := rn_sess n - {i}\<rparr>), nd_lnode := ln, nd_driver := d\<rparr>, None, [])
      | Inr (s, usars) \<Rightarrow>
          (st\<lparr>nd_heap := (nd_heap st)(a \<mapsto> n\<lparr>rn_sess := rn_sess n - {i}\<rparr>), nd_lnode := ln, nd_driver := d\<rparr>, Some s, usars))"
    by (auto simp: RemoteNode_DeleteSess_def bind_eq_Some_conv Let_def)
  from DeleteSess_refines [OF nodes_invD(1) [OF inv] ln] s(1) obtain s' us' where
    close: "Sess_Close D A R (s, nd_driver st) = Some ((s', d), us')" and r: "r = Inr (s', us')"
    and ln': "ln_wf ln" "ln_abs ln = (sessions st)(i := None)"
    by (auto simp: sessions_def)
  have st'_eq: "st' = st\<lparr>nd_heap := (nd_heap st)(a \<mapsto> n\<lparr>rn_sess := rn_sess n - {i}\<rparr>), nd_lnode := ln, nd_driver := d\<rparr>"
    and cl: "cl = Some s'" "us = us'" using st' by (simp_all add: r)
  show ses: "sessions st' = (sessions st)(i := None)" using ln'(2) by (simp add: st'_eq sessions_def)
  show heap: "nd_heap st' = (nd_heap st)(a \<mapsto> n\<lparr>rn_sess := rn_sess n - {i}\<rparr>)" "nd_next st' = nd_next st"
    by (simp_all add: st'_eq)
  show "\<exists>s s'. sessions st i = Some s \<and> cl = Some s' \<and> Sess_Close D A R (s, nd_driver st) = Some ((s', nd_driver st'), us)"
    using s close by (simp add: cl st'_eq)
  have id: "s_LocalID s = i" using sessions_LocalID [OF inv s(1)] .
  note c = Close_step [OF close lib]
  show gone: "rules (nd_driver st') i = {}"
    using c(2) [OF covered_session [OF inv s(1)]] by (simp add: st'_eq id)
  show other: "\<forall>j. j \<noteq> i \<longrightarrow> rules (nd_driver st') j = rules (nd_driver st) j"
    using c(1) by (simp add: st'_eq sess_step_def id)
  have "rules_tracked rules st'"
    using nodes_invD(3) [OF inv] gone other unfolding rules_tracked_def ses by auto
  moreover have "owned st'"
  proof (rule ownedI)
    show "\<exists>n. nd_heap st' (s_rnode t) = Some n \<and> j \<in> rn_sess n" if "sessions st' j = Some t" for j t
      using that own(1) [of j t] n by (auto simp: ses heap split: if_splits)
    show "\<exists>t. sessions st' j = Some t \<and> s_rnode t = b" if "nd_heap st' b = Some m" "j \<in> rn_sess m" for b m j
      using that own(2) [of b m j] own(2) [of a n j] n s unfolding ses heap
      by (cases "j = i"; cases "b = a") auto
  qed
  ultimately show "nodes_inv rules st'"
    using ln'(1) nodes_invD(4) [OF inv] n by (auto simp: nodes_inv_def st'_eq)
qed

text \<open>Resetting a node deletes its sessions and no other.\<close>

lemma Reset_loop:
  assumes "foldO (\<lambda>st i. map_option fst (RemoteNode_DeleteSess D A R a i st)) st is' = Some st'"
    and lib: "remove_ies_ok A" "go_ranges R"
    and "nodes_inv rules st" "nd_heap st a = Some n" "set is' \<subseteq> rn_sess n" "distinct is'"
  shows "nodes_inv rules st' \<and> sessions st' = (sessions st) |` (- set is') \<and> nd_next st' = nd_next st \<and>
    nd_heap st' = (nd_heap st)(a \<mapsto> n\<lparr>rn_sess := rn_sess n - set is'\<rparr>) \<and>
    (\<forall>j. j \<notin> set is' \<longrightarrow> rules (nd_driver st') j = rules (nd_driver st) j)"
  using assms(1,4-7)
proof (induction is' arbitrary: st n)
  case Nil
  then show ?case by (auto simp: fun_upd_idem)
next
  case (Cons i is')
  from Cons.prems(1) obtain st1 cl us where d: "RemoteNode_DeleteSess D A R a i st = Some (st1, cl, us)"
    and rest: "foldO (\<lambda>st i. map_option fst (RemoteNode_DeleteSess D A R a i st)) st1 is' = Some st'"
    by (auto simp: bind_eq_Some_conv)
  have i: "i \<in> rn_sess n" using Cons.prems(4) by simp
  note D = DeleteSess_inv [OF Cons.prems(2) d lib Cons.prems(3) i]
  have sub: "set is' \<subseteq> rn_sess (n\<lparr>rn_sess := rn_sess n - {i}\<rparr>)" "distinct is'" using Cons.prems(4,5) by auto
  have heap1: "nd_heap st1 a = Some (n\<lparr>rn_sess := rn_sess n - {i}\<rparr>)" by (simp add: D(4))
  have "nodes_inv rules st' \<and> sessions st' = (sessions st1) |` (- set is') \<and> nd_next st' = nd_next st1 \<and>
    nd_heap st' = (nd_heap st1)(a \<mapsto> n\<lparr>rn_sess := rn_sess n - {i}\<rparr>\<lparr>rn_sess := rn_sess n - {i} - set is'\<rparr>) \<and>
    (\<forall>j. j \<notin> set is' \<longrightarrow> rules (nd_driver st') j = rules (nd_driver st1) j)"
    using Cons.IH [OF rest D(1) heap1 sub] by (simp add: fun_upd_def)
  moreover have "rn_sess n - {i} - set is' = rn_sess n - set (i # is')" by auto
  ultimately show ?case
    using D(2,4,5,7) by (auto simp: restrict_map_def fun_eq_iff)
qed

lemma Reset_inv:
  assumes inv: "nodes_inv rules st" and reset: "RemoteNode_Reset D A R a st = Some st'"
    and lib: "remove_ies_ok A" "go_ranges R" and n: "nd_heap st a = Some n"
  shows "nodes_inv rules st'" "sessions st' = (sessions st) |` (- rn_sess n)"
    "nd_heap st' = (nd_heap st)(a \<mapsto> n\<lparr>rn_sess := {}\<rparr>)" "nd_next st' = nd_next st"
    "\<forall>j. j \<notin> rn_sess n \<longrightarrow> rules (nd_driver st') j = rules (nd_driver st) j"
proof -
  have set: "set (rng64 R (rn_sess n)) = rn_sess n" "distinct (rng64 R (rn_sess n))"
    using go_rangesD(4) [OF lib(2)] by simp_all
  from reset n obtain st1 n1 where
    loop: "foldO (\<lambda>st i. map_option fst (RemoteNode_DeleteSess D A R a i st)) st (rng64 R (rn_sess n)) = Some st1"
    and n1: "nd_heap st1 a = Some n1" and st': "st' = st1\<lparr>nd_heap := (nd_heap st1)(a \<mapsto> n1\<lparr>rn_sess := {}\<rparr>)\<rparr>"
    by (auto simp: RemoteNode_Reset_def bind_eq_Some_conv)
  from Reset_loop [OF loop lib inv n] set have L: "nodes_inv rules st1" "sessions st1 = (sessions st) |` (- rn_sess n)"
    "nd_heap st1 = (nd_heap st)(a \<mapsto> n\<lparr>rn_sess := {}\<rparr>)" "nd_next st1 = nd_next st"
    "\<forall>j. j \<notin> rn_sess n \<longrightarrow> rules (nd_driver st1) j = rules (nd_driver st) j" by auto
  have "(nd_heap st1)(a \<mapsto> n1\<lparr>rn_sess := {}\<rparr>) = nd_heap st1" using n1 by (auto simp: L(3))
  then have "st' = st1" by (simp add: st')
  with L show "nodes_inv rules st'" "sessions st' = (sessions st) |` (- rn_sess n)"
    "nd_heap st' = (nd_heap st)(a \<mapsto> n\<lparr>rn_sess := {}\<rparr>)" "nd_next st' = nd_next st"
    "\<forall>j. j \<notin> rn_sess n \<longrightarrow> rules (nd_driver st') j = rules (nd_driver st) j" by simp_all
qed

end

end
