(* ===== verification/Pfcp_Server.thy ===== *)
theory Pfcp_Server
  imports Pfcp_Node_Inv Sdf
begin

text \<open>
  The PFCP server of \<^verbatim>\<open>internal/pfcp\<close>: messages, transactions (\<^verbatim>\<open>transaction.go\<close>), the handlers of
  associations, heartbeats and sessions (\<^verbatim>\<open>association.go\<close>, \<^verbatim>\<open>heartbeat.go\<close>, \<^verbatim>\<open>session.go\<close>), reports
  (\<^verbatim>\<open>report.go\<close>), the dispatchers (\<^verbatim>\<open>dispacher.go\<close>) and the main loop (\<^verbatim>\<open>pfcp.go\<close>). The loop handles one
  event at a time: a report from the driver, a datagram, or the timeout of a transaction. The library
  \<^verbatim>\<open>go-pfcp\<close> and name resolution are fields of \<open>pfcp_env\<close>; an address is its text form. A message the
  server builds is the tree of the library's constructors it calls. Writes to the socket are collected in
  \<open>sv_out\<close>; a failed write is only logged, so it changes nothing else.
\<close>

section \<open>Messages\<close>

datatype cause = CauseRequestAccepted | CauseSessionContextNotFound

datatype rsp_ie =
    NewNodeID string string string
  | NewCause cause
  | NewRecoveryTimeStamp gotime
  | NewFSEID u64 "bytes option"
  | NewCreatedPDR u16 string
  | NewReportType u8 u8 u8 u8
  | NewDownlinkDataReport u16

record 'ie est_req =
  er_NodeID :: "'ie option"
  er_CPFSEID :: "'ie option"
  er_CreateFAR :: "'ie list"
  er_CreateQER :: "'ie list"
  er_CreateURR :: "'ie list"
  er_CreateBAR :: "'ie option"
  er_CreatePDR :: "'ie list"

record 'ie mod_req =
  mr_NodeID :: "'ie option"
  mr_CreateFAR :: "'ie list"
  mr_CreateQER :: "'ie list"
  mr_CreateURR :: "'ie list"
  mr_CreateBAR :: "'ie option"
  mr_CreatePDR :: "'ie list"
  mr_RemoveFAR :: "'ie list"
  mr_RemoveQER :: "'ie list"
  mr_RemoveURR :: "'ie list"
  mr_RemoveBAR :: "'ie option"
  mr_RemovePDR :: "'ie list"
  mr_UpdateFAR :: "'ie list"
  mr_UpdateQER :: "'ie list"
  mr_UpdateURR :: "'ie list"
  mr_UpdateBAR :: "'ie option"
  mr_UpdatePDR :: "'ie list"
  mr_QueryURR :: "'ie list"

text \<open>
  The sequence number is the last argument of each request and response the server does not build;
  \<open>OtherMessage\<close> stands for the remaining types.
\<close>

datatype 'ie message =
    HeartbeatRequest u32
  | HeartbeatResponse u32 "rsp_ie list"
  | PFDManagementRequest u32
  | PFDManagementResponse u32
  | AssociationSetupRequest "'ie option" "'ie option" u32
  | AssociationSetupResponse u32 "rsp_ie list"
  | AssociationUpdateRequest u32
  | AssociationUpdateResponse u32
  | AssociationReleaseRequest u32
  | AssociationReleaseResponse u32
  | NodeReportRequest u32
  | NodeReportResponse u32
  | SessionSetDeletionRequest u32
  | SessionSetDeletionResponse u32
  | SessionEstablishmentRequest "'ie est_req" u32
  | SessionEstablishmentResponse u64 u32 "rsp_ie list"
  | SessionModificationRequest u64 "'ie mod_req" u32
  | SessionModificationResponse u64 u32 "rsp_ie list" "usage_ie list list"
  | SessionDeletionRequest u64 u32
  | SessionDeletionResponse u64 u32 "rsp_ie list" "usage_ie list list"
  | SessionReportRequest u64 u32 "rsp_ie list" "usage_ie list list"
  | SessionReportResponse u64 u32
  | OtherMessage u8 u32

fun msg_Sequence :: "'ie message \<Rightarrow> u32" where
  "msg_Sequence (HeartbeatRequest q) = q"
| "msg_Sequence (HeartbeatResponse q _) = q"
| "msg_Sequence (PFDManagementRequest q) = q"
| "msg_Sequence (PFDManagementResponse q) = q"
| "msg_Sequence (AssociationSetupRequest _ _ q) = q"
| "msg_Sequence (AssociationSetupResponse q _) = q"
| "msg_Sequence (AssociationUpdateRequest q) = q"
| "msg_Sequence (AssociationUpdateResponse q) = q"
| "msg_Sequence (AssociationReleaseRequest q) = q"
| "msg_Sequence (AssociationReleaseResponse q) = q"
| "msg_Sequence (NodeReportRequest q) = q"
| "msg_Sequence (NodeReportResponse q) = q"
| "msg_Sequence (SessionSetDeletionRequest q) = q"
| "msg_Sequence (SessionSetDeletionResponse q) = q"
| "msg_Sequence (SessionEstablishmentRequest _ q) = q"
| "msg_Sequence (SessionEstablishmentResponse _ q _) = q"
| "msg_Sequence (SessionModificationRequest _ _ q) = q"
| "msg_Sequence (SessionModificationResponse _ q _ _) = q"
| "msg_Sequence (SessionDeletionRequest _ q) = q"
| "msg_Sequence (SessionDeletionResponse _ q _ _) = q"
| "msg_Sequence (SessionReportRequest _ q _ _) = q"
| "msg_Sequence (SessionReportResponse _ q) = q"
| "msg_Sequence (OtherMessage _ q) = q"

fun msg_SEID :: "'ie message \<Rightarrow> u64" where
  "msg_SEID (SessionEstablishmentResponse i _ _) = i"
| "msg_SEID (SessionModificationRequest i _ _) = i"
| "msg_SEID (SessionModificationResponse i _ _ _) = i"
| "msg_SEID (SessionDeletionRequest i _) = i"
| "msg_SEID (SessionDeletionResponse i _ _ _) = i"
| "msg_SEID (SessionReportRequest i _ _ _) = i"
| "msg_SEID (SessionReportResponse i _) = i"
| "msg_SEID _ = 0"

fun isRequest :: "'ie message \<Rightarrow> bool" where
  "isRequest (HeartbeatRequest _) = True"
| "isRequest (PFDManagementRequest _) = True"
| "isRequest (AssociationSetupRequest _ _ _) = True"
| "isRequest (AssociationUpdateRequest _) = True"
| "isRequest (AssociationReleaseRequest _) = True"
| "isRequest (NodeReportRequest _) = True"
| "isRequest (SessionSetDeletionRequest _) = True"
| "isRequest (SessionEstablishmentRequest _ _) = True"
| "isRequest (SessionModificationRequest _ _ _) = True"
| "isRequest (SessionDeletionRequest _ _) = True"
| "isRequest (SessionReportRequest _ _ _ _) = True"
| "isRequest _ = False"

fun isResponse :: "'ie message \<Rightarrow> bool" where
  "isResponse (HeartbeatResponse _ _) = True"
| "isResponse (PFDManagementResponse _) = True"
| "isResponse (AssociationSetupResponse _ _) = True"
| "isResponse (AssociationUpdateResponse _) = True"
| "isResponse (AssociationReleaseResponse _) = True"
| "isResponse (NodeReportResponse _) = True"
| "isResponse (SessionSetDeletionResponse _) = True"
| "isResponse (SessionEstablishmentResponse _ _ _) = True"
| "isResponse (SessionModificationResponse _ _ _ _) = True"
| "isResponse (SessionDeletionResponse _ _ _ _) = True"
| "isResponse (SessionReportResponse _ _) = True"
| "isResponse _ = False"

fun setReqSeq :: "'ie message \<Rightarrow> u32 \<Rightarrow> 'ie message" where
  "setReqSeq (HeartbeatRequest _) q = HeartbeatRequest q"
| "setReqSeq (PFDManagementRequest _) q = PFDManagementRequest q"
| "setReqSeq (AssociationSetupRequest n r _) q = AssociationSetupRequest n r q"
| "setReqSeq (AssociationUpdateRequest _) q = AssociationUpdateRequest q"
| "setReqSeq (AssociationReleaseRequest _) q = AssociationReleaseRequest q"
| "setReqSeq (NodeReportRequest _) q = NodeReportRequest q"
| "setReqSeq (SessionSetDeletionRequest _) q = SessionSetDeletionRequest q"
| "setReqSeq (SessionEstablishmentRequest r _) q = SessionEstablishmentRequest r q"
| "setReqSeq (SessionModificationRequest i r _) q = SessionModificationRequest i r q"
| "setReqSeq (SessionDeletionRequest i _) q = SessionDeletionRequest i q"
| "setReqSeq (SessionReportRequest i _ a b) q = SessionReportRequest i q a b"
| "setReqSeq m q = m"

section \<open>State and environment\<close>

record 'ie TxTransaction =
  tx_raddr :: string
  tx_seq :: u32
  tx_id :: string
  tx_retransTimeout :: duration
  tx_maxRetrans :: u8
  tx_req :: "'ie message option"
  tx_msgBuf :: bytes
  tx_timer :: "duration option"
  tx_retransCount :: u8

record RxTransaction =
  rx_raddr :: string
  rx_seq :: u32
  rx_id :: string
  rx_timeout :: duration
  rx_msgBuf :: bytes
  rx_timer :: "duration option"

text \<open>
  The server extends the tables of sessions and the driver. A timer is the duration it was started with.
  \<open>sv_stopped\<close> says that the main loop has returned.
\<close>

record ('ie, 'd) PfcpServer = "'d nodes" +
  sv_nodeID :: string
  sv_recoveryTime :: gotime
  sv_RetransTimeout :: duration
  sv_MaxRetrans :: u8
  sv_rnodes :: "string \<rightharpoonup> nat"
  sv_txTrans :: "string \<rightharpoonup> 'ie TxTransaction"
  sv_rxTrans :: "string \<rightharpoonup> RxTransaction"
  sv_txSeq :: u32
  sv_out :: "(bytes \<times> string) list"
  sv_stopped :: bool

record ('ie, 'd) pfcp_env =
  pe_api :: "'ie ie_api"
  pe_rng :: ranges
  pe_driver :: "('ie, 'd) driver_api"
  pe_p6 :: "string \<Rightarrow> bytes option"
  pe_FSEID :: "'ie \<Rightarrow> u64 res"
  pe_RecoveryTimeStamp :: "'ie \<Rightarrow> gotime res"
  pe_Parse :: "bytes \<Rightarrow> 'ie message res"
  pe_Marshal :: "'ie message \<Rightarrow> bytes res"
  pe_ResolveIPAddr :: "string \<Rightarrow> bytes res"
  pe_ResolveUDPAddr :: "string \<Rightarrow> string res"

definition UpfPfcpDefaultPort :: nat where
  "UpfPfcpDefaultPort = 8805"

definition NewPfcpServer :: "string \<Rightarrow> duration \<Rightarrow> u8 \<Rightarrow> gotime \<Rightarrow> 'd \<Rightarrow> ('ie, 'd) PfcpServer" where
  "NewPfcpServer nodeID retrans maxRetrans now driver =
     \<lparr>nd_lnode = \<lparr>ln_sess = [], ln_free = []\<rparr>, nd_heap = Map.empty, nd_next = 0, nd_driver = driver,
      sv_nodeID = nodeID, sv_recoveryTime = now, sv_RetransTimeout = retrans, sv_MaxRetrans = maxRetrans,
      sv_rnodes = Map.empty, sv_txTrans = Map.empty, sv_rxTrans = Map.empty, sv_txSeq = 0, sv_out = [],
      sv_stopped = False\<rparr>"

section \<open>Transactions\<close>

definition trID :: "string \<Rightarrow> u32 \<Rightarrow> string" where
  "trID addr sq = addr @ ''-'' @ dec_string (unat sq)"

definition write_to :: "bytes \<Rightarrow> string \<Rightarrow> ('ie, 'd) PfcpServer \<Rightarrow> ('ie, 'd) PfcpServer" where
  "write_to b addr sv = sv\<lparr>sv_out := sv_out sv @ [(b, addr)]\<rparr>"

definition NewTxTransaction :: "('ie, 'd) PfcpServer \<Rightarrow> string \<Rightarrow> u32 \<Rightarrow> 'ie TxTransaction" where
  "NewTxTransaction sv addr sq =
     \<lparr>tx_raddr = addr, tx_seq = sq, tx_id = trID addr sq, tx_retransTimeout = sv_RetransTimeout sv,
      tx_maxRetrans = sv_MaxRetrans sv, tx_req = None, tx_msgBuf = [], tx_timer = None, tx_retransCount = 0\<rparr>"

definition put_tx :: "'ie TxTransaction \<Rightarrow> ('ie, 'd) PfcpServer \<Rightarrow> ('ie, 'd) PfcpServer" where
  "put_tx tx sv = sv\<lparr>sv_txTrans := (sv_txTrans sv)(tx_id tx \<mapsto> tx)\<rparr>"

definition tx_send ::
  "('ie, 'd) pfcp_env \<Rightarrow> 'ie message \<Rightarrow> 'ie TxTransaction \<Rightarrow> ('ie, 'd) PfcpServer \<Rightarrow> ('ie, 'd) PfcpServer \<times> error option" where
  "tx_send E req tx sv =
     (let req = setReqSeq req (tx_seq tx) in
      case pe_Marshal E req of
        Inl e \<Rightarrow> (sv, Some e)
      | Inr b \<Rightarrow>
          let tx = tx\<lparr>tx_req := Some req, tx_msgBuf := b, tx_timer := Some (tx_retransTimeout tx)\<rparr>
          in (write_to b (tx_raddr tx) (put_tx tx sv), None))"

text \<open>Stopping a timer that was never started panics.\<close>

definition tx_recv :: "'ie TxTransaction \<Rightarrow> ('ie, 'd) PfcpServer \<Rightarrow> (('ie, 'd) PfcpServer \<times> 'ie message option) option" where
  "tx_recv tx sv =
     (case tx_timer tx of
        None \<Rightarrow> None
      | Some t \<Rightarrow> Some (sv\<lparr>sv_txTrans := (sv_txTrans sv)(tx_id tx := None)\<rparr>, tx_req tx))"

definition NewRxTransaction :: "('ie, 'd) PfcpServer \<Rightarrow> string \<Rightarrow> u32 \<Rightarrow> RxTransaction" where
  "NewRxTransaction sv addr sq =
     (let timeout = sv_RetransTimeout sv * uint (sv_MaxRetrans sv + 1) in
      \<lparr>rx_raddr = addr, rx_seq = sq, rx_id = trID addr sq, rx_timeout = timeout, rx_msgBuf = [],
       rx_timer = Some timeout\<rparr>)"

definition rx_send ::
  "('ie, 'd) pfcp_env \<Rightarrow> 'ie message \<Rightarrow> RxTransaction \<Rightarrow> ('ie, 'd) PfcpServer \<Rightarrow> ('ie, 'd) PfcpServer \<times> error option" where
  "rx_send E rsp rx sv =
     (case pe_Marshal E rsp of
        Inl e \<Rightarrow> (sv, Some e)
      | Inr b \<Rightarrow>
          (write_to b (rx_raddr rx) (sv\<lparr>sv_rxTrans := (sv_rxTrans sv)(rx_id rx \<mapsto> rx\<lparr>rx_msgBuf := b\<rparr>)\<rparr>), None))"

definition rx_recv :: "RxTransaction \<Rightarrow> bool \<Rightarrow> ('ie, 'd) PfcpServer \<Rightarrow> ('ie, 'd) PfcpServer \<times> bool" where
  "rx_recv rx rxTrFound sv =
     (if \<not> rxTrFound then (sv, True)
      else if rx_msgBuf rx = [] then (sv, False)
      else (write_to (rx_msgBuf rx) (rx_raddr rx) sv, False))"

definition rx_handleTimeout :: "RxTransaction \<Rightarrow> ('ie, 'd) PfcpServer \<Rightarrow> ('ie, 'd) PfcpServer" where
  "rx_handleTimeout rx sv = sv\<lparr>sv_rxTrans := (sv_rxTrans sv)(rx_id rx := None)\<rparr>"

definition sendReqTo ::
  "('ie, 'd) pfcp_env \<Rightarrow> 'ie message \<Rightarrow> string \<Rightarrow> ('ie, 'd) PfcpServer \<Rightarrow> ('ie, 'd) PfcpServer \<times> error option" where
  "sendReqTo E msg addr sv =
     (if \<not> isRequest msg then (sv, Some ErrMsgType)
      else
        let tx = NewTxTransaction sv addr (sv_txSeq sv);
            sv = put_tx tx (sv\<lparr>sv_txSeq := sv_txSeq sv + 1\<rparr>)
        in tx_send E msg tx sv)"

definition sendRspTo ::
  "('ie, 'd) pfcp_env \<Rightarrow> 'ie message \<Rightarrow> string \<Rightarrow> ('ie, 'd) PfcpServer \<Rightarrow> ('ie, 'd) PfcpServer \<times> error option" where
  "sendRspTo E msg addr sv =
     (if \<not> isResponse msg then (sv, Some ErrMsgType)
      else case sv_rxTrans sv (trID addr (msg_Sequence msg)) of
        None \<Rightarrow> (sv, Some ErrTrNotFound)
      | Some rx \<Rightarrow> rx_send E msg rx sv)"

definition stopTrTimers :: "('ie, 'd) PfcpServer \<Rightarrow> ('ie, 'd) PfcpServer" where
  "stopTrTimers sv =
     sv\<lparr>sv_txTrans := (\<lambda>i. map_option (\<lambda>tx. tx\<lparr>tx_timer := None\<rparr>) (sv_txTrans sv i)),
        sv_rxTrans := (\<lambda>i. map_option (\<lambda>rx. rx\<lparr>rx_timer := None\<rparr>) (sv_rxTrans sv i))\<rparr>"

end
