(* ===== verification/Pfcp_Handlers.thy ===== *)
theory Pfcp_Handlers
  imports Pfcp_Server
begin

text \<open>
  The handlers of the PFCP server, its dispatchers and its main loop. A handler that panics has no result.
\<close>

section \<open>Associations and heartbeats\<close>

definition newIeNodeID :: "('ie, 'd) pfcp_env \<Rightarrow> string \<Rightarrow> rsp_ie" where
  "newIeNodeID E nodeID =
     (case netip_ParseAddr (pe_p6 E) nodeID of
        Some ip \<Rightarrow> if ip_To4 ip \<noteq> None then NewNodeID nodeID '''' '''' else NewNodeID '''' nodeID ''''
      | None \<Rightarrow> NewNodeID '''' '''' nodeID)"

text \<open>A new remote node gets the next address.\<close>

definition NewNode :: "string \<Rightarrow> string \<Rightarrow> ('ie, 'd) PfcpServer \<Rightarrow> ('ie, 'd) PfcpServer \<times> nat" where
  "NewNode nid addr sv =
     (sv\<lparr>nd_heap := (nd_heap sv)(nd_next sv \<mapsto> NewRemoteNode nid addr), nd_next := nd_next sv + 1\<rparr>, nd_next sv)"

definition UpdateNodeID :: "nat \<Rightarrow> string \<Rightarrow> ('ie, 'd) PfcpServer \<Rightarrow> ('ie, 'd) PfcpServer option" where
  "UpdateNodeID a newId sv = do {
     n \<leftarrow> nd_heap sv a;
     Some (sv\<lparr>sv_rnodes := (sv_rnodes sv)(rn_ID n := None, newId \<mapsto> a),
              nd_heap := (nd_heap sv)(a \<mapsto> n\<lparr>rn_ID := newId\<rparr>)\<rparr>)
   }"

definition handleAssociationSetupRequest ::
  "('ie, 'd) pfcp_env \<Rightarrow> 'ie option \<Rightarrow> 'ie option \<Rightarrow> u32 \<Rightarrow> string \<Rightarrow> ('ie, 'd) PfcpServer \<Rightarrow> ('ie, 'd) PfcpServer option" where
  "handleAssociationSetupRequest E nodeID recovery sq addr sv =
     (case nodeID of
        None \<Rightarrow> Some sv
      | Some nodeIE \<Rightarrow>
          (case ie_string (pe_api E) A_NodeID nodeIE of
             Inl _ \<Rightarrow> Some sv
           | Inr rnodeid \<Rightarrow>
               if rnodeid = '''' then Some sv
               else case recovery of
                 None \<Rightarrow> Some sv
               | Some rts \<Rightarrow>
                   (case pe_RecoveryTimeStamp E rts of
                      Inl _ \<Rightarrow> Some sv
                    | Inr _ \<Rightarrow> do {
                        sv \<leftarrow> (case sv_rnodes sv rnodeid of
                                None \<Rightarrow> Some sv
                              | Some a \<Rightarrow>
                                  map_option (\<lambda>sv. sv\<lparr>sv_rnodes := (sv_rnodes sv)(rnodeid := None)\<rparr>)
                                    (RemoteNode_Reset (pe_driver E) (pe_api E) (pe_rng E) a sv));
                        let (sv, a) = NewNode rnodeid addr sv;
                        let sv = sv\<lparr>sv_rnodes := (sv_rnodes sv)(rnodeid \<mapsto> a)\<rparr>;
                        let rsp = AssociationSetupResponse sq
                               [newIeNodeID E (sv_nodeID sv), NewCause CauseRequestAccepted,
                                NewRecoveryTimeStamp (sv_recoveryTime sv)];
                        Some (fst (sendRspTo E rsp addr sv))
                      })))"

definition handleHeartbeatRequest ::
  "('ie, 'd) pfcp_env \<Rightarrow> u32 \<Rightarrow> string \<Rightarrow> ('ie, 'd) PfcpServer \<Rightarrow> ('ie, 'd) PfcpServer" where
  "handleHeartbeatRequest E sq addr sv =
     fst (sendRspTo E (HeartbeatResponse sq [NewRecoveryTimeStamp (sv_recoveryTime sv)]) addr sv)"

section \<open>Sessions\<close>

text \<open>The UE address and the identifier of a Create PDR, for the Created PDR of the response.\<close>

fun ue_of_pdi :: "'ie ie_api \<Rightarrow> 'ie list \<Rightarrow> bytes res option" where
  "ue_of_pdi A [] = None"
| "ue_of_pdi A (x # xs) = (if ie_Type A x = T_UEIPAddress then Some (ie_UEIPAddress A x) else ue_of_pdi A xs)"

fun ue_of_pdr :: "'ie ie_api \<Rightarrow> 'ie list \<Rightarrow> bytes option" where
  "ue_of_pdr A [] = None"
| "ue_of_pdr A (i # is') =
     (if ie_Type A i = T_PDI then
        (case ie_group A G_PDI i of
           Inl _ \<Rightarrow> None
         | Inr xs \<Rightarrow>
             (case ue_of_pdi A xs of
                None \<Rightarrow> ue_of_pdr A is'
              | Some (Inl _) \<Rightarrow> None
              | Some (Inr v4) \<Rightarrow> Some v4))
      else ue_of_pdr A is')"

definition getUEAddressFromPDR :: "'ie ie_api \<Rightarrow> 'ie \<Rightarrow> bytes option" where
  "getUEAddressFromPDR A pdr = (case ie_group A G_CreatePDR pdr of Inl _ \<Rightarrow> None | Inr ies \<Rightarrow> ue_of_pdr A ies)"

definition getPDRIDFromPDR :: "'ie ie_api \<Rightarrow> 'ie \<Rightarrow> u16" where
  "getPDRIDFromPDR A pdr =
     (case ie_group A G_CreatePDR pdr of
        Inl _ \<Rightarrow> 0
      | Inr ies \<Rightarrow>
          (case find (\<lambda>i. ie_Type A i = T_PDRID) ies of
             None \<Rightarrow> 0
           | Some i \<Rightarrow> (case ie_PDRID A i of Inl _ \<Rightarrow> 0 | Inr v \<Rightarrow> v)))"

definition created_pdr :: "'ie ie_api \<Rightarrow> 'ie \<Rightarrow> rsp_ie option" where
  "created_pdr A i = map_option (\<lambda>v4. NewCreatedPDR (getPDRIDFromPDR A i) (ip_String v4)) (getUEAddressFromPDR A i)"

text \<open>The loops over rules: errors are logged, reports are collected.\<close>

definition each :: "('ie \<Rightarrow> 'd ss \<Rightarrow> ('d ss \<times> error option) option) \<Rightarrow> 'ie list \<Rightarrow> 'd ss \<Rightarrow> 'd ss option" where
  "each f is' sd = foldO (\<lambda>sd i. ignore_err (f i) sd) sd is'"

definition each_usage ::
  "('ie \<Rightarrow> 'd ss \<Rightarrow> ('d ss \<times> USAReport list res) option) \<Rightarrow> 'ie list \<Rightarrow> 'd ss \<times> USAReport list \<Rightarrow>
     ('d ss \<times> USAReport list) option" where
  "each_usage f is' st = foldO (\<lambda>st i. collect (f i) st) st is'"

definition opt_list :: "'a option \<Rightarrow> 'a list" where
  "opt_list x = (case x of None \<Rightarrow> [] | Some a \<Rightarrow> [a])"

definition establish_rules :: "('ie, 'd) pfcp_env \<Rightarrow> 'ie est_req \<Rightarrow> 'd ss \<Rightarrow> 'd ss option" where
  "establish_rules E req sd = (let D = pe_driver E; A = pe_api E in do {
     sd \<leftarrow> each (Sess_CreateFAR D A) (er_CreateFAR req) sd;
     sd \<leftarrow> each (Sess_CreateQER D A) (er_CreateQER req) sd;
     sd \<leftarrow> each (Sess_CreateURR D A) (er_CreateURR req) sd;
     sd \<leftarrow> each (Sess_CreateBAR D A) (opt_list (er_CreateBAR req)) sd;
     each (Sess_CreatePDR D A) (er_CreatePDR req) sd
   })"

text \<open>The address of the node in the F-SEID of the response.\<close>

definition node_v4 :: "('ie, 'd) pfcp_env \<Rightarrow> ('ie, 'd) PfcpServer \<Rightarrow> bytes option" where
  "node_v4 E sv = (case pe_ResolveIPAddr E (sv_nodeID sv) of Inl _ \<Rightarrow> None | Inr ip \<Rightarrow> ip_To4 ip)"

definition handleSessionEstablishmentRequest ::
  "('ie, 'd) pfcp_env \<Rightarrow> 'ie est_req \<Rightarrow> u32 \<Rightarrow> string \<Rightarrow> ('ie, 'd) PfcpServer \<Rightarrow> ('ie, 'd) PfcpServer option" where
  "handleSessionEstablishmentRequest E req sq addr sv =
     (case er_NodeID req of
        None \<Rightarrow> Some sv
      | Some nodeIE \<Rightarrow>
          (case ie_string (pe_api E) A_NodeID nodeIE of
             Inl _ \<Rightarrow> Some sv
           | Inr rnodeid \<Rightarrow>
               (case sv_rnodes sv rnodeid of
                  None \<Rightarrow> Some sv
                | Some a \<Rightarrow>
                    (case er_CPFSEID req of
                       None \<Rightarrow> Some sv
                     | Some cp \<Rightarrow>
                         (case pe_FSEID E cp of
                            Inl _ \<Rightarrow> Some sv
                          | Inr seid \<Rightarrow> do {
                              (sv, sess) \<leftarrow> RemoteNode_NewSess a seid sv;
                              (sess, d) \<leftarrow> establish_rules E req (sess, nd_driver sv);
                              let sv = sv\<lparr>nd_lnode := put_sess sess (nd_lnode sv), nd_driver := d\<rparr>;
                              let rsp = SessionEstablishmentResponse (s_RemoteID sess) sq
                                     (List.map_filter (created_pdr (pe_api E)) (er_CreatePDR req) @
                                      [newIeNodeID E (sv_nodeID sv), NewCause CauseRequestAccepted,
                                       NewFSEID (s_LocalID sess) (node_v4 E sv)]);
                              Some (fst (sendRspTo E rsp addr sv))
                            })))))"

definition modify_rules ::
  "('ie, 'd) pfcp_env \<Rightarrow> 'ie mod_req \<Rightarrow> 'd ss \<Rightarrow> ('d ss \<times> USAReport list) option" where
  "modify_rules E req sd = (let D = pe_driver E; A = pe_api E; R = pe_rng E in do {
     sd \<leftarrow> each (Sess_CreateFAR D A) (mr_CreateFAR req) sd;
     sd \<leftarrow> each (Sess_CreateQER D A) (mr_CreateQER req) sd;
     sd \<leftarrow> each (Sess_CreateURR D A) (mr_CreateURR req) sd;
     sd \<leftarrow> each (Sess_CreateBAR D A) (opt_list (mr_CreateBAR req)) sd;
     sd \<leftarrow> each (Sess_CreatePDR D A) (mr_CreatePDR req) sd;
     sd \<leftarrow> each (Sess_RemoveFAR D A) (mr_RemoveFAR req) sd;
     sd \<leftarrow> each (Sess_RemoveQER D A) (mr_RemoveQER req) sd;
     (sd, usars) \<leftarrow> each_usage (Sess_RemoveURR D A) (mr_RemoveURR req) (sd, []);
     sd \<leftarrow> each (Sess_RemoveBAR D A) (opt_list (mr_RemoveBAR req)) sd;
     (sd, usars) \<leftarrow> each_usage (Sess_RemovePDR D A R) (mr_RemovePDR req) (sd, usars);
     sd \<leftarrow> each (Sess_UpdateFAR D A) (mr_UpdateFAR req) sd;
     sd \<leftarrow> each (Sess_UpdateQER D A) (mr_UpdateQER req) sd;
     (sd, usars) \<leftarrow> each_usage (Sess_UpdateURR D A) (mr_UpdateURR req) (sd, usars);
     sd \<leftarrow> each (Sess_UpdateBAR D A) (opt_list (mr_UpdateBAR req)) sd;
     (sd, usars) \<leftarrow> each_usage (Sess_UpdatePDR D A R) (mr_UpdatePDR req) (sd, usars);
     each_usage (Sess_QueryURR D A) (mr_QueryURR req) (sd, usars)
   })"

text \<open>
  The usage reports of a response: each takes the next sequence number of its URR, and the record of a
  removed URR goes with its first report.
\<close>

definition usage_report_step ::
  "(USAReport \<Rightarrow> MeasureMethod \<Rightarrow> MeasureInformation \<Rightarrow> usage_ie list) \<Rightarrow> bool \<Rightarrow> Sess \<times> usage_ie list list \<Rightarrow>
     USAReport \<Rightarrow> Sess \<times> usage_ie list list" where
  "usage_report_step ies drop_removed st r =
     (let (s, out) = st in
      case s_URRIDs s (URRID r) of
        None \<Rightarrow> st
      | Some info \<Rightarrow>
          let (s, n) = URRSeq (URRID r) s;
              out = out @ [ies (r\<lparr>URSEQN := n\<rparr>) (ui_MeasureMethod info) (ui_MeasureInformation info)];
              s = (if drop_removed \<and> ui_removed info then s\<lparr>s_URRIDs := (s_URRIDs s)(URRID r := None)\<rparr> else s)
          in (s, out))"

definition handleSessionModificationRequest ::
  "('ie, 'd) pfcp_env \<Rightarrow> u64 \<Rightarrow> 'ie mod_req \<Rightarrow> u32 \<Rightarrow> string \<Rightarrow> ('ie, 'd) PfcpServer \<Rightarrow> ('ie, 'd) PfcpServer option" where
  "handleSessionModificationRequest E seid req sq addr sv =
     (case LocalNode_Sess seid (nd_lnode sv) of
        Inl _ \<Rightarrow>
          Some (fst (sendRspTo E (SessionModificationResponse 0 sq [NewCause CauseSessionContextNotFound] []) addr sv))
      | Inr sess \<Rightarrow>
          (case mr_NodeID req of
             Some nodeIE \<Rightarrow>
               (case ie_string (pe_api E) A_NodeID nodeIE of
                  Inl _ \<Rightarrow> Some (sv, False)
                | Inr rnodeid \<Rightarrow> map_option (\<lambda>sv. (sv, True)) (UpdateNodeID (s_rnode sess) rnodeid sv))
           | None \<Rightarrow> Some (sv, True)) \<bind>
          (\<lambda>(sv, go). if \<not> go then Some sv else do {
             ((sess, d), usars) \<leftarrow> modify_rules E req (sess, nd_driver sv);
             let (sess', usage) = foldl (usage_report_step IEsWithinSessModRsp True) (sess, []) usars;
             let sv = sv\<lparr>nd_lnode := put_sess sess' (nd_lnode sv), nd_driver := d\<rparr>;
             let rsp = SessionModificationResponse (s_RemoteID sess) sq [NewCause CauseRequestAccepted] usage;
             Some (fst (sendRspTo E rsp addr sv))
           }))"

text \<open>The session has left the table when the reports are built; its record is still at hand.\<close>

definition handleSessionDeletionRequest ::
  "('ie, 'd) pfcp_env \<Rightarrow> u64 \<Rightarrow> u32 \<Rightarrow> string \<Rightarrow> ('ie, 'd) PfcpServer \<Rightarrow> ('ie, 'd) PfcpServer option" where
  "handleSessionDeletionRequest E lSeid sq addr sv =
     (case LocalNode_Sess lSeid (nd_lnode sv) of
        Inl _ \<Rightarrow>
          Some (fst (sendRspTo E (SessionDeletionResponse 0 sq
             [NewCause CauseSessionContextNotFound, NewReportType 0 0 1 0] []) addr sv))
      | Inr sess \<Rightarrow> do {
          (sv, closed, usars) \<leftarrow> RemoteNode_DeleteSess (pe_driver E) (pe_api E) (pe_rng E) (s_rnode sess) lSeid sv;
          let sess = (case closed of None \<Rightarrow> sess | Some s \<Rightarrow> s);
          let (sess', usage) = foldl (usage_report_step (\<lambda>r. IEsWithinSessDelRsp (or_trigger USAR_TRIG_TERMR r)) True)
                 (sess, []) usars;
          let sv = (if closed = None then sv\<lparr>nd_lnode := put_sess sess' (nd_lnode sv)\<rparr> else sv);
          let rsp = SessionDeletionResponse (s_RemoteID sess) sq [NewCause CauseRequestAccepted] usage;
          Some (fst (sendRspTo E rsp addr sv))
        })"

definition handleSessionReportResponse ::
  "('ie, 'd) pfcp_env \<Rightarrow> u64 \<Rightarrow> string \<Rightarrow> 'ie message option \<Rightarrow> ('ie, 'd) PfcpServer \<Rightarrow> ('ie, 'd) PfcpServer option" where
  "handleSessionReportResponse E seid addr req sv =
     (if seid = 0 then do {
        req \<leftarrow> req;
        r \<leftarrow> RemoteSess (msg_SEID req) addr sv;
        case r of
          Inl _ \<Rightarrow> Some sv
        | Inr sess \<Rightarrow>
            map_option fst (RemoteNode_DeleteSess (pe_driver E) (pe_api E) (pe_rng E) (s_rnode sess) (s_LocalID sess) sv)
      }
      else Some sv)"

section \<open>Reports\<close>

definition serveDLDReport ::
  "('ie, 'd) pfcp_env \<Rightarrow> string \<Rightarrow> u64 \<Rightarrow> u16 \<Rightarrow> ('ie, 'd) PfcpServer \<Rightarrow> ('ie, 'd) PfcpServer \<times> error option" where
  "serveDLDReport E addr lSeid pdrid sv =
     (case LocalNode_Sess lSeid (nd_lnode sv) of
        Inl e \<Rightarrow> (sv, Some e)
      | Inr sess \<Rightarrow>
          sendReqTo E (SessionReportRequest (s_RemoteID sess) 0 [NewReportType 0 0 0 1, NewDownlinkDataReport pdrid] []) addr sv)"

definition serveUSAReport ::
  "('ie, 'd) pfcp_env \<Rightarrow> string \<Rightarrow> u64 \<Rightarrow> USAReport list \<Rightarrow> ('ie, 'd) PfcpServer \<Rightarrow> ('ie, 'd) PfcpServer \<times> error option" where
  "serveUSAReport E addr lSeid usars sv =
     (case LocalNode_Sess lSeid (nd_lnode sv) of
        Inl e \<Rightarrow> (sv, Some e)
      | Inr sess \<Rightarrow>
          let (sess', usage) = foldl (usage_report_step IEsWithinSessReportReq False) (sess, []) usars;
              sv = sv\<lparr>nd_lnode := put_sess sess' (nd_lnode sv)\<rparr>
          in sendReqTo E (SessionReportRequest (s_RemoteID sess) 0 [NewReportType 0 0 1 0] usage) addr sv)"

text \<open>The loop over the reports: it returns early at a downlink data report without notification.\<close>

fun serve_loop ::
  "('ie, 'd) pfcp_env \<Rightarrow> string \<Rightarrow> u64 \<Rightarrow> Report list \<Rightarrow> USAReport list \<Rightarrow> ('ie, 'd) PfcpServer \<Rightarrow>
     ('ie, 'd) PfcpServer \<times> USAReport list option" where
  "serve_loop E laddr seid [] usars sv = (sv, Some usars)"
| "serve_loop E laddr seid (USAR r # rs) usars sv = serve_loop E laddr seid rs (usars @ [r]) sv"
| "serve_loop E laddr seid (DLDR r # rs) usars sv =
     (let sv = (if dld_Action r AND APPLY_ACT_BUFF \<noteq> 0 \<and> dld_BufPkt r \<noteq> [] then
                  (case LocalNode_Sess seid (nd_lnode sv) of
                     Inl _ \<Rightarrow> sv
                   | Inr s \<Rightarrow> sv\<lparr>nd_lnode := put_sess (Sess_Push (dld_PDRID r) (dld_BufPkt r) s) (nd_lnode sv)\<rparr>)
                else sv)
      in if dld_Action r AND APPLY_ACT_NOCP = 0 then (sv, None)
         else serve_loop E laddr seid rs usars (fst (serveDLDReport E laddr seid (dld_PDRID r) sv)))"

definition ServeReport ::
  "('ie, 'd) pfcp_env \<Rightarrow> SessReport \<Rightarrow> ('ie, 'd) PfcpServer \<Rightarrow> ('ie, 'd) PfcpServer option" where
  "ServeReport E sr sv =
     (case LocalNode_Sess (sr_SEID sr) (nd_lnode sv) of
        Inl _ \<Rightarrow> Some sv
      | Inr sess \<Rightarrow> do {
          n \<leftarrow> nd_heap sv (s_rnode sess);
          case pe_ResolveUDPAddr E (rn_ID n @ '':'' @ dec_string UpfPfcpDefaultPort) of
            Inl _ \<Rightarrow> Some sv
          | Inr laddr \<Rightarrow>
              (case serve_loop E laddr (sr_SEID sr) (sr_Reports sr) [] sv of
                 (sv, None) \<Rightarrow> Some sv
               | (sv, Some usars) \<Rightarrow>
                   Some (if usars \<noteq> [] then fst (serveUSAReport E laddr (sr_SEID sr) usars sv) else sv))
        })"

definition PopBufPkt :: "u64 \<Rightarrow> u16 \<Rightarrow> ('ie, 'd) PfcpServer \<Rightarrow> ('ie, 'd) PfcpServer \<times> bytes option" where
  "PopBufPkt seid pdrid sv =
     (case LocalNode_Sess seid (nd_lnode sv) of
        Inl _ \<Rightarrow> (sv, None)
      | Inr s \<Rightarrow> let (s, p) = Sess_Pop pdrid s in (sv\<lparr>nd_lnode := put_sess s (nd_lnode sv)\<rparr>, p))"

section \<open>Dispatch\<close>

fun reqDispacher ::
  "('ie, 'd) pfcp_env \<Rightarrow> 'ie message \<Rightarrow> string \<Rightarrow> ('ie, 'd) PfcpServer \<Rightarrow> ('ie, 'd) PfcpServer option" where
  "reqDispacher E (HeartbeatRequest q) addr sv = Some (handleHeartbeatRequest E q addr sv)"
| "reqDispacher E (AssociationSetupRequest n r q) addr sv = handleAssociationSetupRequest E n r q addr sv"
| "reqDispacher E (AssociationUpdateRequest q) addr sv = Some sv"
| "reqDispacher E (AssociationReleaseRequest q) addr sv = Some sv"
| "reqDispacher E (SessionEstablishmentRequest r q) addr sv = handleSessionEstablishmentRequest E r q addr sv"
| "reqDispacher E (SessionModificationRequest i r q) addr sv = handleSessionModificationRequest E i r q addr sv"
| "reqDispacher E (SessionDeletionRequest i q) addr sv = handleSessionDeletionRequest E i q addr sv"
| "reqDispacher E m addr sv = Some sv"

fun rspDispacher ::
  "('ie, 'd) pfcp_env \<Rightarrow> 'ie message \<Rightarrow> string \<Rightarrow> 'ie message option \<Rightarrow> ('ie, 'd) PfcpServer \<Rightarrow> ('ie, 'd) PfcpServer option" where
  "rspDispacher E (SessionReportResponse i q) addr req sv = handleSessionReportResponse E i addr req sv"
| "rspDispacher E m addr req sv = Some sv"

text \<open>
  A request that timed out is only logged; without a request to log, reading its type panics.
\<close>

definition txtoDispacher :: "'ie message option \<Rightarrow> ('ie, 'd) PfcpServer \<Rightarrow> ('ie, 'd) PfcpServer option" where
  "txtoDispacher req sv = (case req of None \<Rightarrow> None | Some m \<Rightarrow> Some sv)"

definition tx_handleTimeout :: "'ie TxTransaction \<Rightarrow> ('ie, 'd) PfcpServer \<Rightarrow> ('ie, 'd) PfcpServer option" where
  "tx_handleTimeout tx sv =
     (if tx_retransCount tx < tx_maxRetrans tx then
        let tx = tx\<lparr>tx_retransCount := tx_retransCount tx + 1, tx_timer := Some (tx_retransTimeout tx)\<rparr>
        in Some (put_tx tx (write_to (tx_msgBuf tx) (tx_raddr tx) sv))
      else txtoDispacher (tx_req tx) (sv\<lparr>sv_txTrans := (sv_txTrans sv)(tx_id tx := None)\<rparr>))"

section \<open>The main loop\<close>

definition validatePfcpPacketLength :: "bytes \<Rightarrow> error option" where
  "validatePfcpPacketLength buf =
     (if length buf < 8 then Some ErrTooShort
      else
        let declaredLen = be16 (buf ! 2) (buf ! 3);
            expectedTotalLen = unat declaredLen + 4
        in if length buf \<noteq> expectedTotalLen then Some ErrLengthMismatch else None)"

datatype event =
    EvReport SessReport
  | EvPacket string bytes
  | EvTxTimeout string
  | EvRxTimeout string

definition handle_packet ::
  "('ie, 'd) pfcp_env \<Rightarrow> string \<Rightarrow> bytes \<Rightarrow> ('ie, 'd) PfcpServer \<Rightarrow> ('ie, 'd) PfcpServer option" where
  "handle_packet E addr buf sv =
     (case pe_Parse E buf of
        Inl _ \<Rightarrow> Some sv
      | Inr msg \<Rightarrow>
          if validatePfcpPacketLength buf \<noteq> None then Some sv
          else
            let i = trID addr (msg_Sequence msg) in
            if isRequest msg then
              let found = (sv_rxTrans sv i \<noteq> None);
                  rx = (case sv_rxTrans sv i of Some rx \<Rightarrow> rx | None \<Rightarrow> NewRxTransaction sv addr (msg_Sequence msg));
                  sv = (if found then sv else sv\<lparr>sv_rxTrans := (sv_rxTrans sv)(i \<mapsto> rx)\<rparr>);
                  (sv, needDispatch) = rx_recv rx found sv
              in if needDispatch then reqDispacher E msg addr sv else Some sv
            else if isResponse msg then
              (case sv_txTrans sv i of
                 None \<Rightarrow> Some sv
               | Some tx \<Rightarrow> do {
                   (sv, req) \<leftarrow> tx_recv tx sv;
                   rspDispacher E msg addr req sv
                 })
            else Some sv)"

fun serve :: "('ie, 'd) pfcp_env \<Rightarrow> event \<Rightarrow> ('ie, 'd) PfcpServer \<Rightarrow> ('ie, 'd) PfcpServer option" where
  "serve E (EvReport sr) sv = ServeReport E sr sv"
| "serve E (EvPacket addr buf) sv =
     (if buf = [] then Some ((stopTrTimers sv)\<lparr>sv_stopped := True\<rparr>) else handle_packet E addr buf sv)"
| "serve E (EvTxTimeout i) sv = (case sv_txTrans sv i of None \<Rightarrow> Some sv | Some tx \<Rightarrow> tx_handleTimeout tx sv)"
| "serve E (EvRxTimeout i) sv =
     (case sv_rxTrans sv i of None \<Rightarrow> Some sv | Some rx \<Rightarrow> Some (rx_handleTimeout rx sv))"

text \<open>One turn of the loop; once it has returned, nothing happens.\<close>

definition main_step :: "('ie, 'd) pfcp_env \<Rightarrow> event \<Rightarrow> ('ie, 'd) PfcpServer \<Rightarrow> ('ie, 'd) PfcpServer option" where
  "main_step E ev sv = (if sv_stopped sv then Some sv else serve E ev sv)"

end
