(* ===== verification/Gtp5g_Buffer.thy ===== *)
theory Gtp5g_Buffer
  imports Gtp5g_Driver Pfcp_Handlers
begin

text \<open>
  What the gtp5g forwarder does with the packets buffered for a FAR when its action changes. The packets wait in
  the sessions of the PFCP server and are fetched by the callback \<open>PopBufPkt\<close>. The locale \<open>packet_queue\<close> is
  what the forwarder's loop needs of the callback, and \<open>PopBufPkt\<close> provides it.
\<close>

section \<open>The callback\<close>

locale packet_queue =
  fixes pop :: "u64 \<Rightarrow> u16 \<Rightarrow> 'h \<Rightarrow> 'h \<times> bytes option" and queue :: "'h \<Rightarrow> u64 \<Rightarrow> u16 \<Rightarrow> bytes list" and ok :: "'h \<Rightarrow> bool"
  assumes pop_empty: "ok h \<Longrightarrow> queue h i p = [] \<Longrightarrow> \<exists>h'. pop i p h = (h', None) \<and> ok h' \<and> queue h' = queue h"
    and pop_cons: "ok h \<Longrightarrow> queue h i p = x # xs \<Longrightarrow>
      \<exists>h'. pop i p h = (h', Some x) \<and> ok h' \<and> queue h' = (queue h)(i := (queue h i)(p := xs))"
begin

text \<open>The loop returns: it runs its body on every packet of the queue, oldest first, and leaves the queue empty.\<close>

lemma pop_loop_runs:
  assumes "ok (g_handler d)"
    and body: "\<And>pkt d. body pkt d = Some (f pkt d)" "\<And>pkt d h. f pkt (d\<lparr>g_handler := h\<rparr>) = (f pkt d)\<lparr>g_handler := h\<rparr>"
      "\<And>pkt d. g_handler (f pkt d) = g_handler d"
  shows "\<exists>h'. pop_loop pop body i p d = Some ((fold f (queue (g_handler d) i p) d)\<lparr>g_handler := h'\<rparr>) \<and> ok h' \<and>
    queue h' = (queue (g_handler d))(i := (queue (g_handler d) i)(p := []))"
  using assms(1)
proof (induction "queue (g_handler d) i p" arbitrary: d)
  case Nil
  then obtain h' where "pop i p (g_handler d) = (h', None)" "ok h'" "queue h' = queue (g_handler d)"
    using pop_empty by metis
  moreover have "queue (g_handler d) = (queue (g_handler d))(i := (queue (g_handler d) i)(p := []))"
    using Nil(1) by (simp add: fun_eq_iff)
  ultimately show ?case using Nil(1) by (subst pop_loop.simps) auto
next
  case (Cons x xs)
  obtain h1 where h1: "pop i p (g_handler d) = (h1, Some x)" "ok h1" "queue h1 = (queue (g_handler d))(i := (queue (g_handler d) i)(p := xs))"
    using pop_cons [OF Cons.prems Cons.hyps(2) [symmetric]] by blast
  let ?d1 = "(f x d)\<lparr>g_handler := h1\<rparr>"
  have "xs = queue (g_handler ?d1) i p" "ok (g_handler ?d1)" using h1 by simp_all
  from Cons.hyps(1) [OF this] obtain h' where h':
    "pop_loop pop body i p ?d1 = Some ((fold f xs ?d1)\<lparr>g_handler := h'\<rparr>)" "ok h'"
    "queue h' = (queue h1)(i := (queue h1 i)(p := []))"
    using h1(3) by auto
  have handler: "fold f xs (d\<lparr>g_handler := h\<rparr>) = (fold f xs d)\<lparr>g_handler := h\<rparr>" for xs d h
    by (induction xs arbitrary: d) (simp_all add: body(2))
  have "pop_loop pop body i p d = Some ((fold f (x # xs) d)\<lparr>g_handler := h'\<rparr>)"
    by (subst pop_loop.simps) (simp add: h1(1) body(1,2) h'(1) handler)
  with h'(2,3) h1(3) Cons.hyps(2) show ?case by (auto simp: fun_eq_iff)
qed

end

definition buffered :: "('ie, 'd) PfcpServer \<Rightarrow> u64 \<Rightarrow> u16 \<Rightarrow> bytes list" where
  "buffered sv seid pdrid =
     (case LocalNode_Sess seid (nd_lnode sv) of Inl _ \<Rightarrow> [] | Inr s \<Rightarrow> (case s_q s pdrid of None \<Rightarrow> [] | Some q \<Rightarrow> q))"

lemma buffered_abs:
  "buffered sv i p = (case ln_abs (nd_lnode sv) i of None \<Rightarrow> [] | Some s \<Rightarrow> (case s_q s p of None \<Rightarrow> [] | Some q \<Rightarrow> q))"
  by (simp add: buffered_def ln_abs_def split: sum.splits)

lemma PopBufPkt_none:
  assumes "ln_wf (nd_lnode sv)" "buffered sv i p = []"
  shows "\<exists>sv'. PopBufPkt i p sv = (sv', None) \<and> ln_wf (nd_lnode sv') \<and> buffered sv' = buffered sv"
proof (cases "LocalNode_Sess i (nd_lnode sv)")
  case (Inr s)
  then have s: "ln_abs (nd_lnode sv) i = Some s" by (simp add: ln_abs_Sess)
  have "Sess_Pop p s = (s, None)"
    using assms(2) Inr by (auto simp: buffered_def Sess_Pop_def split: option.splits list.splits)
  moreover note put_sess_refines [OF assms(1) s ln_wf_LocalID [OF assms(1) s]]
  ultimately show ?thesis
    using Inr s by (auto simp: PopBufPkt_def fun_eq_iff buffered_abs fun_upd_idem)
qed (use assms in \<open>simp add: PopBufPkt_def\<close>)

lemma PopBufPkt_some:
  assumes "ln_wf (nd_lnode sv)" "buffered sv i p = x # xs"
  shows "\<exists>sv'. PopBufPkt i p sv = (sv', Some x) \<and> ln_wf (nd_lnode sv') \<and>
    buffered sv' = (buffered sv)(i := (buffered sv i)(p := xs))"
proof -
  from assms(2) obtain s where s: "LocalNode_Sess i (nd_lnode sv) = Inr s" "s_q s p = Some (x # xs)"
    by (auto simp: buffered_def split: sum.splits option.splits)
  then have abs: "ln_abs (nd_lnode sv) i = Some s" by (simp add: ln_abs_Sess)
  let ?s = "s\<lparr>s_q := (s_q s)(p \<mapsto> xs)\<rparr>"
  have pop: "Sess_Pop p s = (?s, Some x)" using s(2) by (simp add: Sess_Pop_def)
  have "s_LocalID ?s = i" using ln_wf_LocalID [OF assms(1) abs] by simp
  from put_sess_refines [OF assms(1) abs this] s pop abs show ?thesis
    by (auto simp: PopBufPkt_def buffered_abs fun_eq_iff split: option.splits)
qed

interpretation pfcp_queue: packet_queue PopBufPkt buffered "\<lambda>sv. ln_wf (nd_lnode sv)"
  by unfold_locales (use PopBufPkt_none PopBufPkt_some in blast)+

section \<open>Changing the action of a buffering FAR\<close>

definition gpdu :: "kcreation \<Rightarrow> u8 option \<Rightarrow> bytes \<Rightarrow> bytes \<times> bytes \<times> u16" where
  "gpdu hc qfi pkt = (Message_bytes \<lparr>m_Flags = 0x34, m_Type = MsgTypeTPDU, m_TEID = kc_TEID hc, m_SequenceNumber = 0,
     m_NPDUNumber = 0, m_Exts = (case qfi of None \<Rightarrow> [] | Some q \<Rightarrow> [\<lparr>PDUType = 0, QoSFlowID = q\<rparr>]), m_Payload = pkt\<rparr>,
     kc_PeerAddr hc, kc_Port hc)"

lemma WritePacket_sends:
  assumes "kf_Creation far = Some hc" "\<And>b a. ka_WriteTo K b a = None"
  shows "map_option fst (WritePacket K far qfi pkt d) = Some (d\<lparr>g_written := g_written d @ [gpdu hc qfi pkt]\<rparr>)"
  using assms by (simp add: WritePacket_def Message_Encode_eq gpdu_def Let_def)

lemma fold_written: "fold (\<lambda>pkt d. d\<lparr>g_written := g_written d @ [g pkt]\<rparr>) xs d = d\<lparr>g_written := g_written d @ map g xs\<rparr>"
  by (induction xs arbitrary: d) simp_all

text \<open>One PDR of the FAR, dropping or forwarding.\<close>

lemma drop_pdr_runs:
  assumes "ge_Pop E = PopBufPkt" "ln_wf (nd_lnode (g_handler d))"
  shows "\<exists>h'. drop_pdr E i d p = Some (d\<lparr>g_handler := h'\<rparr>) \<and> ln_wf (nd_lnode h') \<and>
    buffered h' = (buffered (g_handler d))(i := (buffered (g_handler d) i)(p := []))"
  using pfcp_queue.pop_loop_runs [OF assms(2), of "\<lambda>_ d. Some d" "\<lambda>_ d. d" i p] assms(1)
  by (simp add: drop_pdr_def fold_invariant_list [where P = "\<lambda>x. x = d"])

definition pdr_qfi :: "'k kernel_api \<Rightarrow> u64 \<Rightarrow> 'k \<Rightarrow> u16 \<Rightarrow> u8 option" where
  "pdr_qfi K i k p = (case ka_GetPDR_QERIDs K (i, ucast p) k of Inl _ \<Rightarrow> None | Inr qers \<Rightarrow> first_qfi K i qers k)"

lemma forward_pdr_runs:
  assumes "ge_Pop E = PopBufPkt" "ln_wf (nd_lnode (g_handler d))" "kf_Creation far = Some hc"
    and "\<And>b a. ka_WriteTo (ge_kernel E) b a = None" "is_ok (ka_GetPDR_QERIDs (ge_kernel E) (i, ucast p) (g_kernel d))"
  shows "\<exists>h'. forward_pdr E i far d p = Some (d\<lparr>
      g_written := g_written d @ map (gpdu hc (pdr_qfi (ge_kernel E) i (g_kernel d) p)) (buffered (g_handler d) i p), g_handler := h'\<rparr>) \<and>
    ln_wf (nd_lnode h') \<and> buffered h' = (buffered (g_handler d))(i := (buffered (g_handler d) i)(p := []))"
proof -
  obtain qers where q: "ka_GetPDR_QERIDs (ge_kernel E) (i, ucast p) (g_kernel d) = Inr qers"
    using assms(5) by (cases "ka_GetPDR_QERIDs (ge_kernel E) (i, ucast p) (g_kernel d)") auto
  let ?q = "first_qfi (ge_kernel E) i qers (g_kernel d)"
  let ?f = "\<lambda>pkt d. d\<lparr>g_written := g_written d @ [gpdu hc ?q pkt]\<rparr>"
  from pfcp_queue.pop_loop_runs [OF assms(2), of "\<lambda>pkt d. map_option fst (WritePacket (ge_kernel E) far ?q pkt d)" ?f i p]
  show ?thesis
    by (simp add: WritePacket_sends [OF assms(3,4)] forward_pdr_def assms(1) q pdr_qfi_def Let_def fold_written)
qed

definition emptied :: "u64 \<Rightarrow> u16 set \<Rightarrow> (u64 \<Rightarrow> u16 \<Rightarrow> bytes list) \<Rightarrow> u64 \<Rightarrow> u16 \<Rightarrow> bytes list" where
  "emptied i ps q = q(i := (\<lambda>p. if p \<in> ps then [] else q i p))"

lemma emptied_simps: "emptied i {} q = q" "emptied i ps (q(i := (q i)(p := []))) = emptied i (insert p ps) q"
  by (auto simp: emptied_def fun_eq_iff)

lemma drop_all:
  assumes "ge_Pop E = PopBufPkt" "ln_wf (nd_lnode (g_handler d))"
  shows "\<exists>h'. foldO (drop_pdr E i) d ps = Some (d\<lparr>g_handler := h'\<rparr>) \<and> buffered h' = emptied i (set ps) (buffered (g_handler d))"
  using assms(2)
proof (induction ps arbitrary: d)
  case Nil
  then show ?case by (auto simp: emptied_simps intro: exI [of _ "g_handler d"])
next
  case (Cons p ps)
  from drop_pdr_runs [OF assms(1) Cons.prems, of i p] obtain h1 where h1: "drop_pdr E i d p = Some (d\<lparr>g_handler := h1\<rparr>)"
    "ln_wf (nd_lnode h1)" "buffered h1 = (buffered (g_handler d))(i := (buffered (g_handler d) i)(p := []))" by blast
  from Cons.IH [of "d\<lparr>g_handler := h1\<rparr>"] h1(2) obtain h2 where
    h2: "foldO (drop_pdr E i) (d\<lparr>g_handler := h1\<rparr>) ps = Some (d\<lparr>g_handler := h2\<rparr>)" "buffered h2 = emptied i (set ps) (buffered h1)"
    by auto
  have "buffered h2 = emptied i (set (p # ps)) (buffered (g_handler d))" unfolding h2(2) h1(3) emptied_simps by simp
  with h1(1) h2(1) show ?case by auto
qed

lemma forward_all:
  assumes "ge_Pop E = PopBufPkt" "ln_wf (nd_lnode (g_handler d))" "kf_Creation far = Some hc"
    and "\<And>b a. ka_WriteTo (ge_kernel E) b a = None"
    and "distinct ps" "\<forall>p \<in> set ps. is_ok (ka_GetPDR_QERIDs (ge_kernel E) (i, ucast p) (g_kernel d))"
  shows "\<exists>h'. foldO (forward_pdr E i far) d ps = Some (d\<lparr>g_written := g_written d @
        concat (map (\<lambda>p. map (gpdu hc (pdr_qfi (ge_kernel E) i (g_kernel d) p)) (buffered (g_handler d) i p)) ps), g_handler := h'\<rparr>) \<and>
      buffered h' = emptied i (set ps) (buffered (g_handler d))"
  using assms(2,5,6)
proof (induction ps arbitrary: d)
  case Nil
  then show ?case by (auto simp: emptied_simps intro: exI [of _ "g_handler d"])
next
  case (Cons p ps)
  from forward_pdr_runs [OF assms(1) Cons.prems(1) assms(3,4), of i p] Cons.prems(3) obtain h1 where
    h1: "forward_pdr E i far d p = Some (d\<lparr>
      g_written := g_written d @ map (gpdu hc (pdr_qfi (ge_kernel E) i (g_kernel d) p)) (buffered (g_handler d) i p), g_handler := h1\<rparr>)"
    "ln_wf (nd_lnode h1)" "buffered h1 = (buffered (g_handler d))(i := (buffered (g_handler d) i)(p := []))" by auto
  let ?d1 = "d\<lparr>g_written := g_written d @ map (gpdu hc (pdr_qfi (ge_kernel E) i (g_kernel d) p)) (buffered (g_handler d) i p), g_handler := h1\<rparr>"
  have "map (\<lambda>p. map (gpdu hc (pdr_qfi (ge_kernel E) i (g_kernel d) p)) (buffered h1 i p)) ps =
      map (\<lambda>p. map (gpdu hc (pdr_qfi (ge_kernel E) i (g_kernel d) p)) (buffered (g_handler d) i p)) ps"
    using Cons.prems(2) by (auto simp: h1(3))
  with Cons.IH [of ?d1] h1(2) Cons.prems obtain h2 where
    h2: "foldO (forward_pdr E i far) ?d1 ps = Some (d\<lparr>g_written := g_written ?d1 @
        concat (map (\<lambda>p. map (gpdu hc (pdr_qfi (ge_kernel E) i (g_kernel d) p)) (buffered (g_handler d) i p)) ps), g_handler := h2\<rparr>)"
      "buffered h2 = emptied i (set ps) (buffered h1)"
    by auto
  have "buffered h2 = emptied i (set (p # ps)) (buffered (g_handler d))" unfolding h2(2) h1(3) emptied_simps by simp
  with h1(1) h2(1) show ?case by auto
qed


definition ex_buf_sess :: Sess where
  "ex_buf_sess = (new_sess 99 BUFFQ_LEN)\<lparr>s_LocalID := 1, s_q := [1 \<mapsto> [[0xaa], [0xbb]]]\<rparr>"

definition ex_buf_sv :: "(tree, unit) PfcpServer" where
  "ex_buf_sv = (NewPfcpServer ''upf'' 0 3 0 ())\<lparr>nd_lnode := \<lparr>ln_sess = [Some ex_buf_sess], ln_free = []\<rparr>\<rparr>"

definition ex_buf :: "(tree, u64 \<Rightarrow> rule_id set, (tree, unit) PfcpServer) g5_env" where
  "ex_buf = \<lparr>ge_lib = ex_lib, ge_kernel = ex_kernel, ge_Pop = PopBufPkt\<rparr>"

definition ex_buf_d :: "(u64 \<Rightarrow> rule_id set, (tree, unit) PfcpServer) Gtp5g" where
  "ex_buf_d = \<lparr>g_kernel = (\<lambda>_. {}), g_handler = ex_buf_sv, g_events = [], g_written = []\<rparr>"

lemma ex_buf_wf: "ln_wf (nd_lnode (g_handler ex_buf_d))"
proof (rule ln_wfI)
  have slot: "slot (nd_lnode (g_handler ex_buf_d)) i \<longleftrightarrow> i = 1" for i
    by (auto simp: slot_def ex_buf_d_def ex_buf_sv_def word_unat_eq_iff)
  show "length (ln_sess (nd_lnode (g_handler ex_buf_d))) \<le> go_slice_max"
    by (simp add: ex_buf_d_def ex_buf_sv_def go_slice_max_def)
  show "distinct (ln_free (nd_lnode (g_handler ex_buf_d)))" by (simp add: ex_buf_d_def ex_buf_sv_def)
  show "i \<in> set (ln_free (nd_lnode (g_handler ex_buf_d))) \<longleftrightarrow>
      slot (nd_lnode (g_handler ex_buf_d)) i \<and> ln_sess (nd_lnode (g_handler ex_buf_d)) ! (unat i - Suc 0) = None" for i
    by (cases "i = 1") (simp_all add: slot, simp_all add: ex_buf_d_def ex_buf_sv_def)
  show "slot (nd_lnode (g_handler ex_buf_d)) i \<Longrightarrow>
      ln_sess (nd_lnode (g_handler ex_buf_d)) ! (unat i - Suc 0) = Some s \<Longrightarrow> s_LocalID s = i" for i s
    by (simp add: slot) (auto simp: ex_buf_d_def ex_buf_sv_def ex_buf_sess_def)
qed


end
