(* ===== verification/Pfcp_Inv.thy ===== *)
theory Pfcp_Inv
  imports Pfcp_Handlers
begin

text \<open>
  The invariant of the PFCP server: the tables of sessions agree with each other and with the driver
  (\<open>nodes_inv\<close>), a node is registered under its own identifier, and a transaction under its own. Every event
  keeps it, with any driver that keeps the contract.
\<close>

section \<open>The invariant\<close>

definition rnodes_ok :: "('ie, 'd) PfcpServer \<Rightarrow> bool" where
  "rnodes_ok sv \<longleftrightarrow> (\<forall>nid a. sv_rnodes sv nid = Some a \<longrightarrow> (\<exists>n. nd_heap sv a = Some n \<and> rn_ID n = nid))"

definition trans_ok :: "('ie, 'd) PfcpServer \<Rightarrow> bool" where
  "trans_ok sv \<longleftrightarrow> (\<forall>i tx. sv_txTrans sv i = Some tx \<longrightarrow> tx_id tx = i) \<and>
     (\<forall>i rx. sv_rxTrans sv i = Some rx \<longrightarrow> rx_id rx = i)"

definition server_inv :: "('d \<Rightarrow> u64 \<Rightarrow> rule_id set) \<Rightarrow> ('ie, 'd) PfcpServer \<Rightarrow> bool" where
  "server_inv rules sv \<longleftrightarrow> nodes_inv rules sv \<and> rnodes_ok sv \<and> trans_ok sv"

text \<open>The Create elements of a message that the library reads consistently.\<close>

fun msg_wf :: "('ie dop \<Rightarrow> bool) \<Rightarrow> 'ie message \<Rightarrow> bool" where
  "msg_wf ok (SessionEstablishmentRequest r q) \<longleftrightarrow>
     (\<forall>i \<in> set (er_CreateFAR r). ok (DCreate KFAR i)) \<and> (\<forall>i \<in> set (er_CreateQER r). ok (DCreate KQER i)) \<and>
     (\<forall>i \<in> set (er_CreateURR r). ok (DCreate KURR i)) \<and> (\<forall>i \<in> set (opt_list (er_CreateBAR r)). ok (DCreate KBAR i)) \<and>
     (\<forall>i \<in> set (er_CreatePDR r). ok (DCreate KPDR i))"
| "msg_wf ok (SessionModificationRequest s r q) \<longleftrightarrow>
     (\<forall>i \<in> set (mr_CreateFAR r). ok (DCreate KFAR i)) \<and> (\<forall>i \<in> set (mr_CreateQER r). ok (DCreate KQER i)) \<and>
     (\<forall>i \<in> set (mr_CreateURR r). ok (DCreate KURR i)) \<and> (\<forall>i \<in> set (opt_list (mr_CreateBAR r)). ok (DCreate KBAR i)) \<and>
     (\<forall>i \<in> set (mr_CreatePDR r). ok (DCreate KPDR i))"
| "msg_wf ok m \<longleftrightarrow> True"

fun event_wf :: "('ie dop \<Rightarrow> bool) \<Rightarrow> ('ie, 'd) pfcp_env \<Rightarrow> event \<Rightarrow> bool" where
  "event_wf ok E (EvPacket addr buf) \<longleftrightarrow> (\<forall>m. pe_Parse E buf = Inr m \<longrightarrow> msg_wf ok m)"
| "event_wf ok E ev \<longleftrightarrow> True"

section \<open>What leaves the tables alone\<close>

lemma nodes_inv_cong:
  "nd_lnode st' = nd_lnode st \<Longrightarrow> nd_heap st' = nd_heap st \<Longrightarrow> nd_next st' = nd_next st \<Longrightarrow> nd_driver st' = nd_driver st \<Longrightarrow>
     nodes_inv rules st' = nodes_inv rules st"
  by (simp add: nodes_inv_def owned_def rules_tracked_def sessions_def)

text \<open>The parts of the server that sending a message does not touch.\<close>

definition same_tables :: "('ie, 'd) PfcpServer \<Rightarrow> ('ie, 'd) PfcpServer \<Rightarrow> bool" where
  "same_tables sv sv' \<longleftrightarrow> nd_lnode sv' = nd_lnode sv \<and> nd_heap sv' = nd_heap sv \<and> nd_next sv' = nd_next sv \<and>
     nd_driver sv' = nd_driver sv \<and> sv_rnodes sv' = sv_rnodes sv \<and> sv_stopped sv' = sv_stopped sv"

lemma same_tables_trans: "same_tables a b \<Longrightarrow> same_tables b c \<Longrightarrow> same_tables a c"
  by (simp add: same_tables_def)

lemma same_tables_refl [simp]: "same_tables sv sv"
  by (simp add: same_tables_def)

lemma same_tables_inv:
  "same_tables sv sv' \<Longrightarrow> trans_ok sv' \<Longrightarrow> server_inv rules sv \<Longrightarrow> server_inv rules sv'"
  using nodes_inv_cong [of sv' sv rules] by (simp add: same_tables_def server_inv_def rnodes_ok_def)

lemma same_tables_sessions: "same_tables sv sv' \<Longrightarrow> sessions sv' = sessions sv"
  by (simp add: same_tables_def sessions_def)

lemma trans_okD:
  assumes "trans_ok sv"
  shows "sv_txTrans sv i = Some tx \<Longrightarrow> tx_id tx = i" "sv_rxTrans sv i = Some rx \<Longrightarrow> rx_id rx = i"
  using assms by (auto simp: trans_ok_def)

lemma trans_ok_cong:
  "sv_txTrans sv' = sv_txTrans sv \<Longrightarrow> sv_rxTrans sv' = sv_rxTrans sv \<Longrightarrow> trans_ok sv' = trans_ok sv"
  by (simp add: trans_ok_def)

lemma write_to_frame [simp]:
  "same_tables sv (write_to b a sv)" "sv_txTrans (write_to b a sv) = sv_txTrans sv"
  "sv_rxTrans (write_to b a sv) = sv_rxTrans sv" "sv_out (write_to b a sv) = sv_out sv @ [(b, a)]"
  "trans_ok (write_to b a sv) = trans_ok sv"
  by (simp_all add: write_to_def same_tables_def trans_ok_def)

lemma sendRspTo_frame:
  "trans_ok sv \<Longrightarrow> same_tables sv (fst (sendRspTo E m addr sv)) \<and> trans_ok (fst (sendRspTo E m addr sv))"
  by (auto simp: sendRspTo_def rx_send_def write_to_def same_tables_def trans_ok_def split: option.splits sum.splits)

lemma sendReqTo_frame:
  "trans_ok sv \<Longrightarrow> same_tables sv (fst (sendReqTo E m addr sv)) \<and> trans_ok (fst (sendReqTo E m addr sv))"
  by (auto simp: sendReqTo_def tx_send_def put_tx_def NewTxTransaction_def write_to_def same_tables_def trans_ok_def Let_def
      split: option.splits sum.splits)

lemma sendRspTo_inv: "server_inv rules sv \<Longrightarrow> server_inv rules (fst (sendRspTo E m addr sv))"
  using sendRspTo_frame [of sv E m addr] same_tables_inv by (auto simp: server_inv_def)

lemma sendReqTo_inv: "server_inv rules sv \<Longrightarrow> server_inv rules (fst (sendReqTo E m addr sv))"
  using sendReqTo_frame [of sv E m addr] same_tables_inv by (auto simp: server_inv_def)

lemma usage_report_frame:
  "same_sess (fst st) (fst (usage_report_step ies b st r)) \<and> tracked (fst (usage_report_step ies b st r)) = tracked (fst st)"
  by (cases st) (auto simp: usage_report_step_def URRSeq_def same_sess_def tracked_def Let_def split: option.splits)

lemma usage_report_loop:
  "foldl (usage_report_step ies b) (s, out) us = (s', out') \<Longrightarrow> same_sess s s' \<and> tracked s' = tracked s"
proof (induction us arbitrary: s out)
  case (Cons r us)
  obtain t o' where t: "usage_report_step ies b (s, out) r = (t, o')" by fastforce
  from usage_report_frame [of "(s, out)" ies b r] t have "same_sess s t" "tracked t = tracked s" by simp_all
  with Cons.IH [of t o'] Cons.prems t show ?case by (auto intro: same_sess_trans)
qed simp

lemma update_rnodes_inv:
  assumes "rnodes_ok sv" "trans_ok sv" "nodes_inv rules (sv\<lparr>nd_lnode := l, nd_driver := d\<rparr>)"
  shows "server_inv rules (sv\<lparr>nd_lnode := l, nd_driver := d\<rparr>)"
  using assms by (simp add: server_inv_def rnodes_ok_def trans_ok_def)

lemma server_invD:
  assumes "server_inv rules sv"
  shows "nodes_inv rules sv" "rnodes_ok sv" "trans_ok sv"
  using assms by (simp_all add: server_inv_def)

lemma lookup_sessions: "LocalNode_Sess i (nd_lnode sv) = Inr s \<longleftrightarrow> sessions sv i = Some s"
  by (simp add: sessions_def ln_abs_Sess)

lemma put_same_server_inv:
  assumes "server_inv rules sv" "sessions sv i = Some s" "s_LocalID s' = s_LocalID s" "s_rnode s' = s_rnode s"
    "tracked s' = tracked s"
  shows "server_inv rules (sv\<lparr>nd_lnode := put_sess s' (nd_lnode sv)\<rparr>)"
proof -
  note inv = server_invD [OF assms(1)]
  from put_same_inv(1) [OF inv(1) assms(2), of s'] assms(3-) sessions_LocalID [OF inv(1) assms(2)]
  have "nodes_inv rules (sv\<lparr>nd_lnode := put_sess s' (nd_lnode sv)\<rparr>)" by simp
  with inv(2,3) show ?thesis by (simp add: server_inv_def rnodes_ok_def trans_ok_def)
qed

lemma usage_report_frames:
  assumes "foldl (usage_report_step ies b) (s, out) us = (s', out')"
  shows "s_LocalID s' = s_LocalID s" "s_RemoteID s' = s_RemoteID s" "s_rnode s' = s_rnode s" "tracked s' = tracked s"
  using usage_report_loop [OF assms] by (simp_all add: same_sess_def)

lemma Push_frame [simp]:
  "s_LocalID (Sess_Push p b s) = s_LocalID s" "s_rnode (Sess_Push p b s) = s_rnode s" "tracked (Sess_Push p b s) = tracked s"
  by (simp_all add: Sess_Push_def Let_def)

text \<open>Deleting sessions changes the tables and the driver only.\<close>

definition nodes_change :: "('d, 'z) nodes_scheme \<Rightarrow> ('d, 'z) nodes_scheme \<Rightarrow> bool" where
  "nodes_change st st' \<longleftrightarrow> (\<exists>h l d. st' = st\<lparr>nd_heap := h, nd_lnode := l, nd_driver := d\<rparr>)"

lemma nodes_change_heap: "nodes_change st (st\<lparr>nd_heap := h\<rparr>)"
  unfolding nodes_change_def by (rule exI [of _ h], rule exI [of _ "nd_lnode st"], rule exI [of _ "nd_driver st"]) simp

lemma nodes_change_refl: "nodes_change st st"
  using nodes_change_heap [of st "nd_heap st"] by simp

lemma nodes_change_trans: "nodes_change x y \<Longrightarrow> nodes_change y z \<Longrightarrow> nodes_change x z"
  by (auto simp: nodes_change_def) blast

lemma nodes_change_fields:
  "nodes_change sv sv' \<Longrightarrow> sv_rnodes sv' = sv_rnodes sv \<and> sv_txTrans sv' = sv_txTrans sv \<and> sv_rxTrans sv' = sv_rxTrans sv \<and>
     sv_out sv' = sv_out sv \<and> sv_nodeID sv' = sv_nodeID sv \<and> sv_recoveryTime sv' = sv_recoveryTime sv"
  by (auto simp: nodes_change_def)

lemma DeleteSess_frame:
  assumes "RemoteNode_DeleteSess D A R a i st = Some (st', c, us)"
  shows "nodes_change st st'"
proof (cases "nd_heap st a")
  case (Some n)
  show ?thesis
  proof (cases "i \<in> rn_sess n")
    case True
    with Some assms obtain ln d r where "LocalNode_DeleteSess D A R i (nd_lnode st, nd_driver st) = Some ((ln, d), r)"
      by (auto simp: RemoteNode_DeleteSess_def bind_eq_Some_conv)
    with True Some assms show ?thesis
      by (cases r) (auto simp: RemoteNode_DeleteSess_def nodes_change_def)
  qed (use Some assms nodes_change_refl in \<open>simp add: RemoteNode_DeleteSess_def\<close>)
qed (use assms in \<open>simp add: RemoteNode_DeleteSess_def\<close>)

lemma Reset_frame:
  assumes "RemoteNode_Reset D A R a st = Some st'"
  shows "nodes_change st st'"
proof -
  obtain X st1 n1 where
    loop: "foldO (\<lambda>st i. map_option fst (RemoteNode_DeleteSess D A R a i st)) st (rng64 R X) = Some st1"
    and st': "st' = st1\<lparr>nd_heap := (nd_heap st1)(a \<mapsto> n1\<lparr>rn_sess := {}\<rparr>)\<rparr>"
    using assms unfolding RemoteNode_Reset_def bind_eq_Some_conv option.inject by (elim exE conjE) (erule that, erule sym)
  have "nodes_change st st1"
    by (rule foldO_invariant [OF loop nodes_change_refl]) (auto intro: nodes_change_trans DeleteSess_frame)
  moreover have "nodes_change st1 st'" unfolding st' by (rule nodes_change_heap)
  ultimately show ?thesis by (rule nodes_change_trans)
qed

lemma sessions_live:
  assumes "nodes_inv rules st" "Some s \<in> set (ln_sess (nd_lnode st))"
  shows "sessions st (s_LocalID s) = Some s"
proof -
  let ?n = "nd_lnode st"
  note ln = nodes_invD(1) [OF assms(1)]
  from assms(2) obtain k where k: "k < length (ln_sess ?n)" "ln_sess ?n ! k = Some s" by (auto simp: in_set_conv_nth)
  define i :: u64 where "i = of_nat (Suc k)"
  have i: "unat i = Suc k" using k(1) ln_wfD(1) [OF ln] unat_of_len [of "Suc k"] by (simp add: i_def)
  with k have "slot ?n i" "ln_sess ?n ! (unat i - Suc 0) = Some s" by (simp_all add: slot_def)
  with ln_wfD(4) [OF ln, of i s] show ?thesis by (simp add: sessions_def ln_abs_slot [OF ln])
qed

text \<open>A new node owns no session.\<close>

lemma rnodes_ok_heap:
  assumes "rnodes_ok sv" "nd_heap sv a = Some n" "nd_heap sv' = (nd_heap sv)(a \<mapsto> n\<lparr>rn_sess := X\<rparr>)"
    "sv_rnodes sv' \<subseteq>\<^sub>m sv_rnodes sv"
  shows "rnodes_ok sv'"
  unfolding rnodes_ok_def
proof (intro allI impI)
  fix nid b
  assume "sv_rnodes sv' nid = Some b"
  with assms(4) have "sv_rnodes sv nid = Some b" by (metis domI map_le_def)
  with assms(1) obtain m where "nd_heap sv b = Some m" "rn_ID m = nid" unfolding rnodes_ok_def by blast
  with assms(2,3) show "\<exists>m. nd_heap sv' b = Some m \<and> rn_ID m = nid" by (cases "b = a") auto
qed

lemma NewNode_inv:
  assumes "server_inv rules sv" "NewNode nid addr sv = (sv', a)"
  shows "server_inv rules (sv'\<lparr>sv_rnodes := (sv_rnodes sv')(nid \<mapsto> a)\<rparr>)" "sessions sv' = sessions sv" "nd_driver sv' = nd_driver sv"
proof -
  let ?sv = "sv'\<lparr>sv_rnodes := (sv_rnodes sv')(nid \<mapsto> a)\<rparr>"
  from assms(2) have a: "a = nd_next sv"
    and sv': "sv' = sv\<lparr>nd_heap := (nd_heap sv)(a \<mapsto> NewRemoteNode nid addr), nd_next := nd_next sv + 1\<rparr>"
    by (auto simp: NewNode_def)
  show ses: "sessions sv' = sessions sv" and drv: "nd_driver sv' = nd_driver sv" by (simp_all add: sv' sessions_def)
  have ses': "sessions ?sv = sessions sv" using ses by (simp add: sessions_def)
  note inv = server_invD [OF assms(1)]
  note own = ownedD [OF nodes_invD(2) [OF inv(1)]]
  have free: "nd_heap sv a = None" using nodes_invD(4) [OF inv(1)] by (simp add: a)
  have "owned ?sv"
  proof (rule ownedI)
    show "\<exists>m. nd_heap ?sv (s_rnode t) = Some m \<and> j \<in> rn_sess m" if "sessions ?sv j = Some t" for j t
      using own(1) [of j t] that free unfolding ses' by (auto simp: sv')
    show "\<exists>t. sessions ?sv j = Some t \<and> s_rnode t = b" if "nd_heap ?sv b = Some m" "j \<in> rn_sess m" for b m j
      using own(2) [of b m j] that unfolding ses' by (auto simp: sv' NewRemoteNode_def split: if_splits)
  qed
  moreover have "rules_tracked rules ?sv"
    using nodes_invD(3) [OF inv(1)] drv unfolding rules_tracked_def ses' by simp
  moreover have "ln_wf (nd_lnode ?sv)" "\<forall>b. nd_next ?sv \<le> b \<longrightarrow> nd_heap ?sv b = None"
    using nodes_invD(1,4) [OF inv(1)] by (auto simp: sv' a)
  moreover have "rnodes_ok ?sv" using inv(2) free by (fastforce simp: rnodes_ok_def sv' NewRemoteNode_def)
  moreover have "trans_ok ?sv" using inv(3) by (simp add: trans_ok_def sv')
  ultimately show "server_inv rules ?sv" by (simp add: server_inv_def nodes_inv_def)
qed

lemma remote_loop_live: "remote_loop h r addr ss = Some (Inr s) \<Longrightarrow> Some s \<in> set ss"
  by (induction h r addr ss rule: remote_loop.induct) (auto split: if_splits option.splits)

section \<open>Reports and transactions\<close>

lemma serveDLDReport_inv: "server_inv rules sv \<Longrightarrow> server_inv rules (fst (serveDLDReport E addr i p sv))"
  by (simp add: serveDLDReport_def sendReqTo_inv split: sum.split)

lemma serveUSAReport_inv: "server_inv rules sv \<Longrightarrow> server_inv rules (fst (serveUSAReport E addr i us sv))"
  by (auto simp: serveUSAReport_def Let_def lookup_sessions split: sum.split prod.split
      intro!: sendReqTo_inv put_same_server_inv [OF _ _ usage_report_frames(1,3,4)])

lemma serve_loop_inv: "server_inv rules sv \<Longrightarrow> server_inv rules (fst (serve_loop E laddr i rs us sv))"
proof (induction E laddr i rs us sv rule: serve_loop.induct)
  case (3 E laddr i r rs us sv)
  define sv1 where "sv1 = (if dld_Action r AND APPLY_ACT_BUFF \<noteq> 0 \<and> dld_BufPkt r \<noteq> [] then
      (case LocalNode_Sess i (nd_lnode sv) of Inl _ \<Rightarrow> sv
       | Inr s \<Rightarrow> sv\<lparr>nd_lnode := put_sess (Sess_Push (dld_PDRID r) (dld_BufPkt r) s) (nd_lnode sv)\<rparr>) else sv)"
  have "server_inv rules sv1"
    using 3(2) by (auto simp: sv1_def lookup_sessions split: sum.split elim: put_same_server_inv)
  with 3(1) [OF sv1_def] serveDLDReport_inv [of rules sv1] show ?case
    by (simp add: Let_def flip: sv1_def)
qed simp_all

lemma ServeReport_inv:
  assumes "ServeReport E sr sv = Some sv'" "server_inv rules sv"
  shows "server_inv rules sv'"
proof (cases "LocalNode_Sess (sr_SEID sr) (nd_lnode sv)")
  case (Inr s)
  with assms(1) obtain n where n: "nd_heap sv (s_rnode s) = Some n" by (auto simp: ServeReport_def bind_eq_Some_conv)
  show ?thesis
  proof (cases "pe_ResolveUDPAddr E (rn_ID n @ '':'' @ dec_string UpfPfcpDefaultPort)")
    case laddr: (Inr laddr)
    obtain sv1 o' where loop: "serve_loop E laddr (sr_SEID sr) (sr_Reports sr) [] sv = (sv1, o')" by fastforce
    with serve_loop_inv [OF assms(2), of E laddr] have "server_inv rules sv1" by (metis fst_conv)
    with assms(1) Inr n laddr loop show ?thesis
      by (auto simp: ServeReport_def serveUSAReport_inv split: option.splits)
  qed (use assms Inr n in \<open>simp add: ServeReport_def\<close>)
qed (use assms in \<open>simp add: ServeReport_def\<close>)

lemma tx_handleTimeout_inv:
  assumes "tx_handleTimeout tx sv = Some sv'" "server_inv rules sv" "sv_txTrans sv i = Some tx"
  shows "server_inv rules sv'"
proof -
  have "same_tables sv sv'" "trans_ok sv'"
    using assms(1,3) server_invD(3) [OF assms(2)]
    by (auto simp: tx_handleTimeout_def txtoDispacher_def put_tx_def write_to_def same_tables_def trans_ok_def Let_def
        split: if_splits option.splits)
  with assms(2) show ?thesis by (blast intro: same_tables_inv)
qed

section \<open>Sessions\<close>

context rule_store
begin

lemma ignore_err_step:
  assumes "ignore_err f sd = Some sd'"
    and "\<And>s d s' d' e. f (s, d) = Some ((s', d'), e) \<Longrightarrow> sess_step (s, d) (s', d')"
  shows "sess_step sd sd'"
  using assms(1) by (cases sd; cases sd') (auto simp: ignore_err_def intro: assms(2))

lemma collect_step:
  assumes "collect f st = Some st'"
    and "\<And>s d s' d' r. f (s, d) = Some ((s', d'), r) \<Longrightarrow> sess_step (s, d) (s', d')"
  shows "sess_step (fst st) (fst st')"
  using assms(1) by (cases "fst st"; cases "fst st'") (auto simp: collect_def bind_eq_Some_conv intro: assms(2))

lemma each_step:
  assumes "each f is' sd = Some sd'"
    and "\<And>i s d s' d' e. i \<in> set is' \<Longrightarrow> f i (s, d) = Some ((s', d'), e) \<Longrightarrow> sess_step (s, d) (s', d')"
  shows "sess_step sd sd'"
proof (rule foldO_invariant [OF assms(1) [unfolded each_def], where P = "\<lambda>x. sess_step sd x"])
  fix x y i
  assume "sess_step sd x" "i \<in> set is'" "ignore_err (f i) x = Some y"
  then show "sess_step sd y" by (meson ignore_err_step assms(2) sess_step_trans)
qed simp

lemma each_usage_step:
  assumes "each_usage f is' st = Some st'"
    and "\<And>i s d s' d' r. i \<in> set is' \<Longrightarrow> f i (s, d) = Some ((s', d'), r) \<Longrightarrow> sess_step (s, d) (s', d')"
  shows "sess_step (fst st) (fst st')"
proof (rule foldO_invariant [OF assms(1) [unfolded each_usage_def], where P = "\<lambda>x. sess_step (fst st) (fst x)"])
  fix x y i
  assume "sess_step (fst st) (fst x)" "i \<in> set is'" "collect (f i) x = Some y"
  then show "sess_step (fst st) (fst y)" by (meson collect_step assms(2) sess_step_trans)
qed simp

lemma each_steps:
  "each (Sess_RemoveFAR D A) xs sd = Some sd' \<Longrightarrow> sess_step sd sd'"
  "each (Sess_RemoveQER D A) xs sd = Some sd' \<Longrightarrow> sess_step sd sd'"
  "each (Sess_RemoveBAR D A) xs sd = Some sd' \<Longrightarrow> sess_step sd sd'"
  "each (Sess_UpdateFAR D A) xs sd = Some sd' \<Longrightarrow> sess_step sd sd'"
  "each (Sess_UpdateQER D A) xs sd = Some sd' \<Longrightarrow> sess_step sd sd'"
  "each (Sess_UpdateBAR D A) xs sd = Some sd' \<Longrightarrow> sess_step sd sd'"
  by (erule each_step, erule remove_steps update_steps)+

lemma each_usage_steps:
  "each_usage (Sess_RemoveURR D A) xs (sd, us) = Some (sd', us') \<Longrightarrow> sess_step sd sd'"
  "each_usage (Sess_RemovePDR D A R) xs (sd, us) = Some (sd', us') \<Longrightarrow> sess_step sd sd'"
  "each_usage (Sess_UpdateURR D A) xs (sd, us) = Some (sd', us') \<Longrightarrow> sess_step sd sd'"
  "each_usage (Sess_UpdatePDR D A R) xs (sd, us) = Some (sd', us') \<Longrightarrow> sess_step sd sd'"
  "each_usage (Sess_QueryURR D A) xs (sd, us) = Some (sd', us') \<Longrightarrow> sess_step sd sd'"
  by (drule each_usage_step, erule remove_steps update_steps, simp)+

lemma each_creates:
  "each (Sess_CreateFAR D A) xs sd = Some sd' \<Longrightarrow> \<forall>i \<in> set xs. wf (DCreate KFAR i) \<Longrightarrow> sess_step sd sd'"
  "each (Sess_CreateQER D A) xs sd = Some sd' \<Longrightarrow> \<forall>i \<in> set xs. wf (DCreate KQER i) \<Longrightarrow> sess_step sd sd'"
  "each (Sess_CreateURR D A) xs sd = Some sd' \<Longrightarrow> \<forall>i \<in> set xs. wf (DCreate KURR i) \<Longrightarrow> sess_step sd sd'"
  "each (Sess_CreateBAR D A) xs sd = Some sd' \<Longrightarrow> \<forall>i \<in> set xs. wf (DCreate KBAR i) \<Longrightarrow> sess_step sd sd'"
  "each (Sess_CreatePDR D A) xs sd = Some sd' \<Longrightarrow> \<forall>i \<in> set xs. wf (DCreate KPDR i) \<Longrightarrow> sess_step sd sd'"
  by (erule each_step, erule create_steps, erule (1) bspec)+

lemma create_chain:
  assumes "each (Sess_CreateFAR D A) fars sd = Some s1" "each (Sess_CreateQER D A) qers s1 = Some s2"
    "each (Sess_CreateURR D A) urrs s2 = Some s3" "each (Sess_CreateBAR D A) bars s3 = Some s4"
    "each (Sess_CreatePDR D A) pdrs s4 = Some s5"
    and "\<forall>i \<in> set fars. wf (DCreate KFAR i)" "\<forall>i \<in> set qers. wf (DCreate KQER i)" "\<forall>i \<in> set urrs. wf (DCreate KURR i)"
    "\<forall>i \<in> set bars. wf (DCreate KBAR i)" "\<forall>i \<in> set pdrs. wf (DCreate KPDR i)"
  shows "sess_step sd s5"
proof -
  note each_creates(1) [OF assms(1,6)] each_creates(2) [OF assms(2,7)] each_creates(3) [OF assms(3,8)]
    each_creates(4) [OF assms(4,9)] each_creates(5) [OF assms(5,10)]
  then show ?thesis by (meson sess_step_trans)
qed

lemma establish_step:
  assumes "establish_rules E req sd = Some sd'" "pe_driver E = D" "pe_api E = A"
    "msg_wf wf (SessionEstablishmentRequest req q)"
  shows "sess_step sd sd'"
proof -
  from assms(1) obtain s1 s2 s3 s4 where c:
    "each (Sess_CreateFAR D A) (er_CreateFAR req) sd = Some s1" "each (Sess_CreateQER D A) (er_CreateQER req) s1 = Some s2"
    "each (Sess_CreateURR D A) (er_CreateURR req) s2 = Some s3"
    "each (Sess_CreateBAR D A) (opt_list (er_CreateBAR req)) s3 = Some s4"
    "each (Sess_CreatePDR D A) (er_CreatePDR req) s4 = Some sd'"
    by (auto simp: establish_rules_def assms(2,3) bind_eq_Some_conv Let_def)
  show ?thesis using create_chain [OF c] assms(4) by simp
qed

lemma modify_step:
  assumes "modify_rules E req sd = Some (sd', us)" "pe_driver E = D" "pe_api E = A"
    "msg_wf wf (SessionModificationRequest i req q)"
  shows "sess_step sd sd'"
proof -
  let ?R = "pe_rng E"
  from assms(1) obtain s1 s2 s3 s4 s5 s6 s7 s8 u8 s9 s10 u10 s11 s12 s13 u13 s14 s15 u15 where
    c: "each (Sess_CreateFAR D A) (mr_CreateFAR req) sd = Some s1" "each (Sess_CreateQER D A) (mr_CreateQER req) s1 = Some s2"
      "each (Sess_CreateURR D A) (mr_CreateURR req) s2 = Some s3"
      "each (Sess_CreateBAR D A) (opt_list (mr_CreateBAR req)) s3 = Some s4"
      "each (Sess_CreatePDR D A) (mr_CreatePDR req) s4 = Some s5"
    and r: "each (Sess_RemoveFAR D A) (mr_RemoveFAR req) s5 = Some s6" "each (Sess_RemoveQER D A) (mr_RemoveQER req) s6 = Some s7"
      "each_usage (Sess_RemoveURR D A) (mr_RemoveURR req) (s7, []) = Some (s8, u8)"
      "each (Sess_RemoveBAR D A) (opt_list (mr_RemoveBAR req)) s8 = Some s9"
      "each_usage (Sess_RemovePDR D A ?R) (mr_RemovePDR req) (s9, u8) = Some (s10, u10)"
    and u: "each (Sess_UpdateFAR D A) (mr_UpdateFAR req) s10 = Some s11" "each (Sess_UpdateQER D A) (mr_UpdateQER req) s11 = Some s12"
      "each_usage (Sess_UpdateURR D A) (mr_UpdateURR req) (s12, u10) = Some (s13, u13)"
      "each (Sess_UpdateBAR D A) (opt_list (mr_UpdateBAR req)) s13 = Some s14"
      "each_usage (Sess_UpdatePDR D A ?R) (mr_UpdatePDR req) (s14, u13) = Some (s15, u15)"
      "each_usage (Sess_QueryURR D A) (mr_QueryURR req) (s15, u15) = Some (sd', us)"
    by (auto simp: modify_rules_def assms(2,3) bind_eq_Some_conv Let_def)
  have "sess_step sd s5" using create_chain [OF c] assms(4) by simp
  moreover note each_steps(1) [OF r(1)] each_steps(2) [OF r(2)] each_usage_steps(1) [OF r(3)] each_steps(3) [OF r(4)]
    each_usage_steps(2) [OF r(5)] each_steps(4) [OF u(1)] each_steps(5) [OF u(2)] each_usage_steps(3) [OF u(3)]
    each_steps(6) [OF u(4)] each_usage_steps(4) [OF u(5)] each_usage_steps(5) [OF u(6)]
  ultimately show ?thesis by (meson sess_step_trans)
qed

lemma update_server_inv:
  assumes "server_inv rules sv" "sessions sv i = Some s" "sess_step (s, nd_driver sv) (s', d')"
  shows "server_inv rules (sv\<lparr>nd_lnode := put_sess s' (nd_lnode sv), nd_driver := d'\<rparr>)"
  using update_inv(1) [OF server_invD(1) [OF assms(1)] assms(2,3)] server_invD(2,3) [OF assms(1)]
  by (rule update_rnodes_inv [rotated 2])

lemma Establishment_inv:
  assumes "handleSessionEstablishmentRequest E req q addr sv = Some sv'" "server_inv rules sv"
    and E: "pe_driver E = D" "pe_api E = A" and req: "msg_wf wf (SessionEstablishmentRequest req q)"
  shows "server_inv rules sv'"
proof (cases "sv' = sv")
  case False
  with assms(1) obtain a seid sv1 s s' d' m where
    new: "RemoteNode_NewSess a seid sv = Some (sv1, s)" and est: "establish_rules E req (s, nd_driver sv1) = Some (s', d')"
    and sv': "sv' = fst (sendRspTo E m addr (sv1\<lparr>nd_lnode := put_sess s' (nd_lnode sv1), nd_driver := d'\<rparr>))"
    by (auto simp: handleSessionEstablishmentRequest_def bind_eq_Some_conv Let_def split: option.splits sum.splits)
  note inv = server_invD [OF assms(2)]
  note new' = NewSess_inv [OF inv(1) new]
  from new obtain n ln where n: "nd_heap sv a = Some n" and sv1: "sv1 = sv\<lparr>nd_lnode := ln,
      nd_heap := (nd_heap sv)(a \<mapsto> n\<lparr>rn_sess := insert (s_LocalID s) (rn_sess n)\<rparr>)\<rparr>"
    by (auto simp: RemoteNode_NewSess_def bind_eq_Some_conv Let_def)
  have "server_inv rules sv1"
    using new'(1) rnodes_ok_heap [OF inv(2) n, of sv1] inv(3) by (simp add: server_inv_def trans_ok_def sv1)
  moreover have "sessions sv1 (s_LocalID s) = Some s" using new'(3) by simp
  ultimately show ?thesis
    unfolding sv' using establish_step [OF est E req] by (blast intro: sendRspTo_inv update_server_inv)
qed (use assms in simp)

lemma UpdateNodeID_inv:
  assumes "UpdateNodeID a nid sv = Some sv'" "server_inv rules sv"
  shows "server_inv rules sv'" "sessions sv' = sessions sv" "nd_driver sv' = nd_driver sv"
proof -
  from assms(1) obtain n where n: "nd_heap sv a = Some n"
    and sv': "sv' = sv\<lparr>sv_rnodes := (sv_rnodes sv)(rn_ID n := None, nid \<mapsto> a), nd_heap := (nd_heap sv)(a \<mapsto> n\<lparr>rn_ID := nid\<rparr>)\<rparr>"
    by (auto simp: UpdateNodeID_def bind_eq_Some_conv)
  show ses: "sessions sv' = sessions sv" and "nd_driver sv' = nd_driver sv" by (simp_all add: sv' sessions_def)
  note inv = server_invD [OF assms(2)]
  note own = ownedD [OF nodes_invD(2) [OF inv(1)]]
  have heap: "\<exists>m. nd_heap sv b = Some m \<and> rn_sess m = rn_sess m'" if "nd_heap sv' b = Some m'" for b m'
    using that n by (auto simp: sv' split: if_splits)
  have "owned sv'"
  proof (rule ownedI)
    show "\<exists>m. nd_heap sv' (s_rnode t) = Some m \<and> j \<in> rn_sess m" if "sessions sv' j = Some t" for j t
      using own(1) [of j t] that n unfolding ses by (auto simp: sv')
    show "\<exists>t. sessions sv' j = Some t \<and> s_rnode t = b" if "nd_heap sv' b = Some m'" "j \<in> rn_sess m'" for b m' j
      using heap [OF that(1)] that(2) own(2) unfolding ses by metis
  qed
  moreover have "rules_tracked rules sv'" using nodes_invD(3) [OF inv(1)] by (simp add: rules_tracked_def ses) (simp add: sv')
  moreover have "nd_heap sv' b = None" if "nd_next sv' \<le> b" for b
    using nodes_invD(4) [OF inv(1), of b] that n by (auto simp: sv')
  moreover have "ln_wf (nd_lnode sv')" using nodes_invD(1) [OF inv(1)] by (simp add: sv')
  moreover have "rnodes_ok sv'" using inv(2) n by (fastforce simp: rnodes_ok_def sv')
  moreover have "trans_ok sv'" using inv(3) by (simp add: trans_ok_def sv')
  ultimately show "server_inv rules sv'" by (simp add: server_inv_def nodes_inv_def)
qed

lemma Modification_inv:
  assumes "handleSessionModificationRequest E i req q addr sv = Some sv'" "server_inv rules sv"
    and E: "pe_driver E = D" "pe_api E = A" and req: "msg_wf wf (SessionModificationRequest i req q)"
  shows "server_inv rules sv'"
proof (cases "LocalNode_Sess i (nd_lnode sv)")
  case (Inr s)
  then have s: "sessions sv i = Some s" by (simp add: lookup_sessions)
  from assms(1) Inr obtain sv1 go where
    upd: "(case mr_NodeID req of
             Some nodeIE \<Rightarrow>
               (case ie_string (pe_api E) A_NodeID nodeIE of
                  Inl _ \<Rightarrow> Some (sv, False)
                | Inr rnodeid \<Rightarrow> map_option (\<lambda>sv. (sv, True)) (UpdateNodeID (s_rnode s) rnodeid sv))
           | None \<Rightarrow> Some (sv, True)) = Some (sv1, go)"
    and rest: "(if \<not> go then Some sv1 else do {
             ((sess, d), usars) \<leftarrow> modify_rules E req (s, nd_driver sv1);
             let (sess', usage) = foldl (usage_report_step IEsWithinSessModRsp True) (sess, []) usars;
             let sv = sv1\<lparr>nd_lnode := put_sess sess' (nd_lnode sv1), nd_driver := d\<rparr>;
             let rsp = SessionModificationResponse (s_RemoteID sess) q [NewCause CauseRequestAccepted] usage;
             Some (fst (sendRspTo E rsp addr sv))
           }) = Some sv'"
    by (auto simp: handleSessionModificationRequest_def bind_eq_Some_conv)
  have inv: "server_inv rules sv1" and s1: "sessions sv1 i = Some s"
    using upd s assms(2) by (auto split: option.splits sum.splits dest: UpdateNodeID_inv)
  show ?thesis
  proof (cases go)
    case True
    with rest obtain t d us where mod: "modify_rules E req (s, nd_driver sv1) = Some ((t, d), us)"
      by (auto simp: bind_eq_Some_conv)
    obtain t' out where out: "foldl (usage_report_step IEsWithinSessModRsp True) (t, []) us = (t', out)" by fastforce
    with True rest mod obtain m where
      sv': "sv' = fst (sendRspTo E m addr (sv1\<lparr>nd_lnode := put_sess t' (nd_lnode sv1), nd_driver := d\<rparr>))"
      by (auto simp: Let_def)
    have "sess_step (s, nd_driver sv1) (t', d)"
      using modify_step [OF mod E req] usage_report_loop [OF out] by (auto simp: sess_step_def intro: same_sess_trans)
    with inv s1 show ?thesis unfolding sv' by (blast intro: sendRspTo_inv update_server_inv)
  qed (use rest inv in simp)
qed (use assms in \<open>auto simp: handleSessionModificationRequest_def intro: sendRspTo_inv\<close>)

lemma delete_server_inv:
  assumes "RemoteNode_DeleteSess D A R (s_rnode s) i sv = Some (sv', cl, us)" "server_inv rules sv" "sessions sv i = Some s"
    and lib: "remove_ies_ok A" "go_ranges R"
  shows "server_inv rules sv'" "sessions sv' = (sessions sv)(i := None)" "rules (nd_driver sv') i = {}"
    "\<exists>s'. cl = Some s' \<and> Sess_Close D A R (s, nd_driver sv) = Some ((s', nd_driver sv'), us)"
    "\<forall>j. j \<noteq> i \<longrightarrow> rules (nd_driver sv') j = rules (nd_driver sv) j"
proof -
  note inv = server_invD [OF assms(2)]
  from ownedD(1) [OF nodes_invD(2) [OF inv(1)] assms(3)] obtain n where
    n: "nd_heap sv (s_rnode s) = Some n" "i \<in> rn_sess n" by blast
  note del = DeleteSess_inv [OF inv(1) assms(1) lib n]
  show "sessions sv' = (sessions sv)(i := None)" "rules (nd_driver sv') i = {}"
    "\<exists>s'. cl = Some s' \<and> Sess_Close D A R (s, nd_driver sv) = Some ((s', nd_driver sv'), us)"
    "\<forall>j. j \<noteq> i \<longrightarrow> rules (nd_driver sv') j = rules (nd_driver sv) j"
    using del(2,3,6,7) assms(3) by auto
  have "sv_rnodes sv' = sv_rnodes sv" "sv_txTrans sv' = sv_txTrans sv" "sv_rxTrans sv' = sv_rxTrans sv"
    using assms(1) nodes_change_fields [OF DeleteSess_frame] by blast+
  with del(1) inv(3) rnodes_ok_heap [OF inv(2) n(1) del(4)] show "server_inv rules sv'"
    by (simp add: server_inv_def trans_ok_def)
qed

lemma Deletion_inv:
  assumes "handleSessionDeletionRequest E i q addr sv = Some sv'" "server_inv rules sv"
    and E: "pe_driver E = D" "pe_api E = A" and lib: "remove_ies_ok A" "go_ranges (pe_rng E)"
  shows "server_inv rules sv'"
proof (cases "LocalNode_Sess i (nd_lnode sv)")
  case (Inr s)
  with assms(1) obtain sv1 cl us where del: "RemoteNode_DeleteSess D A (pe_rng E) (s_rnode s) i sv = Some (sv1, cl, us)"
    by (auto simp: handleSessionDeletionRequest_def E bind_eq_Some_conv)
  note d = delete_server_inv [OF del assms(2) _ lib] lookup_sessions [THEN iffD1, OF Inr]
  then obtain c where "cl = Some c" by blast
  with assms(1) Inr del obtain m where "sv' = fst (sendRspTo E m addr sv1)"
    by (auto simp: handleSessionDeletionRequest_def E Let_def split: prod.splits)
  with d show ?thesis by (simp add: sendRspTo_inv)
qed (use assms in \<open>auto simp: handleSessionDeletionRequest_def intro: sendRspTo_inv\<close>)

lemma ReportResponse_inv:
  assumes "handleSessionReportResponse E i addr req sv = Some sv'" "server_inv rules sv"
    and E: "pe_driver E = D" "pe_api E = A" and lib: "remove_ies_ok A" "go_ranges (pe_rng E)"
  shows "server_inv rules sv'"
proof (cases "sv' = sv")
  case False
  with assms(1) obtain m r' where i: "i = 0" "req = Some m" "RemoteSess (msg_SEID m) addr sv = Some r'"
    by (auto simp: handleSessionReportResponse_def bind_eq_Some_conv split: if_splits)
  with False assms(1) obtain r s cl us where sess: "RemoteSess r addr sv = Some (Inr s)"
    and del: "RemoteNode_DeleteSess D A (pe_rng E) (s_rnode s) (s_LocalID s) sv = Some (sv', cl, us)"
    by (cases r') (auto simp: handleSessionReportResponse_def E)
  have "Some s \<in> set (ln_sess (nd_lnode sv))"
    using sess unfolding RemoteSess_def by (rule remote_loop_live)
  then have "sessions sv (s_LocalID s) = Some s"
    using sessions_live [OF server_invD(1) [OF assms(2)]] by simp
  from delete_server_inv(1) [OF del assms(2) this lib] show ?thesis .
qed (use assms in simp)

lemma reset_server_inv:
  assumes "RemoteNode_Reset D A R a sv = Some sv'" "server_inv rules sv" "sv_rnodes sv nid = Some a"
    and lib: "remove_ies_ok A" "go_ranges R"
  shows "server_inv rules (sv'\<lparr>sv_rnodes := (sv_rnodes sv')(nid := None)\<rparr>)"
proof -
  note inv = server_invD [OF assms(2)]
  from inv(2) assms(3) obtain n where n: "nd_heap sv a = Some n" by (auto simp: rnodes_ok_def)
  note reset = Reset_inv [OF inv(1) assms(1) lib n]
  note same = nodes_change_fields [OF Reset_frame [OF assms(1)]]
  have "nodes_inv rules (sv'\<lparr>sv_rnodes := (sv_rnodes sv')(nid := None)\<rparr>)"
    using reset(1) by (subst nodes_inv_cong [of _ sv']) simp_all
  moreover have "rnodes_ok (sv'\<lparr>sv_rnodes := (sv_rnodes sv')(nid := None)\<rparr>)"
    using rnodes_ok_heap [OF inv(2) n, of "sv'\<lparr>sv_rnodes := (sv_rnodes sv')(nid := None)\<rparr>" "{}"] same reset(3)
    by (auto simp: map_le_def)
  ultimately show ?thesis using inv(3) same by (simp add: server_inv_def trans_ok_def)
qed

lemma AssociationSetup_inv:
  assumes "handleAssociationSetupRequest E nid rec q addr sv = Some sv'" "server_inv rules sv"
    and E: "pe_driver E = D" "pe_api E = A" and lib: "remove_ies_ok A" "go_ranges (pe_rng E)"
  shows "server_inv rules sv'"
proof (cases "sv' = sv")
  case False
  with assms(1) obtain nie i ts where req: "nid = Some nie" "ie_string (pe_api E) A_NodeID nie = Inr i" "i \<noteq> ''''"
    "rec = Some ts" "\<exists>t. pe_RecoveryTimeStamp E ts = Inr t"
    by (auto simp: handleAssociationSetupRequest_def split: option.split_asm sum.split_asm if_split_asm)
  obtain sv1 where
    sv1: "(case sv_rnodes sv i of None \<Rightarrow> Some sv
           | Some a \<Rightarrow> map_option (\<lambda>sv. sv\<lparr>sv_rnodes := (sv_rnodes sv)(i := None)\<rparr>)
               (RemoteNode_Reset (pe_driver E) (pe_api E) (pe_rng E) a sv)) = Some sv1"
    using assms(1) req by (auto simp: handleAssociationSetupRequest_def bind_eq_Some_conv)
  obtain sv2 a where sv2: "NewNode i addr sv1 = (sv2, a)" by fastforce
  with assms(1) req sv1 obtain m where
    sv': "sv' = fst (sendRspTo E m addr (sv2\<lparr>sv_rnodes := (sv_rnodes sv2)(i \<mapsto> a)\<rparr>))"
    by (auto simp: handleAssociationSetupRequest_def Let_def)
  have "server_inv rules sv1"
    using sv1 [unfolded E] assms(2) reset_server_inv [OF _ assms(2) _ lib] by (auto split: option.splits)
  with NewNode_inv(1) [OF _ sv2] show ?thesis by (simp add: sv' sendRspTo_inv)
qed (use assms in simp)

text \<open>Every event keeps the invariant.\<close>

lemma reqDispacher_inv:
  assumes "reqDispacher E m addr sv = Some sv'" "server_inv rules sv" "msg_wf wf m"
    and E: "pe_driver E = D" "pe_api E = A" and lib: "remove_ies_ok A" "go_ranges (pe_rng E)"
  shows "server_inv rules sv'"
  using assms
  by (cases m) (auto simp: handleHeartbeatRequest_def intro: sendRspTo_inv AssociationSetup_inv Establishment_inv
      Modification_inv Deletion_inv)

lemma handle_packet_inv:
  assumes "handle_packet E addr buf sv = Some sv'" "server_inv rules sv" "\<forall>m. pe_Parse E buf = Inr m \<longrightarrow> msg_wf wf m"
    and E: "pe_driver E = D" "pe_api E = A" and lib: "remove_ies_ok A" "go_ranges (pe_rng E)"
  shows "server_inv rules sv'"
proof (cases "pe_Parse E buf")
  case (Inr m)
  let ?i = "trID addr (msg_Sequence m)"
  note same = same_tables_inv [OF _ _ assms(2)]
  note t = server_invD(3) [OF assms(2)]
  consider "sv' = sv" | "isRequest m" "sv_rxTrans sv ?i = None" "validatePfcpPacketLength buf = None"
    | rx where "isRequest m" "sv_rxTrans sv ?i = Some rx" "validatePfcpPacketLength buf = None"
    | tx where "\<not> isRequest m" "isResponse m" "sv_txTrans sv ?i = Some tx" "validatePfcpPacketLength buf = None"
    using assms(1) Inr by (auto simp: handle_packet_def Let_def split: if_splits option.splits)
  then show ?thesis
  proof cases
    case 2
    let ?sv = "sv\<lparr>sv_rxTrans := (sv_rxTrans sv)(?i \<mapsto> NewRxTransaction sv addr (msg_Sequence m))\<rparr>"
    have "server_inv rules ?sv"
      by (rule same) (use t in \<open>auto simp: same_tables_def trans_ok_def NewRxTransaction_def Let_def\<close>)
    moreover have "reqDispacher E m addr ?sv = Some sv'"
      using 2 assms(1) Inr by (simp add: handle_packet_def Let_def rx_recv_def)
    ultimately show ?thesis using assms(3) Inr reqDispacher_inv [OF _ _ _ E lib] by blast
  next
    case 3
    with assms(1) Inr t show ?thesis
      by (auto simp: handle_packet_def Let_def rx_recv_def intro!: same split: if_splits)
  next
    case 4
    let ?sv = "sv\<lparr>sv_txTrans := (sv_txTrans sv)(tx_id tx := None)\<rparr>"
    have inv: "server_inv rules ?sv" by (rule same) (use t in \<open>auto simp: same_tables_def trans_ok_def\<close>)
    have rsp: "rspDispacher E m addr (tx_req tx) ?sv = Some sv'"
      using 4 assms(1) Inr by (auto simp: handle_packet_def Let_def tx_recv_def split: option.splits)
    show ?thesis
    proof (cases "sv' = ?sv")
      case False
      with rsp obtain i q where "m = SessionReportResponse i q" by (cases m) auto
      with rsp ReportResponse_inv [OF _ inv E lib] show ?thesis by simp
    qed (use inv in simp)
  qed (use assms in simp)
qed (use assms in \<open>simp add: handle_packet_def\<close>)

theorem main_step_inv:
  assumes "main_step E ev sv = Some sv'" "server_inv rules sv" "event_wf wf E ev"
    and E: "pe_driver E = D" "pe_api E = A" and lib: "remove_ies_ok A" "go_ranges (pe_rng E)"
  shows "server_inv rules sv'"
proof (cases "sv_stopped sv")
  case False
  note t = server_invD(3) [OF assms(2)]
  from False assms(1) have step: "serve E ev sv = Some sv'" by (simp add: main_step_def)
  show ?thesis
  proof (cases ev)
    case (EvReport sr)
    with step assms(2) ServeReport_inv show ?thesis by simp
  next
    case (EvPacket addr buf)
    show ?thesis
    proof (cases "buf = []")
      case True
      have "nodes_inv rules ((stopTrTimers sv)\<lparr>sv_stopped := True\<rparr>) = nodes_inv rules sv"
        by (rule nodes_inv_cong) (simp_all add: stopTrTimers_def)
      then have "server_inv rules ((stopTrTimers sv)\<lparr>sv_stopped := True\<rparr>)"
        using assms(2) by (auto simp: server_inv_def rnodes_ok_def trans_ok_def stopTrTimers_def)
      with True EvPacket step show ?thesis by simp
    qed (use EvPacket step assms handle_packet_inv in simp)
  next
    case (EvTxTimeout i)
    with step assms(2) tx_handleTimeout_inv show ?thesis by (auto split: option.splits)
  next
    case (EvRxTimeout i)
    have "server_inv rules (rx_handleTimeout rx sv)" for rx
      by (rule same_tables_inv [OF _ _ assms(2)]) (use t in \<open>auto simp: rx_handleTimeout_def same_tables_def trans_ok_def\<close>)
    with EvRxTimeout step assms(2) show ?thesis by (auto split: option.splits)
  qed
qed (use assms in \<open>simp add: main_step_def\<close>)

end

text \<open>The server starts with the invariant, if the driver starts with no rules.\<close>

lemma NewPfcpServer_inv:
  assumes "\<And>i. rules d i = {}"
  shows "server_inv rules (NewPfcpServer nid rt mr now d)"
  using assms ln_wf_empty
  by (auto simp: server_inv_def nodes_inv_def owned_def rules_tracked_def rnodes_ok_def trans_ok_def NewPfcpServer_def
      sessions_def ln_abs_def LocalNode_Sess_def word_neq_0_conv)

text \<open>What happens between two turns of the main loop.\<close>

lemma Pop_frame:
  "s_LocalID (fst (Sess_Pop p s)) = s_LocalID s" "s_rnode (fst (Sess_Pop p s)) = s_rnode s" "tracked (fst (Sess_Pop p s)) = tracked s"
  by (simp_all add: Sess_Pop_def split: option.split list.split)

lemma PopBufPkt_inv: "server_inv rules sv \<Longrightarrow> server_inv rules (fst (PopBufPkt i p sv))"
  by (auto simp: PopBufPkt_def case_prod_unfold Let_def lookup_sessions Pop_frame split: sum.split intro: put_same_server_inv)

lemma server_inv_driver:
  assumes "server_inv rules sv" "rules d' = rules (nd_driver sv)"
  shows "server_inv rules (sv\<lparr>nd_driver := d'\<rparr>)"
  using assms by (simp add: server_inv_def nodes_inv_def rules_tracked_def owned_def sessions_def rnodes_ok_def trans_ok_def)

end
