(* ===== verification/Driver_Keeps.thy ===== *)
theory Driver_Keeps
  imports Pfcp_Inv
begin

text \<open>
  A second contract between the PFCP server and its driver: a property of the driver's own state that
  every operation of the interface keeps. The server touches the driver only through the interface, so every
  event keeps it too. Interpreted on the userspace forwarder (\<open>Pfcp_System\<close>) with its reachability.
\<close>

section \<open>What does not touch the driver\<close>

lemma send_driver [simp]:
  "nd_driver (fst (sendRspTo E m addr sv)) = nd_driver sv" "nd_driver (fst (sendReqTo E m addr sv)) = nd_driver sv"
  by (auto simp: sendRspTo_def rx_send_def sendReqTo_def tx_send_def put_tx_def write_to_def Let_def
      split: option.splits sum.splits)

lemma serve_loop_driver [simp]: "nd_driver (fst (serve_loop E laddr i rs us sv)) = nd_driver sv"
proof (induction E laddr i rs us sv rule: serve_loop.induct)
  case (3 E laddr i r rs us sv)
  define sv1 where "sv1 = (if dld_Action r AND APPLY_ACT_BUFF \<noteq> 0 \<and> dld_BufPkt r \<noteq> [] then
      (case LocalNode_Sess i (nd_lnode sv) of Inl _ \<Rightarrow> sv
       | Inr s \<Rightarrow> sv\<lparr>nd_lnode := put_sess (Sess_Push (dld_PDRID r) (dld_BufPkt r) s) (nd_lnode sv)\<rparr>) else sv)"
  have "nd_driver sv1 = nd_driver sv" by (simp add: sv1_def split: sum.split)
  with 3 [OF sv1_def] show ?case
    by (simp add: Let_def flip: sv1_def) (simp add: serveDLDReport_def split: sum.split)
qed simp_all

lemma serveUSAReport_driver [simp]: "nd_driver (fst (serveUSAReport E addr i us sv)) = nd_driver sv"
  by (simp add: serveUSAReport_def Let_def split: sum.split prod.split)

lemma ServeReport_driver:
  assumes "ServeReport E sr sv = Some sv'"
  shows "nd_driver sv' = nd_driver sv"
proof (cases "LocalNode_Sess (sr_SEID sr) (nd_lnode sv)")
  case (Inr s)
  with assms obtain n where n: "nd_heap sv (s_rnode s) = Some n" by (auto simp: ServeReport_def bind_eq_Some_conv)
  show ?thesis
  proof (cases "pe_ResolveUDPAddr E (rn_ID n @ '':'' @ dec_string UpfPfcpDefaultPort)")
    case laddr: (Inr laddr)
    obtain sv1 o' where loop: "serve_loop E laddr (sr_SEID sr) (sr_Reports sr) [] sv = (sv1, o')" by fastforce
    with serve_loop_driver [of E laddr] have "nd_driver sv1 = nd_driver sv" by (metis fst_conv)
    with assms Inr n laddr loop show ?thesis by (auto simp: ServeReport_def split: option.splits)
  qed (use assms Inr n in \<open>simp add: ServeReport_def\<close>)
qed (use assms in \<open>simp add: ServeReport_def\<close>)

lemma tx_handleTimeout_driver: "tx_handleTimeout tx sv = Some sv' \<Longrightarrow> nd_driver sv' = nd_driver sv"
  by (auto simp: tx_handleTimeout_def txtoDispacher_def put_tx_def write_to_def Let_def split: if_splits option.splits)

section \<open>The contract\<close>

locale driver_keeps =
  fixes D :: "('ie, 'd) driver_api" and P :: "'d \<Rightarrow> bool"
  assumes keeps: "run D op i d = Some (d', ok) \<Longrightarrow> P d \<Longrightarrow> P d'"
begin

lemmas op_keeps = run_intros [THEN keeps]

lemma Create_keeps:
  "Sess_CreatePDR D A req sd = Some (sd', e) \<Longrightarrow> P (snd sd) \<Longrightarrow> P (snd sd')"
  "Sess_CreateFAR D A req sd = Some (sd', e) \<Longrightarrow> P (snd sd) \<Longrightarrow> P (snd sd')"
  "Sess_CreateQER D A req sd = Some (sd', e) \<Longrightarrow> P (snd sd) \<Longrightarrow> P (snd sd')"
  "Sess_CreateURR D A req sd = Some (sd', e) \<Longrightarrow> P (snd sd) \<Longrightarrow> P (snd sd')"
  "Sess_CreateBAR D A req sd = Some (sd', e) \<Longrightarrow> P (snd sd) \<Longrightarrow> P (snd sd')"
  by (auto simp: Sess_CreatePDR_def Sess_CreateFAR_def Sess_CreateQER_def Sess_CreateURR_def Sess_CreateBAR_def
      bind_eq_Some_conv Let_def split: sum.splits prod.splits dest: op_keeps)

lemma Update_keeps:
  "Sess_UpdateFAR D A req sd = Some (sd', e) \<Longrightarrow> P (snd sd) \<Longrightarrow> P (snd sd')"
  "Sess_UpdateQER D A req sd = Some (sd', e) \<Longrightarrow> P (snd sd) \<Longrightarrow> P (snd sd')"
  "Sess_UpdateURR D A req sd = Some (sd', r) \<Longrightarrow> P (snd sd) \<Longrightarrow> P (snd sd')"
  "Sess_UpdateBAR D A req sd = Some (sd', e) \<Longrightarrow> P (snd sd) \<Longrightarrow> P (snd sd')"
  "Sess_QueryURR D A req sd = Some (sd', r) \<Longrightarrow> P (snd sd) \<Longrightarrow> P (snd sd')"
  by (auto simp: Sess_UpdateFAR_def Sess_UpdateQER_def Sess_UpdateURR_def Sess_UpdateBAR_def Sess_QueryURR_def
      bind_eq_Some_conv Let_def split: sum.splits prod.splits if_splits option.splits dest: op_keeps)

lemma Remove_keeps:
  "Sess_RemoveFAR D A req sd = Some (sd', e) \<Longrightarrow> P (snd sd) \<Longrightarrow> P (snd sd')"
  "Sess_RemoveQER D A req sd = Some (sd', e) \<Longrightarrow> P (snd sd) \<Longrightarrow> P (snd sd')"
  "Sess_RemoveURR D A req sd = Some (sd', r) \<Longrightarrow> P (snd sd) \<Longrightarrow> P (snd sd')"
  "Sess_RemoveBAR D A req sd = Some (sd', e) \<Longrightarrow> P (snd sd) \<Longrightarrow> P (snd sd')"
  by (auto simp: Sess_RemoveFAR_def Sess_RemoveQER_def Sess_RemoveURR_def Sess_RemoveBAR_def
      bind_eq_Some_conv Let_def split: sum.splits prod.splits if_splits option.splits dest: op_keeps)

lemma diassociate_keeps:
  assumes "diassociate_step D st u = Some st'" "P (snd (fst st))"
  shows "P (snd (fst st'))"
  using assms
  by (auto simp: diassociate_step_def diassociateURR_def bind_eq_Some_conv Let_def
      split: prod.splits if_splits option.splits dest: op_keeps)

lemma diassociate_loop_keeps:
  assumes "foldO (\<lambda>st u. if u \<in> X then Some st else diassociate_step D st u) st us = Some st'" "P (snd (fst st))"
  shows "P (snd (fst st'))"
  by (rule foldO_invariant [OF assms(1), where P = "\<lambda>st. P (snd (fst st))", OF assms(2)])
     (auto split: if_splits intro: diassociate_keeps)

lemma UpdatePDR_keeps:
  assumes "Sess_UpdatePDR D A R req (s, d) = Some ((s', d'), r)" "P d"
  shows "P d'"
proof (cases "ie_group A G_UpdatePDR req")
  case (Inr ies)
  obtain p us where loop: "foldl (update_pdr_step A) (0, {}) ies = (p, us)" by fastforce
  show ?thesis
  proof (cases "s_PDRIDs s p")
    case (Some info)
    with assms(1) Inr loop obtain d1 e where d1: "dr_UpdatePDR D (s_LocalID s) req d = Some (d1, e)"
      by (auto simp: Sess_UpdatePDR_def bind_eq_Some_conv)
    from op_keeps(6) [OF d1 assms(2)] have "P d1" .
    with assms(1) Inr loop Some d1 show ?thesis
      by (cases e) (auto simp: Sess_UpdatePDR_def bind_eq_Some_conv dest!: diassociate_loop_keeps)
  qed (use assms Inr loop in \<open>auto simp: Sess_UpdatePDR_def\<close>)
qed (use assms in \<open>auto simp: Sess_UpdatePDR_def\<close>)

lemma RemovePDR_keeps:
  assumes "Sess_RemovePDR D A R req (s, d) = Some ((s', d'), r)" "P d"
  shows "P d'"
proof (cases "ie_PDRID A req")
  case (Inr x)
  show ?thesis
  proof (cases "s_PDRIDs s x")
    case (Some info)
    with assms(1) Inr obtain d1 e where d1: "dr_RemovePDR D (s_LocalID s) req d = Some (d1, e)"
      by (auto simp: Sess_RemovePDR_def bind_eq_Some_conv)
    from op_keeps(11) [OF d1 assms(2)] have "P d1" .
    with assms(1) Inr Some d1 show ?thesis
      by (cases e) (auto simp: Sess_RemovePDR_def bind_eq_Some_conv dest!: diassociate_loop_keeps [where X = "{}", simplified])
  qed (use assms Inr in \<open>auto simp: Sess_RemovePDR_def\<close>)
qed (use assms in \<open>auto simp: Sess_RemovePDR_def\<close>)

lemma PDR_keeps:
  "Sess_UpdatePDR D A R req sd = Some (sd', r) \<Longrightarrow> P (snd sd) \<Longrightarrow> P (snd sd')"
  "Sess_RemovePDR D A R req sd = Some (sd', r) \<Longrightarrow> P (snd sd) \<Longrightarrow> P (snd sd')"
  using UpdatePDR_keeps RemovePDR_keeps by (cases sd; cases sd'; auto)+

text \<open>Loops of operations.\<close>

lemma ignore_err_keeps:
  assumes "foldO (\<lambda>sd i. ignore_err (f i) sd) sd xs = Some sd'" "P (snd sd)"
    and "\<And>i sd sd' e. f i sd = Some (sd', e) \<Longrightarrow> P (snd sd) \<Longrightarrow> P (snd sd')"
  shows "P (snd sd')"
proof (rule foldO_invariant [OF assms(1), where P = "\<lambda>sd. P (snd sd)", OF assms(2)])
  fix x i y
  assume "P (snd x)" "ignore_err (f i) x = Some y"
  with assms(3) [of i x] show "P (snd y)" by (auto simp: ignore_err_def)
qed

lemma collect_keeps:
  assumes "foldO (\<lambda>st i. collect (f i) st) st xs = Some st'" "P (snd (fst st))"
    and "\<And>i sd sd' r. f i sd = Some (sd', r) \<Longrightarrow> P (snd sd) \<Longrightarrow> P (snd sd')"
  shows "P (snd (fst st'))"
proof (rule foldO_invariant [OF assms(1), where P = "\<lambda>st. P (snd (fst st))", OF assms(2)])
  fix x i y
  assume "P (snd (fst x))" "collect (f i) x = Some y"
  with assms(3) [of i "fst x"] show "P (snd (fst y))" by (auto simp: collect_def bind_eq_Some_conv)
qed

lemmas sess_keeps = Create_keeps Update_keeps Remove_keeps PDR_keeps

lemma Close_keeps:
  assumes "Sess_Close D A R sd = Some (sd', us)" "P (snd sd)"
  shows "P (snd sd')"
proof -
  from assms(1) obtain sd1 sd2 sd3 us3 sd4 where
    l: "foldO (\<lambda>sd x. ignore_err (Sess_RemoveFAR D A (ie_NewRemoveFAR A x)) sd) sd (rng32 R (s_FARIDs (fst sd))) = Some sd1"
      "foldO (\<lambda>sd x. ignore_err (Sess_RemoveQER D A (ie_NewRemoveQER A x)) sd) sd1 (rng32 R (s_QERIDs (fst sd1))) = Some sd2"
      "foldO (\<lambda>st x. collect (Sess_RemoveURR D A (ie_NewRemoveURR A x)) st) (sd2, [])
        (rng32 R (dom (s_URRIDs (fst sd2)))) = Some (sd3, us3)"
      "foldO (\<lambda>sd x. ignore_err (Sess_RemoveBAR D A (ie_NewRemoveBAR A x)) sd) sd3 (rng8 R (s_BARIDs (fst sd3))) = Some sd4"
      "foldO (\<lambda>st x. collect (Sess_RemovePDR D A R (ie_NewRemovePDR A x)) st) (sd4, us3)
        (rng16 R (dom (s_PDRIDs (fst sd4)))) = Some (sd', us)"
    by (auto simp: Sess_Close_def bind_eq_Some_conv)
  have "P (snd sd1)" using l(1) assms(2) by (rule ignore_err_keeps) (erule sess_keeps)
  with l(2) have "P (snd sd2)" by (rule ignore_err_keeps) (erule sess_keeps)
  then have "P (snd (fst (sd2, [] :: USAReport list)))" by simp
  with l(3) have "P (snd (fst (sd3, us3)))" by (rule collect_keeps) (erule sess_keeps)
  then have "P (snd sd3)" by simp
  with l(4) have "P (snd sd4)" by (rule ignore_err_keeps) (erule sess_keeps)
  then have "P (snd (fst (sd4, us3)))" by simp
  with l(5) have "P (snd (fst (sd', us)))" by (rule collect_keeps) (erule sess_keeps)
  then show ?thesis by simp
qed

text \<open>The tables.\<close>

lemma DeleteSess_keeps:
  assumes "RemoteNode_DeleteSess D A R a i st = Some (st', c, us)" "P (nd_driver st)"
  shows "P (nd_driver st')"
proof (cases "nd_heap st a")
  case (Some n)
  show ?thesis
  proof (cases "i \<in> rn_sess n")
    case True
    with Some assms(1) obtain ln d r where del: "LocalNode_DeleteSess D A R i (nd_lnode st, nd_driver st) = Some ((ln, d), r)"
      by (auto simp: RemoteNode_DeleteSess_def bind_eq_Some_conv)
    have "P d"
      using del assms(2)
      by (auto simp: LocalNode_DeleteSess_def Let_def bind_eq_Some_conv split: if_splits option.splits dest: Close_keeps)
    with True Some assms(1) del show ?thesis
      by (cases r) (auto simp: RemoteNode_DeleteSess_def)
  qed (use Some assms in \<open>simp add: RemoteNode_DeleteSess_def\<close>)
qed (use assms in \<open>simp add: RemoteNode_DeleteSess_def\<close>)

lemma Reset_keeps:
  assumes "RemoteNode_Reset D A R a st = Some st'" "P (nd_driver st)"
  shows "P (nd_driver st')"
proof -
  obtain X st1 h where
    loop: "foldO (\<lambda>st i. map_option fst (RemoteNode_DeleteSess D A R a i st)) st (rng64 R X) = Some st1"
    and st': "st' = st1\<lparr>nd_heap := h\<rparr>"
    using assms(1) unfolding RemoteNode_Reset_def bind_eq_Some_conv option.inject by (elim exE conjE) (erule that, erule sym)
  have "P (nd_driver st1)"
    by (rule foldO_invariant [OF loop, where P = "\<lambda>st. P (nd_driver st)", OF assms(2)]) (auto dest: DeleteSess_keeps)
  then show ?thesis by (simp add: st')
qed

text \<open>The handlers.\<close>

lemma each_keeps:
  "each f xs sd \<bind> k = Some r \<Longrightarrow> P (snd sd) \<Longrightarrow> (\<And>i sd sd' e. f i sd = Some (sd', e) \<Longrightarrow> P (snd sd) \<Longrightarrow> P (snd sd')) \<Longrightarrow>
     (\<And>sd'. k sd' = Some r \<Longrightarrow> P (snd sd') \<Longrightarrow> Q) \<Longrightarrow> Q"
  unfolding each_def bind_eq_Some_conv using ignore_err_keeps by blast

lemma each_usage_keeps:
  assumes "each_usage f xs (sd, us) \<bind> (\<lambda>(sd, us). k sd us) = Some r" "P (snd sd)"
    and "\<And>i sd sd' e. f i sd = Some (sd', e) \<Longrightarrow> P (snd sd) \<Longrightarrow> P (snd sd')"
    and "\<And>sd' us. k sd' us = Some r \<Longrightarrow> P (snd sd') \<Longrightarrow> Q"
  shows Q
proof -
  from assms(1) obtain sd' us' where "each_usage f xs (sd, us) = Some (sd', us')" "k sd' us' = Some r"
    by (auto simp: bind_eq_Some_conv)
  with collect_keeps [of f "(sd, us)" xs "(sd', us')"] assms(2-) show Q by (simp add: each_usage_def)
qed

lemma establish_keeps:
  assumes "establish_rules E req sd = Some sd'" "pe_driver E = D" "P (snd sd)"
  shows "P (snd sd')"
  using assms(1,3) unfolding establish_rules_def Let_def assms(2)
  apply -
  by ((erule each_keeps, assumption, erule (1) sess_keeps)+, unfold each_def, rule ignore_err_keeps, assumption+, erule (1) sess_keeps)

lemma modify_keeps:
  assumes "modify_rules E req sd = Some (sd', us)" "pe_driver E = D" "P (snd sd)"
  shows "P (snd sd')"
proof -
  have last: "each_usage (Sess_QueryURR D A) xs st = Some (t, us) \<Longrightarrow> P (snd (fst st)) \<Longrightarrow> P (snd t)" for A xs st t us
    using collect_keeps [of "Sess_QueryURR D A" st xs "(t, us)"] sess_keeps(10) [where A = A] by (simp add: each_usage_def)
  show ?thesis
    using assms(1,3) unfolding modify_rules_def Let_def assms(2)
    apply -
    by ((erule each_keeps each_usage_keeps, assumption, erule (1) sess_keeps)+) (erule last, simp)
qed

lemma Establishment_keeps:
  assumes "handleSessionEstablishmentRequest E req q addr sv = Some sv'" "pe_driver E = D" "P (nd_driver sv)"
  shows "P (nd_driver sv')"
proof (cases "sv' = sv")
  case False
  with assms(1) obtain a seid sv1 s s' d' m where
    new: "RemoteNode_NewSess a seid sv = Some (sv1, s)" and est: "establish_rules E req (s, nd_driver sv1) = Some (s', d')"
    and sv': "sv' = fst (sendRspTo E m addr (sv1\<lparr>nd_lnode := put_sess s' (nd_lnode sv1), nd_driver := d'\<rparr>))"
    by (auto simp: handleSessionEstablishmentRequest_def bind_eq_Some_conv Let_def split: option.splits sum.splits)
  have "nd_driver sv1 = nd_driver sv" using new by (auto simp: RemoteNode_NewSess_def bind_eq_Some_conv Let_def)
  with establish_keeps [OF est assms(2)] assms(3) show ?thesis by (simp add: sv')
qed (use assms in simp)

lemma Modification_keeps:
  assumes "handleSessionModificationRequest E i req q addr sv = Some sv'" "pe_driver E = D" "P (nd_driver sv)"
  shows "P (nd_driver sv')"
proof (cases "LocalNode_Sess i (nd_lnode sv)")
  case (Inr s)
  have upd: "UpdateNodeID a nid sv = Some sv1 \<Longrightarrow> nd_driver sv1 = nd_driver sv" for a nid sv1
    by (auto simp: UpdateNodeID_def bind_eq_Some_conv)
  have mod: "P d" if "modify_rules E req (s, nd_driver sv) = Some ((t, d), us)" for t d us
    using modify_keeps [OF that assms(2)] assms(3) by simp
  show ?thesis
    using assms(1,3) Inr
    by (auto simp: handleSessionModificationRequest_def bind_eq_Some_conv case_prod_unfold Let_def
        split: option.splits sum.splits dest!: upd) (erule mod)+
qed (use assms in \<open>auto simp: handleSessionModificationRequest_def\<close>)

lemma Deletion_keeps:
  assumes "handleSessionDeletionRequest E i q addr sv = Some sv'" "pe_driver E = D" "P (nd_driver sv)"
  shows "P (nd_driver sv')"
proof (cases "LocalNode_Sess i (nd_lnode sv)")
  case (Inr s)
  with assms(1,2) obtain sv1 cl us where del: "RemoteNode_DeleteSess D (pe_api E) (pe_rng E) (s_rnode s) i sv = Some (sv1, cl, us)"
    by (auto simp: handleSessionDeletionRequest_def bind_eq_Some_conv)
  from DeleteSess_keeps [OF this assms(3)] have "P (nd_driver sv1)" .
  with assms(1,2) Inr del show ?thesis
    by (auto simp: handleSessionDeletionRequest_def Let_def case_prod_unfold)
qed (use assms in \<open>auto simp: handleSessionDeletionRequest_def\<close>)

lemma ReportResponse_keeps:
  assumes "handleSessionReportResponse E i addr req sv = Some sv'" "pe_driver E = D" "P (nd_driver sv)"
  shows "P (nd_driver sv')"
proof (cases "sv' = sv")
  case False
  with assms(1) obtain m r' where i: "i = 0" "req = Some m" "RemoteSess (msg_SEID m) addr sv = Some r'"
    by (auto simp: handleSessionReportResponse_def bind_eq_Some_conv split: if_splits)
  with assms(1,3) show ?thesis
    by (cases r') (auto simp: handleSessionReportResponse_def assms(2) dest: DeleteSess_keeps)
qed (use assms in simp)

lemma AssociationSetup_keeps:
  assumes "handleAssociationSetupRequest E nid rec q addr sv = Some sv'" "pe_driver E = D" "P (nd_driver sv)"
  shows "P (nd_driver sv')"
  using assms Reset_keeps
  by (auto simp: handleAssociationSetupRequest_def bind_eq_Some_conv NewNode_def Let_def
      split: option.split_asm sum.split_asm if_split_asm)

lemma reqDispacher_keeps:
  "reqDispacher E m addr sv = Some sv' \<Longrightarrow> pe_driver E = D \<Longrightarrow> P (nd_driver sv) \<Longrightarrow> P (nd_driver sv')"
  by (cases m) (auto simp: handleHeartbeatRequest_def intro: AssociationSetup_keeps Establishment_keeps
      Modification_keeps Deletion_keeps)

lemma rspDispacher_keeps:
  "rspDispacher E m addr req sv = Some sv' \<Longrightarrow> pe_driver E = D \<Longrightarrow> P (nd_driver sv) \<Longrightarrow> P (nd_driver sv')"
  by (cases m) (auto intro: ReportResponse_keeps)

lemma handle_packet_keeps:
  assumes "handle_packet E addr buf sv = Some sv'" "pe_driver E = D" "P (nd_driver sv)"
  shows "P (nd_driver sv')"
proof (cases "pe_Parse E buf")
  case (Inr m)
  have rx: "P (nd_driver (fst (rx_recv rx b s))) = P (nd_driver s)" for rx b and s :: "('ie, 'd) PfcpServer"
    by (simp add: rx_recv_def write_to_def)
  show ?thesis
    using assms Inr
    by (auto simp: handle_packet_def Let_def case_prod_unfold tx_recv_def rx split: if_splits option.splits
        dest!: reqDispacher_keeps rspDispacher_keeps)
qed (use assms in \<open>simp add: handle_packet_def\<close>)

theorem main_step_keeps:
  assumes "main_step E ev sv = Some sv'" "pe_driver E = D" "P (nd_driver sv)"
  shows "P (nd_driver sv')"
  using assms
  by (cases ev) (auto simp: main_step_def stopTrTimers_def rx_handleTimeout_def ServeReport_driver
      split: if_splits option.splits intro: handle_packet_keeps dest: tx_handleTimeout_driver)

end

end
