(* ===== verification/Forward.thy ===== *)
theory Forward
  imports Qer_Rate
begin

text \<open>
  The sending half of \<^verbatim>\<open>internal/forwarder/userspace/pipeline.go\<close> and \<^verbatim>\<open>bar_delay.go\<close>: building the
  outgoing packet, buffering with its delayed notifications, and what happens to the buffered
  packets when a FAR stops buffering. A result \<open>None\<close> is a panic.
\<close>

section \<open>Outgoing packets\<close>

definition UpfGtpDefaultPort :: nat where "UpfGtpDefaultPort = 2152"

fun firstQFI :: "QERRule list \<Rightarrow> u8" where
  "firstQFI [] = 0"
| "firstQFI (qer # qers) = (case qer_QFI qer of Some q \<Rightarrow> q | None \<Rightarrow> firstQFI qers)"

definition outer_header :: "PDRBinding \<Rightarrow> OuterHeaderCreation option" where
  "outer_header binding =
     (case b_FAR binding of
        None \<Rightarrow> None
      | Some far \<Rightarrow> (case far_Forwarding far of None \<Rightarrow> None | Some fp \<Rightarrow> fp_OuterHeaderCreation fp))"

text \<open>The message \<open>encodeGTPU\<close> builds.\<close>

definition gtpu_message :: "PDRBinding \<Rightarrow> OuterHeaderCreation \<Rightarrow> bytes \<Rightarrow> bool \<Rightarrow> Message" where
  "gtpu_message binding header payload uplink =
     (let qfi = firstQFI (b_QERs binding);
          exts = (if qfi \<noteq> 0 then [\<lparr>PDUType = (if uplink then 1 else 0), QoSFlowID = qfi\<rparr>] else [])
      in \<lparr>m_Flags = (if exts \<noteq> [] then 0x34 else 0x30), m_Type = MsgTypeTPDU, m_TEID = ohc_TEID header,
          m_SequenceNumber = 0, m_NPDUNumber = 0, m_Exts = exts, m_Payload = payload\<rparr>)"

definition encodeGTPU :: "PDRBinding \<Rightarrow> bytes \<Rightarrow> bool \<Rightarrow> (bytes \<times> (bytes \<times> nat)) res option" where
  "encodeGTPU binding payload uplink =
     (case outer_header binding of
        None \<Rightarrow> Some (Inl (ErrMsg ''userspace: missing outer header creation''))
      | Some header \<Rightarrow>
          let msg = gtpu_message binding header payload uplink in
          case Message_Encode msg (replicate (Message_Len msg) 0) of
            None \<Rightarrow> None
          | Some (buf, _) \<Rightarrow>
              let port = unat (ohc_Port header);
                  port = (if port = 0 then UpfGtpDefaultPort else port)
              in Some (Inr (buf, (ohc_IPv4 header, port))))"

definition forwardUplink :: "PDRBinding \<Rightarrow> bytes \<Rightarrow> PacketOutcome res option" where
  "forwardUplink binding payload =
     (let outcome = \<lparr>out_SEID = b_SEID binding, out_PDRID = pdr_ID (b_PDR binding),
            out_Action = PacketActionForward, out_Format = PayloadFormatRawIP, out_Payload = payload,
            out_Peer = None\<rparr> in
      if outer_header binding = None then Some (Inr outcome)
      else case encodeGTPU binding payload True of
        None \<Rightarrow> None
      | Some (Inl e) \<Rightarrow> Some (Inl e)
      | Some (Inr (encoded, peer)) \<Rightarrow>
          Some (Inr (outcome\<lparr>out_Format := PayloadFormatGTPU, out_Payload := encoded, out_Peer := Some peer\<rparr>)))"

definition forwardDownlink :: "PDRBinding \<Rightarrow> bytes \<Rightarrow> PacketOutcome res option" where
  "forwardDownlink binding payload =
     (if outer_header binding = None
      then Some (Inr \<lparr>out_SEID = b_SEID binding, out_PDRID = pdr_ID (b_PDR binding),
             out_Action = PacketActionForward, out_Format = PayloadFormatRawIP, out_Payload = payload,
             out_Peer = None\<rparr>)
      else case encodeGTPU binding payload False of
        None \<Rightarrow> None
      | Some (Inl e) \<Rightarrow> Some (Inl e)
      | Some (Inr (encoded, peer)) \<Rightarrow>
          Some (Inr \<lparr>out_SEID = b_SEID binding, out_PDRID = pdr_ID (b_PDR binding),
             out_Action = PacketActionForward, out_Format = PayloadFormatGTPU, out_Payload = encoded,
             out_Peer = Some peer\<rparr>))"

definition forwardBufferedPayload :: "'ie ie_api \<Rightarrow> PDRBinding \<Rightarrow> bytes \<Rightarrow> PacketOutcome res option" where
  "forwardBufferedPayload A binding payload =
     (if isCorePDR A (b_PDR binding) then forwardDownlink binding payload else forwardUplink binding payload)"

text \<open>The driver runs: \<open>egressCh\<close> accepts, \<open>outputCh\<close> accepts while it has room.\<close>

definition publishOutcome :: "PacketOutcome \<Rightarrow> Driver \<Rightarrow> Driver" where
  "publishOutcome outcome d =
     (let d = d\<lparr>d_egress := d_egress d @ [outcome]\<rparr> in
      if length (d_output d) < d_outputCap d then d\<lparr>d_output := d_output d @ [outcome]\<rparr> else d)"

definition emitReport :: "SessReport \<Rightarrow> Driver \<Rightarrow> Driver" where
  "emitReport r d = (if d_handler d then d\<lparr>d_reports := d_reports d @ [r]\<rparr> else d)"

section \<open>Buffering\<close>

definition bufferedPacketLimit :: "PDRBinding \<Rightarrow> nat" where
  "bufferedPacketLimit binding =
     (case b_BAR binding of
        None \<Rightarrow> 0
      | Some bar \<Rightarrow> (case bar_SuggestedBufferingPacketsCount bar of None \<Rightarrow> 0 | Some n \<Rightarrow> unat n))"

definition ddnDelay :: "PDRBinding \<Rightarrow> duration" where
  "ddnDelay binding =
     (case b_BAR binding of
        None \<Rightarrow> 0
      | Some bar \<Rightarrow> (case bar_DownlinkDataNotificationDelay bar of None \<Rightarrow> 0 | Some t \<Rightarrow> t))"

definition scheduleBufferedNotification :: "gotime \<Rightarrow> PDRBinding \<Rightarrow> bytes \<Rightarrow> Driver \<Rightarrow> Driver" where
  "scheduleBufferedNotification now binding payload d =
     (case b_FAR binding of
        None \<Rightarrow> d
      | Some far \<Rightarrow>
          if \<not> AA_NOCP (far_ApplyAction far) then d
          else
            let delay = ddnDelay binding; action = aa_Flags (far_ApplyAction far) in
            if delay \<le> 0 then
              emitReport \<lparr>sr_SEID = b_SEID binding,
                sr_Reports = [DLDR \<lparr>dld_PDRID = pdr_ID (b_PDR binding), dld_Action = action, dld_BufPkt = payload\<rparr>]\<rparr> d
            else
              let key = (b_SEID binding, pdr_ID (b_PDR binding)) in
              case d_pendingDDN d key of
                Some pending \<Rightarrow>
                  d\<lparr>d_pendingDDN := (d_pendingDDN d)(key \<mapsto> pending\<lparr>ddn_payload := payload, ddn_action := action\<rparr>)\<rparr>
              | None \<Rightarrow>
                  d\<lparr>d_pendingDDN := (d_pendingDDN d)(key \<mapsto>
                      \<lparr>ddn_timer = now + delay, ddn_payload = payload, ddn_action = action\<rparr>)\<rparr>)"

definition fireBufferedNotification :: "ddnKey \<Rightarrow> Driver \<Rightarrow> Driver" where
  "fireBufferedNotification key d =
     (case d_pendingDDN d key of
        None \<Rightarrow> d
      | Some pending \<Rightarrow>
          let d = d\<lparr>d_pendingDDN := (d_pendingDDN d)(key := None)\<rparr> in
          case d_sessions d (fst key) of
            None \<Rightarrow> d
          | Some sess \<Rightarrow>
              if slice_at (sess_Buffers sess) (snd key) \<noteq> [] then
                emitReport \<lparr>sr_SEID = fst key,
                  sr_Reports = [DLDR \<lparr>dld_PDRID = snd key, dld_Action = ddn_action pending,
                                      dld_BufPkt = ddn_payload pending\<rparr>]\<rparr> d
              else d)"

definition cancelPendingDDNLocked :: "ddnKey \<Rightarrow> Driver \<Rightarrow> Driver" where
  "cancelPendingDDNLocked key d = d\<lparr>d_pendingDDN := (d_pendingDDN d)(key := None)\<rparr>"

definition stopPendingDDN :: "Driver \<Rightarrow> Driver" where
  "stopPendingDDN d = d\<lparr>d_pendingDDN := Map.empty\<rparr>"

definition buffer_append :: "nat \<Rightarrow> bytes list \<Rightarrow> bytes \<Rightarrow> bytes list" where
  "buffer_append limit q payload =
     (let queue = q @ [payload] in
      if 0 < limit \<and> limit < length queue then drop (length queue - limit) queue else queue)"

definition bufferPacket :: "gotime \<Rightarrow> PDRBinding \<Rightarrow> bytes \<Rightarrow> Driver \<Rightarrow> Driver \<times> PacketOutcome" where
  "bufferPacket now binding payload d =
     (let limit = bufferedPacketLimit binding; pid = pdr_ID (b_PDR binding);
          d = (case d_sessions d (b_SEID binding) of
                 None \<Rightarrow> d
               | Some sess \<Rightarrow>
                   let queue = buffer_append limit (slice_at (sess_Buffers sess) pid) payload;
                       sess = touch now (sess\<lparr>sess_Buffers := (sess_Buffers sess)(pid \<mapsto> queue)\<rparr>)
                   in d\<lparr>d_sessions := (d_sessions d)(b_SEID binding \<mapsto> sess)\<rparr>);
          d = scheduleBufferedNotification now binding payload d
      in (d, \<lparr>out_SEID = b_SEID binding, out_PDRID = pid, out_Action = PacketActionBuffer,
              out_Format = PayloadFormatRawIP, out_Payload = [], out_Peer = None\<rparr>))"

section \<open>A FAR stops buffering\<close>

text \<open>Sending the buffered packets of one PDR; a packet that cannot be encoded is skipped.\<close>

fun flush_buffer :: "'ie ie_api \<Rightarrow> PDRBinding \<Rightarrow> bytes list \<Rightarrow> Driver \<Rightarrow> Driver option" where
  "flush_buffer A matched [] d = Some d"
| "flush_buffer A matched (payload # ps) d =
     (case forwardBufferedPayload A matched payload of
        None \<Rightarrow> None
      | Some (Inl e) \<Rightarrow> flush_buffer A matched ps d
      | Some (Inr outcome) \<Rightarrow> flush_buffer A matched ps (publishOutcome outcome d))"

text \<open>
  The binding the buffered packets are sent with: the snapshot's downlink binding of this PDR or,
  failing that, the first binding for the same UE address in a freshly built snapshot. Reading a
  nil PDI or the first element of an empty slice panics.
\<close>

definition find_buffered_binding ::
  "'ie env \<Rightarrow> gotime \<Rightarrow> u64 \<Rightarrow> PDRRule \<Rightarrow> Driver \<Rightarrow> PDRBinding option" where
  "find_buffered_binding E now seid pdr d =
     (case pdr_PDI pdr of
        None \<Rightarrow> None
      | Some pdi \<Rightarrow>
          let key = ip_String (pdi_UEIPv4 pdi);
              matched = (if snap_Sessions (d_snapshot d) seid \<noteq> None
                         then find (\<lambda>c. b_SEID c = seid \<and> pdr_ID (b_PDR c) = pdr_ID pdr)
                                (slice_at (snap_Downlink (d_snapshot d)) key)
                         else None)
          in case matched of
               Some b \<Rightarrow> Some b
             | None \<Rightarrow> idx (slice_at (snap_Downlink (buildRuntimeSnapshot E now (d_sessions d) [])) key) 0)"

text \<open>The body of the loop over the PDRs of the session.\<close>

definition transition_pdr ::
  "'ie env \<Rightarrow> gotime \<Rightarrow> u64 \<Rightarrow> FARRule \<Rightarrow> Driver \<Rightarrow> u16 \<Rightarrow> Driver option" where
  "transition_pdr E now seid nxt d pid =
     (case d_sessions d seid of
        None \<Rightarrow> Some d
      | Some sess \<Rightarrow>
          (case sess_PDRs sess pid of
             None \<Rightarrow> Some d
           | Some pdr \<Rightarrow>
               if pdr_FARID pdr \<noteq> Some (far_ID nxt) then Some d
               else
                 let buffered = slice_at (sess_Buffers sess) (pdr_ID pdr) in
                 if buffered = [] then Some d
                 else
                   let d = cancelPendingDDNLocked (seid, pdr_ID pdr) d;
                       sess = sess\<lparr>sess_Buffers := (sess_Buffers sess)(pdr_ID pdr := None)\<rparr>;
                       d = d\<lparr>d_sessions := (d_sessions d)(seid \<mapsto> sess)\<rparr>
                   in case find_buffered_binding E now seid pdr d of
                        None \<Rightarrow> None
                      | Some matched \<Rightarrow>
                          if AA_FORW (far_ApplyAction nxt) then flush_buffer (e_api E) matched buffered d
                          else Some d))"

definition handleFARTransitionLocked ::
  "'ie env \<Rightarrow> gotime \<Rightarrow> u64 \<Rightarrow> FARRule \<Rightarrow> FARRule \<Rightarrow> Driver \<Rightarrow> Driver option" where
  "handleFARTransitionLocked E now seid prev nxt d =
     (if \<not> AA_BUFF (far_ApplyAction prev) then Some d
      else case d_sessions d seid of
        None \<Rightarrow> Some d
      | Some sess \<Rightarrow> foldO (transition_pdr E now seid nxt) d (rng16 (e_rng E) (dom (sess_PDRs sess))))"

section \<open>Lemmas\<close>

lemma gtpu_message_fields [simp]:
  "m_TEID (gtpu_message b h p u) = ohc_TEID h" "m_Payload (gtpu_message b h p u) = p"
  by (simp_all add: gtpu_message_def Let_def)

lemma encodeGTPU_total:
  "outer_header b = Some h \<Longrightarrow>
     encodeGTPU b p u = Some (Inr (Message_bytes (gtpu_message b h p u),
       (ohc_IPv4 h, if ohc_Port h = 0 then UpfGtpDefaultPort else unat (ohc_Port h))))"
  by (simp add: encodeGTPU_def Message_Encode_eq Let_def unat_eq_zero)

definition outcome_of :: "PDRBinding \<Rightarrow> bytes \<Rightarrow> bool \<Rightarrow> PacketOutcome" where
  "outcome_of b p u =
     (case outer_header b of
        None \<Rightarrow> \<lparr>out_SEID = b_SEID b, out_PDRID = pdr_ID (b_PDR b), out_Action = PacketActionForward,
                 out_Format = PayloadFormatRawIP, out_Payload = p, out_Peer = None\<rparr>
      | Some h \<Rightarrow> \<lparr>out_SEID = b_SEID b, out_PDRID = pdr_ID (b_PDR b), out_Action = PacketActionForward,
                   out_Format = PayloadFormatGTPU, out_Payload = Message_bytes (gtpu_message b h p u),
                   out_Peer = Some (ohc_IPv4 h, if ohc_Port h = 0 then UpfGtpDefaultPort else unat (ohc_Port h))\<rparr>)"

lemma forward_total:
  "forwardUplink b p = Some (Inr (outcome_of b p True))"
  "forwardDownlink b p = Some (Inr (outcome_of b p False))"
  by (cases "outer_header b";
      simp add: forwardUplink_def forwardDownlink_def outcome_of_def encodeGTPU_total Let_def)+

lemma forwardBuffered_total:
  "forwardBufferedPayload A b p = Some (Inr (outcome_of b p (\<not> isCorePDR A (b_PDR b))))"
  by (simp add: forwardBufferedPayload_def forward_total)

lemma publishOutcome_frame [simp]:
  "d_sessions (publishOutcome o' d) = d_sessions d" "d_snapshot (publishOutcome o' d) = d_snapshot d"
  "d_stats (publishOutcome o' d) = d_stats d" "d_pendingDDN (publishOutcome o' d) = d_pendingDDN d"
  "d_reports (publishOutcome o' d) = d_reports d" "d_egress (publishOutcome o' d) = d_egress d @ [o']"
  "d_handler (publishOutcome o' d) = d_handler d" "d_outputCap (publishOutcome o' d) = d_outputCap d"
  "d_adaptiveTrace (publishOutcome o' d) = d_adaptiveTrace d" "d_adaptiveQoS (publishOutcome o' d) = d_adaptiveQoS d"
  by (simp_all add: publishOutcome_def Let_def)

lemma emitReport_frame [simp]:
  "d_sessions (emitReport r d) = d_sessions d" "d_snapshot (emitReport r d) = d_snapshot d"
  "d_stats (emitReport r d) = d_stats d" "d_pendingDDN (emitReport r d) = d_pendingDDN d"
  "d_egress (emitReport r d) = d_egress d" "d_handler (emitReport r d) = d_handler d"
  "d_output (emitReport r d) = d_output d" "d_outputCap (emitReport r d) = d_outputCap d"
  "d_adaptiveTrace (emitReport r d) = d_adaptiveTrace d" "d_adaptiveQoS (emitReport r d) = d_adaptiveQoS d"
  by (simp_all add: emitReport_def)

lemma cancelPendingDDN_frame [simp]:
  "d_sessions (cancelPendingDDNLocked k d) = d_sessions d" "d_snapshot (cancelPendingDDNLocked k d) = d_snapshot d"
  "d_stats (cancelPendingDDNLocked k d) = d_stats d" "d_egress (cancelPendingDDNLocked k d) = d_egress d"
  "d_reports (cancelPendingDDNLocked k d) = d_reports d" "d_handler (cancelPendingDDNLocked k d) = d_handler d"
  "d_adaptiveTrace (cancelPendingDDNLocked k d) = d_adaptiveTrace d"
  "d_adaptiveQoS (cancelPendingDDNLocked k d) = d_adaptiveQoS d"
  by (simp_all add: cancelPendingDDNLocked_def)

lemma scheduleBufferedNotification_frame [simp]:
  "d_sessions (scheduleBufferedNotification now b p d) = d_sessions d"
  "d_snapshot (scheduleBufferedNotification now b p d) = d_snapshot d"
  "d_stats (scheduleBufferedNotification now b p d) = d_stats d"
  "d_egress (scheduleBufferedNotification now b p d) = d_egress d"
  by (simp_all add: scheduleBufferedNotification_def Let_def split: option.splits)

lemma flush_buffer_total:
  "\<exists>d'. flush_buffer A b ps d = Some d' \<and> d_sessions d' = d_sessions d \<and> d_snapshot d' = d_snapshot d \<and>
     d_stats d' = d_stats d \<and> d_pendingDDN d' = d_pendingDDN d \<and> d_reports d' = d_reports d \<and>
     d_egress d' = d_egress d @ map (\<lambda>p. outcome_of b p (\<not> isCorePDR A (b_PDR b))) ps"
proof (induction ps arbitrary: d)
  case (Cons p ps)
  from Cons.IH [of "publishOutcome (outcome_of b p (\<not> isCorePDR A (b_PDR b))) d"] show ?case
    by (auto simp: forwardBuffered_total)
qed simp

lemma buffer_append_length:
  "0 < limit \<Longrightarrow> length q \<le> limit \<Longrightarrow> length (buffer_append limit q p) \<le> limit"
  by (auto simp: buffer_append_def Let_def)

lemma buffer_append_suffix:
  "buffer_append limit q p = (if limit = 0 then q @ [p] else rev (take limit (rev (q @ [p]))))"
  by (auto simp: buffer_append_def Let_def take_drop_last rev_take)

end
