(* ===== verification/Userspace.thy ===== *)
theory Userspace
  imports Forward Adaptive_Profile
begin

text \<open>
  \<^verbatim>\<open>internal/forwarder/userspace/driver.go\<close>: the operations of the userspace driver on PDRs, FARs,
  QERs, URRs and BARs. Each runs under the driver's lock, so it is one step on the driver record;
  it returns the new driver and the error, \<open>None\<close> for success. Logging is left out.
  \<open>UpdateFAR\<close> can panic, so its result is an option.
\<close>

section \<open>Merging updates\<close>

definition mergePDI_val :: "PDI \<Rightarrow> PDI \<Rightarrow> PDI" where
  "mergePDI_val prev nxt =
     (let m = prev;
          m = (if pdi_SourceInterface nxt \<noteq> None then m\<lparr>pdi_SourceInterface := pdi_SourceInterface nxt\<rparr> else m);
          m = (if pdi_FTEID nxt \<noteq> None then m\<lparr>pdi_FTEID := pdi_FTEID nxt\<rparr> else m);
          m = (if pdi_NetworkInstance nxt \<noteq> '''' then m\<lparr>pdi_NetworkInstance := pdi_NetworkInstance nxt\<rparr> else m);
          m = (if pdi_UEIPv4 nxt \<noteq> [] then m\<lparr>pdi_UEIPv4 := pdi_UEIPv4 nxt\<rparr> else m);
          m = (if pdi_SDFFilters nxt \<noteq> [] then m\<lparr>pdi_SDFFilters := pdi_SDFFilters nxt\<rparr> else m);
          m = (if pdi_SDFRules nxt \<noteq> [] then m\<lparr>pdi_SDFRules := pdi_SDFRules nxt\<rparr> else m)
      in if pdi_ApplicationID nxt \<noteq> '''' then m\<lparr>pdi_ApplicationID := pdi_ApplicationID nxt\<rparr> else m)"

definition mergePDI :: "PDI option \<Rightarrow> PDI option \<Rightarrow> PDI option" where
  "mergePDI prev nxt =
     (case prev of None \<Rightarrow> nxt | Some p \<Rightarrow> (case nxt of None \<Rightarrow> prev | Some n \<Rightarrow> Some (mergePDI_val p n)))"

definition mergePDRRule :: "PDRRule \<Rightarrow> PDRRule \<Rightarrow> PDRRule" where
  "mergePDRRule prev nxt =
     (let m = prev\<lparr>pdr_ID := pdr_ID nxt\<rparr>;
          m = (if pdr_Precedence nxt \<noteq> None then m\<lparr>pdr_Precedence := pdr_Precedence nxt\<rparr> else m);
          m = (if pdr_PDI nxt \<noteq> None then m\<lparr>pdr_PDI := mergePDI (pdr_PDI prev) (pdr_PDI nxt)\<rparr> else m);
          m = (if pdr_OuterHeaderRemoval nxt \<noteq> None then m\<lparr>pdr_OuterHeaderRemoval := pdr_OuterHeaderRemoval nxt\<rparr> else m);
          m = (if pdr_FARID nxt \<noteq> None then m\<lparr>pdr_FARID := pdr_FARID nxt\<rparr> else m);
          m = (if pdr_QERIDs nxt \<noteq> [] then m\<lparr>pdr_QERIDs := pdr_QERIDs nxt\<rparr> else m);
          m = (if pdr_URRIDs nxt \<noteq> [] then m\<lparr>pdr_URRIDs := pdr_URRIDs nxt\<rparr> else m)
      in if pdr_Raw nxt \<noteq> [] then m\<lparr>pdr_Raw := pdr_Raw nxt\<rparr> else m)"

definition mergeForwardingParameters_val ::
  "ForwardingParameters \<Rightarrow> ForwardingParameters \<Rightarrow> ForwardingParameters" where
  "mergeForwardingParameters_val prev nxt =
     (let m = prev;
          m = (if fp_DestinationInterface nxt \<noteq> None then m\<lparr>fp_DestinationInterface := fp_DestinationInterface nxt\<rparr> else m);
          m = (if fp_NetworkInstance nxt \<noteq> '''' then m\<lparr>fp_NetworkInstance := fp_NetworkInstance nxt\<rparr> else m);
          m = (if fp_OuterHeaderCreation nxt \<noteq> None then m\<lparr>fp_OuterHeaderCreation := fp_OuterHeaderCreation nxt\<rparr> else m);
          m = (if fp_ForwardingPolicy nxt \<noteq> '''' then m\<lparr>fp_ForwardingPolicy := fp_ForwardingPolicy nxt\<rparr> else m)
      in if fp_PFCPSMReqFlags nxt \<noteq> None then m\<lparr>fp_PFCPSMReqFlags := fp_PFCPSMReqFlags nxt\<rparr> else m)"

definition mergeForwardingParameters ::
  "ForwardingParameters option \<Rightarrow> ForwardingParameters option \<Rightarrow> ForwardingParameters option" where
  "mergeForwardingParameters prev nxt =
     (case prev of None \<Rightarrow> nxt
      | Some p \<Rightarrow> (case nxt of None \<Rightarrow> prev | Some n \<Rightarrow> Some (mergeForwardingParameters_val p n)))"

definition mergeFARRule :: "FARRule \<Rightarrow> FARRule \<Rightarrow> FARRule" where
  "mergeFARRule prev nxt =
     (let m = prev\<lparr>far_ID := far_ID nxt\<rparr>;
          m = (if aa_Flags (far_ApplyAction nxt) \<noteq> 0 then m\<lparr>far_ApplyAction := far_ApplyAction nxt\<rparr> else m);
          m = (if far_Forwarding nxt \<noteq> None
               then m\<lparr>far_Forwarding := mergeForwardingParameters (far_Forwarding prev) (far_Forwarding nxt)\<rparr> else m);
          m = (if far_BARID nxt \<noteq> None then m\<lparr>far_BARID := far_BARID nxt\<rparr> else m)
      in if far_Raw nxt \<noteq> [] then m\<lparr>far_Raw := far_Raw nxt\<rparr> else m)"

section \<open>Sessions\<close>

definition ensureSessionLocked :: "gotime \<Rightarrow> u64 \<Rightarrow> Driver \<Rightarrow> SessionState \<times> Driver" where
  "ensureSessionLocked now seid d =
     (case d_sessions d seid of
        Some sess \<Rightarrow> (sess, d)
      | None \<Rightarrow>
          let sess = NewSessionState now seid;
              d = d\<lparr>d_sessions := (d_sessions d)(seid \<mapsto> sess)\<rparr>
          in (sess, addAdaptiveTraceLocked now (zero_event\<lparr>te_Timestamp := now, te_SEID := seid,
                te_Stage := ''pdu-session-established'', te_Status := ''active'',
                te_DecisionReason := ''new session seid='' @ dec64 seid\<rparr>) d))"

definition session_empty :: "SessionState \<Rightarrow> bool" where
  "session_empty sess \<longleftrightarrow>
     dom (sess_PDRs sess) = {} \<and> dom (sess_FARs sess) = {} \<and> dom (sess_QERs sess) = {} \<and>
     dom (sess_URRs sess) = {} \<and> dom (sess_BARs sess) = {} \<and> dom (sess_URRReports sess) = {} \<and>
     dom (sess_Buffers sess) = {}"

definition deleteSessionIfEmptyLocked :: "u64 \<Rightarrow> SessionState \<Rightarrow> Driver \<Rightarrow> Driver" where
  "deleteSessionIfEmptyLocked seid sess d =
     (if \<not> session_empty sess then d
      else d\<lparr>d_pendingDDN := d_pendingDDN d |` {k. fst k \<noteq> seid}, d_sessions := (d_sessions d)(seid := None)\<rparr>)"

text \<open>Writing a session back through its pointer.\<close>

definition put_session :: "u64 \<Rightarrow> SessionState \<Rightarrow> Driver \<Rightarrow> Driver" where
  "put_session seid sess d = d\<lparr>d_sessions := (d_sessions d)(seid \<mapsto> sess)\<rparr>"

section \<open>PDRs\<close>

definition CreatePDR :: "'ie env \<Rightarrow> gotime \<Rightarrow> u64 \<Rightarrow> 'ie \<Rightarrow> Driver \<Rightarrow> Driver \<times> error option" where
  "CreatePDR E now seid req d =
     (case parsePDR (e_api E) (e_p6 E) req of
        Inl err \<Rightarrow> (d, Some err)
      | Inr rule \<Rightarrow>
          let (sess, d) = ensureSessionLocked now seid d;
              sess = touch now (sess\<lparr>sess_PDRs := (sess_PDRs sess)(pdr_ID rule \<mapsto> rule)\<rparr>)
          in (publishSnapshotLocked E now (put_session seid sess d), None))"

definition UpdatePDR :: "'ie env \<Rightarrow> gotime \<Rightarrow> u64 \<Rightarrow> 'ie \<Rightarrow> Driver \<Rightarrow> Driver \<times> error option" where
  "UpdatePDR E now seid req d =
     (case parseUpdatePDR (e_api E) (e_p6 E) req of
        Inl err \<Rightarrow> (d, Some err)
      | Inr rule \<Rightarrow>
          (case d_sessions d seid of
             None \<Rightarrow> (d, Some ErrSessionNotFound)
           | Some sess \<Rightarrow>
               (case sess_PDRs sess (pdr_ID rule) of
                  None \<Rightarrow> (d, Some ErrPDRNotFound)
                | Some prev \<Rightarrow>
                    let merged = mergePDRRule prev rule;
                        sess = touch now (sess\<lparr>sess_PDRs := (sess_PDRs sess)(pdr_ID rule \<mapsto> merged)\<rparr>)
                    in (publishSnapshotLocked E now (put_session seid sess d), None))))"

definition RemovePDR :: "'ie env \<Rightarrow> gotime \<Rightarrow> u64 \<Rightarrow> 'ie \<Rightarrow> Driver \<Rightarrow> Driver \<times> error option" where
  "RemovePDR E now seid req d =
     (case ie_PDRID (e_api E) req of
        Inl err \<Rightarrow> (d, Some err)
      | Inr pid \<Rightarrow>
          (case d_sessions d seid of
             None \<Rightarrow> (d, Some ErrSessionNotFound)
           | Some sess \<Rightarrow>
               if sess_PDRs sess pid = None then (d, Some ErrPDRNotFound)
               else
                 let d = cancelPendingDDNLocked (seid, pid) d;
                     sess = touch now (sess\<lparr>sess_PDRs := (sess_PDRs sess)(pid := None)\<rparr>);
                     d = deleteSessionIfEmptyLocked seid sess (put_session seid sess d)
                 in (publishSnapshotLocked E now d, None)))"

section \<open>FARs\<close>

definition CreateFAR :: "'ie env \<Rightarrow> gotime \<Rightarrow> u64 \<Rightarrow> 'ie \<Rightarrow> Driver \<Rightarrow> Driver \<times> error option" where
  "CreateFAR E now seid req d =
     (case parseFAR (e_api E) req of
        Inl err \<Rightarrow> (d, Some err)
      | Inr rule \<Rightarrow>
          let (sess, d) = ensureSessionLocked now seid d;
              sess = touch now (sess\<lparr>sess_FARs := (sess_FARs sess)(far_ID rule \<mapsto> rule)\<rparr>)
          in (publishSnapshotLocked E now (put_session seid sess d), None))"

definition UpdateFAR :: "'ie env \<Rightarrow> gotime \<Rightarrow> u64 \<Rightarrow> 'ie \<Rightarrow> Driver \<Rightarrow> (Driver \<times> error option) option" where
  "UpdateFAR E now seid req d =
     (case parseUpdateFAR (e_api E) req of
        Inl err \<Rightarrow> Some (d, Some err)
      | Inr rule \<Rightarrow>
          (case d_sessions d seid of
             None \<Rightarrow> Some (d, Some ErrSessionNotFound)
           | Some sess \<Rightarrow>
               (case sess_FARs sess (far_ID rule) of
                  None \<Rightarrow> Some (d, Some ErrFARNotFound)
                | Some prev \<Rightarrow>
                    let merged = mergeFARRule prev rule;
                        sess = touch now (sess\<lparr>sess_FARs := (sess_FARs sess)(far_ID rule \<mapsto> merged)\<rparr>);
                        d = publishSnapshotLocked E now (put_session seid sess d)
                    in map_option (\<lambda>d. (d, None)) (handleFARTransitionLocked E now seid prev merged d))))"

text \<open>The loop over the PDRs that refer to the FAR only cancels notifications.\<close>

definition cancel_for_far :: "u64 \<Rightarrow> SessionState \<Rightarrow> u32 \<Rightarrow> u16 \<Rightarrow> Driver \<Rightarrow> Driver" where
  "cancel_for_far seid sess fid pid d =
     (case sess_PDRs sess pid of
        None \<Rightarrow> d
      | Some pdr \<Rightarrow> if pdr_FARID pdr = Some fid then cancelPendingDDNLocked (seid, pdr_ID pdr) d else d)"

definition RemoveFAR :: "'ie env \<Rightarrow> gotime \<Rightarrow> u64 \<Rightarrow> 'ie \<Rightarrow> Driver \<Rightarrow> Driver \<times> error option" where
  "RemoveFAR E now seid req d =
     (case ie_u32 (e_api E) A_FARID req of
        Inl err \<Rightarrow> (d, Some err)
      | Inr fid \<Rightarrow>
          (case d_sessions d seid of
             None \<Rightarrow> (d, Some ErrSessionNotFound)
           | Some sess \<Rightarrow>
               if sess_FARs sess fid = None then (d, Some ErrFARNotFound)
               else
                 let d = fold (cancel_for_far seid sess fid) (rng16 (e_rng E) (dom (sess_PDRs sess))) d;
                     sess = touch now (sess\<lparr>sess_FARs := (sess_FARs sess)(fid := None)\<rparr>);
                     d = deleteSessionIfEmptyLocked seid sess (put_session seid sess d)
                 in (publishSnapshotLocked E now d, None)))"

section \<open>QERs\<close>

definition CreateQER :: "'ie env \<Rightarrow> gotime \<Rightarrow> u64 \<Rightarrow> 'ie \<Rightarrow> Driver \<Rightarrow> Driver \<times> error option" where
  "CreateQER E now seid req d =
     (case parseQER (e_api E) req of
        Inl err \<Rightarrow> (d, Some err)
      | Inr rule \<Rightarrow>
          let (sess, d) = ensureSessionLocked now seid d;
              sess = touch now (sess\<lparr>sess_QERs := (sess_QERs sess)(qer_ID rule \<mapsto> rule)\<rparr>);
              (sess, d) = emitCPProvisionedTraceLocked E now sess d
          in (publishSnapshotLocked E now (put_session seid sess d), None))"

definition UpdateQER :: "'ie env \<Rightarrow> gotime \<Rightarrow> u64 \<Rightarrow> 'ie \<Rightarrow> Driver \<Rightarrow> Driver \<times> error option" where
  "UpdateQER E now seid req d =
     (case parseUpdateQER (e_api E) req of
        Inl err \<Rightarrow> (d, Some err)
      | Inr rule \<Rightarrow>
          (case d_sessions d seid of
             None \<Rightarrow> (d, Some ErrSessionNotFound)
           | Some sess \<Rightarrow>
               if sess_QERs sess (qer_ID rule) = None then (d, Some ErrQERNotFound)
               else
                 let sess = touch now (sess\<lparr>sess_QERs := (sess_QERs sess)(qer_ID rule \<mapsto> rule)\<rparr>);
                     (sess, d) = emitCPProvisionedTraceLocked E now sess d
                 in (publishSnapshotLocked E now (put_session seid sess d), None)))"

definition RemoveQER :: "'ie env \<Rightarrow> gotime \<Rightarrow> u64 \<Rightarrow> 'ie \<Rightarrow> Driver \<Rightarrow> Driver \<times> error option" where
  "RemoveQER E now seid req d =
     (case ie_u32 (e_api E) A_QERID req of
        Inl err \<Rightarrow> (d, Some err)
      | Inr qid \<Rightarrow>
          (case d_sessions d seid of
             None \<Rightarrow> (d, Some ErrSessionNotFound)
           | Some sess \<Rightarrow>
               if sess_QERs sess qid = None then (d, Some ErrQERNotFound)
               else
                 let sess = touch now (sess\<lparr>sess_QERs := (sess_QERs sess)(qid := None)\<rparr>);
                     d = deleteSessionIfEmptyLocked seid sess (put_session seid sess d)
                 in (publishSnapshotLocked E now d, None)))"

section \<open>URRs\<close>

text \<open>The start of the measurement period, unless one is recorded.\<close>

definition start_period :: "gotime \<Rightarrow> u32 \<Rightarrow> SessionState \<Rightarrow> SessionState" where
  "start_period now uid sess =
     (if sess_URRPeriodAt sess uid = None
      then sess\<lparr>sess_URRPeriodAt := (sess_URRPeriodAt sess)(uid \<mapsto> now)\<rparr> else sess)"

definition CreateURR :: "'ie env \<Rightarrow> gotime \<Rightarrow> u64 \<Rightarrow> 'ie \<Rightarrow> Driver \<Rightarrow> Driver \<times> error option" where
  "CreateURR E now seid req d =
     (case parseURR (e_api E) req of
        Inl err \<Rightarrow> (d, Some err)
      | Inr rule \<Rightarrow>
          let (sess, d) = ensureSessionLocked now seid d;
              sess = sess\<lparr>sess_URRs := (sess_URRs sess)(urr_ID rule \<mapsto> rule)\<rparr>;
              sess = touch now (start_period now (urr_ID rule) sess)
          in (publishSnapshotLocked E now (put_session seid sess d), None))"

definition UpdateURR ::
  "'ie env \<Rightarrow> gotime \<Rightarrow> u64 \<Rightarrow> 'ie \<Rightarrow> Driver \<Rightarrow> Driver \<times> USAReport list res" where
  "UpdateURR E now seid req d =
     (case parseUpdateURR (e_api E) req of
        Inl err \<Rightarrow> (d, Inl err)
      | Inr rule \<Rightarrow>
          (case d_sessions d seid of
             None \<Rightarrow> (d, Inl ErrSessionNotFound)
           | Some sess \<Rightarrow>
               if sess_URRs sess (urr_ID rule) = None then (d, Inl ErrURRNotFound)
               else
                 let sess = sess\<lparr>sess_URRs := (sess_URRs sess)(urr_ID rule \<mapsto> rule)\<rparr>;
                     sess = touch now (start_period now (urr_ID rule) sess)
                 in (publishSnapshotLocked E now (put_session seid sess d), Inr [])))"

definition RemoveURR ::
  "'ie env \<Rightarrow> gotime \<Rightarrow> u64 \<Rightarrow> 'ie \<Rightarrow> Driver \<Rightarrow> Driver \<times> USAReport list res" where
  "RemoveURR E now seid req d =
     (case ie_u32 (e_api E) A_URRID req of
        Inl err \<Rightarrow> (d, Inl err)
      | Inr uid \<Rightarrow>
          (case d_sessions d seid of
             None \<Rightarrow> (d, Inl ErrSessionNotFound)
           | Some sess \<Rightarrow>
               if sess_URRs sess uid = None then (d, Inl ErrURRNotFound)
               else
                 let finalReports = slice_at (sess_URRReports sess) uid;
                     sess = touch now (sess\<lparr>sess_URRs := (sess_URRs sess)(uid := None),
                        sess_URRPeriodAt := (sess_URRPeriodAt sess)(uid := None),
                        sess_URRReports := (sess_URRReports sess)(uid := None)\<rparr>);
                     d = deleteSessionIfEmptyLocked seid sess (put_session seid sess d)
                 in (publishSnapshotLocked E now d, Inr finalReports)))"

definition QueryURR :: "u64 \<Rightarrow> u32 \<Rightarrow> Driver \<Rightarrow> USAReport list res" where
  "QueryURR seid urrid d =
     (case d_sessions d seid of
        None \<Rightarrow> Inl ErrSessionNotFound
      | Some sess \<Rightarrow>
          if sess_URRs sess urrid = None then Inl ErrURRNotFound
          else Inr (slice_at (sess_URRReports sess) urrid))"

section \<open>BARs\<close>

definition CreateBAR :: "'ie env \<Rightarrow> gotime \<Rightarrow> u64 \<Rightarrow> 'ie \<Rightarrow> Driver \<Rightarrow> Driver \<times> error option" where
  "CreateBAR E now seid req d =
     (case parseBAR (e_api E) req of
        Inl err \<Rightarrow> (d, Some err)
      | Inr rule \<Rightarrow>
          let (sess, d) = ensureSessionLocked now seid d;
              sess = touch now (sess\<lparr>sess_BARs := (sess_BARs sess)(bar_ID rule \<mapsto> rule)\<rparr>)
          in (publishSnapshotLocked E now (put_session seid sess d), None))"

definition UpdateBAR :: "'ie env \<Rightarrow> gotime \<Rightarrow> u64 \<Rightarrow> 'ie \<Rightarrow> Driver \<Rightarrow> Driver \<times> error option" where
  "UpdateBAR E now seid req d =
     (case parseUpdateBAR (e_api E) req of
        Inl err \<Rightarrow> (d, Some err)
      | Inr rule \<Rightarrow>
          (case d_sessions d seid of
             None \<Rightarrow> (d, Some ErrSessionNotFound)
           | Some sess \<Rightarrow>
               if sess_BARs sess (bar_ID rule) = None then (d, Some ErrBARNotFound)
               else
                 let sess = touch now (sess\<lparr>sess_BARs := (sess_BARs sess)(bar_ID rule \<mapsto> rule)\<rparr>)
                 in (publishSnapshotLocked E now (put_session seid sess d), None)))"

definition RemoveBAR :: "'ie env \<Rightarrow> gotime \<Rightarrow> u64 \<Rightarrow> 'ie \<Rightarrow> Driver \<Rightarrow> Driver \<times> error option" where
  "RemoveBAR E now seid req d =
     (case ie_u8 (e_api E) A_BARID req of
        Inl err \<Rightarrow> (d, Some err)
      | Inr bid \<Rightarrow>
          (case d_sessions d seid of
             None \<Rightarrow> (d, Some ErrSessionNotFound)
           | Some sess \<Rightarrow>
               if sess_BARs sess bid = None then (d, Some ErrBARNotFound)
               else
                 let sess = touch now (sess\<lparr>sess_BARs := (sess_BARs sess)(bid := None)\<rparr>);
                     d = deleteSessionIfEmptyLocked seid sess (put_session seid sess d)
                 in (publishSnapshotLocked E now d, None)))"

definition HandleReport :: "bool \<Rightarrow> Driver \<Rightarrow> Driver" where
  "HandleReport handler d = d\<lparr>d_handler := handler\<rparr>"

end
