(* ===== verification/Adaptive.thy ===== *)
theory Adaptive
  imports Userspace
begin

text \<open>
  The adaptive QoS operations on the driver, \<^verbatim>\<open>internal/forwarder/userspace/adaptive_qos.go\<close>: a
  report starts or ends a flow, a flow overrides the gates and rates of QERs until it expires, and
  the debug interface resets everything. The MASQUE proxy, the report socket and the HTTP debug
  server are not modelled; reports are the arguments of \<open>applyAdaptiveReport\<close>.
\<close>

section \<open>Finding the session\<close>

definition session_has_ue :: "ranges \<Rightarrow> SessionState \<Rightarrow> string \<Rightarrow> bool" where
  "session_has_ue R sess addr \<longleftrightarrow>
     list_ex (\<lambda>pid. case sess_PDRs sess pid of
         None \<Rightarrow> False
       | Some pdr \<Rightarrow> (case pdr_PDI pdr of
           None \<Rightarrow> False
         | Some pdi \<Rightarrow> pdi_UEIPv4 pdi \<noteq> [] \<and> ip_String (pdi_UEIPv4 pdi) = addr))
       (rng16 R (dom (sess_PDRs sess)))"

definition resolveAdaptiveSessionLocked ::
  "ranges \<Rightarrow> AdaptiveReport \<Rightarrow> Driver \<Rightarrow> (u64 \<times> SessionState) option" where
  "resolveAdaptiveSessionLocked R r d =
     (if ar_SEIDHint r \<noteq> 0 then map_option (\<lambda>sess. (ar_SEIDHint r, sess)) (d_sessions d (ar_SEIDHint r))
      else if ar_UEAddress r \<noteq> '''' then
        (case find (\<lambda>seid. case d_sessions d seid of None \<Rightarrow> False | Some sess \<Rightarrow> session_has_ue R sess (ar_UEAddress r))
                (rng64 R (dom (d_sessions d))) of
           None \<Rightarrow> None
         | Some seid \<Rightarrow> map_option (\<lambda>sess. (seid, sess)) (d_sessions d seid))
      else if card (dom (d_sessions d)) = 1 then
        (case rng64 R (dom (d_sessions d)) of
           [] \<Rightarrow> None
         | seid # _ \<Rightarrow> map_option (\<lambda>sess. (seid, sess)) (d_sessions d seid))
      else None)"

section \<open>Starting and ending flows\<close>

definition AdaptiveReportTypeIntent :: string where "AdaptiveReportTypeIntent = ''intent''"
definition AdaptiveReportTypeEnd :: string where "AdaptiveReportTypeEnd = ''end''"
definition AdaptiveFeedbackStatusStarted :: string where "AdaptiveFeedbackStatusStarted = ''started''"
definition AdaptiveFeedbackStatusEnded :: string where "AdaptiveFeedbackStatusEnded = ''ended''"
definition AdaptiveFeedbackStatusRejected :: string where "AdaptiveFeedbackStatusRejected = ''rejected''"
definition adaptiveAutoEndGrace :: duration where "adaptiveAutoEndGrace = 10 * 10 ^ 9"

definition zero_feedback :: AdaptiveFeedback where
  "zero_feedback = \<lparr>fb_FlowID = '''', fb_Status = '''', fb_ReasonCode = '''', fb_ProfileID = '''',
     fb_Scenario = '''', fb_StoryPhase = '''', fb_GNBDecision = '''', fb_PredictedAirDelayMs = 0,
     fb_BlockSuccessRatio = 0, fb_PacketCount = 0\<rparr>"

definition zero_report :: AdaptiveReport where
  "zero_report = \<lparr>ar_UEAddress = '''', ar_FlowID = '''', ar_ReportType = '''', ar_Timestamp = 0,
     ar_Scenario = '''', ar_TrafficPattern = '''', ar_LatencySensitivity = '''',
     ar_PacketLossTolerance = '''', ar_Priority = '''', ar_ExpectedArrivalTime = 0, ar_BurstSize = 0,
     ar_BurstDuration = 0, ar_BurstDurationMs = 0, ar_Deadline = 0, ar_DeadlineMs = 0, ar_SEIDHint = 0,
     ar_Packet = None, ar_FlowDescription = ''''\<rparr>"

definition scheduleAdaptiveFlowAutoEnd :: "gotime \<Rightarrow> AdaptiveReport \<Rightarrow> gotime \<Rightarrow> Driver \<Rightarrow> Driver" where
  "scheduleAdaptiveFlowAutoEnd now r startedAt d =
     (if ar_FlowID r = '''' \<or> ar_ExpectedArrivalTime r = 0 then d
      else
        let deadline = ar_ExpectedArrivalTime r + adaptiveAutoEndGrace;
            delay = max adaptiveAutoEndGrace (deadline - now);
            endReport = zero_report\<lparr>ar_FlowID := ar_FlowID r, ar_UEAddress := ar_UEAddress r,
              ar_ReportType := AdaptiveReportTypeEnd, ar_Timestamp := deadline, ar_Scenario := ar_Scenario r\<rparr>
        in d\<lparr>d_autoEnd := d_autoEnd d @ [(now + delay, endReport, startedAt)]\<rparr>)"

definition mk_override :: "AdaptiveReport \<Rightarrow> AdaptiveProfile \<Rightarrow> gotime \<Rightarrow> u32 \<Rightarrow> AdaptiveQEROverride" where
  "mk_override r p expiresAt qid =
     \<lparr>ov_FlowID = ar_FlowID r, ov_ApplyToQERID = qid, ov_OverrideGateUL = ap_OverrideGateUL p,
      ov_OverrideGateDL = ap_OverrideGateDL p, ov_OverrideGFBRUL = ap_OverrideGFBRUL p,
      ov_OverrideGFBRDL = ap_OverrideGFBRDL p, ov_OverrideMBRUL = ap_OverrideMBRUL p,
      ov_OverrideMBRDL = ap_OverrideMBRDL p, ov_ExpiresAt = expiresAt\<rparr>"

definition set_overrides ::
  "AdaptiveReport \<Rightarrow> AdaptiveProfile \<Rightarrow> gotime \<Rightarrow> u32 list \<Rightarrow> SessionState \<Rightarrow> SessionState" where
  "set_overrides r p expiresAt qids sess =
     foldl (\<lambda>sess qid. sess\<lparr>sess_AdaptiveQER :=
        (sess_AdaptiveQER sess)(adaptiveQERKey qid \<mapsto> mk_override r p expiresAt qid)\<rparr>) sess qids"

text \<open>The rejection of a report whose session is not found.\<close>

definition reject_start :: "'ie env \<Rightarrow> gotime \<Rightarrow> AdaptiveReport \<Rightarrow> Driver \<Rightarrow> Driver \<times> AdaptiveFeedback" where
  "reject_start E now r d =
     (let feedback = zero_feedback\<lparr>fb_FlowID := ar_FlowID r, fb_Status := AdaptiveFeedbackStatusRejected,
            fb_ReasonCode := (if 1 < card (dom (d_sessions d)) \<and> ar_UEAddress r = '''' \<and> ar_SEIDHint r = 0
                              then ''SESSION_HINT_REQUIRED'' else ''SESSION_NOT_FOUND''),
            fb_Scenario := ar_Scenario r\<rparr>;
          d = addAdaptiveTraceLocked now (zero_event\<lparr>te_Timestamp := now, te_FlowID := ar_FlowID r,
                te_UEAddress := ar_UEAddress r, te_Packet := ar_Packet r, te_Stage := ''session-resolve'',
                te_Status := fb_Status feedback, te_ReasonCode := fb_ReasonCode feedback,
                te_DefaultProfileID := defaultAdaptiveProfileID, te_RequestMessage := Some r,
                te_ResponseMessage := Some feedback\<rparr>) d
      in (publishSnapshotLocked E now d, feedback))"

text \<open>The flow a report starts; \<open>addr\<close> is the address of its packet counter.\<close>

definition mk_flow ::
  "(string \<Rightarrow> bytes option) \<Rightarrow> gotime \<Rightarrow> AdaptiveReport \<Rightarrow> u32 list \<Rightarrow> AdaptiveProfile \<Rightarrow> string \<Rightarrow> string \<Rightarrow>
   adaptiveCPProvisionedRange \<Rightarrow> nat \<Rightarrow> AdaptiveFlowState" where
  "mk_flow p6 now r qids profile previousProfileID decisionReason cp addr =
     (let burst = ar_Scenario r = ''predictive-burst'' in
      \<lparr>af_FlowID = ar_FlowID r, af_UEAddress = ar_UEAddress r, af_Packet = ar_Packet r,
       af_AppliedQERIDs = qids, af_SelectedProfile = Some profile, af_PreviousProfileID = previousProfileID,
       af_DecisionReason = decisionReason, af_CPProvisionedRange = Some cp, af_LatestReport = r,
       af_StoryPhase = (if burst then ''prepared'' else ''''), af_Scenario = ar_Scenario r,
       af_FlowDescription = ar_FlowDescription r,
       af_ParsedFlowDesc = (if ar_FlowDescription r \<noteq> '''' then
            (case parseFlowDescription p6 (ar_FlowDescription r) of Inl _ \<Rightarrow> None | Inr rule \<Rightarrow> Some rule)
          else None),
       af_GNBDecision = (if burst then ''ACCEPTED'' else ''''),
       af_PredictedAirDelayMs = (if burst then derivePredictedAirDelay r else 0),
       af_BlockSuccessRatio = (if burst then deriveBlockSuccessRatio r else 0),
       af_PacketCount = addr, af_UpdatedAt = now\<rparr>)"

definition startAdaptiveFlow :: "'ie env \<Rightarrow> gotime \<Rightarrow> AdaptiveReport \<Rightarrow> Driver \<Rightarrow> Driver \<times> AdaptiveFeedback" where
  "startAdaptiveFlow E now r d =
     (case resolveAdaptiveSessionLocked (e_rng E) r d of
        None \<Rightarrow> reject_start E now r d
      | Some (seid, sess) \<Rightarrow>
          let qids = collectAdaptiveQERIDs (e_rng E) sess;
              previousProfileID = (case sess_AdaptiveFlows sess (ar_FlowID r) of
                  None \<Rightarrow> '''' | Some f \<Rightarrow> storyProfileID f);
              cp = collectCPProvisionedRange (e_rng E) (d_adaptiveQoS d) sess;
              (profile, decisionReason) = selectAdaptiveProfile (d_adaptiveQoS d) r (Some cp);
              profile = (if ap_Duration profile \<le> 0
                         then profile\<lparr>ap_Duration := defaultAdaptiveDuration (d_adaptiveQoS d)\<rparr> else profile);
              expiresAt = now + ap_Duration profile;
              sess = set_overrides r profile expiresAt qids sess;
              addr = d_nextFlow d;
              d = d\<lparr>d_nextFlow := addr + 1, d_flowCounts := (d_flowCounts d)(addr := 0)\<rparr>;
              flow = mk_flow (e_p6 E) now r qids profile previousProfileID decisionReason cp addr;
              feedback = zero_feedback\<lparr>fb_FlowID := ar_FlowID r, fb_Status := AdaptiveFeedbackStatusStarted,
                 fb_ReasonCode := ''ACCEPTED'', fb_ProfileID := ap_ProfileID profile,
                 fb_Scenario := ar_Scenario r, fb_StoryPhase := af_StoryPhase flow,
                 fb_GNBDecision := af_GNBDecision flow,
                 fb_PredictedAirDelayMs := af_PredictedAirDelayMs flow,
                 fb_BlockSuccessRatio := af_BlockSuccessRatio flow\<rparr>;
              sess = touch now (sess\<lparr>sess_AdaptiveFlows := (sess_AdaptiveFlows sess)(ar_FlowID r \<mapsto> flow)\<rparr>);
              d = put_session seid sess d;
              d = addAdaptiveTraceLocked now (zero_event\<lparr>te_Timestamp := now, te_FlowID := ar_FlowID r,
                    te_UEAddress := ar_UEAddress r, te_SEID := seid, te_Packet := ar_Packet r,
                    te_FlowDescription := ar_FlowDescription r, te_Stage := ''upf-profile-applied'',
                    te_Status := fb_Status feedback, te_ReasonCode := fb_ReasonCode feedback,
                    te_ProfileID := ap_ProfileID profile, te_Scenario := ar_Scenario r,
                    te_GNBDecision := fb_GNBDecision feedback,
                    te_PredictedAirDelayMs := fb_PredictedAirDelayMs feedback,
                    te_BlockSuccessRatio := fb_BlockSuccessRatio feedback,
                    te_PreviousProfileID := previousProfileID, te_DefaultProfileID := defaultAdaptiveProfileID,
                    te_DecisionReason := decisionReason, te_CPProvisionedRange := Some cp,
                    te_QoSDecision := flowQoSDecision flow, te_RequestMessage := Some r,
                    te_ResponseMessage := Some feedback\<rparr>) d;
              d = publishSnapshotLocked E now d
          in (scheduleAdaptiveFlowAutoEnd now r (ar_Timestamp r) d, feedback))"

text \<open>The first session visited that has the flow.\<close>

definition find_flow :: "ranges \<Rightarrow> Driver \<Rightarrow> string \<Rightarrow> (u64 \<times> SessionState \<times> AdaptiveFlowState) option" where
  "find_flow R d flowID =
     (case find (\<lambda>seid. case d_sessions d seid of None \<Rightarrow> False | Some sess \<Rightarrow> sess_AdaptiveFlows sess flowID \<noteq> None)
             (rng64 R (dom (d_sessions d))) of
        None \<Rightarrow> None
      | Some seid \<Rightarrow>
          Option.bind (d_sessions d seid) (\<lambda>sess.
            map_option (\<lambda>flow. (seid, sess, flow)) (sess_AdaptiveFlows sess flowID)))"

definition endAdaptiveFlow :: "'ie env \<Rightarrow> gotime \<Rightarrow> AdaptiveReport \<Rightarrow> Driver \<Rightarrow> Driver \<times> AdaptiveFeedback" where
  "endAdaptiveFlow E now r d =
     (let feedback = zero_feedback\<lparr>fb_FlowID := ar_FlowID r, fb_Status := AdaptiveFeedbackStatusRejected,
            fb_ReasonCode := ''FLOW_NOT_FOUND'', fb_Scenario := ar_Scenario r\<rparr> in
      case find_flow (e_rng E) d (ar_FlowID r) of
        Some (seid, sess, flow) \<Rightarrow>
          let sess = foldl (\<lambda>sess qid. sess\<lparr>sess_AdaptiveQER := (sess_AdaptiveQER sess)(adaptiveQERKey qid := None)\<rparr>)
                       sess (af_AppliedQERIDs flow);
              sess = touch now (sess\<lparr>sess_AdaptiveFlows := (sess_AdaptiveFlows sess)(ar_FlowID r := None)\<rparr>);
              feedback = feedback\<lparr>fb_Status := AdaptiveFeedbackStatusEnded, fb_ReasonCode := ''ENDED'',
                 fb_ProfileID := storyProfileID flow, fb_PacketCount := d_flowCounts d (af_PacketCount flow)\<rparr>;
              d = put_session seid sess d;
              d = addAdaptiveTraceLocked now (zero_event\<lparr>te_Timestamp := now, te_FlowID := ar_FlowID r,
                    te_UEAddress := af_UEAddress flow, te_SEID := sess_SEID sess, te_Packet := ar_Packet r,
                    te_Stage := ''upf-profile-cleared'', te_Status := fb_Status feedback,
                    te_ReasonCode := fb_ReasonCode feedback, te_ProfileID := fb_ProfileID feedback,
                    te_PacketCount := fb_PacketCount feedback, te_DefaultProfileID := defaultAdaptiveProfileID,
                    te_RequestMessage := Some r, te_ResponseMessage := Some feedback\<rparr>) d
          in (publishSnapshotLocked E now d, feedback)
      | None \<Rightarrow>
          let d = addAdaptiveTraceLocked now (zero_event\<lparr>te_Timestamp := now, te_FlowID := ar_FlowID r,
                    te_UEAddress := ar_UEAddress r, te_Packet := ar_Packet r, te_Stage := ''upf-profile-clear-miss'',
                    te_Status := fb_Status feedback, te_ReasonCode := fb_ReasonCode feedback,
                    te_DefaultProfileID := defaultAdaptiveProfileID, te_RequestMessage := Some r,
                    te_ResponseMessage := Some feedback\<rparr>) d
          in (publishSnapshotLocked E now d, feedback))"

definition applyAdaptiveReport :: "'ie env \<Rightarrow> gotime \<Rightarrow> AdaptiveReport \<Rightarrow> Driver \<Rightarrow> Driver \<times> AdaptiveFeedback" where
  "applyAdaptiveReport E now r d =
     (let r = normalize r;
          r = (if ar_ReportType r = '''' then r\<lparr>ar_ReportType := AdaptiveReportTypeIntent\<rparr> else r);
          r = (if ar_Timestamp r = 0 then r\<lparr>ar_Timestamp := now\<rparr> else r);
          r = (if ar_FlowID r = '''' then r\<lparr>ar_FlowID := ''flow-'' @ dec_int (UnixNano now)\<rparr> else r)
      in if ar_ReportType r = AdaptiveReportTypeEnd then endAdaptiveFlow E now r d
         else startAdaptiveFlow E now r d)"

definition isFlowStillCurrent :: "ranges \<Rightarrow> string \<Rightarrow> gotime \<Rightarrow> Driver \<Rightarrow> bool" where
  "isFlowStillCurrent R flowID startedAt d =
     (if flowID = '''' then False
      else case find_flow R d flowID of
        None \<Rightarrow> False
      | Some (seid, sess, flow) \<Rightarrow> UnixNano (ar_Timestamp (af_LatestReport flow)) = UnixNano startedAt)"

text \<open>The function of the timer.\<close>

definition fireAutoEnd :: "'ie env \<Rightarrow> gotime \<Rightarrow> AdaptiveReport \<Rightarrow> gotime \<Rightarrow> Driver \<Rightarrow> Driver" where
  "fireAutoEnd E now endReport startedAt d =
     (if isFlowStillCurrent (e_rng E) (ar_FlowID endReport) startedAt d
      then fst (applyAdaptiveReport E now endReport d) else d)"

definition InterceptUplink :: "'ie env \<Rightarrow> gotime \<Rightarrow> bytes \<Rightarrow> Driver \<Rightarrow> Driver \<times> bool" where
  "InterceptUplink E now payload d =
     (if d_adaptiveQoS d = None then (d, False)
      else case e_json E payload of
        None \<Rightarrow> (d, False)
      | Some r \<Rightarrow>
          let r = (if ar_ReportType r = '''' then r\<lparr>ar_ReportType := AdaptiveReportTypeIntent\<rparr> else r)
          in (fst (applyAdaptiveReport E now r d), True))"

section \<open>Reset\<close>

definition reset_session :: "gotime \<Rightarrow> SessionState \<Rightarrow> SessionState" where
  "reset_session now sess =
     touch now (sess\<lparr>sess_AdaptiveQER := Map.empty, sess_AdaptiveFlows := Map.empty, sess_LastCPProvisioned := None\<rparr>)"

definition reset_emit :: "'ie env \<Rightarrow> gotime \<Rightarrow> u64 \<Rightarrow> Driver \<Rightarrow> Driver" where
  "reset_emit E now seid d =
     (case d_sessions d seid of
        None \<Rightarrow> d
      | Some sess \<Rightarrow>
          let ueAddress = session_ue_address (e_rng E) sess;
              d = addAdaptiveTraceLocked now (zero_event\<lparr>te_Timestamp := now, te_SEID := seid,
                    te_UEAddress := ueAddress, te_Stage := ''pdu-session-established'', te_Status := ''active'',
                    te_DecisionReason := ''discovered session seid='' @ dec64 seid @ '' ue='' @ ueAddress\<rparr>) d;
              (sess, d) = emitCPProvisionedTraceLocked E now sess d
          in put_session seid sess d)"

definition resetAdaptiveState :: "'ie env \<Rightarrow> gotime \<Rightarrow> Driver \<Rightarrow> Driver" where
  "resetAdaptiveState E now d =
     (let d = d\<lparr>d_sessions := (\<lambda>seid. map_option (reset_session now) (d_sessions d seid))\<rparr>;
          d = d\<lparr>d_adaptiveTrace := trace_reset (d_adaptiveTrace d)\<rparr>;
          d = fold (reset_emit E now) (rng64 (e_rng E) (dom (d_sessions d))) d
      in publishSnapshotLocked E now d)"

end
