(* ===== verification/Pipeline.thy ===== *)
theory Pipeline
  imports Adaptive
begin

text \<open>
  The packet path of the userspace forwarder, \<^verbatim>\<open>internal/forwarder/userspace/pipeline.go\<close>, with
  \<open>process\<close> of \<^verbatim>\<open>state.go\<close>, the dispatch functions of \<^verbatim>\<open>runtime.go\<close> and the periodic usage
  reports of \<^verbatim>\<open>urr_periodic.go\<close>. A packet is processed as one step; \<open>None\<close> is a panic.
\<close>

section \<open>Usage\<close>

definition count_packet :: "nat \<Rightarrow> bool \<Rightarrow> VolumeMeasure \<Rightarrow> VolumeMeasure" where
  "count_packet n uplink v =
     (let v = v\<lparr>TotalVolume := TotalVolume v + of_nat n, TotalPktNum := TotalPktNum v + 1\<rparr> in
      if uplink then v\<lparr>UplinkVolume := UplinkVolume v + of_nat n, UplinkPktNum := UplinkPktNum v + 1\<rparr>
      else v\<lparr>DownlinkVolume := DownlinkVolume v + of_nat n, DownlinkPktNum := DownlinkPktNum v + 1\<rparr>)"

definition limit_reached :: "VolumeLimit option \<Rightarrow> VolumeMeasure \<Rightarrow> bool" where
  "limit_reached lmt v =
     (case lmt of None \<Rightarrow> False | Some l \<Rightarrow> 0 < vl_TotalVolume l \<and> vl_TotalVolume l \<le> TotalVolume v)"

text \<open>The record of one URR after a packet, and whether it triggers a report.\<close>

definition new_usage :: "gotime \<Rightarrow> URRRule \<Rightarrow> nat \<Rightarrow> bool \<Rightarrow> USAReport list \<Rightarrow> USAReport \<times> bool" where
  "new_usage now urr n uplink current =
     (let usage = (if current \<noteq> [] then (last current)\<lparr>EndTime := now\<rparr>
                   else zero_usage\<lparr>URRID := urr_ID urr, StartTime := now, EndTime := now\<rparr>);
          usage = usage\<lparr>VolumMeasure := count_packet n uplink (VolumMeasure usage)\<rparr>;
          th = limit_reached (urr_VolumeThreshold urr) (VolumMeasure usage);
          qu = limit_reached (urr_VolumeQuota urr) (VolumMeasure usage);
          usage = (if th then usage\<lparr>USARTrigger := SetReportingTrigger (USARTrigger usage) RPT_TRIG_VOLTH\<rparr> else usage);
          usage = (if qu then usage\<lparr>USARTrigger := SetReportingTrigger (USARTrigger usage) RPT_TRIG_VOLQU\<rparr> else usage)
      in (usage, th \<or> qu))"

definition usage_step ::
  "gotime \<Rightarrow> nat \<Rightarrow> bool \<Rightarrow> SessionState \<times> Report list \<Rightarrow> URRRule \<Rightarrow> SessionState \<times> Report list" where
  "usage_step now n uplink st urr =
     (let (sess, reports) = st;
          (usage, triggered) = new_usage now urr n uplink (slice_at (sess_URRReports sess) (urr_ID urr));
          sess = sess\<lparr>sess_URRReports := (sess_URRReports sess)(urr_ID urr \<mapsto> [usage])\<rparr>
      in (sess, if triggered then reports @ [USAR usage] else reports))"

definition updateUsage :: "'ie env \<Rightarrow> gotime \<Rightarrow> PDRBinding \<Rightarrow> nat \<Rightarrow> bool \<Rightarrow> Driver \<Rightarrow> Driver" where
  "updateUsage E now binding n uplink d =
     (if b_URRs binding = [] then d
      else case d_sessions d (b_SEID binding) of
        None \<Rightarrow> d
      | Some sess \<Rightarrow>
          let (sess, reports) = foldl (usage_step now n uplink) (sess, []) (b_URRs binding);
              d = publishSnapshotLocked E now (put_session (b_SEID binding) (touch now sess) d)
          in if reports \<noteq> [] then emitReport \<lparr>sr_SEID = b_SEID binding, sr_Reports = reports\<rparr> d else d)"

section \<open>Counters\<close>

definition stat_uplink :: "Driver \<Rightarrow> Driver" where
  "stat_uplink d = d\<lparr>d_stats := (d_stats d)\<lparr>uplinkPackets := uplinkPackets (d_stats d) + 1\<rparr>\<rparr>"

definition stat_downlink :: "Driver \<Rightarrow> Driver" where
  "stat_downlink d = d\<lparr>d_stats := (d_stats d)\<lparr>downlinkPackets := downlinkPackets (d_stats d) + 1\<rparr>\<rparr>"

definition stat_forwarded :: "Driver \<Rightarrow> Driver" where
  "stat_forwarded d = d\<lparr>d_stats := (d_stats d)\<lparr>forwardedPackets := forwardedPackets (d_stats d) + 1\<rparr>\<rparr>"

definition stat_dropped :: "Driver \<Rightarrow> Driver" where
  "stat_dropped d = d\<lparr>d_stats := (d_stats d)\<lparr>droppedPackets := droppedPackets (d_stats d) + 1\<rparr>\<rparr>"

definition stat_buffered :: "Driver \<Rightarrow> Driver" where
  "stat_buffered d = d\<lparr>d_stats := (d_stats d)\<lparr>bufferedPackets := bufferedPackets (d_stats d) + 1\<rparr>\<rparr>"

definition stat_uplink_miss :: "Driver \<Rightarrow> Driver" where
  "stat_uplink_miss d = d\<lparr>d_stats := (d_stats d)\<lparr>uplinkPdrMisses := uplinkPdrMisses (d_stats d) + 1\<rparr>\<rparr>"

definition stat_downlink_miss :: "Driver \<Rightarrow> Driver" where
  "stat_downlink_miss d = d\<lparr>d_stats := (d_stats d)\<lparr>downlinkPdrMisses := downlinkPdrMisses (d_stats d) + 1\<rparr>\<rparr>"

definition stat_unsupported :: "Driver \<Rightarrow> Driver" where
  "stat_unsupported d = d\<lparr>d_stats := (d_stats d)\<lparr>unsupportedDownlinkL3 := unsupportedDownlinkL3 (d_stats d) + 1\<rparr>\<rparr>"

definition stat_uplink_error :: "Driver \<Rightarrow> Driver" where
  "stat_uplink_error d = d\<lparr>d_stats := (d_stats d)\<lparr>uplinkPacketErrors := uplinkPacketErrors (d_stats d) + 1\<rparr>\<rparr>"

definition stat_downlink_error :: "Driver \<Rightarrow> Driver" where
  "stat_downlink_error d = d\<lparr>d_stats := (d_stats d)\<lparr>downlinkPacketErrors := downlinkPacketErrors (d_stats d) + 1\<rparr>\<rparr>"

section \<open>Uplink\<close>

definition fail_uplink :: "error \<Rightarrow> PacketResult \<Rightarrow> Driver \<Rightarrow> Driver \<times> PacketResult" where
  "fail_uplink err result d = (stat_dropped (stat_uplink_error d), result\<lparr>res_Err := Some err\<rparr>)"

text \<open>The action for a matched packet: the FAR's, unless a gate is closed or the rate is exceeded.\<close>

definition decide_action ::
  "gotime \<Rightarrow> PDRBinding \<Rightarrow> nat \<Rightarrow> PacketDirection \<Rightarrow> Driver \<Rightarrow> Driver \<times> PacketAction" where
  "decide_action now binding n direction d =
     (let action = resolveAction binding;
          action = (if gateClosed d binding direction now then PacketActionDrop else action)
      in if action = PacketActionForward then
           (let (d, ok) = mbrAllows now binding n direction d in (d, if ok then action else PacketActionDrop))
         else (d, action))"

definition dropped_outcome :: "PDRBinding \<Rightarrow> PacketAction \<Rightarrow> PacketOutcome" where
  "dropped_outcome binding action =
     \<lparr>out_SEID = b_SEID binding, out_PDRID = pdr_ID (b_PDR binding), out_Action = action,
      out_Format = PayloadFormatRawIP, out_Payload = [], out_Peer = None\<rparr>"

text \<open>The switch on the action; the flag tells whether the function returned early.\<close>

definition act_uplink ::
  "'ie env \<Rightarrow> gotime \<Rightarrow> PDRBinding \<Rightarrow> bytes \<Rightarrow> PacketResult \<Rightarrow> Driver \<Rightarrow> (Driver \<times> PacketResult \<times> bool) option" where
  "act_uplink E now binding inner result d =
     (case res_Action result of
        PacketActionForward \<Rightarrow>
          (let (d, intercepted) = InterceptUplink E now inner d in
           if intercepted then Some (stat_forwarded d, result, False)
           else case forwardUplink binding inner of
             None \<Rightarrow> None
           | Some (Inl err) \<Rightarrow> (let (d, result) = fail_uplink err result d in Some (d, result, True))
           | Some (Inr outcome) \<Rightarrow>
               Some (publishOutcome outcome (stat_forwarded d), result\<lparr>res_Outcome := Some outcome\<rparr>, False))
      | PacketActionBuffer \<Rightarrow>
          (let (d, outcome) = bufferPacket now binding inner d
           in Some (stat_buffered d, result\<lparr>res_Outcome := Some outcome\<rparr>, False))
      | _ \<Rightarrow>
          Some (stat_dropped d, result\<lparr>res_Outcome := Some (dropped_outcome binding (res_Action result))\<rparr>, False))"

definition processUplink ::
  "'ie env \<Rightarrow> gotime \<Rightarrow> Packet \<Rightarrow> PacketResult \<Rightarrow> Driver \<Rightarrow> (Driver \<times> PacketResult) option" where
  "processUplink E now packet result d =
     (let d = stat_uplink d in
      case decodeGTPU (pkt_Payload packet) of
        None \<Rightarrow> None
      | Some (Inl err) \<Rightarrow> Some (fail_uplink err result d)
      | Some (Inr decoded) \<Rightarrow>
          (let inner = d_InnerPayload decoded in
           case parseIPv4PacketMeta inner of
             Inl err \<Rightarrow> Some (fail_uplink err result d)
           | Inr meta \<Rightarrow>
               let ueIP = (if pkt_UEIP packet = [] then SrcIP meta else pkt_UEIP packet) in
               case matchUplink E d (d_TEID decoded) ueIP (Some meta) of
                 None \<Rightarrow>
                   Some (fail_uplink (ErrMsg ''userspace: packet did not match any uplink PDR'') result (stat_uplink_miss d))
               | Some binding \<Rightarrow>
                   let (d, action) = decide_action now binding (length inner) PacketDirectionUplink d;
                       result = result\<lparr>res_Binding := Some binding, res_Action := action\<rparr>
                   in case act_uplink E now binding inner result d of
                        None \<Rightarrow> None
                      | Some (d, result, returned) \<Rightarrow>
                          Some (if returned then d else updateUsage E now binding (length inner) True d, result)))"

section \<open>Downlink\<close>

definition fail_downlink :: "error \<Rightarrow> PacketResult \<Rightarrow> Driver \<Rightarrow> Driver \<times> PacketResult" where
  "fail_downlink err result d = (stat_dropped (stat_downlink_error d), result\<lparr>res_Err := Some err\<rparr>)"

text \<open>Counting and tracing a packet of an adaptive flow.\<close>

definition burst_detected :: "'ie env \<Rightarrow> gotime \<Rightarrow> PDRBinding \<Rightarrow> bytes \<Rightarrow> AdaptiveFlowState \<Rightarrow> Driver \<Rightarrow> Driver" where
  "burst_detected E now binding ueIP flow d =
     (let d = d\<lparr>d_flowCounts := (d_flowCounts d)(af_PacketCount flow := d_flowCounts d (af_PacketCount flow) + 1)\<rparr>;
          d = addAdaptiveTraceLocked now (zero_event\<lparr>te_Timestamp := now, te_SEID := b_SEID binding,
                te_UEAddress := ip_String ueIP, te_FlowID := af_FlowID flow,
                te_FlowDescription := af_FlowDescription flow, te_Stage := ''burst-packet-detected'',
                te_DecisionReason := ''detected packet matching flow 5-tuple on N6''\<rparr>) d
      in publishSnapshotLocked E now d)"

definition act_downlink ::
  "'ie env \<Rightarrow> gotime \<Rightarrow> PDRBinding \<Rightarrow> bytes \<Rightarrow> bytes \<Rightarrow> PacketResult \<Rightarrow> Driver \<Rightarrow> (Driver \<times> PacketResult \<times> bool) option" where
  "act_downlink E now binding ueIP payload result d =
     (case res_Action result of
        PacketActionForward \<Rightarrow>
          (let d = (case res_MatchedAdaptiveFlow result of
                      None \<Rightarrow> d | Some flow \<Rightarrow> burst_detected E now binding ueIP flow d) in
           case forwardDownlink binding payload of
             None \<Rightarrow> None
           | Some (Inl err) \<Rightarrow> (let (d, result) = fail_downlink err result d in Some (d, result, True))
           | Some (Inr outcome) \<Rightarrow>
               Some (publishOutcome outcome (stat_forwarded d), result\<lparr>res_Outcome := Some outcome\<rparr>, False))
      | PacketActionBuffer \<Rightarrow>
          (let (d, outcome) = bufferPacket now binding payload d
           in Some (stat_buffered d, result\<lparr>res_Outcome := Some outcome\<rparr>, False))
      | _ \<Rightarrow>
          Some (stat_dropped d, result\<lparr>res_Outcome := Some (dropped_outcome binding (res_Action result))\<rparr>, False))"

definition processDownlink ::
  "'ie env \<Rightarrow> gotime \<Rightarrow> Packet \<Rightarrow> PacketResult \<Rightarrow> Driver \<Rightarrow> (Driver \<times> PacketResult) option" where
  "processDownlink E now packet result d =
     (let d = stat_downlink d; payload = pkt_Payload packet in
      case parseIPv4PacketMeta payload of
        Inl err \<Rightarrow>
          Some (fail_downlink (ErrMsg ''userspace: unsupported non-IPv4 downlink payload'')
            (result\<lparr>res_Action := PacketActionDrop\<rparr>) (stat_unsupported d))
      | Inr meta \<Rightarrow>
          let ueIP = (if pkt_UEIP packet = [] then DstIP meta else pkt_UEIP packet);
              (bo, flow) = matchDownlink d ueIP (Some meta);
              result = result\<lparr>res_Binding := bo, res_MatchedAdaptiveFlow := flow\<rparr>
          in case bo of
               None \<Rightarrow>
                 Some (fail_downlink (ErrMsg ''userspace: packet did not match any downlink PDR'') result (stat_downlink_miss d))
             | Some binding \<Rightarrow>
                 let (d, action) = decide_action now binding (length payload) PacketDirectionDownlink d;
                     result = result\<lparr>res_Action := action\<rparr>
                 in case act_downlink E now binding ueIP payload result d of
                      None \<Rightarrow> None
                    | Some (d, result, returned) \<Rightarrow>
                        Some (if returned then d else updateUsage E now binding (length payload) False d, result))"

section \<open>Dispatch\<close>

definition process :: "'ie env \<Rightarrow> gotime \<Rightarrow> nat \<Rightarrow> Packet \<Rightarrow> Driver \<Rightarrow> (Driver \<times> PacketResult) option" where
  "process E now workerID packet d =
     (let result = \<lparr>res_WorkerID = workerID, res_Action = PacketActionUnknown, res_Binding = None,
            res_Outcome = None, res_MatchedAdaptiveFlow = None, res_Err = None\<rparr> in
      case pkt_Direction packet of
        PacketDirectionUplink \<Rightarrow> processUplink E now packet result d
      | PacketDirectionDownlink \<Rightarrow> processDownlink E now packet result d
      | PacketDirectionOther \<Rightarrow> Some (d, result\<lparr>res_Err := Some (ErrMsg ''userspace: unknown packet direction'')\<rparr>))"

definition DispatchPacket :: "'ie env \<Rightarrow> gotime \<Rightarrow> Packet \<Rightarrow> Driver \<Rightarrow> (Driver \<times> PacketResult) option" where
  "DispatchPacket E now packet d =
     (if d_workers d = 0
      then Some (d, \<lparr>res_WorkerID = 0, res_Action = PacketActionUnknown, res_Binding = None,
             res_Outcome = None, res_MatchedAdaptiveFlow = None,
             res_Err = Some (ErrMsg ''userspace: no workers available'')\<rparr>)
      else process E now (workerIndexFor (d_workers d) packet) packet d)"

definition ProcessUplinkGTP :: "'ie env \<Rightarrow> gotime \<Rightarrow> bytes \<Rightarrow> Driver \<Rightarrow> (Driver \<times> PacketResult) option" where
  "ProcessUplinkGTP E now payload d =
     DispatchPacket E now \<lparr>pkt_Direction = PacketDirectionUplink, pkt_SEIDHint = 0, pkt_TEID = uplinkTEID payload,
       pkt_UEIP = [], pkt_Payload = payload\<rparr> d"

definition ProcessDownlinkIP :: "'ie env \<Rightarrow> gotime \<Rightarrow> bytes \<Rightarrow> Driver \<Rightarrow> (Driver \<times> PacketResult) option" where
  "ProcessDownlinkIP E now payload d =
     DispatchPacket E now \<lparr>pkt_Direction = PacketDirectionDownlink, pkt_SEIDHint = 0, pkt_TEID = 0,
       pkt_UEIP = downlinkUEIP payload, pkt_Payload = payload\<rparr> d"

section \<open>Periodic usage reports\<close>

text \<open>One URR of a session at a tick: the session and the report to send.\<close>

definition periodic_urr :: "gotime \<Rightarrow> SessionState \<times> USAReport list \<Rightarrow> u32 \<Rightarrow> SessionState \<times> USAReport list" where
  "periodic_urr now st uid =
     (let (sess, reports) = st in
      case sess_URRs sess uid of
        None \<Rightarrow> st
      | Some urr \<Rightarrow>
          if urr_MeasurementPeriod urr \<le> 0 \<or> \<not> RT_PERIO (urr_ReportingTrigger urr) then st
          else
            let last_at = (case sess_URRPeriodAt sess uid of None \<Rightarrow> 0 | Some t \<Rightarrow> t);
                restart = sess\<lparr>sess_URRPeriodAt := (sess_URRPeriodAt sess)(uid \<mapsto> now)\<rparr> in
            if last_at = 0 then (restart, reports)
            else if now - last_at < urr_MeasurementPeriod urr then st
            else
              let current = slice_at (sess_URRReports sess) uid in
              if current = [] then (restart, reports)
              else
                let usage = (last current)\<lparr>EndTime := now,
                      USARTrigger := SetReportingTrigger \<lparr>ut_Flags = 0\<rparr> RPT_TRIG_PERIO\<rparr>
                in (restart\<lparr>sess_URRReports := (sess_URRReports sess)(uid \<mapsto>
                      [zero_usage\<lparr>URRID := uid, StartTime := now, EndTime := now\<rparr>])\<rparr>,
                    reports @ [usage]))"

definition periodic_session ::
  "'ie env \<Rightarrow> gotime \<Rightarrow> Driver \<times> (u64 \<times> USAReport list) list \<Rightarrow> u64 \<Rightarrow> Driver \<times> (u64 \<times> USAReport list) list" where
  "periodic_session E now st seid =
     (let (d, all) = st in
      case d_sessions d seid of
        None \<Rightarrow> st
      | Some sess \<Rightarrow>
          let (sess, reports) = foldl (periodic_urr now) (sess, []) (rng32 (e_rng E) (dom (sess_URRs sess)))
          in (put_session seid sess d, if reports = [] then all else all @ [(seid, reports)]))"

text \<open>
  The reports are collected in a map from SEID, here the list of its entries in the order they
  are created, and emitted in the order \<open>range\<close> visits that map.
\<close>

definition emitPeriodicURRReports :: "'ie env \<Rightarrow> gotime \<Rightarrow> Driver \<Rightarrow> Driver" where
  "emitPeriodicURRReports E now d =
     (let (d, all) = foldl (periodic_session E now) (d, []) (rng64 (e_rng E) (dom (d_sessions d)));
          d = (if all \<noteq> [] then publishSnapshotLocked E now d else d)
      in fold (\<lambda>seid d. case map_of all seid of
                  None \<Rightarrow> d
                | Some reports \<Rightarrow> emitReport \<lparr>sr_SEID = seid, sr_Reports = map USAR reports\<rparr> d)
           (rng64 (e_rng E) (dom (map_of all))) d)"

end
