(* ===== verification/Userspace_Inv.thy ===== *)
theory Userspace_Inv
  imports Pipeline
begin

text \<open>
  The userspace driver as a state machine: every operation of the control plane, every packet, and
  every timer is a step, and the reachable states are those some sequence of steps leads to from a
  new driver. \<open>ReportUsage\<close>, which only the tests call, is not a step. The invariant says that
  rules and usage records are stored under their own identifiers, that the volumes and packets
  of a record are the sum of both directions, that the snapshot the packet path reads lists exactly the rules of the sessions, that the packet counters
  add up, and that the output buffer keeps its capacity.
\<close>

section \<open>Steps\<close>

datatype 'ie uop =
    OpCreatePDR u64 'ie | OpUpdatePDR u64 'ie | OpRemovePDR u64 'ie
  | OpCreateFAR u64 'ie | OpUpdateFAR u64 'ie | OpRemoveFAR u64 'ie
  | OpCreateQER u64 'ie | OpUpdateQER u64 'ie | OpRemoveQER u64 'ie
  | OpCreateURR u64 'ie | OpUpdateURR u64 'ie | OpRemoveURR u64 'ie
  | OpCreateBAR u64 'ie | OpUpdateBAR u64 'ie | OpRemoveBAR u64 'ie
  | OpHandleReport bool
  | OpPacket Packet
  | OpTick
  | OpFireDDN ddnKey
  | OpAdaptiveReport AdaptiveReport
  | OpAutoEnd AdaptiveReport gotime
  | OpReset

text \<open>One step; \<open>None\<close> is a panic.\<close>

fun exec :: "'ie env \<Rightarrow> gotime \<Rightarrow> 'ie uop \<Rightarrow> Driver \<Rightarrow> Driver option" where
  "exec E now (OpCreatePDR seid req) d = Some (fst (CreatePDR E now seid req d))"
| "exec E now (OpUpdatePDR seid req) d = Some (fst (UpdatePDR E now seid req d))"
| "exec E now (OpRemovePDR seid req) d = Some (fst (RemovePDR E now seid req d))"
| "exec E now (OpCreateFAR seid req) d = Some (fst (CreateFAR E now seid req d))"
| "exec E now (OpUpdateFAR seid req) d = map_option fst (UpdateFAR E now seid req d)"
| "exec E now (OpRemoveFAR seid req) d = Some (fst (RemoveFAR E now seid req d))"
| "exec E now (OpCreateQER seid req) d = Some (fst (CreateQER E now seid req d))"
| "exec E now (OpUpdateQER seid req) d = Some (fst (UpdateQER E now seid req d))"
| "exec E now (OpRemoveQER seid req) d = Some (fst (RemoveQER E now seid req d))"
| "exec E now (OpCreateURR seid req) d = Some (fst (CreateURR E now seid req d))"
| "exec E now (OpUpdateURR seid req) d = Some (fst (UpdateURR E now seid req d))"
| "exec E now (OpRemoveURR seid req) d = Some (fst (RemoveURR E now seid req d))"
| "exec E now (OpCreateBAR seid req) d = Some (fst (CreateBAR E now seid req d))"
| "exec E now (OpUpdateBAR seid req) d = Some (fst (UpdateBAR E now seid req d))"
| "exec E now (OpRemoveBAR seid req) d = Some (fst (RemoveBAR E now seid req d))"
| "exec E now (OpHandleReport h) d = Some (HandleReport h d)"
| "exec E now (OpPacket packet) d = map_option fst (DispatchPacket E now packet d)"
| "exec E now OpTick d = Some (emitPeriodicURRReports E now d)"
| "exec E now (OpFireDDN key) d = Some (fireBufferedNotification key d)"
| "exec E now (OpAdaptiveReport r) d = Some (fst (applyAdaptiveReport E now r d))"
| "exec E now (OpAutoEnd r startedAt) d = Some (fireAutoEnd E now r startedAt d)"
| "exec E now OpReset d = Some (resetAdaptiveState E now d)"

inductive reachable :: "'ie env \<Rightarrow> Driver \<Rightarrow> bool" for E where
  init: "reachable E (New now maxprocs us aq)"
| step: "reachable E d \<Longrightarrow> exec E now op d = Some d' \<Longrightarrow> reachable E d'"

section \<open>The invariant\<close>

definition keyed :: "('v \<Rightarrow> 'k) \<Rightarrow> ('k \<rightharpoonup> 'v) \<Rightarrow> bool" where
  "keyed f m \<longleftrightarrow> (\<forall>k v. m k = Some v \<longrightarrow> f v = k)"

definition balanced :: "VolumeMeasure \<Rightarrow> bool" where
  "balanced v \<longleftrightarrow> TotalVolume v = UplinkVolume v + DownlinkVolume v \<and> TotalPktNum v = UplinkPktNum v + DownlinkPktNum v"

definition usage_ok :: "(u32 \<rightharpoonup> USAReport list) \<Rightarrow> bool" where
  "usage_ok m \<longleftrightarrow> (\<forall>u rs r. m u = Some rs \<longrightarrow> r \<in> set rs \<longrightarrow> URRID r = u \<and> balanced (VolumMeasure r))"

definition sess_wf :: "u64 \<Rightarrow> SessionState \<Rightarrow> bool" where
  "sess_wf seid sess \<longleftrightarrow> sess_SEID sess = seid \<and>
     keyed pdr_ID (sess_PDRs sess) \<and> keyed far_ID (sess_FARs sess) \<and> keyed qer_ID (sess_QERs sess) \<and>
     keyed urr_ID (sess_URRs sess) \<and> keyed bar_ID (sess_BARs sess) \<and> finite (dom (sess_AdaptiveFlows sess)) \<and>
     usage_ok (sess_URRReports sess)"

text \<open>
  Everything but the snapshot. The number \<open>j\<close> counts packets that are being processed: they are
  counted as received and not yet as forwarded, dropped or buffered.
\<close>

definition base_inv :: "u64 \<Rightarrow> Driver \<Rightarrow> bool" where
  "base_inv j d \<longleftrightarrow>
     (\<forall>seid sess. d_sessions d seid = Some sess \<longrightarrow> sess_wf seid sess) \<and>
     uplinkPackets (d_stats d) + downlinkPackets (d_stats d) =
       forwardedPackets (d_stats d) + droppedPackets (d_stats d) + bufferedPackets (d_stats d) + j \<and>
     length (d_output d) \<le> d_outputCap d"

definition snapshot_current :: "'ie env \<Rightarrow> Driver \<Rightarrow> bool" where
  "snapshot_current E d \<longleftrightarrow>
     (\<forall>t. set (slice_at (snap_Uplink (d_snapshot d)) t) =
          set (all_entries E (d_sessions d) (\<lambda>i s. uplink_entry E i s t))) \<and>
     (\<forall>k. set (slice_at (snap_Downlink (d_snapshot d)) k) =
          set (all_entries E (d_sessions d) (\<lambda>i s. downlink_entry E i s k)))"

definition driver_inv :: "u64 \<Rightarrow> 'ie env \<Rightarrow> Driver \<Rightarrow> bool" where
  "driver_inv j E d \<longleftrightarrow> base_inv j d \<and> snapshot_current E d"

section \<open>Lemmas\<close>

subsection \<open>Sessions\<close>

lemma keyed_empty [simp]: "keyed f Map.empty"
  by (simp add: keyed_def)

lemma keyed_upd [simp]: "keyed f m \<Longrightarrow> f v = k \<Longrightarrow> keyed f (m(k \<mapsto> v))"
  by (simp add: keyed_def)

lemma keyed_del [simp]: "keyed f m \<Longrightarrow> keyed f (m(k := None))"
  by (simp add: keyed_def)

lemma usage_ok_simps [simp]: "usage_ok Map.empty"
  "usage_ok m \<Longrightarrow> usage_ok (m(u := None))"
  "usage_ok m \<Longrightarrow> URRID r = u \<Longrightarrow> balanced (VolumMeasure r) \<Longrightarrow> usage_ok (m(u \<mapsto> [r]))"
  by (simp_all add: usage_ok_def)

lemma usage_ok_last:
  assumes "usage_ok m" "slice_at m u \<noteq> []"
  shows "URRID (last (slice_at m u)) = u" "balanced (VolumMeasure (last (slice_at m u)))"
proof -
  from assms(2) obtain rs where rs: "m u = Some rs" "slice_at m u = rs" "rs \<noteq> []"
    by (cases "m u") (auto simp: slice_at_def)
  then have "last rs \<in> set rs" by simp
  with assms(1) rs show "URRID (last (slice_at m u)) = u" "balanced (VolumMeasure (last (slice_at m u)))"
    by (auto simp: usage_ok_def)
qed

lemma sess_wf_touch [simp]: "sess_wf i (touch now s) = sess_wf i s"
  by (simp add: sess_wf_def)

lemma sess_wf_New [simp]: "sess_wf i (NewSessionState now i)"
  by (simp add: sess_wf_def)

lemma sess_wf_frame [simp]:
  "sess_wf i (s\<lparr>sess_QERMeters := a\<rparr>) = sess_wf i s" "sess_wf i (s\<lparr>sess_AdaptiveQER := b\<rparr>) = sess_wf i s"
  "sess_wf i (s\<lparr>sess_URRPeriodAt := c\<rparr>) = sess_wf i s" "sess_wf i (s\<lparr>sess_Buffers := e\<rparr>) = sess_wf i s"
  "sess_wf i (s\<lparr>sess_LastCPProvisioned := g\<rparr>) = sess_wf i s"
  by (simp_all add: sess_wf_def)

lemma sess_wf_rules:
  "sess_wf i s \<Longrightarrow> pdr_ID r = k \<Longrightarrow> sess_wf i (s\<lparr>sess_PDRs := (sess_PDRs s)(k \<mapsto> r)\<rparr>)"
  "sess_wf i s \<Longrightarrow> far_ID f = l \<Longrightarrow> sess_wf i (s\<lparr>sess_FARs := (sess_FARs s)(l \<mapsto> f)\<rparr>)"
  "sess_wf i s \<Longrightarrow> qer_ID q = l \<Longrightarrow> sess_wf i (s\<lparr>sess_QERs := (sess_QERs s)(l \<mapsto> q)\<rparr>)"
  "sess_wf i s \<Longrightarrow> urr_ID u = l \<Longrightarrow> sess_wf i (s\<lparr>sess_URRs := (sess_URRs s)(l \<mapsto> u)\<rparr>)"
  "sess_wf i s \<Longrightarrow> bar_ID b = n \<Longrightarrow> sess_wf i (s\<lparr>sess_BARs := (sess_BARs s)(n \<mapsto> b)\<rparr>)"
  "sess_wf i s \<Longrightarrow> sess_wf i (s\<lparr>sess_AdaptiveFlows := (sess_AdaptiveFlows s)(fl \<mapsto> flow)\<rparr>)"
  by (simp_all add: sess_wf_def)

lemma sess_wf_remove:
  "sess_wf i s \<Longrightarrow> sess_wf i (s\<lparr>sess_PDRs := (sess_PDRs s)(k := None)\<rparr>)"
  "sess_wf i s \<Longrightarrow> sess_wf i (s\<lparr>sess_FARs := (sess_FARs s)(l := None)\<rparr>)"
  "sess_wf i s \<Longrightarrow> sess_wf i (s\<lparr>sess_QERs := (sess_QERs s)(l := None)\<rparr>)"
  "sess_wf i s \<Longrightarrow> sess_wf i (s\<lparr>sess_URRs := (sess_URRs s)(l := None)\<rparr>)"
  "sess_wf i s \<Longrightarrow> sess_wf i (s\<lparr>sess_BARs := (sess_BARs s)(n := None)\<rparr>)"
  "sess_wf i s \<Longrightarrow> sess_wf i (s\<lparr>sess_AdaptiveFlows := (sess_AdaptiveFlows s)(fl := None)\<rparr>)"
  by (simp_all add: sess_wf_def)

lemma sess_wf_usage: "sess_wf i s \<Longrightarrow> usage_ok m \<Longrightarrow> sess_wf i (s\<lparr>sess_URRReports := m\<rparr>)"
  "sess_wf i s \<Longrightarrow> usage_ok (sess_URRReports s)"
  by (simp_all add: sess_wf_def)

lemma sess_wf_remove_urr:
  "sess_wf i s \<Longrightarrow> sess_wf i (s\<lparr>sess_URRs := (sess_URRs s)(u := None), sess_URRPeriodAt := m,
     sess_URRReports := (sess_URRReports s)(u := None)\<rparr>)"
  by (simp add: sess_wf_def)

lemma merge_ids [simp]: "pdr_ID (mergePDRRule p n) = pdr_ID n" "far_ID (mergeFARRule f g) = far_ID g"
  by (simp_all add: mergePDRRule_def mergeFARRule_def Let_def)

subsection \<open>The invariant without the snapshot\<close>

lemma base_inv_frame:
  assumes "d_sessions d' = d_sessions d" "d_stats d' = d_stats d" "d_output d' = d_output d"
    "d_outputCap d' = d_outputCap d"
  shows "base_inv j d' = base_inv j d"
  using assms by (simp add: base_inv_def)

lemma base_inv_session: "base_inv j d \<Longrightarrow> d_sessions d seid = Some sess \<Longrightarrow> sess_wf seid sess"
  by (simp add: base_inv_def)

lemma base_inv_put [intro]: "base_inv j d \<Longrightarrow> sess_wf seid sess \<Longrightarrow> base_inv j (put_session seid sess d)"
  by (simp add: base_inv_def put_session_def)

lemma base_inv_simps [simp]:
  "base_inv j (publishSnapshotLocked E now d) = base_inv j d"
  "base_inv j (cancelPendingDDNLocked k d) = base_inv j d"
  "base_inv j (addAdaptiveTraceLocked now e d) = base_inv j d"
  "base_inv j (emitReport r d) = base_inv j d"
  "base_inv j (HandleReport h d) = base_inv j d"
  "base_inv j (d\<lparr>d_nextFlow := n, d_flowCounts := c\<rparr>) = base_inv j d"
  "base_inv j (d\<lparr>d_flowCounts := c\<rparr>) = base_inv j d"
  "base_inv j (d\<lparr>d_nextFlow := n\<rparr>) = base_inv j d"
  "base_inv j (d\<lparr>d_pendingDDN := p\<rparr>) = base_inv j d"
  "base_inv j (d\<lparr>d_adaptiveTrace := tb\<rparr>) = base_inv j d"
  "base_inv j (scheduleAdaptiveFlowAutoEnd now ar t d) = base_inv j d"
  by (simp_all add: base_inv_def publishSnapshotLocked_def cancelPendingDDNLocked_def
      addAdaptiveTraceLocked_def emitReport_def HandleReport_def scheduleAdaptiveFlowAutoEnd_def Let_def)

lemma base_inv_schedule [simp]: "base_inv j (scheduleBufferedNotification now b p d) = base_inv j d"
  by (simp add: scheduleBufferedNotification_def Let_def split: option.splits)

lemma base_inv_delete [intro]: "base_inv j d \<Longrightarrow> base_inv j (deleteSessionIfEmptyLocked seid sess d)"
  by (simp add: base_inv_def deleteSessionIfEmptyLocked_def)

lemma base_inv_publishOutcome [intro]: "base_inv j d \<Longrightarrow> base_inv j (publishOutcome o' d)"
  by (simp add: base_inv_def publishOutcome_def Let_def)

lemma ensureSession_inv:
  assumes "base_inv j d" "ensureSessionLocked now seid d = (sess, d')"
  shows "base_inv j d' \<and> sess_wf seid sess"
proof (cases "d_sessions d seid")
  case None
  have "base_inv j (put_session seid (NewSessionState now seid) d)"
    using assms(1) by (rule base_inv_put) simp
  with None assms show ?thesis
    by (auto simp: ensureSessionLocked_def Let_def put_session_def)
next
  case (Some s)
  with assms show ?thesis by (auto simp: ensureSessionLocked_def base_inv_session)
qed

lemma emitCP_inv:
  "base_inv j d \<Longrightarrow> sess_wf seid sess \<Longrightarrow> emitCPProvisionedTraceLocked E now sess d = (sess', d') \<Longrightarrow>
     base_inv j d' \<and> sess_wf seid sess'"
  by (auto simp: emitCPProvisionedTraceLocked_def Let_def split: if_splits)

subsection \<open>The snapshot\<close>

lemma publish_sessions [simp]:
  "d_sessions (publishSnapshotLocked E now d) = d_sessions d"
  "d_stats (publishSnapshotLocked E now d) = d_stats d"
  "d_egress (publishSnapshotLocked E now d) = d_egress d"
  "d_reports (publishSnapshotLocked E now d) = d_reports d"
  "d_pendingDDN (publishSnapshotLocked E now d) = d_pendingDDN d"
  by (simp_all add: publishSnapshotLocked_def)

lemma snapshot_current_publish [simp]: "snapshot_current E (publishSnapshotLocked E now d)"
  by (simp add: snapshot_current_def publishSnapshotLocked_def build_buckets)

text \<open>What a binding is made of.\<close>

definition same_rules :: "SessionState \<Rightarrow> SessionState \<Rightarrow> bool" where
  "same_rules s s' \<longleftrightarrow> sess_PDRs s' = sess_PDRs s \<and> sess_FARs s' = sess_FARs s \<and> sess_QERs s' = sess_QERs s \<and>
     sess_URRs s' = sess_URRs s \<and> sess_BARs s' = sess_BARs s \<and> sess_AdaptiveFlows s' = sess_AdaptiveFlows s"

lemma same_rules_entries:
  assumes "same_rules s s'"
  shows "uplink_entry E i s' = uplink_entry E i s" "downlink_entry E i s' = downlink_entry E i s"
proof -
  have eqs: "sess_PDRs s' = sess_PDRs s" "sess_FARs s' = sess_FARs s" "sess_QERs s' = sess_QERs s"
    "sess_URRs s' = sess_URRs s" "sess_BARs s' = sess_BARs s" "sess_AdaptiveFlows s' = sess_AdaptiveFlows s"
    using assms by (simp_all add: same_rules_def)
  have b: "mk_binding i s' p = mk_binding i s p" for p
    unfolding mk_binding_def eqs by (rule refl)
  have f: "first_flow R s' = first_flow R s" for R
    unfolding first_flow_def eqs by (rule refl)
  show "uplink_entry E i s' = uplink_entry E i s" "downlink_entry E i s' = downlink_entry E i s"
    unfolding fun_eq_iff uplink_entry_def downlink_entry_def eqs b f by simp_all
qed

lemma all_entries_put:
  assumes "sessions seid = Some s" "same_rules s s'"
  shows "all_entries E (sessions(seid \<mapsto> s')) (\<lambda>i s. uplink_entry E i s t) =
         all_entries E sessions (\<lambda>i s. uplink_entry E i s t)"
    and "all_entries E (sessions(seid \<mapsto> s')) (\<lambda>i s. downlink_entry E i s k) =
         all_entries E sessions (\<lambda>i s. downlink_entry E i s k)"
proof -
  have d: "dom (sessions(seid \<mapsto> s')) = dom sessions" using assms(1) by auto
  have p: "sess_PDRs s' = sess_PDRs s" using assms(2) by (simp add: same_rules_def)
  show "all_entries E (sessions(seid \<mapsto> s')) (\<lambda>i s. uplink_entry E i s t) =
         all_entries E sessions (\<lambda>i s. uplink_entry E i s t)"
    unfolding all_entries_def d
    by (rule arg_cong [where f = concat], rule map_cong, simp)
       (simp add: session_entries_def assms(1) p same_rules_entries [OF assms(2)])
  show "all_entries E (sessions(seid \<mapsto> s')) (\<lambda>i s. downlink_entry E i s k) =
         all_entries E sessions (\<lambda>i s. downlink_entry E i s k)"
    unfolding all_entries_def d
    by (rule arg_cong [where f = concat], rule map_cong, simp)
       (simp add: session_entries_def assms(1) p same_rules_entries [OF assms(2)])
qed

lemma snapshot_current_put [intro]:
  "snapshot_current E d \<Longrightarrow> d_sessions d seid = Some s \<Longrightarrow> same_rules s s' \<Longrightarrow>
     snapshot_current E (put_session seid s' d)"
  by (simp add: snapshot_current_def put_session_def all_entries_put)

lemma snapshot_current_frame:
  "d_sessions d' = d_sessions d \<Longrightarrow> d_snapshot d' = d_snapshot d \<Longrightarrow> snapshot_current E d' = snapshot_current E d"
  by (simp add: snapshot_current_def)

lemma driver_inv_publish: "base_inv j d \<Longrightarrow> driver_inv j E (publishSnapshotLocked E now d)"
  by (simp add: driver_inv_def)

lemma same_rules_refl [simp]: "same_rules s s"
  "same_rules s (touch now s') = same_rules s s'"
  "same_rules s (s'\<lparr>sess_QERMeters := a\<rparr>) = same_rules s s'"
  "same_rules s (s'\<lparr>sess_Buffers := b\<rparr>) = same_rules s s'"
  "same_rules s (s'\<lparr>sess_URRReports := c\<rparr>) = same_rules s s'"
  "same_rules s (s'\<lparr>sess_URRPeriodAt := e\<rparr>) = same_rules s s'"
  by (simp_all add: same_rules_def)

subsection \<open>Operations of the control plane\<close>

text \<open>Each either leaves the driver as it is or ends by publishing a snapshot.\<close>

lemma Create_inv:
  assumes "driver_inv j E d"
  shows "driver_inv j E (fst (CreatePDR E now seid req d))" "driver_inv j E (fst (CreateFAR E now seid req d))"
    "driver_inv j E (fst (CreateQER E now seid req d))" "driver_inv j E (fst (CreateURR E now seid req d))"
    "driver_inv j E (fst (CreateBAR E now seid req d))"
proof -
  obtain sess d1 where en: "ensureSessionLocked now seid d = (sess, d1)" by force
  from assms have "base_inv j d" by (simp add: driver_inv_def)
  note wf = ensureSession_inv [OF this en]
  show "driver_inv j E (fst (CreatePDR E now seid req d))" "driver_inv j E (fst (CreateFAR E now seid req d))"
    "driver_inv j E (fst (CreateBAR E now seid req d))" "driver_inv j E (fst (CreateURR E now seid req d))"
    using assms wf
    by (auto simp: CreatePDR_def CreateFAR_def CreateBAR_def CreateURR_def start_period_def en Let_def
        split: sum.splits intro!: driver_inv_publish base_inv_put sess_wf_rules)
  show "driver_inv j E (fst (CreateQER E now seid req d))"
  proof (cases "parseQER (e_api E) req")
    case (Inr rule)
    let ?s = "touch now (sess\<lparr>sess_QERs := (sess_QERs sess)(qer_ID rule \<mapsto> rule)\<rparr>)"
    obtain s2 d2 where cp: "emitCPProvisionedTraceLocked E now ?s d1 = (s2, d2)" by force
    have "sess_wf seid ?s" using wf by (simp add: sess_wf_rules)
    with emitCP_inv [OF _ this cp] wf show ?thesis
      by (auto simp: CreateQER_def Inr en cp intro!: driver_inv_publish base_inv_put)
  qed (use assms in \<open>simp add: CreateQER_def\<close>)
qed

lemma Update_inv:
  assumes "driver_inv j E d"
  shows "driver_inv j E (fst (UpdatePDR E now seid req d))" "driver_inv j E (fst (UpdateQER E now seid req d))"
    "driver_inv j E (fst (UpdateURR E now seid req d))" "driver_inv j E (fst (UpdateBAR E now seid req d))"
proof -
  from assms have base: "base_inv j d" by (simp add: driver_inv_def)
  note wf = base_inv_session [OF base]
  show "driver_inv j E (fst (UpdatePDR E now seid req d))" "driver_inv j E (fst (UpdateURR E now seid req d))"
    "driver_inv j E (fst (UpdateBAR E now seid req d))"
    using assms base wf
    by (auto simp: UpdatePDR_def UpdateURR_def UpdateBAR_def start_period_def Let_def
        split: sum.splits option.splits intro!: driver_inv_publish base_inv_put sess_wf_rules)
  show "driver_inv j E (fst (UpdateQER E now seid req d))"
  proof (cases "parseUpdateQER (e_api E) req")
    case (Inr rule)
    show ?thesis
    proof (cases "d_sessions d seid")
      case (Some sess)
      let ?s = "touch now (sess\<lparr>sess_QERs := (sess_QERs sess)(qer_ID rule \<mapsto> rule)\<rparr>)"
      obtain s2 d2 where cp: "emitCPProvisionedTraceLocked E now ?s d = (s2, d2)" by force
      have "sess_wf seid ?s" using wf [OF Some] by (simp add: sess_wf_rules)
      with emitCP_inv [OF base this cp] assms show ?thesis
        by (auto simp: UpdateQER_def Inr Some cp intro!: driver_inv_publish base_inv_put)
    qed (use assms Inr in \<open>simp add: UpdateQER_def\<close>)
  qed (use assms in \<open>simp add: UpdateQER_def\<close>)
qed

lemma cancel_fold_inv: "base_inv j (fold (cancel_for_far seid sess fid) pids d) = base_inv j d"
proof (induction pids arbitrary: d)
  case (Cons p ps)
  show ?case
    by (simp add: Cons.IH) (simp add: cancel_for_far_def split: option.splits)
qed simp

lemma Remove_inv:
  assumes "driver_inv j E d"
  shows "driver_inv j E (fst (RemovePDR E now seid req d))" "driver_inv j E (fst (RemoveFAR E now seid req d))"
    "driver_inv j E (fst (RemoveQER E now seid req d))" "driver_inv j E (fst (RemoveURR E now seid req d))"
    "driver_inv j E (fst (RemoveBAR E now seid req d))"
proof -
  from assms have base: "base_inv j d" by (simp add: driver_inv_def)
  note wf = base_inv_session [OF base]
  show "driver_inv j E (fst (RemovePDR E now seid req d))" "driver_inv j E (fst (RemoveFAR E now seid req d))"
    "driver_inv j E (fst (RemoveQER E now seid req d))" "driver_inv j E (fst (RemoveURR E now seid req d))"
    "driver_inv j E (fst (RemoveBAR E now seid req d))"
    using assms base wf
    by (auto simp: RemovePDR_def RemoveFAR_def RemoveQER_def RemoveURR_def RemoveBAR_def Let_def cancel_fold_inv
        split: sum.splits option.splits intro!: driver_inv_publish base_inv_put base_inv_delete sess_wf_remove sess_wf_remove_urr)
qed

text \<open>Replacing a session by one with the same rules keeps the invariant.\<close>

lemma driver_inv_put:
  "driver_inv j E d \<Longrightarrow> d_sessions d seid = Some s \<Longrightarrow> same_rules s s' \<Longrightarrow> sess_wf seid s' \<Longrightarrow>
     driver_inv j E (put_session seid s' d)"
  by (auto simp: driver_inv_def)

lemma driver_inv_frame:
  assumes "d_sessions d' = d_sessions d" "d_snapshot d' = d_snapshot d" "d_stats d' = d_stats d"
    "d_output d' = d_output d" "d_outputCap d' = d_outputCap d"
  shows "driver_inv j E d' = driver_inv j E d"
  using assms by (simp add: driver_inv_def base_inv_frame [of d' d j] snapshot_current_frame [of d' d])

lemma driver_inv_simps [simp]:
  "driver_inv j E (cancelPendingDDNLocked k d) = driver_inv j E d"
  "driver_inv j E (emitReport r d) = driver_inv j E d"
  "driver_inv j E (scheduleBufferedNotification now b p d) = driver_inv j E d"
  "driver_inv j E (HandleReport h d) = driver_inv j E d"
  "driver_inv j E (scheduleAdaptiveFlowAutoEnd now ar t d) = driver_inv j E d"
  "driver_inv j E (d\<lparr>d_pendingDDN := x\<rparr>) = driver_inv j E d"
  by (simp_all add: driver_inv_def snapshot_current_def HandleReport_def scheduleAdaptiveFlowAutoEnd_def Let_def
      base_inv_frame [of "d\<lparr>d_handler := h\<rparr>" d j])
     (auto simp: base_inv_def)

lemma driver_inv_publishOutcome: "driver_inv j E d \<Longrightarrow> driver_inv j E (publishOutcome o' d)"
  by (auto simp: driver_inv_def snapshot_current_def)

lemma flush_buffer_inv: "driver_inv j E d \<Longrightarrow> flush_buffer A b ps d = Some d' \<Longrightarrow> driver_inv j E d'"
proof (induction ps arbitrary: d)
  case (Cons p ps)
  from Cons.prems(2) have "flush_buffer A b ps (publishOutcome (outcome_of b p (\<not> isCorePDR A (b_PDR b))) d) = Some d'"
    by (simp add: forwardBuffered_total)
  with Cons.IH [OF driver_inv_publishOutcome [OF Cons.prems(1)]] show ?case by blast
qed simp

lemma transition_pdr_inv:
  assumes "driver_inv j E d" "transition_pdr E now seid nxt d pid = Some d'"
  shows "driver_inv j E d'"
proof (cases "d_sessions d seid")
  case (Some sess)
  from assms(1) have wf: "sess_wf seid sess" by (auto simp: driver_inv_def intro: base_inv_session Some)
  have put: "driver_inv j E (put_session seid (sess\<lparr>sess_Buffers := (sess_Buffers sess)(k := None)\<rparr>)
      (cancelPendingDDNLocked (seid, k) d))" for k
    using assms(1) wf Some by (intro driver_inv_put [of j E _ _ sess]) simp_all
  show ?thesis
    using assms put [unfolded put_session_def]
    by (auto simp: transition_pdr_def Some Let_def split: option.splits if_splits intro: flush_buffer_inv)
qed (use assms in \<open>simp add: transition_pdr_def\<close>)

lemma UpdateFAR_inv:
  assumes "driver_inv j E d" "UpdateFAR E now seid req d = Some (d', err)"
  shows "driver_inv j E d'"
proof -
  have trans: "driver_inv j E d1 \<Longrightarrow> handleFARTransitionLocked E now seid prev nxt d1 = Some d2 \<Longrightarrow> driver_inv j E d2"
    for d1 d2 prev nxt
    by (auto simp: handleFARTransitionLocked_def split: if_splits option.splits
        elim!: foldO_invariant intro: transition_pdr_inv)
  from assms(1) have base: "base_inv j d" by (simp add: driver_inv_def)
  show ?thesis
    using assms base base_inv_session [OF base]
    by (auto simp: UpdateFAR_def Let_def split: sum.splits option.splits
        intro!: driver_inv_publish base_inv_put sess_wf_rules elim!: trans [rotated])
qed

subsection \<open>Timers and adaptive reports\<close>

lemma fireDDN_inv: "driver_inv j E d \<Longrightarrow> driver_inv j E (fireBufferedNotification key d)"
  by (simp add: fireBufferedNotification_def Let_def split: option.splits)

lemma set_overrides_wf: "sess_wf i (set_overrides r p t qids s) = sess_wf i s"
  unfolding set_overrides_def by (induction qids arbitrary: s) simp_all

lemma clear_overrides_wf:
  "sess_wf i (foldl (\<lambda>s q. s\<lparr>sess_AdaptiveQER := (sess_AdaptiveQER s)(adaptiveQERKey q := None)\<rparr>) s qids) = sess_wf i s"
  by (induction qids arbitrary: s) simp_all

lemma resolve_session:
  "resolveAdaptiveSessionLocked R r d = Some (seid, sess) \<Longrightarrow> d_sessions d seid = Some sess"
  by (auto simp: resolveAdaptiveSessionLocked_def split: if_splits option.splits list.splits)

lemma find_flow_session:
  "find_flow R d fl = Some (seid, sess, flow) \<Longrightarrow> d_sessions d seid = Some sess \<and> sess_AdaptiveFlows sess fl = Some flow"
  by (auto simp: find_flow_def bind_eq_Some_conv split: option.splits)

lemma startAdaptiveFlow_inv:
  assumes "base_inv j d"
  shows "driver_inv j E (fst (startAdaptiveFlow E now r d))"
proof (cases "resolveAdaptiveSessionLocked (e_rng E) r d")
  case None
  then show ?thesis
    using assms by (simp add: startAdaptiveFlow_def reject_start_def Let_def driver_inv_publish)
next
  case (Some p)
  then obtain seid sess where p: "p = (seid, sess)" by (cases p)
  with Some have "sess_wf seid sess" using assms by (auto intro: base_inv_session resolve_session)
  then show ?thesis
    using assms Some p
    by (auto simp: startAdaptiveFlow_def Let_def set_overrides_wf split: prod.splits
        intro!: driver_inv_publish base_inv_put sess_wf_rules)
qed

lemma endAdaptiveFlow_inv:
  assumes "base_inv j d"
  shows "driver_inv j E (fst (endAdaptiveFlow E now r d))"
proof (cases "find_flow (e_rng E) d (ar_FlowID r)")
  case None
  then show ?thesis using assms by (simp add: endAdaptiveFlow_def Let_def driver_inv_publish)
next
  case (Some p)
  then obtain seid sess flow where p: "p = (seid, sess, flow)" by (cases p)
  with Some have "sess_wf seid sess" using assms by (auto intro: base_inv_session dest: find_flow_session)
  then show ?thesis
    using assms Some p
    by (auto simp: endAdaptiveFlow_def Let_def clear_overrides_wf
        intro!: driver_inv_publish base_inv_put sess_wf_remove)
qed

lemma applyAdaptiveReport_inv: "base_inv j d \<Longrightarrow> driver_inv j E (fst (applyAdaptiveReport E now r d))"
  unfolding applyAdaptiveReport_def Let_def by (simp add: startAdaptiveFlow_inv endAdaptiveFlow_inv)

lemma fireAutoEnd_inv: "driver_inv j E d \<Longrightarrow> driver_inv j E (fireAutoEnd E now r t d)"
  unfolding fireAutoEnd_def by (simp add: applyAdaptiveReport_inv driver_inv_def [of j E d])

lemma reset_emit_inv: "base_inv j d \<Longrightarrow> base_inv j (reset_emit E now seid d)"
proof (cases "d_sessions d seid")
  case (Some sess)
  assume base: "base_inv j d"
  let ?d1 = "addAdaptiveTraceLocked now (zero_event\<lparr>te_Timestamp := now, te_SEID := seid,
      te_UEAddress := session_ue_address (e_rng E) sess, te_Stage := ''pdu-session-established'', te_Status := ''active'',
      te_DecisionReason := ''discovered session seid='' @ dec64 seid @ '' ue='' @ session_ue_address (e_rng E) sess\<rparr>) d"
  obtain s2 d2 where cp: "emitCPProvisionedTraceLocked E now sess ?d1 = (s2, d2)" by force
  have "base_inv j ?d1" "sess_wf seid sess" using base Some by (auto intro: base_inv_session)
  from emitCP_inv [OF this cp] have "base_inv j (put_session seid s2 d2)" by (simp add: base_inv_put)
  then show ?thesis using cp by (simp add: reset_emit_def Some Let_def)
qed (simp add: reset_emit_def)

lemma resetAdaptiveState_inv:
  assumes "base_inv j d"
  shows "driver_inv j E (resetAdaptiveState E now d)"
proof -
  have "sess_wf i s \<Longrightarrow> sess_wf i (reset_session now s)" for i s
    by (simp add: reset_session_def sess_wf_def)
  with assms have "base_inv j (d\<lparr>d_sessions := (\<lambda>seid. map_option (reset_session now) (d_sessions d seid)),
      d_adaptiveTrace := trace_reset (d_adaptiveTrace d)\<rparr>)"
    by (auto simp: base_inv_def)
  then show ?thesis
    unfolding resetAdaptiveState_def Let_def
    by (intro driver_inv_publish fold_invariant_list [where P = "base_inv j"] reset_emit_inv) simp_all
qed

subsection \<open>Ticks\<close>

lemma balanced_zero [simp]: "balanced (VolumMeasure zero_usage)"
  by (simp add: balanced_def zero_usage_def zero_volume_def)

lemma periodic_urr_rules:
  assumes "same_rules s (fst st) \<and> sess_wf i (fst st)"
  shows "same_rules s (fst (periodic_urr now st uid)) \<and> sess_wf i (fst (periodic_urr now st uid))"
proof -
  have "usage_ok ((sess_URRReports (fst st))(uid \<mapsto> [zero_usage\<lparr>URRID := uid, StartTime := now, EndTime := now\<rparr>]))"
    using assms sess_wf_usage(2) [of i "fst st"] by simp
  with assms show ?thesis
    by (cases st) (auto simp: periodic_urr_def Let_def sess_wf_usage(1) split: option.splits)
qed

lemma periodic_session_inv:
  assumes "driver_inv j E (fst st)"
  shows "driver_inv j E (fst (periodic_session E now st seid))"
proof -
  obtain d all where st: "st = (d, all)" by force
  show ?thesis
  proof (cases "d_sessions d seid")
    case (Some sess)
    let ?r = "foldl (periodic_urr now) (sess, []) (rng32 (e_rng E) (dom (sess_URRs sess)))"
    have "sess_wf seid sess" using assms st Some by (auto simp: driver_inv_def intro: base_inv_session)
    then have "same_rules sess (fst ?r) \<and> sess_wf seid (fst ?r)"
      by (intro foldl_invariant [where P = "\<lambda>st. same_rules sess (fst st) \<and> sess_wf seid (fst st)"])
         (simp, rule periodic_urr_rules, assumption)
    with assms st Some show ?thesis
      by (auto simp: periodic_session_def case_prod_unfold Let_def intro: driver_inv_put)
  qed (use assms st in \<open>simp add: periodic_session_def\<close>)
qed

lemma emitPeriodic_inv:
  assumes "driver_inv j E d"
  shows "driver_inv j E (emitPeriodicURRReports E now d)"
proof -
  let ?r = "foldl (periodic_session E now) (d, []) (rng64 (e_rng E) (dom (d_sessions d)))"
  have "driver_inv j E (fst ?r)"
    using assms by (intro foldl_invariant [where P = "\<lambda>st. driver_inv j E (fst st)"]) (simp_all add: periodic_session_inv)
  then have "driver_inv j E (if snd ?r \<noteq> [] then publishSnapshotLocked E now (fst ?r) else fst ?r)"
    by (simp add: driver_inv_def)
  then show ?thesis
    unfolding emitPeriodicURRReports_def case_prod_unfold Let_def
    by (rule fold_invariant_list) (simp split: option.splits)
qed

subsection \<open>Packets\<close>

lemma stat_inv:
  "driver_inv j E d \<Longrightarrow> driver_inv (j + 1) E (stat_uplink d)"
  "driver_inv j E d \<Longrightarrow> driver_inv (j + 1) E (stat_downlink d)"
  "driver_inv (j + 1) E d \<Longrightarrow> driver_inv j E (stat_forwarded d)"
  "driver_inv (j + 1) E d \<Longrightarrow> driver_inv j E (stat_dropped d)"
  "driver_inv (j + 1) E d \<Longrightarrow> driver_inv j E (stat_buffered d)"
  "driver_inv j E (stat_uplink_miss d) = driver_inv j E d"
  "driver_inv j E (stat_downlink_miss d) = driver_inv j E d"
  "driver_inv j E (stat_unsupported d) = driver_inv j E d"
  "driver_inv j E (stat_uplink_error d) = driver_inv j E d"
  "driver_inv j E (stat_downlink_error d) = driver_inv j E d"
  by (simp_all add: driver_inv_def base_inv_def snapshot_current_def stat_uplink_def stat_downlink_def
      stat_forwarded_def stat_dropped_def stat_buffered_def stat_uplink_miss_def stat_downlink_miss_def
      stat_unsupported_def stat_uplink_error_def stat_downlink_error_def algebra_simps)

lemma fail_inv:
  "driver_inv (j + 1) E d \<Longrightarrow> driver_inv j E (fst (fail_uplink err r d))"
  "driver_inv (j + 1) E d \<Longrightarrow> driver_inv j E (fst (fail_downlink err r d))"
  by (simp_all add: fail_uplink_def fail_downlink_def stat_inv)

lemma mbr_loop_rules:
  "same_rules s0 s \<Longrightarrow> sess_wf i s \<Longrightarrow>
     same_rules s0 (fst (mbr_loop d b n dir now s qs)) \<and> sess_wf i (fst (mbr_loop d b n dir now s qs))"
  by (induction qs arbitrary: s) (auto simp: Let_def split: prod.splits)

lemma mbrAllows_inv:
  assumes "driver_inv j E d"
  shows "driver_inv j E (fst (mbrAllows now b n dir d))"
proof (cases "d_sessions d (b_SEID b)")
  case (Some sess)
  then have "sess_wf (b_SEID b) sess" using assms by (auto simp: driver_inv_def intro: base_inv_session)
  then have "same_rules sess (fst (mbr_loop d b n dir now sess (b_QERs b))) \<and>
      sess_wf (b_SEID b) (fst (mbr_loop d b n dir now sess (b_QERs b)))"
    by (intro mbr_loop_rules) simp_all
  with driver_inv_put [OF assms Some] assms Some show ?thesis
    by (simp add: mbrAllows_def case_prod_unfold Let_def put_session_def)
qed (use assms in \<open>simp add: mbrAllows_def\<close>)

lemma decide_action_inv: "driver_inv j E d \<Longrightarrow> driver_inv j E (fst (decide_action now b n dir d))"
  using mbrAllows_inv [of j E d now b n dir] by (simp add: decide_action_def case_prod_unfold Let_def)

lemma bufferPacket_inv:
  assumes "driver_inv j E d"
  shows "driver_inv j E (fst (bufferPacket now b p d))"
proof (cases "d_sessions d (b_SEID b)")
  case (Some sess)
  then have "sess_wf (b_SEID b) sess" using assms by (auto simp: driver_inv_def intro: base_inv_session)
  with driver_inv_put [OF assms Some] show ?thesis
    by (simp add: bufferPacket_def Some Let_def put_session_def)
qed (use assms in \<open>simp add: bufferPacket_def\<close>)

lemma balanced_count [simp]: "balanced v \<Longrightarrow> balanced (count_packet n up v)"
  by (simp add: balanced_def count_packet_def Let_def)

lemma new_usage_ok:
  assumes "usage_ok m"
  shows "URRID (fst (new_usage now urr n up (slice_at m (urr_ID urr)))) = urr_ID urr"
    and "balanced (VolumMeasure (fst (new_usage now urr n up (slice_at m (urr_ID urr)))))"
  using usage_ok_last [OF assms, of "urr_ID urr"] by (auto simp: new_usage_def Let_def)

lemma usage_step_wf:
  "sess_wf i (fst st) \<Longrightarrow> sess_wf i (fst (usage_step now n up st urr))"
  using new_usage_ok [OF sess_wf_usage(2), of i "fst st" now urr n up]
  by (auto simp: usage_step_def case_prod_unfold Let_def intro!: sess_wf_usage(1) usage_ok_simps(3) sess_wf_usage(2))

lemma updateUsage_inv:
  assumes "driver_inv j E d"
  shows "driver_inv j E (updateUsage E now b n up d)"
proof (cases "d_sessions d (b_SEID b)")
  case (Some sess)
  from assms have base: "base_inv j d" by (simp add: driver_inv_def)
  have "sess_wf (b_SEID b) (fst (foldl (usage_step now n up) (sess, []) (b_URRs b)))"
    by (intro foldl_invariant [where P = "\<lambda>st. sess_wf (b_SEID b) (fst st)"] usage_step_wf)
       (simp_all add: base_inv_session [OF base Some])
  with assms base Some show ?thesis
    by (auto simp: updateUsage_def case_prod_unfold Let_def intro!: driver_inv_publish base_inv_put)
qed (use assms in \<open>simp add: updateUsage_def\<close>)

lemma InterceptUplink_inv: "driver_inv j E d \<Longrightarrow> driver_inv j E (fst (InterceptUplink E now p d))"
  by (auto simp: InterceptUplink_def Let_def applyAdaptiveReport_inv driver_inv_def [of j E d] split: option.splits)

lemma burst_detected_inv: "driver_inv j E d \<Longrightarrow> driver_inv j E (burst_detected E now b ue flow d)"
  by (simp add: burst_detected_def Let_def driver_inv_publish driver_inv_def [of j E d])

lemma act_uplink_inv:
  assumes "driver_inv (j + 1) E d" "act_uplink E now b p r d = Some (d', r', ret)"
  shows "driver_inv j E d'"
  using assms InterceptUplink_inv [OF assms(1), of now p] bufferPacket_inv [OF assms(1), of now b p]
  by (auto simp: act_uplink_def forward_total case_prod_unfold Let_def
      split: PacketAction.splits if_splits intro!: stat_inv driver_inv_publishOutcome)

lemma act_downlink_inv:
  assumes "driver_inv (j + 1) E d" "act_downlink E now b ue p r d = Some (d', r', ret)"
  shows "driver_inv j E d'"
  using assms bufferPacket_inv [OF assms(1), of now b p] burst_detected_inv [OF assms(1), of now b ue]
  by (auto simp: act_downlink_def forward_total case_prod_unfold Let_def
      split: PacketAction.splits option.splits intro!: stat_inv driver_inv_publishOutcome)

lemma matched_inv:
  assumes "driver_inv (j + 1) E d"
  shows "act_uplink E now b p r (fst (decide_action now b n dir d)) = Some (d', r', ret) \<Longrightarrow>
      driver_inv j E (if ret then d' else updateUsage E now b m up d')"
    and "act_downlink E now b ue p r (fst (decide_action now b n dir d)) = Some (d', r', ret) \<Longrightarrow>
      driver_inv j E (if ret then d' else updateUsage E now b m up d')"
  by (auto intro: updateUsage_inv act_uplink_inv [OF decide_action_inv [OF assms]]
      act_downlink_inv [OF decide_action_inv [OF assms]])

lemma processUplink_inv:
  assumes "driver_inv j E d" "processUplink E now packet r d = Some (d', r')"
  shows "driver_inv j E d'"
proof -
  note inv1 = stat_inv(1) [OF assms(1)]
  have fail: "fail_uplink err r0 (stat_uplink d) = (d2, r2) \<Longrightarrow> driver_inv j E d2"
    "fail_uplink err r0 (stat_uplink_miss (stat_uplink d)) = (d2, r2) \<Longrightarrow> driver_inv j E d2" for err r0 d2 r2
    using inv1 by (auto simp: fail_uplink_def stat_inv)
  show ?thesis
    using assms(2)
    by (auto simp: processUplink_def Let_def case_prod_unfold simp del: if_split
        split: option.splits sum.splits dest: fail intro: matched_inv(1) [OF inv1])
qed

lemma processDownlink_inv:
  assumes "driver_inv j E d" "processDownlink E now packet r d = Some (d', r')"
  shows "driver_inv j E d'"
proof -
  note inv1 = stat_inv(2) [OF assms(1)]
  have fail: "fail_downlink err r0 (stat_unsupported (stat_downlink d)) = (d2, r2) \<Longrightarrow> driver_inv j E d2"
    "fail_downlink err r0 (stat_downlink_miss (stat_downlink d)) = (d2, r2) \<Longrightarrow> driver_inv j E d2" for err r0 d2 r2
    using inv1 by (auto simp: fail_downlink_def stat_inv)
  show ?thesis
    using assms(2)
    by (auto simp: processDownlink_def Let_def case_prod_unfold simp del: if_split
        split: option.splits sum.splits dest: fail intro: matched_inv(2) [OF inv1])
qed

lemma DispatchPacket_inv:
  "driver_inv j E d \<Longrightarrow> DispatchPacket E now packet d = Some (d', r) \<Longrightarrow> driver_inv j E d'"
  by (auto simp: DispatchPacket_def process_def Let_def
      split: if_splits PacketDirection.splits intro: processUplink_inv processDownlink_inv)

lemma New_inv: "driver_inv 0 E (New now mp us aq)"
proof -
  have "all_entries E Map.empty f = []" for f
    by (simp add: all_entries_def session_entries_def)
  then show ?thesis
    by (simp add: driver_inv_def base_inv_def snapshot_current_def New_def newStatsTracker_def
        newRuntimeSnapshot_def Let_def)
qed

lemma exec_inv:
  assumes "driver_inv 0 E d" "exec E now op d = Some d'"
  shows "driver_inv 0 E d'"
proof -
  from assms(1) have "base_inv 0 d" by (simp add: driver_inv_def)
  with assms show ?thesis
    by (cases op)
       (auto simp: Create_inv Update_inv Remove_inv fireDDN_inv emitPeriodic_inv
         fireAutoEnd_inv applyAdaptiveReport_inv resetAdaptiveState_inv intro: UpdateFAR_inv DispatchPacket_inv)
qed

lemma reachable_inv: "reachable E d \<Longrightarrow> driver_inv 0 E d"
  by (induction rule: reachable.induct) (auto intro: New_inv exec_inv)

end
