(* ===== verification/Userspace_Driver.thy ===== *)
theory Userspace_Driver
  imports Userspace_Inv Driver_If
begin

text \<open>
  The userspace forwarder as a \<open>forwarder.Driver\<close>: its operations fill the interface, and it keeps
  the contract \<open>rule_store\<close> the PFCP server relies on. What its packet path, timers and adaptive QoS
  do in between changes no rule.
\<close>

section \<open>The interface\<close>

definition us_driver :: "'ie env \<Rightarrow> gotime \<Rightarrow> ('ie, Driver) driver_api" where
  "us_driver E now =
     \<lparr>dr_CreatePDR = (\<lambda>seid i d. Some (CreatePDR E now seid i d)),
      dr_UpdatePDR = (\<lambda>seid i d. Some (UpdatePDR E now seid i d)),
      dr_RemovePDR = (\<lambda>seid i d. Some (RemovePDR E now seid i d)),
      dr_CreateFAR = (\<lambda>seid i d. Some (CreateFAR E now seid i d)),
      dr_UpdateFAR = UpdateFAR E now,
      dr_RemoveFAR = (\<lambda>seid i d. Some (RemoveFAR E now seid i d)),
      dr_CreateQER = (\<lambda>seid i d. Some (CreateQER E now seid i d)),
      dr_UpdateQER = (\<lambda>seid i d. Some (UpdateQER E now seid i d)),
      dr_RemoveQER = (\<lambda>seid i d. Some (RemoveQER E now seid i d)),
      dr_CreateURR = (\<lambda>seid i d. Some (CreateURR E now seid i d)),
      dr_UpdateURR = (\<lambda>seid i d. Some (UpdateURR E now seid i d)),
      dr_RemoveURR = (\<lambda>seid i d. Some (RemoveURR E now seid i d)),
      dr_QueryURR = (\<lambda>seid u d. Some (d, QueryURR seid u d)),
      dr_CreateBAR = (\<lambda>seid i d. Some (CreateBAR E now seid i d)),
      dr_UpdateBAR = (\<lambda>seid i d. Some (UpdateBAR E now seid i d)),
      dr_RemoveBAR = (\<lambda>seid i d. Some (RemoveBAR E now seid i d))\<rparr>"

text \<open>The rules of a session.\<close>

definition rules_of :: "SessionState option \<Rightarrow> rule_id set" where
  "rules_of s = (case s of None \<Rightarrow> {} | Some s \<Rightarrow>
     RPDR ` dom (sess_PDRs s) \<union> RFAR ` dom (sess_FARs s) \<union> RQER ` dom (sess_QERs s) \<union>
     RURR ` dom (sess_URRs s) \<union> RBAR ` dom (sess_BARs s))"

definition us_rules :: "Driver \<Rightarrow> u64 \<Rightarrow> rule_id set" where
  "us_rules d seid = rules_of (d_sessions d seid)"

text \<open>
  The elements the library reads consistently: the identifier the accessor of a grouped Create element
  returns is the one its children carry (an element has one identifier).
\<close>

fun us_wf :: "'ie ie_api \<Rightarrow> 'ie dop \<Rightarrow> bool" where
  "us_wf A (DCreate KFAR i) = (case parseFAR A i of Inl _ \<Rightarrow> True | Inr r \<Rightarrow> ie_u32 A A_FARID i = Inr (far_ID r))"
| "us_wf A (DCreate KQER i) = (case parseQER A i of Inl _ \<Rightarrow> True | Inr r \<Rightarrow> ie_u32 A A_QERID i = Inr (qer_ID r))"
| "us_wf A (DCreate KURR i) = (case parseURR A i of Inl _ \<Rightarrow> True | Inr r \<Rightarrow> ie_u32 A A_URRID i = Inr (urr_ID r))"
| "us_wf A (DCreate KBAR i) = (case parseBAR A i of Inl _ \<Rightarrow> True | Inr r \<Rightarrow> ie_u8 A A_BARID i = Inr (bar_ID r))"
| "us_wf A _ = True"

section \<open>The contract\<close>

subsection \<open>Sessions\<close>

lemma rules_of_touch [simp]: "rules_of (Some (touch now s)) = rules_of (Some s)"
  by (simp add: rules_of_def)

lemma rules_of_None [simp]: "rules_of None = {}"
  by (simp add: rules_of_def)

lemma rules_of_empty: "session_empty s \<Longrightarrow> rules_of (Some s) = {}"
  by (simp add: rules_of_def session_empty_def)

lemma rules_of_New [simp]: "rules_of (Some (NewSessionState now seid)) = {}"
  by (simp add: rules_of_def NewSessionState_def)

lemma rules_of_set [simp]:
  "rules_of (Some (s\<lparr>sess_PDRs := (sess_PDRs s)(p \<mapsto> a)\<rparr>)) = insert (RPDR p) (rules_of (Some s))"
  "rules_of (Some (s\<lparr>sess_FARs := (sess_FARs s)(x \<mapsto> b)\<rparr>)) = insert (RFAR x) (rules_of (Some s))"
  "rules_of (Some (s\<lparr>sess_QERs := (sess_QERs s)(x \<mapsto> c)\<rparr>)) = insert (RQER x) (rules_of (Some s))"
  "rules_of (Some (s\<lparr>sess_URRs := (sess_URRs s)(x \<mapsto> e)\<rparr>)) = insert (RURR x) (rules_of (Some s))"
  "rules_of (Some (s\<lparr>sess_BARs := (sess_BARs s)(y \<mapsto> f)\<rparr>)) = insert (RBAR y) (rules_of (Some s))"
  by (auto simp: rules_of_def)

lemma rules_of_drop [simp]:
  "rules_of (Some (s\<lparr>sess_PDRs := (sess_PDRs s)(p := None)\<rparr>)) = rules_of (Some s) - {RPDR p}"
  "rules_of (Some (s\<lparr>sess_FARs := (sess_FARs s)(x := None)\<rparr>)) = rules_of (Some s) - {RFAR x}"
  "rules_of (Some (s\<lparr>sess_QERs := (sess_QERs s)(x := None)\<rparr>)) = rules_of (Some s) - {RQER x}"
  "rules_of (Some (s\<lparr>sess_URRs := (sess_URRs s)(x := None)\<rparr>)) = rules_of (Some s) - {RURR x}"
  "rules_of (Some (s\<lparr>sess_BARs := (sess_BARs s)(y := None)\<rparr>)) = rules_of (Some s) - {RBAR y}"
  by (auto simp: rules_of_def)

lemma rules_of_frame [simp]:
  "rules_of (Some (s\<lparr>sess_QERMeters := a\<rparr>)) = rules_of (Some s)"
  "rules_of (Some (s\<lparr>sess_AdaptiveQER := b\<rparr>)) = rules_of (Some s)"
  "rules_of (Some (s\<lparr>sess_AdaptiveFlows := c\<rparr>)) = rules_of (Some s)"
  "rules_of (Some (s\<lparr>sess_URRPeriodAt := e\<rparr>)) = rules_of (Some s)"
  "rules_of (Some (s\<lparr>sess_URRReports := f\<rparr>)) = rules_of (Some s)"
  "rules_of (Some (s\<lparr>sess_Buffers := g\<rparr>)) = rules_of (Some s)"
  "rules_of (Some (s\<lparr>sess_LastCPProvisioned := h\<rparr>)) = rules_of (Some s)"
  by (simp_all add: rules_of_def)

lemma rules_start_period [simp]: "rules_of (Some (start_period now u s)) = rules_of (Some s)"
  by (simp add: start_period_def)

subsection \<open>Steps of the operations\<close>

lemma us_rules_simps [simp]:
  "us_rules (publishSnapshotLocked E now d) = us_rules d" "us_rules (cancelPendingDDNLocked k d) = us_rules d"
  "us_rules (addAdaptiveTraceLocked now e d) = us_rules d" "us_rules (emitReport r d) = us_rules d"
  "us_rules (publishOutcome o' d) = us_rules d" "us_rules (scheduleBufferedNotification now b p d) = us_rules d"
  by (auto simp: us_rules_def addAdaptiveTraceLocked_def fun_eq_iff)

lemma us_rules_put [simp]: "us_rules (put_session seid s d) = (us_rules d)(seid := rules_of (Some s))"
  by (auto simp: us_rules_def put_session_def fun_eq_iff)

lemma us_rules_delete:
  "us_rules (deleteSessionIfEmptyLocked seid s (put_session seid s d)) = (us_rules d)(seid := rules_of (Some s))"
  by (auto simp: us_rules_def put_session_def deleteSessionIfEmptyLocked_def rules_of_empty fun_eq_iff)

lemma ensureSession_rules:
  "ensureSessionLocked now seid d = (s, d') \<Longrightarrow> rules_of (Some s) = us_rules d seid \<and> us_rules d' = us_rules d"
  by (auto simp: ensureSessionLocked_def us_rules_def addAdaptiveTraceLocked_def Let_def fun_eq_iff
      split: option.splits if_splits)

lemma emitCP_rules:
  "emitCPProvisionedTraceLocked E now s d = (s', d') \<Longrightarrow> rules_of (Some s') = rules_of (Some s) \<and> us_rules d' = us_rules d"
  by (auto simp: emitCPProvisionedTraceLocked_def Let_def split: if_splits)

lemma us_rules_Some: "d_sessions d seid = Some s \<Longrightarrow> rules_of (Some s) = us_rules d seid"
  by (simp add: us_rules_def)

lemma us_rules_None: "d_sessions d seid = None \<Longrightarrow> us_rules d seid = {}"
  by (simp add: us_rules_def)

lemma cancel_fold_rules: "us_rules (fold (cancel_for_far seid s x) ps d) = us_rules d"
proof (induction ps arbitrary: d)
  case (Cons p ps)
  show ?case by (simp add: Cons.IH) (simp add: cancel_for_far_def split: option.splits)
qed simp

lemma Create_rules:
  "us_rules (fst (CreatePDR E now seid i d)) =
     (case parsePDR (e_api E) (e_p6 E) i of Inl _ \<Rightarrow> us_rules d
      | Inr r \<Rightarrow> (us_rules d)(seid := insert (RPDR (pdr_ID r)) (us_rules d seid)))"
  "us_rules (fst (CreateFAR E now seid i d)) =
     (case parseFAR (e_api E) i of Inl _ \<Rightarrow> us_rules d
      | Inr r \<Rightarrow> (us_rules d)(seid := insert (RFAR (far_ID r)) (us_rules d seid)))"
  "us_rules (fst (CreateURR E now seid i d)) =
     (case parseURR (e_api E) i of Inl _ \<Rightarrow> us_rules d
      | Inr r \<Rightarrow> (us_rules d)(seid := insert (RURR (urr_ID r)) (us_rules d seid)))"
  "us_rules (fst (CreateBAR E now seid i d)) =
     (case parseBAR (e_api E) i of Inl _ \<Rightarrow> us_rules d
      | Inr r \<Rightarrow> (us_rules d)(seid := insert (RBAR (bar_ID r)) (us_rules d seid)))"
  by (auto simp: CreatePDR_def CreateFAR_def CreateURR_def CreateBAR_def Let_def ensureSession_rules
      split: sum.splits prod.splits dest!: ensureSession_rules)

lemma CreateQER_rules:
  "us_rules (fst (CreateQER E now seid i d)) =
     (case parseQER (e_api E) i of Inl _ \<Rightarrow> us_rules d
      | Inr r \<Rightarrow> (us_rules d)(seid := insert (RQER (qer_ID r)) (us_rules d seid)))"
  by (auto simp: CreateQER_def Let_def split: sum.splits prod.splits dest!: ensureSession_rules emitCP_rules)

lemma insert_present:
  "d_sessions d seid = Some s \<Longrightarrow> sess_PDRs s p = Some v1 \<Longrightarrow> (us_rules d)(seid := insert (RPDR p) (us_rules d seid)) = us_rules d"
  "d_sessions d seid = Some s \<Longrightarrow> sess_FARs s x = Some v2 \<Longrightarrow> (us_rules d)(seid := insert (RFAR x) (us_rules d seid)) = us_rules d"
  "d_sessions d seid = Some s \<Longrightarrow> sess_QERs s x = Some v3 \<Longrightarrow> (us_rules d)(seid := insert (RQER x) (us_rules d seid)) = us_rules d"
  "d_sessions d seid = Some s \<Longrightarrow> sess_URRs s x = Some v4 \<Longrightarrow> (us_rules d)(seid := insert (RURR x) (us_rules d seid)) = us_rules d"
  "d_sessions d seid = Some s \<Longrightarrow> sess_BARs s y = Some v5 \<Longrightarrow> (us_rules d)(seid := insert (RBAR y) (us_rules d seid)) = us_rules d"
  by (auto simp: us_rules_def rules_of_def fun_eq_iff)

lemma Update_rules:
  "us_rules (fst (UpdatePDR E now seid i d)) = us_rules d"
  "us_rules (fst (UpdateURR E now seid i d)) = us_rules d"
  "us_rules (fst (UpdateBAR E now seid i d)) = us_rules d"
  by (auto simp: UpdatePDR_def UpdateURR_def UpdateBAR_def Let_def us_rules_Some insert_present
      split: sum.splits option.splits)

lemma UpdateQER_rules: "us_rules (fst (UpdateQER E now seid i d)) = us_rules d"
  by (auto simp: UpdateQER_def Let_def us_rules_Some insert_present
      split: sum.splits option.splits prod.splits dest!: emitCP_rules)

lemma flush_rules: "flush_buffer A b ps d = Some d' \<Longrightarrow> us_rules d' = us_rules d"
  using flush_buffer_total [of A b ps d] by (auto simp: us_rules_def fun_eq_iff)

lemma transition_rules: "transition_pdr E now seid nxt d pid = Some d' \<Longrightarrow> us_rules d' = us_rules d"
  by (auto simp: transition_pdr_def us_rules_def fun_eq_iff Let_def split: option.splits if_splits dest!: flush_rules)

lemma UpdateFAR_rules: "UpdateFAR E now seid i d = Some (d', e) \<Longrightarrow> us_rules d' = us_rules d"
proof -
  have trans: "handleFARTransitionLocked E now seid prev nxt d1 = Some d2 \<Longrightarrow> us_rules d2 = us_rules d1" for prev nxt d1 d2
    unfolding handleFARTransitionLocked_def
    by (auto split: if_splits option.splits elim!: foldO_invariant [where P = "\<lambda>d. us_rules d = us_rules d1"] dest: transition_rules)
  assume "UpdateFAR E now seid i d = Some (d', e)"
  then show ?thesis
    by (auto simp: UpdateFAR_def Let_def us_rules_Some insert_present
        split: sum.splits option.splits dest!: trans)
qed

lemma drop_absent:
  "d_sessions d seid = None \<Longrightarrow> (us_rules d)(seid := us_rules d seid - X) = us_rules d"
  "d_sessions d seid = Some s \<Longrightarrow> sess_PDRs s p = None \<Longrightarrow> (us_rules d)(seid := us_rules d seid - {RPDR p}) = us_rules d"
  "d_sessions d seid = Some s \<Longrightarrow> sess_FARs s x = None \<Longrightarrow> (us_rules d)(seid := us_rules d seid - {RFAR x}) = us_rules d"
  "d_sessions d seid = Some s \<Longrightarrow> sess_QERs s x = None \<Longrightarrow> (us_rules d)(seid := us_rules d seid - {RQER x}) = us_rules d"
  "d_sessions d seid = Some s \<Longrightarrow> sess_URRs s x = None \<Longrightarrow> (us_rules d)(seid := us_rules d seid - {RURR x}) = us_rules d"
  "d_sessions d seid = Some s \<Longrightarrow> sess_BARs s y = None \<Longrightarrow> (us_rules d)(seid := us_rules d seid - {RBAR y}) = us_rules d"
  by (auto simp: us_rules_def rules_of_def fun_eq_iff)

lemma Remove_rules:
  "ie_PDRID (e_api E) i = Inr p \<Longrightarrow>
     us_rules (fst (RemovePDR E now seid i d)) = (us_rules d)(seid := us_rules d seid - {RPDR p})"
  "ie_u32 (e_api E) A_FARID i = Inr x \<Longrightarrow>
     us_rules (fst (RemoveFAR E now seid i d)) = (us_rules d)(seid := us_rules d seid - {RFAR x})"
  "ie_u32 (e_api E) A_QERID i = Inr x \<Longrightarrow>
     us_rules (fst (RemoveQER E now seid i d)) = (us_rules d)(seid := us_rules d seid - {RQER x})"
  "ie_u32 (e_api E) A_URRID i = Inr x \<Longrightarrow>
     us_rules (fst (RemoveURR E now seid i d)) = (us_rules d)(seid := us_rules d seid - {RURR x})"
  "ie_u8 (e_api E) A_BARID i = Inr y \<Longrightarrow>
     us_rules (fst (RemoveBAR E now seid i d)) = (us_rules d)(seid := us_rules d seid - {RBAR y})"
  by (auto simp: RemovePDR_def RemoveFAR_def RemoveQER_def RemoveURR_def RemoveBAR_def Let_def us_rules_delete
      cancel_fold_rules us_rules_Some drop_absent split: option.splits)

subsection \<open>The laws\<close>

lemma decodePDR_id:
  assumes "foldE (decodePDR_step A p6) rule ies = Inr rule'"
  shows "pdr_ID rule' = foldl (\<lambda>v i. if ie_Type A i = T_PDRID then (case ie_PDRID A i of Inl _ \<Rightarrow> v | Inr x \<Rightarrow> x) else v)
    (pdr_ID rule) ies"
  using assms
proof (induction ies arbitrary: rule)
  case (Cons i ies)
  then obtain r where r: "decodePDR_step A p6 rule i = Inr r" "foldE (decodePDR_step A p6) r ies = Inr rule'"
    by (auto simp: bindE_Inr_iff)
  then have "pdr_ID r = (if ie_Type A i = T_PDRID then (case ie_PDRID A i of Inl _ \<Rightarrow> pdr_ID rule | Inr x \<Rightarrow> x) else pdr_ID rule)"
    by (auto simp: decodePDR_step_def bindE_Inr_iff split: ie_type.splits)
  with Cons.IH [OF r(2)] show ?case by simp
qed simp

lemma parsePDR_id:
  "parsePDR A p6 i = Inr r \<Longrightarrow> ie_group A G_CreatePDR i = Inr ies \<Longrightarrow> pdr_ID r = child_PDRID A ies"
  by (auto simp: parsePDR_def decodePDR_def bindE_Inr_iff child_PDRID_def split: if_splits dest!: decodePDR_id)

lemma us_run_rules:
  "run (us_driver E now) (DCreate k i) seid d = Some (d', ok) \<Longrightarrow> us_wf (e_api E) (DCreate k i) \<Longrightarrow>
     created_rule (e_api E) k i = Some r \<Longrightarrow> us_rules d' seid \<subseteq> insert r (us_rules d seid)"
  "run (us_driver E now) (DUpdate k i) seid d = Some (d', ok) \<Longrightarrow> us_rules d' = us_rules d"
  "run (us_driver E now) (DRemove k i) seid d = Some (d', ok) \<Longrightarrow> named_rule (e_api E) k i = Some r \<Longrightarrow>
     us_rules d' = (us_rules d)(seid := us_rules d seid - {r})"
  subgoal
    by (cases k) (auto simp: us_driver_def ok_err_def Create_rules CreateQER_rules dest: parsePDR_id split: sum.splits)
  subgoal
    by (cases k) (auto simp: us_driver_def ok_err_def ok_res_def Update_rules UpdateQER_rules dest: UpdateFAR_rules)
  subgoal
    by (cases k) (auto simp: us_driver_def ok_err_def ok_res_def Remove_rules split: sum.splits)
  done

lemma Remove_unread:
  "ie_PDRID (e_api E) i = Inl e \<Longrightarrow> fst (RemovePDR E now seid i d) = d"
  "ie_u32 (e_api E) A_FARID i = Inl e \<Longrightarrow> fst (RemoveFAR E now seid i d) = d"
  "ie_u32 (e_api E) A_QERID i = Inl e \<Longrightarrow> fst (RemoveQER E now seid i d) = d"
  "ie_u32 (e_api E) A_URRID i = Inl e \<Longrightarrow> fst (RemoveURR E now seid i d) = d"
  "ie_u8 (e_api E) A_BARID i = Inl e \<Longrightarrow> fst (RemoveBAR E now seid i d) = d"
  by (simp_all add: RemovePDR_def RemoveFAR_def RemoveQER_def RemoveURR_def RemoveBAR_def)

lemma us_run_other:
  assumes "run (us_driver E now) op seid d = Some (d', ok)" "j \<noteq> seid"
  shows "us_rules d' j = us_rules d j"
proof (cases op)
  case (DCreate k i)
  with assms show ?thesis
    by (cases k) (auto simp: us_driver_def ok_err_def Create_rules CreateQER_rules split: sum.splits)
next
  case (DUpdate k i)
  with assms us_run_rules(2) show ?thesis by fastforce
next
  case (DRemove k i)
  show ?thesis
  proof (cases "named_rule (e_api E) k i")
    case None
    with DRemove assms show ?thesis
      by (cases k) (auto simp: us_driver_def ok_err_def ok_res_def Remove_unread split: sum.splits)
  next
    case (Some r)
    with DRemove assms us_run_rules(3) show ?thesis by fastforce
  qed
qed (use assms in \<open>auto simp: us_driver_def ok_res_def\<close>)

interpretation us_store: rule_store "us_wf (e_api E)" "e_api E" "us_driver E now" us_rules
  for E :: "'ie env" and now :: gotime
  by unfold_locales (auto simp: us_driver_def ok_res_def us_run_rules us_run_other dest: us_run_rules(1))

end
