(* ===== verification/Userspace_Quiet.thy ===== *)
theory Userspace_Quiet
  imports Userspace_Driver
begin

text \<open>
  What the userspace forwarder does between two calls of the control plane (packets, ticks, timers and
  adaptive QoS) creates, changes and removes no rule: \<open>us_rules\<close> stays the same.
\<close>

section \<open>Parts of the state that hold no rules\<close>

lemma us_rules_sessions: "d_sessions d' = d_sessions d \<Longrightarrow> us_rules d' = us_rules d"
  by (simp add: us_rules_def fun_eq_iff)

lemma us_rules_same_put:
  "d_sessions d i = Some s \<Longrightarrow> rules_of (Some s') = rules_of (Some s) \<Longrightarrow> us_rules (put_session i s' d) = us_rules d"
  by (auto simp: us_rules_def fun_eq_iff put_session_def)

lemma us_rules_same_upd:
  "d_sessions d i = Some s \<Longrightarrow> rules_of (Some s') = rules_of (Some s) \<Longrightarrow>
     us_rules (d\<lparr>d_sessions := (d_sessions d)(i \<mapsto> s')\<rparr>) = us_rules d"
  using us_rules_same_put by (simp add: put_session_def)

lemma same_rules_of: "same_rules s s' \<Longrightarrow> rules_of (Some s') = rules_of (Some s)"
  by (simp add: same_rules_def rules_of_def)

lemma us_rules_flow [simp]:
  "us_rules (d\<lparr>d_nextFlow := a\<rparr>) = us_rules d" "us_rules (d\<lparr>d_flowCounts := f\<rparr>) = us_rules d"
  "us_rules (d\<lparr>d_pendingDDN := m\<rparr>) = us_rules d"
  "us_rules (scheduleAdaptiveFlowAutoEnd now r t d) = us_rules d"
  by (auto simp: us_rules_def fun_eq_iff scheduleAdaptiveFlowAutoEnd_def Let_def)

lemma us_rules_stat [simp]:
  "us_rules (stat_uplink d) = us_rules d" "us_rules (stat_downlink d) = us_rules d" "us_rules (stat_forwarded d) = us_rules d"
  "us_rules (stat_dropped d) = us_rules d" "us_rules (stat_buffered d) = us_rules d" "us_rules (stat_uplink_miss d) = us_rules d"
  "us_rules (stat_downlink_miss d) = us_rules d" "us_rules (stat_unsupported d) = us_rules d"
  "us_rules (stat_uplink_error d) = us_rules d" "us_rules (stat_downlink_error d) = us_rules d"
  by (rule us_rules_sessions, simp add: stat_uplink_def stat_downlink_def stat_forwarded_def stat_dropped_def
      stat_buffered_def stat_uplink_miss_def stat_downlink_miss_def stat_unsupported_def stat_uplink_error_def
      stat_downlink_error_def)+

section \<open>Timers and adaptive reports\<close>

lemma fireDDN_rules: "us_rules (fireBufferedNotification key d) = us_rules d"
  by (simp add: fireBufferedNotification_def Let_def split: option.splits)

lemma set_overrides_rules: "rules_of (Some (set_overrides r p t qids s)) = rules_of (Some s)"
  unfolding set_overrides_def by (induction qids arbitrary: s) simp_all

lemma clear_overrides_rules:
  "rules_of (Some (foldl (\<lambda>s q. s\<lparr>sess_AdaptiveQER := (sess_AdaptiveQER s)(adaptiveQERKey q := None)\<rparr>) s qids)) =
     rules_of (Some s)"
  by (induction qids arbitrary: s) simp_all

lemma startAdaptiveFlow_rules: "us_rules (fst (startAdaptiveFlow E now r d)) = us_rules d"
  by (auto simp: startAdaptiveFlow_def reject_start_def Let_def set_overrides_rules us_rules_Some
      split: option.splits prod.splits dest!: resolve_session)

lemma endAdaptiveFlow_rules: "us_rules (fst (endAdaptiveFlow E now r d)) = us_rules d"
  by (auto simp: endAdaptiveFlow_def Let_def clear_overrides_rules us_rules_Some
      split: option.splits prod.splits dest!: find_flow_session)

lemma applyAdaptiveReport_rules: "us_rules (fst (applyAdaptiveReport E now r d)) = us_rules d"
  unfolding applyAdaptiveReport_def Let_def by (simp add: startAdaptiveFlow_rules endAdaptiveFlow_rules)

lemma fireAutoEnd_rules: "us_rules (fireAutoEnd E now r t d) = us_rules d"
  unfolding fireAutoEnd_def by (simp add: applyAdaptiveReport_rules)

lemma reset_emit_rules: "us_rules (reset_emit E now i d) = us_rules d"
  by (auto simp: reset_emit_def Let_def us_rules_Some split: option.splits prod.splits dest!: emitCP_rules)

lemma resetAdaptiveState_rules: "us_rules (resetAdaptiveState E now d) = us_rules d"
proof -
  let ?d = "d\<lparr>d_sessions := (\<lambda>i. map_option (reset_session now) (d_sessions d i)), d_adaptiveTrace := trace_reset (d_adaptiveTrace d)\<rparr>"
  have "us_rules ?d = us_rules d"
  proof
    show "us_rules ?d i = us_rules d i" for i by (cases "d_sessions d i") (simp_all add: us_rules_def reset_session_def)
  qed
  then show ?thesis
    unfolding resetAdaptiveState_def Let_def us_rules_simps
    by (intro fold_invariant_list [where P = "\<lambda>e. us_rules e = us_rules d"]) (simp_all add: reset_emit_rules)
qed

section \<open>Ticks\<close>

lemma periodic_urr_same: "same_rules s (fst st) \<Longrightarrow> same_rules s (fst (periodic_urr now st u))"
  by (cases st) (auto simp: periodic_urr_def Let_def split: option.splits)

lemma periodic_session_rules: "us_rules (fst (periodic_session E now st i)) = us_rules (fst st)"
proof -
  obtain d all where st: "st = (d, all)" by force
  show ?thesis
  proof (cases "d_sessions d i")
    case (Some s)
    let ?r = "foldl (periodic_urr now) (s, []) (rng32 (e_rng E) (dom (sess_URRs s)))"
    have "same_rules s (fst ?r)"
      by (intro foldl_invariant [where P = "\<lambda>st. same_rules s (fst st)"]) (simp_all add: periodic_urr_same)
    with Some show ?thesis
      by (auto simp: st periodic_session_def case_prod_unfold Let_def us_rules_Some dest: same_rules_of)
  qed (simp add: st periodic_session_def)
qed

lemma emitPeriodic_rules: "us_rules (emitPeriodicURRReports E now d) = us_rules d"
proof -
  let ?r = "foldl (periodic_session E now) (d, []) (rng64 (e_rng E) (dom (d_sessions d)))"
  have "us_rules (fst ?r) = us_rules d"
    by (intro foldl_invariant [where P = "\<lambda>st. us_rules (fst st) = us_rules d"]) (simp_all add: periodic_session_rules)
  then have "us_rules (if snd ?r \<noteq> [] then publishSnapshotLocked E now (fst ?r) else fst ?r) = us_rules d" by simp
  then show ?thesis
    unfolding emitPeriodicURRReports_def case_prod_unfold Let_def
    by (rule fold_invariant_list [where P = "\<lambda>e. us_rules e = us_rules d"]) (simp split: option.splits)
qed

section \<open>Packets\<close>

lemma mbr_loop_same: "same_rules s0 s \<Longrightarrow> same_rules s0 (fst (mbr_loop d b n dir now s qs))"
  by (induction qs arbitrary: s) (auto simp: Let_def split: prod.splits)

lemma decide_action_rules: "us_rules (fst (decide_action now b n dir d)) = us_rules d"
proof -
  have "us_rules (fst (mbrAllows now b n dir d)) = us_rules d"
    using mbr_loop_same [OF same_rules_refl(1), THEN same_rules_of]
    by (auto simp: mbrAllows_def case_prod_unfold Let_def us_rules_same_upd split: option.splits)
  then show ?thesis by (simp add: decide_action_def case_prod_unfold Let_def)
qed

lemma bufferPacket_rules: "us_rules (fst (bufferPacket now b p d)) = us_rules d"
  by (auto simp: bufferPacket_def Let_def us_rules_same_upd split: option.splits)

lemma usage_loop_rules: "rules_of (Some (fst (foldl (usage_step now n up) st us))) = rules_of (Some (fst st))"
  by (intro foldl_invariant [where P = "\<lambda>x. rules_of (Some (fst x)) = rules_of (Some (fst st))"])
     (simp_all add: usage_step_def case_prod_unfold Let_def)

lemma updateUsage_rules: "us_rules (updateUsage E now b n up d) = us_rules d"
  by (auto simp: updateUsage_def case_prod_unfold Let_def usage_loop_rules us_rules_Some split: option.splits)

lemma InterceptUplink_rules: "us_rules (fst (InterceptUplink E now p d)) = us_rules d"
  by (auto simp: InterceptUplink_def Let_def applyAdaptiveReport_rules split: option.splits)

lemma burst_detected_rules: "us_rules (burst_detected E now b ue flow d) = us_rules d"
  by (simp add: burst_detected_def Let_def)

lemma act_rules:
  "act_uplink E now b p r d = Some (d', r', ret) \<Longrightarrow> us_rules d' = us_rules d"
  "act_downlink E now b ue p r d = Some (d', r', ret) \<Longrightarrow> us_rules d' = us_rules d"
  by (auto simp: act_uplink_def act_downlink_def forward_total case_prod_unfold Let_def InterceptUplink_rules
      bufferPacket_rules burst_detected_rules split: PacketAction.splits if_splits option.splits)

lemma fail_rules: "us_rules (fst (fail_uplink e r d)) = us_rules d" "us_rules (fst (fail_downlink e r d)) = us_rules d"
  by (simp_all add: fail_uplink_def fail_downlink_def)

lemma process_rules:
  "processUplink E now packet r d = Some (d', r') \<Longrightarrow> us_rules d' = us_rules d"
  "processDownlink E now packet r d = Some (d', r') \<Longrightarrow> us_rules d' = us_rules d"
proof -
  have fail: "fail_uplink e r0 d0 = (d2, r2) \<Longrightarrow> us_rules d2 = us_rules d0"
    "fail_downlink e r0 d0 = (d2, r2) \<Longrightarrow> us_rules d2 = us_rules d0" for e r0 d0 d2 r2
    using fail_rules [of e r0 d0] by simp_all
  show "us_rules d' = us_rules d" if "processUplink E now packet r d = Some (d', r')"
    using that by (auto simp: processUplink_def Let_def case_prod_unfold simp del: if_split
        split: option.splits sum.splits simp: updateUsage_rules decide_action_rules dest!: fail act_rules)
  show "us_rules d' = us_rules d" if "processDownlink E now packet r d = Some (d', r')"
    using that by (auto simp: processDownlink_def Let_def case_prod_unfold simp del: if_split
        split: option.splits sum.splits simp: updateUsage_rules decide_action_rules dest!: fail act_rules)
qed

lemma DispatchPacket_rules: "DispatchPacket E now packet d = Some (d', r) \<Longrightarrow> us_rules d' = us_rules d"
  by (auto simp: DispatchPacket_def process_def Let_def split: if_splits PacketDirection.splits dest: process_rules)

section \<open>The steps of the forwarder\<close>

text \<open>The operations that are not calls of the PFCP server.\<close>

fun quiet :: "'ie uop \<Rightarrow> bool" where
  "quiet (OpHandleReport h) = True"
| "quiet (OpPacket p) = True"
| "quiet OpTick = True"
| "quiet (OpFireDDN k) = True"
| "quiet (OpAdaptiveReport r) = True"
| "quiet (OpAutoEnd r t) = True"
| "quiet OpReset = True"
| "quiet _ = False"

lemma quiet_rules: "exec E now op d = Some d' \<Longrightarrow> quiet op \<Longrightarrow> us_rules d' = us_rules d"
  by (cases op) (auto simp: HandleReport_def us_rules_def fireDDN_rules emitPeriodic_rules fireAutoEnd_rules
      applyAdaptiveReport_rules resetAdaptiveState_rules dest: DispatchPacket_rules)

lemma New_rules: "us_rules (New now mp us aq) i = {}"
  by (simp add: us_rules_def New_def Let_def)

end
