(* ===== verification/Pfcp_System.thy ===== *)
theory Pfcp_System
  imports Driver_Keeps Userspace_Quiet Runtime
begin

text \<open>
  The PFCP server and the userspace forwarder together: a transition system whose steps are the events of
  the server's main loop, with the forwarder as its driver, and everything the forwarder does between them.
  The contracts of both sides meet here: the forwarder never holds a rule that no live session tracks, and
  the forwarder inside the system only ever takes its own steps.
\<close>

section \<open>The system\<close>

definition with_forwarder :: "('ie, Driver) pfcp_env \<Rightarrow> 'ie env \<Rightarrow> gotime \<Rightarrow> ('ie, Driver) pfcp_env" where
  "with_forwarder Ep Eu now = Ep\<lparr>pe_driver := us_driver Eu now\<rparr>"

text \<open>
  \<open>control\<close> is a turn of the main loop of the server at some time; a report may come at any time and
  say anything. \<open>data\<close> is a step of the forwarder that no control message causes, and
  \<open>pop\<close> a packet taken from a session's queue.
\<close>

inductive system :: "('ie, Driver) pfcp_env \<Rightarrow> 'ie env \<Rightarrow> ('ie, Driver) PfcpServer \<Rightarrow> bool" for Ep Eu where
  start: "system Ep Eu (NewPfcpServer nid rt mr now (New now mp us aq))"
| control: "system Ep Eu sv \<Longrightarrow> event_wf (us_wf (e_api Eu)) Ep ev \<Longrightarrow>
    main_step (with_forwarder Ep Eu now) ev sv = Some sv' \<Longrightarrow> system Ep Eu sv'"
| data: "system Ep Eu sv \<Longrightarrow> quiet op \<Longrightarrow> exec Eu now op (nd_driver sv) = Some d' \<Longrightarrow> system Ep Eu (sv\<lparr>nd_driver := d'\<rparr>)"
| pop: "system Ep Eu sv \<Longrightarrow> system Ep Eu (fst (PopBufPkt seid pdrid sv))"

section \<open>The invariant\<close>

lemmas main_step_inv = rule_store.main_step_inv [OF us_store.rule_store_axioms]

lemma event_wf_driver [simp]: "event_wf ok (with_forwarder Ep Eu now) ev = event_wf ok Ep ev"
  by (cases ev) (simp_all add: with_forwarder_def)

lemma system_server_inv:
  assumes "system Ep Eu sv" "pe_api Ep = e_api Eu" "remove_ies_ok (e_api Eu)" "go_ranges (pe_rng Ep)"
  shows "server_inv us_rules sv"
  using assms(1)
proof induction
  case (start nid rt mr now mp us aq)
  show ?case by (rule NewPfcpServer_inv) (rule New_rules)
next
  case (control sv ev now sv')
  have "pe_driver (with_forwarder Ep Eu now) = us_driver Eu now" "pe_api (with_forwarder Ep Eu now) = e_api Eu"
    "go_ranges (pe_rng (with_forwarder Ep Eu now))"
    using assms(2,4) by (simp_all add: with_forwarder_def)
  with control main_step_inv [OF control(3)] assms(3) show ?case by simp
next
  case (data sv op now d')
  then show ?case by (intro server_inv_driver) (simp_all add: quiet_rules)
next
  case (pop sv seid pdrid)
  then show ?case by (intro PopBufPkt_inv)
qed

section \<open>The forwarder in the system\<close>

lemma us_run_exec:
  assumes "run (us_driver E now) op i d = Some (d', ok)"
  shows "d' = d \<or> (\<exists>uop. exec E now uop d = Some d')"
proof (cases op)
  case (DCreate k x)
  with assms show ?thesis
    by (cases k) (auto simp: us_driver_def ok_err_def ok_res_def intro: exec.simps)
next
  case (DUpdate k x)
  have "UpdateFAR E now i x d = Some (d', e) \<Longrightarrow> exec E now (OpUpdateFAR i x) d = Some d'" for e by simp
  with DUpdate assms show ?thesis
    by (cases k) (auto simp: us_driver_def ok_err_def ok_res_def intro: exec.simps simp del: exec.simps(5))
next
  case (DRemove k x)
  with assms show ?thesis
    by (cases k) (auto simp: us_driver_def ok_err_def ok_res_def intro: exec.simps)
qed (use assms in \<open>auto simp: us_driver_def ok_res_def\<close>)

interpretation us_keeps: driver_keeps "us_driver E now" "reachable E" for E :: "'ie env" and now :: gotime
  by unfold_locales (use us_run_exec reachable.step in blast)

lemma PopBufPkt_driver [simp]: "nd_driver (fst (PopBufPkt i p sv)) = nd_driver sv"
  by (simp add: PopBufPkt_def case_prod_unfold Let_def split: sum.split)

section \<open>Deleting a session\<close>

lemma foldO_no_panic: "(\<And>s x. f s x \<noteq> None) \<Longrightarrow> foldO f s xs \<noteq> None"
  using foldO_total [of "\<lambda>_. True" s xs f] by auto

lemma bind_total: "m \<noteq> None \<Longrightarrow> (\<And>x. k x \<noteq> None) \<Longrightarrow> m \<bind> k \<noteq> None"
  by (auto simp: bind_eq_Some_conv)

lemma us_remove_total:
  "Sess_RemoveFAR (us_driver E now) A req sd \<noteq> None" "Sess_RemoveQER (us_driver E now) A req sd \<noteq> None"
  "Sess_RemoveURR (us_driver E now) A req sd \<noteq> None" "Sess_RemoveBAR (us_driver E now) A req sd \<noteq> None"
  by (auto simp: Sess_RemoveFAR_def Sess_RemoveQER_def Sess_RemoveURR_def Sess_RemoveBAR_def us_driver_def
      case_prod_unfold Let_def split: sum.split option.split)

lemma us_remove_pdr_total: "Sess_RemovePDR (us_driver E now) A R req sd \<noteq> None"
proof -
  have d: "diassociate_step (us_driver E now) st u \<noteq> None" for st u
    by (cases st) (auto simp: diassociate_step_def diassociateURR_def us_driver_def Let_def split: option.split)
  have loop: "foldO (diassociate_step (us_driver E now)) st us \<bind> (\<lambda>p. Some (g p)) \<noteq> None" for st us and g :: "_ \<Rightarrow> Driver ss \<times> USAReport list res"
    using d by (intro bind_total foldO_no_panic) simp_all
  have "dr_RemovePDR (us_driver E now) i req dv \<bind>
      (\<lambda>p. case snd p of None \<Rightarrow> foldO (diassociate_step (us_driver E now)) (h p) us \<bind> (\<lambda>p. Some (g p))
        | Some e \<Rightarrow> Some (k p e)) \<noteq> None" for i dv us h k and g :: "_ \<Rightarrow> Driver ss \<times> USAReport list res"
    by (intro bind_total) (simp add: us_driver_def, simp del: not_None_eq add: loop split: option.split)
  then show ?thesis
    unfolding Sess_RemovePDR_def case_prod_unfold by (simp del: not_None_eq split: sum.split option.split)
qed

lemma us_Close_total: "Sess_Close (us_driver E now) A R sd \<noteq> None"
  unfolding Sess_Close_def case_prod_unfold ignore_err_def collect_def
  by (intro bind_total foldO_no_panic)
     (use us_remove_total us_remove_pdr_total in \<open>simp_all del: not_None_eq add: option.map_disc_iff us_remove_total us_remove_pdr_total\<close>)

lemmas us_delete = rule_store.delete_server_inv [OF us_store.rule_store_axioms]

lemmas us_Close_step = rule_store.Close_step(1) [OF us_store.rule_store_axioms, unfolded rule_store.sess_step_def [OF us_store.rule_store_axioms]]

lemma us_LocalDelete_total: "LocalNode_DeleteSess (us_driver E now) A R i nd \<noteq> None"
proof -
  have "Sess_Close (us_driver E now) A R sd \<bind> (\<lambda>p. Some (g p)) \<noteq> None" for sd and g :: "_ \<Rightarrow> (LocalNode \<times> Driver) \<times> (Sess \<times> USAReport list) res"
    by (intro bind_total us_Close_total) simp
  then show ?thesis
    unfolding LocalNode_DeleteSess_def Let_def case_prod_unfold by (simp del: not_None_eq split: option.split)
qed

lemma us_RemoteDelete_total:
  assumes "nd_heap st a = Some n"
  shows "\<exists>st' cl us. RemoteNode_DeleteSess (us_driver E now) A R a i st = Some (st', cl, us) \<and> nd_heap st' a \<noteq> None"
proof -
  obtain ln d r where "LocalNode_DeleteSess (us_driver E now) A R i (nd_lnode st, nd_driver st) = Some ((ln, d), r)"
    using us_LocalDelete_total [of E now A R i "(nd_lnode st, nd_driver st)"] by (cases "LocalNode_DeleteSess (us_driver E now) A R i (nd_lnode st, nd_driver st)") auto
  with assms show ?thesis by (cases r) (auto simp: RemoteNode_DeleteSess_def)
qed

lemma us_DeleteSess_total:
  assumes "server_inv us_rules sv" "sessions sv i = Some s"
  shows "\<exists>r. RemoteNode_DeleteSess (us_driver E now) A R (s_rnode s) i sv = Some r"
proof -
  note inv = server_invD(1) [OF assms(1)]
  from ownedD(1) [OF nodes_invD(2) [OF inv] assms(2)] obtain n where
    n: "nd_heap sv (s_rnode s) = Some n" "i \<in> rn_sess n" by blast
  from us_RemoteDelete_total [OF n(1)] show ?thesis by blast
qed

section \<open>A concrete system\<close>

text \<open>
  A library and a peer that sets up an association, establishes a session with one FAR, and deletes it.
  Bytes two and eight of a message are its type and its sequence number.
\<close>

definition ex_node :: tree where
  "ex_node = LeafS (T_Other 60) ''smf''"

definition ex_create_far :: tree where
  "ex_create_far = Node (T_Other 3) [Leaf32 T_FARID 7, LeafB T_ApplyAction [2, 0]]"

definition ex_est :: "tree est_req" where
  "ex_est = \<lparr>er_NodeID = Some ex_node, er_CPFSEID = Some ex_node, er_CreateFAR = [ex_create_far], er_CreateQER = [],
     er_CreateURR = [], er_CreateBAR = None, er_CreatePDR = []\<rparr>"

definition ex_Parse :: "bytes \<Rightarrow> tree message res" where
  "ex_Parse b =
     (if length b \<noteq> 8 then Inl (ErrIE ''length'')
      else if b ! 1 = 5 then Inr (AssociationSetupRequest (Some ex_node) (Some ex_node) (ucast (b ! 7)))
      else if b ! 1 = 50 then Inr (SessionEstablishmentRequest ex_est (ucast (b ! 7)))
      else if b ! 1 = 54 then Inr (SessionDeletionRequest 1 (ucast (b ! 7)))
      else Inr (HeartbeatRequest (ucast (b ! 7))))"

definition ex_pfcp :: "(tree, Driver) pfcp_env" where
  "ex_pfcp = \<lparr>pe_api = tree_api, pe_rng = sorted_ranges, pe_driver = us_driver ex_env 0, pe_p6 = (\<lambda>_. None),
     pe_FSEID = (\<lambda>_. Inr 99), pe_RecoveryTimeStamp = (\<lambda>_. Inr 0), pe_Parse = ex_Parse, pe_Marshal = (\<lambda>_. Inr [1]),
     pe_ResolveIPAddr = (\<lambda>_. Inr [10, 0, 0, 1]), pe_ResolveUDPAddr = (\<lambda>s. Inr s)\<rparr>"

definition ex_msg :: "u8 \<Rightarrow> u8 \<Rightarrow> event" where
  "ex_msg t q = EvPacket ''smf:8805'' [0x20, t, 0, 4, 0, 0, 0, q]"

definition ex_sv0 :: "(tree, Driver) PfcpServer" where
  "ex_sv0 = NewPfcpServer ''upf'' 1 3 0 (New 0 1 None None)"

lemma ex_ies [simp]:
  "ie_string tree_api A_NodeID ex_node = Inr ''smf''" "ie_u32 tree_api A_FARID ex_create_far = Inr 7"
  "ie_u32 tree_api A_FARID (ie_NewRemoveFAR tree_api x) = Inr x"
  by (simp_all add: tree_api_def tree_leaves_def ex_node_def ex_create_far_def)

lemma ex_far_parses: "\<exists>r. parseFAR tree_api ex_create_far = Inr r \<and> far_ID r = 7"
  by (simp add: parseFAR_def decodeFAR_def decodeFAR_step_def ex_create_far_def tree_api_def tree_leaves_def ApplyAction_Unmarshal_def)

lemma ex_wf: "event_wf (us_wf (e_api ex_env)) ex_pfcp (ex_msg t q)"
  using ex_far_parses
  by (auto simp: ex_msg_def ex_pfcp_def ex_Parse_def ex_env_def ex_est_def opt_list_def split: if_splits)

lemmas ex_eval = main_step_def ex_msg_def with_forwarder_def ex_pfcp_def handle_packet_def ex_Parse_def
  validatePfcpPacketLength_def be16_def Let_def trID_def rx_recv_def NewRxTransaction_def sendRspTo_def rx_send_def write_to_def

lemma ex_digits [simp]: "dec_string (Suc 0) = ''1''" "dec_string 2 = ''2''" "dec_string 3 = ''3''"
  by code_simp+

text \<open>After the association.\<close>

definition ex_sv1 :: "(tree, Driver) PfcpServer" where
  "ex_sv1 = ex_sv0\<lparr>nd_heap := [0 \<mapsto> NewRemoteNode ''smf'' ''smf:8805''], nd_next := 1, sv_rnodes := [''smf'' \<mapsto> 0],
     sv_rxTrans := [''smf:8805-1'' \<mapsto> (NewRxTransaction ex_sv0 ''smf:8805'' 1)\<lparr>rx_msgBuf := [1]\<rparr>],
     sv_out := [([1], ''smf:8805'')]\<rparr>"

lemma ex_step1: "main_step (with_forwarder ex_pfcp ex_env 0) (ex_msg 5 1) ex_sv0 = Some ex_sv1"
  by (simp add: ex_eval ex_sv0_def ex_sv1_def NewPfcpServer_def handleAssociationSetupRequest_def NewNode_def)

text \<open>After the establishment.\<close>

definition ex_sess :: Sess where
  "ex_sess = (new_sess 99 BUFFQ_LEN)\<lparr>s_LocalID := 1, s_FARIDs := {7}\<rparr>"

definition ex_sv2 :: "(tree, Driver) PfcpServer" where
  "ex_sv2 = ex_sv1\<lparr>nd_lnode := \<lparr>ln_sess = [Some ex_sess], ln_free = []\<rparr>,
     nd_heap := [0 \<mapsto> (NewRemoteNode ''smf'' ''smf:8805'')\<lparr>rn_sess := {1}\<rparr>],
     nd_driver := fst (CreateFAR ex_env 0 1 ex_create_far (nd_driver ex_sv0)),
     sv_rxTrans := (sv_rxTrans ex_sv1)(''smf:8805-2'' \<mapsto> (NewRxTransaction ex_sv0 ''smf:8805'' 2)\<lparr>rx_msgBuf := [1]\<rparr>),
     sv_out := sv_out ex_sv1 @ [([1], ''smf:8805'')]\<rparr>"

lemma ex_step2: "main_step (with_forwarder ex_pfcp ex_env 0) (ex_msg 50 2) ex_sv1 = Some ex_sv2"
  by (simp add: ex_eval ex_sv0_def ex_sv1_def ex_sv2_def NewPfcpServer_def handleSessionEstablishmentRequest_def
      ex_est_def RemoteNode_NewSess_def LocalNode_NewSess_def establish_rules_def each_def ignore_err_def opt_list_def
      Sess_CreateFAR_def us_driver_def put_sess_def go_slice_max_def ex_sess_def NewRemoteNode_def case_prod_unfold
      new_sess_def)

end
