(* ===== verification/Buffnetlink.thy ===== *)
theory Buffnetlink
  imports Gtp5g_Buffer Pfcp_System
begin

text \<open>
  Messages of the kernel module to the gtp5g forwarder, \<^verbatim>\<open>internal/forwarder/buffnetlink/server.go\<close>: buffered packets
  and usage reports, which become reports to the PFCP server. The netlink library and the attribute numbers are
  a parameter, the record \<open>nl_api\<close>. Slicing and reading past the end of a slice panics; a loop that never ends
  has no result.
\<close>

section \<open>Data\<close>

record AttrHdr =
  ah_Len :: u16
  ah_Type :: u16

record nl_api =
  nl_DecodeAttrHdr :: "bytes \<Rightarrow> (AttrHdr \<times> nat) res"
  nl_MaskedType :: "u16 \<Rightarrow> u16"
  nl_Align :: "u16 \<Rightarrow> nat"
  nl_little :: bool
  nl_SizeofHeader :: nat
  nl_BUFFER :: u16
  nl_REPORT :: u16
  nl_BUFFER_ID :: u16
  nl_BUFFER_ACTION :: u16
  nl_BUFFER_SEID :: u16
  nl_BUFFER_PACKET :: u16
  nl_DecodeAllUSAReports :: "bytes \<Rightarrow> kreport list option res"

text \<open>What \<open>decodbuffer\<close> collects; a packet that is nil is \<open>None\<close>.\<close>

record buffer_msg =
  bm_seid :: u64
  bm_pdrid :: u16
  bm_action :: u16
  bm_pkt :: "bytes option"

section \<open>The standard library\<close>

definition slice_from :: "nat \<Rightarrow> bytes \<Rightarrow> bytes option" where
  "slice_from n b = (if n \<le> length b then Some (drop n b) else None)"

definition be_bytes :: "bytes \<Rightarrow> 'a::len word" where
  "be_bytes b = foldl (\<lambda>w x. push_bit 8 w OR ucast x) 0 b"

definition native_Uint16 :: "nl_api \<Rightarrow> bytes \<Rightarrow> u16 option" where
  "native_Uint16 N b = (if length b < 2 then None else Some (be_bytes (if nl_little N then rev (take 2 b) else take 2 b)))"

definition native_Uint64 :: "nl_api \<Rightarrow> bytes \<Rightarrow> u64 option" where
  "native_Uint64 N b = (if length b < 8 then None else Some (be_bytes (if nl_little N then rev (take 8 b) else take 8 b)))"

section \<open>Buffered packets\<close>

text \<open>
  One attribute. A packet that ends after the message panics here or, within the capacity of the slice, at
  the end of the round.
\<close>

definition buffer_attr :: "nl_api \<Rightarrow> AttrHdr \<Rightarrow> nat \<Rightarrow> bytes \<Rightarrow> buffer_msg \<Rightarrow> buffer_msg option" where
  "buffer_attr N hdr n b m =
     (let t = nl_MaskedType N (ah_Type hdr) in
      if t = nl_BUFFER_ID N then do { v \<leftarrow> slice_from n b; w \<leftarrow> native_Uint16 N v; Some (m\<lparr>bm_pdrid := w\<rparr>) }
      else if t = nl_BUFFER_ACTION N then do { v \<leftarrow> slice_from n b; w \<leftarrow> native_Uint16 N v; Some (m\<lparr>bm_action := w\<rparr>) }
      else if t = nl_BUFFER_SEID N then do { v \<leftarrow> slice_from n b; w \<leftarrow> native_Uint64 N v; Some (m\<lparr>bm_seid := w\<rparr>) }
      else if t = nl_BUFFER_PACKET N then
        (if n \<le> unat (ah_Len hdr) \<and> unat (ah_Len hdr) \<le> length b
         then Some (m\<lparr>bm_pkt := Some (take (unat (ah_Len hdr) - n) (drop n b))\<rparr>) else None)
      else Some m)"

text \<open>The outer option is \<open>None\<close> when the loop never ends, the inner one when it panics.\<close>

partial_function (option) decodbuffer :: "nl_api \<Rightarrow> buffer_msg \<Rightarrow> bytes \<Rightarrow> buffer_msg res option option" where
  "decodbuffer N m b =
     (if b = [] then Some (Some (Inr m))
      else
        (case nl_DecodeAttrHdr N b of
           Inl err \<Rightarrow> Some (Some (Inl err))
         | Inr (hdr, n) \<Rightarrow>
             (case buffer_attr N hdr n b m of
                None \<Rightarrow> Some None
              | Some m' \<Rightarrow>
                  (case slice_from (nl_Align N (ah_Len hdr)) b of
                     None \<Rightarrow> Some None
                   | Some b' \<Rightarrow> decodbuffer N m' b'))))"

definition zero_msg :: buffer_msg where
  "zero_msg = \<lparr>bm_seid = 0, bm_pdrid = 0, bm_action = 0, bm_pkt = None\<rparr>"

section \<open>Messages\<close>

text \<open>Usage reports are grouped by session, with the trigger the module gives.\<close>

definition nl_usar :: "kreport \<Rightarrow> USAReport" where
  "nl_usar r = (usar_of r)\<lparr>USARTrigger := SetReportingTrigger \<lparr>ut_Flags = 0\<rparr> (kr_USARTrigger r)\<rparr>"

definition reports_at :: "(u64 \<rightharpoonup> USAReport list) \<Rightarrow> u64 \<Rightarrow> USAReport list" where
  "reports_at m seid = (case m seid of None \<Rightarrow> [] | Some us \<Rightarrow> us)"

definition nl_group :: "kreport list \<Rightarrow> u64 \<rightharpoonup> USAReport list" where
  "nl_group rs = foldl (\<lambda>m r. m(kr_SEID r \<mapsto> reports_at m (kr_SEID r) @ [nl_usar r])) Map.empty rs"

text \<open>
  \<open>ServeMsg\<close>: the reports it hands to the handler (if there is one) and what it returns. Usage reports are handed
  over without a check that there is a handler.
\<close>

definition ServeMsg :: "nl_api \<Rightarrow> ranges \<Rightarrow> bool \<Rightarrow> bytes \<Rightarrow> (SessReport list \<times> bool) option option" where
  "ServeMsg N R handler body =
     (case slice_from (nl_SizeofHeader N) body of
        None \<Rightarrow> Some None
      | Some b \<Rightarrow>
          (case nl_DecodeAttrHdr N b of
             Inl _ \<Rightarrow> Some (Some ([], False))
           | Inr (hdr, n) \<Rightarrow>
               (case slice_from n b of
                  None \<Rightarrow> if nl_MaskedType N (ah_Type hdr) \<in> {nl_BUFFER N, nl_REPORT N} then Some None else Some (Some ([], False))
                | Some b' \<Rightarrow>
                    if nl_MaskedType N (ah_Type hdr) = nl_BUFFER N then
                      (case decodbuffer N zero_msg b' of
                         None \<Rightarrow> None
                       | Some None \<Rightarrow> Some None
                       | Some (Some (Inl _)) \<Rightarrow> Some (Some ([], False))
                       | Some (Some (Inr m)) \<Rightarrow>
                           Some (Some
                             (case bm_pkt m of
                                None \<Rightarrow> []
                              | Some pkt \<Rightarrow>
                                  if handler
                                  then [\<lparr>sr_SEID = bm_seid m,
                                         sr_Reports = [DLDR \<lparr>dld_PDRID = bm_pdrid m, dld_Action = bm_action m, dld_BufPkt = pkt\<rparr>]\<rparr>]
                                  else [], True)))
                    else if nl_MaskedType N (ah_Type hdr) = nl_REPORT N then
                      (case nl_DecodeAllUSAReports N b' of
                         Inl _ \<Rightarrow> Some (Some ([], False))
                       | Inr None \<Rightarrow> Some (Some ([], False))
                       | Inr (Some rs) \<Rightarrow>
                           if \<not> handler \<and> rs \<noteq> [] then Some None
                           else Some (Some (map (\<lambda>seid. \<lparr>sr_SEID = seid, sr_Reports = map USAR (reports_at (nl_group rs) seid)\<rparr>)
                                              (rng64 R (dom (nl_group rs))), True)))
                    else Some (Some ([], False)))))"

text \<open>The server hands the buffered packets of a PDR out through the handler.\<close>

definition Pop :: "u64 \<Rightarrow> u16 \<Rightarrow> ('ie, 'd) PfcpServer \<Rightarrow> ('ie, 'd) PfcpServer \<times> bytes option" where
  "Pop seid pdrid h = PopBufPkt seid pdrid h"

section \<open>Encoding\<close>

definition put_native :: "bool \<Rightarrow> 'a::len word \<Rightarrow> nat \<Rightarrow> bytes" where
  "put_native little w n =
     (let b = map (\<lambda>i. ucast (drop_bit (8 * i) w)) [0..<n] in if little then b else rev b)"

text \<open>The attributes of the kernel module, padded to four bytes.\<close>

datatype battr = B_ID u16 | B_ACTION u16 | B_SEID u64 | B_PACKET bytes | B_OTHER u16 bytes

fun battr_type :: "nl_api \<Rightarrow> battr \<Rightarrow> u16" where
  "battr_type N (B_ID _) = nl_BUFFER_ID N"
| "battr_type N (B_ACTION _) = nl_BUFFER_ACTION N"
| "battr_type N (B_SEID _) = nl_BUFFER_SEID N"
| "battr_type N (B_PACKET _) = nl_BUFFER_PACKET N"
| "battr_type N (B_OTHER t _) = t"

fun battr_value :: "nl_api \<Rightarrow> battr \<Rightarrow> bytes" where
  "battr_value N (B_ID w) = put_native (nl_little N) w 2"
| "battr_value N (B_ACTION w) = put_native (nl_little N) w 2"
| "battr_value N (B_SEID w) = put_native (nl_little N) w 8"
| "battr_value N (B_PACKET p) = p"
| "battr_value N (B_OTHER _ p) = p"

fun battr_set :: "battr \<Rightarrow> buffer_msg \<Rightarrow> buffer_msg" where
  "battr_set (B_ID w) m = m\<lparr>bm_pdrid := w\<rparr>"
| "battr_set (B_ACTION w) m = m\<lparr>bm_action := w\<rparr>"
| "battr_set (B_SEID w) m = m\<lparr>bm_seid := w\<rparr>"
| "battr_set (B_PACKET p) m = m\<lparr>bm_pkt := Some p\<rparr>"
| "battr_set (B_OTHER _ _) m = m"

definition pad4 :: "nat \<Rightarrow> nat" where
  "pad4 n = (n + 3) div 4 * 4 - n"

definition battr_hdr_len :: "nl_api \<Rightarrow> battr \<Rightarrow> u16" where
  "battr_hdr_len N a = of_nat (4 + length (battr_value N a))"

definition battr_bytes :: "nl_api \<Rightarrow> battr \<Rightarrow> bytes" where
  "battr_bytes N a =
     (let v = battr_value N a in
      put_native (nl_little N) (battr_hdr_len N a) 2 @ put_native (nl_little N) (battr_type N a) 2 @ v @
      replicate (pad4 (length v)) 0)"

definition battr_ok :: "nl_api \<Rightarrow> battr \<Rightarrow> bool" where
  "battr_ok N a \<longleftrightarrow> 4 + length (battr_value N a) < 2 ^ 16 \<and>
     (case a of B_OTHER t _ \<Rightarrow> nl_MaskedType N t \<notin> {nl_BUFFER_ID N, nl_BUFFER_ACTION N, nl_BUFFER_SEID N, nl_BUFFER_PACKET N}
      | _ \<Rightarrow> True)"

text \<open>What the code relies on: a header is its length and type in four bytes, and attributes are padded to four bytes.\<close>

definition nl_ok :: "nl_api \<Rightarrow> bool" where
  "nl_ok N \<longleftrightarrow>
     (\<forall>l t rest. nl_DecodeAttrHdr N (put_native (nl_little N) (l :: u16) 2 @ put_native (nl_little N) (t :: u16) 2 @ rest) =
        Inr (\<lparr>ah_Len = l, ah_Type = t\<rparr>, 4)) \<and>
     (\<forall>l. nl_Align N l = (unat l + 3) div 4 * 4) \<and>
     distinct [nl_BUFFER_ID N, nl_BUFFER_ACTION N, nl_BUFFER_SEID N, nl_BUFFER_PACKET N] \<and>
     list_all (\<lambda>t. nl_MaskedType N t = t)
       [nl_BUFFER_ID N, nl_BUFFER_ACTION N, nl_BUFFER_SEID N, nl_BUFFER_PACKET N, nl_BUFFER N]"

lemma length_put_native [simp]: "length (put_native le w n) = n"
  by (simp add: put_native_def Let_def)

lemma put_native_Suc: "put_native False w (Suc n) = put_native False (drop_bit 8 w) n @ [ucast w]"
  by (simp add: put_native_def upt_conv_Cons map_Suc_upt [symmetric] comp_def add.commute del: upt_Suc map_Suc_upt)

lemma be_bytes_put: "be_bytes (put_native False w n) = take_bit (8 * n) (w :: 'a::len word)"
proof (induction n arbitrary: w)
  case (Suc n)
  have "push_bit 8 (take_bit (8 * n) (drop_bit 8 w)) OR ucast (ucast w :: u8) = take_bit (8 * Suc n) w"
    by (rule bit_word_eqI) (auto simp: bit_simps)
  with Suc show ?case unfolding put_native_Suc by (simp add: be_bytes_def)
qed (simp add: put_native_def be_bytes_def)

lemma native_put: "be_bytes (if le then rev (put_native le w n) else put_native le w n) = take_bit (8 * n) w"
  using be_bytes_put [of w n] by (simp add: put_native_def Let_def)

lemma native_Uint_put:
  "native_Uint16 N (put_native (nl_little N) w 2 @ rest) = Some w"
  "native_Uint64 N (put_native (nl_little N) v 8 @ rest) = Some v"
  using native_put [of "nl_little N" w 2] native_put [of "nl_little N" v 8]
  by (cases "nl_little N"; simp add: native_Uint16_def native_Uint64_def take_bit_word_eq_self)+

section \<open>Round trip\<close>

lemma nl_okD:
  assumes "nl_ok N"
  shows "nl_DecodeAttrHdr N (put_native (nl_little N) (l :: u16) 2 @ put_native (nl_little N) (t :: u16) 2 @ rest) =
      Inr (\<lparr>ah_Len = l, ah_Type = t\<rparr>, 4)"
    and "nl_Align N l = (unat l + 3) div 4 * 4"
    and "distinct [nl_BUFFER_ID N, nl_BUFFER_ACTION N, nl_BUFFER_SEID N, nl_BUFFER_PACKET N]"
    and "nl_MaskedType N (nl_BUFFER_ID N) = nl_BUFFER_ID N" "nl_MaskedType N (nl_BUFFER_ACTION N) = nl_BUFFER_ACTION N"
      "nl_MaskedType N (nl_BUFFER_SEID N) = nl_BUFFER_SEID N" "nl_MaskedType N (nl_BUFFER_PACKET N) = nl_BUFFER_PACKET N"
      "nl_MaskedType N (nl_BUFFER N) = nl_BUFFER N"
  using assms by (simp_all add: nl_ok_def)

lemma battr_bytes_length: "length (battr_bytes N a) = (4 + length (battr_value N a) + 3) div 4 * 4"
proof -
  have "n + pad4 n = (n + 3) div 4 * 4" for n unfolding pad4_def by presburger
  then have "length (battr_bytes N a) = 4 + (length (battr_value N a) + 3) div 4 * 4" by (simp add: battr_bytes_def Let_def)
  also have "\<dots> = (4 + length (battr_value N a) + 3) div 4 * 4" by presburger
  finally show ?thesis .
qed

lemma battr_len: "battr_ok N a \<Longrightarrow> unat (battr_hdr_len N a) = 4 + length (battr_value N a)"
proof -
  have "unat (of_nat n :: u16) = n" if "n < 2 ^ 16" for n
    using that by (simp add: unat_of_nat take_bit_nat_eq_self_iff)
  then show "unat (battr_hdr_len N a) = 4 + length (battr_value N a)" if "battr_ok N a"
    using that unfolding battr_hdr_len_def battr_ok_def by blast
qed

lemma buffer_attr_set:
  assumes "nl_ok N" "battr_ok N a"
  shows "buffer_attr N \<lparr>ah_Len = battr_hdr_len N a, ah_Type = battr_type N a\<rparr> 4 (battr_bytes N a @ rest) m =
    Some (battr_set a m)"
proof -
  note ok = nl_okD(3-) [OF assms(1)]
  note len = battr_len [OF assms(2)]
  have v: "drop 4 (battr_bytes N a @ rest) = battr_value N a @ replicate (pad4 (length (battr_value N a))) 0 @ rest"
    "4 + length (battr_value N a) \<le> length (battr_bytes N a)"
    by (simp_all add: battr_bytes_def Let_def)
  show ?thesis
    using ok assms(2) v len
    by (cases a) (auto simp: buffer_attr_def slice_from_def native_Uint_put battr_ok_def)
qed

lemma decodbuffer_attr:
  assumes "nl_ok N" "battr_ok N a"
  shows "decodbuffer N m (battr_bytes N a @ rest) = decodbuffer N (battr_set a m) rest"
proof -
  let ?l = "battr_hdr_len N a"
  note len = battr_len [OF assms(2)]
  have "battr_bytes N a @ rest = put_native (nl_little N) ?l 2 @ put_native (nl_little N) (battr_type N a) 2 @
      battr_value N a @ replicate (pad4 (length (battr_value N a))) 0 @ rest"
    by (simp add: battr_bytes_def Let_def)
  then have hdr: "nl_DecodeAttrHdr N (battr_bytes N a @ rest) = Inr (\<lparr>ah_Len = ?l, ah_Type = battr_type N a\<rparr>, 4)"
    by (simp only: nl_okD(1) [OF assms(1)])
  have "slice_from (nl_Align N ?l) (battr_bytes N a @ rest) = Some rest"
    unfolding nl_okD(2) [OF assms(1)] len by (simp add: slice_from_def battr_bytes_length)
  moreover have "battr_bytes N a \<noteq> []" using battr_bytes_length [of N a] by auto
  ultimately show ?thesis
    by (subst decodbuffer.simps) (simp add: hdr buffer_attr_set [OF assms])
qed

lemma decodbuffer_attrs:
  assumes "nl_ok N" "\<forall>a \<in> set as. battr_ok N a"
  shows "decodbuffer N m (concat (map (battr_bytes N) as)) = Some (Some (Inr (fold battr_set as m)))"
  using assms(2)
proof (induction as arbitrary: m)
  case Nil
  show ?case by (subst decodbuffer.simps) simp
qed (simp add: decodbuffer_attr [OF assms(1)])

section \<open>From the kernel to the buffer of a session\<close>

text \<open>A message of the kernel module with the attributes of a buffered packet.\<close>

definition buffer_body :: "nl_api \<Rightarrow> bytes \<Rightarrow> u16 \<Rightarrow> battr list \<Rightarrow> bytes" where
  "buffer_body N genl l as = genl @ put_native (nl_little N) l 2 @ put_native (nl_little N) (nl_BUFFER N) 2 @ concat (map (battr_bytes N) as)"

lemma ServeMsg_buffer:
  assumes "nl_ok N" "length genl = nl_SizeofHeader N" "\<forall>a \<in> set as. battr_ok N a"
    and m: "fold battr_set as zero_msg = \<lparr>bm_seid = i, bm_pdrid = p, bm_action = act, bm_pkt = Some pkt\<rparr>"
  shows "ServeMsg N R True (buffer_body N genl l as) =
    Some (Some ([\<lparr>sr_SEID = i, sr_Reports = [DLDR \<lparr>dld_PDRID = p, dld_Action = act, dld_BufPkt = pkt\<rparr>]\<rparr>], True))"
proof -
  let ?b = "put_native (nl_little N) l 2 @ put_native (nl_little N) (nl_BUFFER N) 2 @ concat (map (battr_bytes N) as)"
  have "slice_from (nl_SizeofHeader N) (buffer_body N genl l as) = Some ?b"
    using assms(2) by (simp add: slice_from_def buffer_body_def)
  moreover have "slice_from 4 ?b = Some (concat (map (battr_bytes N) as))" by (simp add: slice_from_def)
  ultimately show ?thesis
    by (simp add: ServeMsg_def nl_okD(1) [OF assms(1)] nl_okD(8) [OF assms(1)] decodbuffer_attrs [OF assms(1,3)] m)
qed

lemma serveDLDReport_lnode: "nd_lnode (fst (serveDLDReport E addr i p sv)) = nd_lnode sv"
  by (auto simp: serveDLDReport_def sendReqTo_def tx_send_def put_tx_def NewTxTransaction_def write_to_def Let_def
      split: sum.split if_splits)

definition push_bounded :: "nat \<Rightarrow> bytes \<Rightarrow> bytes list \<Rightarrow> bytes list" where
  "push_bounded n pkt q = (if length q < n then q @ [pkt] else q)"

lemma ServeReport_buffers:
  assumes wf: "ln_wf (nd_lnode sv)" and sess: "LocalNode_Sess i (nd_lnode sv) = Inr sess" and "nd_heap sv (s_rnode sess) = Some n"
    and "is_ok (pe_ResolveUDPAddr E (rn_ID n @ '':'' @ dec_string UpfPfcpDefaultPort))" "act AND APPLY_ACT_BUFF \<noteq> 0" "pkt \<noteq> []"
  shows "\<exists>sv'. ServeReport E \<lparr>sr_SEID = i, sr_Reports = [DLDR \<lparr>dld_PDRID = p, dld_Action = act, dld_BufPkt = pkt\<rparr>]\<rparr> sv = Some sv' \<and>
    buffered sv' = (buffered sv)(i := (buffered sv i)(p := push_bounded (s_qlen sess) pkt (buffered sv i p)))"
proof -
  let ?sv = "sv\<lparr>nd_lnode := put_sess (Sess_Push p pkt sess) (nd_lnode sv)\<rparr>"
  obtain laddr where laddr: "pe_ResolveUDPAddr E (rn_ID n @ '':'' @ dec_string UpfPfcpDefaultPort) = Inr laddr"
    using assms(4) by (cases "pe_ResolveUDPAddr E (rn_ID n @ '':'' @ dec_string UpfPfcpDefaultPort)") auto
  have abs: "ln_abs (nd_lnode sv) i = Some sess" using sess by (simp add: ln_abs_Sess)
  have "s_LocalID (Sess_Push p pkt sess) = i"
    using ln_wf_LocalID [OF wf abs] by (simp add: Sess_Push_def Let_def split: option.split)
  from put_sess_refines(2) [OF wf abs this]
  have b: "buffered ?sv = (buffered sv)(i := (buffered sv i)(p := push_bounded (s_qlen sess) pkt (buffered sv i p)))"
    using abs by (auto simp: buffered_abs fun_eq_iff push_bounded_def Sess_Push_def Let_def split: option.splits)
  have same: "buffered (fst (serveDLDReport E laddr i p ?sv)) = buffered ?sv"
    by (simp add: fun_eq_iff buffered_def serveDLDReport_lnode)
  show ?thesis
    using b same assms(3,5,6) laddr by (auto simp: ServeReport_def sess Let_def)
qed

text \<open>
  C24. A packet the kernel module buffers ends up in the queue of its PDR. The message of the module, whatever the order
  of its attributes and with any attributes the code does not know, is decoded back to the session, PDR, action and packet,
  the loop over the attributes returning without a panic; the PFCP server then appends the packet to the queue of that
  PDR of that session, or drops it when the queue is full, and changes no other queue.
\<close>

theorem kernel_packet_buffered:
  assumes "nl_ok N" "length genl = nl_SizeofHeader N" "\<forall>a \<in> set as. battr_ok N a"
    and "fold battr_set as zero_msg = \<lparr>bm_seid = i, bm_pdrid = p, bm_action = act, bm_pkt = Some pkt\<rparr>"
    and "ln_wf (nd_lnode sv)" "LocalNode_Sess i (nd_lnode sv) = Inr sess" "nd_heap sv (s_rnode sess) = Some n"
    and "is_ok (pe_ResolveUDPAddr E (rn_ID n @ '':'' @ dec_string UpfPfcpDefaultPort))" "act AND APPLY_ACT_BUFF \<noteq> 0" "pkt \<noteq> []"
  shows "\<exists>r sv'. ServeMsg N R True (buffer_body N genl l as) = Some (Some ([r], True)) \<and> ServeReport E r sv = Some sv' \<and>
    buffered sv' = (buffered sv)(i := (buffered sv i)(p := push_bounded (s_qlen sess) pkt (buffered sv i p)))"
  using ServeMsg_buffer [OF assms(1-4)] ServeReport_buffers [OF assms(5-10)] by blast

text \<open>A concrete instance of the library, little endian.\<close>

definition std_nl :: nl_api where
  "std_nl = \<lparr>nl_DecodeAttrHdr = (\<lambda>b. if length b < 4 then Inl (ErrMsg ''short attribute'')
       else Inr (\<lparr>ah_Len = be_bytes (rev (take 2 b)), ah_Type = be_bytes (rev (take 2 (drop 2 b)))\<rparr>, 4)),
     nl_MaskedType = (\<lambda>t. take_bit 14 t), nl_Align = (\<lambda>l. (unat l + 3) div 4 * 4), nl_little = True, nl_SizeofHeader = 4,
     nl_BUFFER = 3, nl_REPORT = 9, nl_BUFFER_ID = 1, nl_BUFFER_ACTION = 2, nl_BUFFER_SEID = 4, nl_BUFFER_PACKET = 5,
     nl_DecodeAllUSAReports = (\<lambda>_. Inr None)\<rparr>"

lemma std_nl_ok: "nl_ok std_nl"
proof -
  have "be_bytes (rev (put_native True w 2)) = w" for w :: u16
    using native_put [of True w 2] by (simp add: take_bit_word_eq_self)
  moreover have "take_bit 14 (t :: u16) = t" if "t \<in> {1, 2, 3, 4, 5}" for t
    using that by auto
  ultimately show ?thesis by (simp add: nl_ok_def std_nl_def)
qed

definition ex_attrs :: "battr list" where
  "ex_attrs = [B_OTHER 8 [1], B_SEID 1, B_PACKET [69, 0, 1], B_ID 7, B_ACTION 4]"

theorem kernel_packet_buffered_witness:
  "\<exists>r sv'. ServeMsg std_nl sorted_ranges True (buffer_body std_nl [0, 0, 0, 0] 0 ex_attrs) = Some (Some ([r], True)) \<and>
     ServeReport ex_pfcp r ex_sv2 = Some sv' \<and> buffered sv' 1 7 = [[69, 0, 1]]"
proof -
  have sess: "LocalNode_Sess 1 (nd_lnode ex_sv2) = Inr ex_sess"
    by (simp add: ex_sv2_def LocalNode_Sess_def)
  have wf: "ln_wf (nd_lnode ex_sv2)"
    by (auto simp: ln_wf_def slot_def ex_sv2_def ex_sess_def new_sess_def go_slice_max_def le_Suc_eq word_unat_eq_iff)
  have "fold battr_set ex_attrs zero_msg = \<lparr>bm_seid = 1, bm_pdrid = 7, bm_action = 4, bm_pkt = Some [69, 0, 1]\<rparr>"
    "\<forall>a \<in> set ex_attrs. battr_ok std_nl a" "length [0, 0, 0, 0 :: u8] = nl_SizeofHeader std_nl"
    by (simp_all add: ex_attrs_def zero_msg_def battr_ok_def std_nl_def)
  moreover have "nd_heap ex_sv2 (s_rnode ex_sess) = Some ((NewRemoteNode ''smf'' ''smf:8805'')\<lparr>rn_sess := {1}\<rparr>)"
    by (simp add: ex_sv2_def ex_sess_def new_sess_def)
  moreover have "is_ok (pe_ResolveUDPAddr ex_pfcp s)" for s by (simp add: ex_pfcp_def)
  moreover have "(4 :: u16) AND APPLY_ACT_BUFF \<noteq> 0" by (simp add: apply_act_defs)
  ultimately obtain r sv' where *: "ServeMsg std_nl sorted_ranges True (buffer_body std_nl [0, 0, 0, 0] 0 ex_attrs) = Some (Some ([r], True))"
    "ServeReport ex_pfcp r ex_sv2 = Some sv'"
    "buffered sv' = (buffered ex_sv2)(1 := (buffered ex_sv2 1)(7 := push_bounded (s_qlen ex_sess) [69, 0, 1] (buffered ex_sv2 1 7)))"
    using kernel_packet_buffered [OF std_nl_ok, of "[0, 0, 0, 0]" ex_attrs, where E = ex_pfcp, OF _ _ _ wf sess] by fastforce
  moreover have "buffered ex_sv2 1 7 = []" "0 < s_qlen ex_sess"
    by (simp_all add: buffered_def sess ex_sess_def new_sess_def BUFFQ_LEN_def)
  ultimately show ?thesis by (auto simp: push_bounded_def)
qed

section \<open>Malformed messages\<close>

text \<open>An attribute of length zero whose type the code does not know makes the loop run forever.\<close>

definition zero_attr :: "nl_api \<Rightarrow> bytes \<Rightarrow> bool" where
  "zero_attr N b \<longleftrightarrow> b \<noteq> [] \<and> nl_Align N 0 = 0 \<and>
     (case nl_DecodeAttrHdr N b of
        Inl _ \<Rightarrow> False
      | Inr (hdr, _) \<Rightarrow> ah_Len hdr = 0 \<and>
          nl_MaskedType N (ah_Type hdr) \<notin> {nl_BUFFER_ID N, nl_BUFFER_ACTION N, nl_BUFFER_SEID N, nl_BUFFER_PACKET N})"

theorem decodbuffer_zero_length: "zero_attr N b \<Longrightarrow> decodbuffer N m b = None"
proof (rule ccontr)
  assume z: "zero_attr N b" and "decodbuffer N m b \<noteq> None"
  then obtain r where "decodbuffer N m b = Some r" by blast
  then have "\<not> zero_attr N b"
  proof (rule decodbuffer.raw_induct [where P = "\<lambda>N m b r. \<not> zero_attr N b", rotated])
    fix f N m b r
    assume IH: "\<And>N m b y. f N m b = Some y \<Longrightarrow> \<not> zero_attr N b"
      and step: "(if b = [] then Some (Some (Inr m))
        else case nl_DecodeAttrHdr N b of Inl err \<Rightarrow> Some (Some (Inl err)) | Inr (hdr, n) \<Rightarrow>
          (case buffer_attr N hdr n b m of None \<Rightarrow> Some None | Some m' \<Rightarrow>
             (case slice_from (nl_Align N (ah_Len hdr)) b of None \<Rightarrow> Some None | Some b' \<Rightarrow> f N m' b'))) = Some r"
    show "\<not> zero_attr N b"
    proof
      assume z: "zero_attr N b"
      then have "f N m b = Some r"
        using step by (auto simp: zero_attr_def buffer_attr_def slice_from_def Let_def split: sum.splits prod.splits)
      with IH z show False by blast
    qed
  qed
  with z show False by blast
qed

theorem decodbuffer_zero_length_witness: "decodbuffer std_nl zero_msg [0, 0, 8, 0] = None"
  by (rule decodbuffer_zero_length) (simp add: zero_attr_def std_nl_def be_bytes_def)

text \<open>A usage report that arrives before the handler is set panics.\<close>

theorem report_without_handler_panics:
  assumes "slice_from (nl_SizeofHeader N) body = Some b" "nl_DecodeAttrHdr N b = Inr (hdr, n)" "slice_from n b = Some b'"
    and "nl_MaskedType N (ah_Type hdr) = nl_REPORT N" "nl_REPORT N \<noteq> nl_BUFFER N" "nl_DecodeAllUSAReports N b' = Inr (Some (r # rs))"
  shows "ServeMsg N R False body = Some None"
  using assms by (simp add: ServeMsg_def)

section \<open>Usage reports\<close>

lemma nl_group_at: "reports_at (nl_group rs) i = map nl_usar (filter (\<lambda>r. kr_SEID r = i) rs)"
  and nl_group_dom: "dom (nl_group rs) = kr_SEID ` set rs"
proof -
  have "reports_at (nl_group rs) i = map nl_usar (filter (\<lambda>r. kr_SEID r = i) rs) \<and> dom (nl_group rs) = kr_SEID ` set rs"
  proof (induction rs rule: rev_induct)
    case (snoc r rs)
    have g: "nl_group (rs @ [r]) = (nl_group rs)(kr_SEID r \<mapsto> reports_at (nl_group rs) (kr_SEID r) @ [nl_usar r])"
      by (simp add: nl_group_def)
    have "dom (nl_group (rs @ [r])) = insert (kr_SEID r) (dom (nl_group rs))" unfolding g dom_fun_upd by simp
    moreover have "reports_at (nl_group (rs @ [r])) i = reports_at (nl_group rs) i @ (if kr_SEID r = i then [nl_usar r] else [])"
      unfolding g by (auto simp: reports_at_def)
    ultimately show ?case using snoc by simp
  qed (simp add: nl_group_def reports_at_def)
  then show "reports_at (nl_group rs) i = map nl_usar (filter (\<lambda>r. kr_SEID r = i) rs)" "dom (nl_group rs) = kr_SEID ` set rs"
    by simp_all
qed

text \<open>
  C25. The usage reports of a message of the kernel module are handed over by session: every session that has a report
  gets exactly one notification, whatever the order of map iteration, with all its reports in the order of the
  message and the triggers the module gave.
\<close>

theorem kernel_reports_grouped:
  assumes "go_ranges R" "slice_from (nl_SizeofHeader N) body = Some b" "nl_DecodeAttrHdr N b = Inr (hdr, n)" "slice_from n b = Some b'"
    and "nl_MaskedType N (ah_Type hdr) = nl_REPORT N" "nl_REPORT N \<noteq> nl_BUFFER N" "nl_DecodeAllUSAReports N b' = Inr (Some rs)"
  shows "\<exists>srs. ServeMsg N R True body = Some (Some (srs, True)) \<and> distinct (map sr_SEID srs) \<and>
    set (map sr_SEID srs) = kr_SEID ` set rs \<and>
    list_all (\<lambda>sr. sr_Reports sr = map (\<lambda>r. USAR (nl_usar r)) (filter (\<lambda>r. kr_SEID r = sr_SEID sr) rs)) srs"
proof -
  let ?ids = "rng64 R (dom (nl_group rs))"
  have ids: "distinct ?ids" "set ?ids = kr_SEID ` set rs"
    using assms(1) by (simp_all add: go_ranges_def nl_group_dom)
  let ?srs = "map (\<lambda>i. \<lparr>sr_SEID = i, sr_Reports = map USAR (reports_at (nl_group rs) i)\<rparr>) ?ids"
  have "map sr_SEID ?srs = ?ids" by (simp add: comp_def)
  then have "distinct (map sr_SEID ?srs)" "set (map sr_SEID ?srs) = kr_SEID ` set rs" using ids by (simp_all only:)
  moreover have "list_all (\<lambda>sr. sr_Reports sr = map (\<lambda>r. USAR (nl_usar r)) (filter (\<lambda>r. kr_SEID r = sr_SEID sr) rs)) ?srs"
    by (simp add: list_all_iff nl_group_at)
  moreover have "ServeMsg N R True body = Some (Some (?srs, True))"
    unfolding ServeMsg_def using assms(2-) by simp
  ultimately show ?thesis by (intro exI [of _ ?srs] conjI)
qed

definition ex_kreport :: "u64 \<Rightarrow> u32 \<Rightarrow> kreport" where
  "ex_kreport i u = \<lparr>kr_SEID = i, kr_URRID = u, kr_QueryUrrRef = 0, kr_StartTime = 0, kr_EndTime = 1, kr_USARTrigger = 1,
     kr_TotalVolume = 10, kr_UplinkVolume = 4, kr_DownlinkVolume = 6, kr_TotalPktNum = 2, kr_UplinkPktNum = 1, kr_DownlinkPktNum = 1\<rparr>"

definition ex_report_nl :: nl_api where
  "ex_report_nl = std_nl\<lparr>nl_DecodeAllUSAReports := (\<lambda>_. Inr (Some [ex_kreport 5 1, ex_kreport 6 2, ex_kreport 5 3]))\<rparr>"

theorem kernel_reports_grouped_witness:
  "\<exists>srs. ServeMsg ex_report_nl sorted_ranges True [0, 0, 0, 0, 4, 0, 9, 0] = Some (Some (srs, True)) \<and> set (map sr_SEID srs) = {5, 6}"
proof -
  let ?N = ex_report_nl
  have "slice_from (nl_SizeofHeader ?N) [0, 0, 0, 0, 4, 0, 9, 0] = Some [4, 0, 9, 0]"
    "nl_DecodeAttrHdr ?N [4, 0, 9, 0] = Inr (\<lparr>ah_Len = 4, ah_Type = 9\<rparr>, 4)" "slice_from 4 [4, 0, 9, 0 :: u8] = Some []"
    "nl_MaskedType ?N 9 = nl_REPORT ?N" "nl_REPORT ?N \<noteq> nl_BUFFER ?N"
    "nl_DecodeAllUSAReports ?N [] = Inr (Some [ex_kreport 5 1, ex_kreport 6 2, ex_kreport 5 3])"
    by (simp_all add: ex_report_nl_def std_nl_def slice_from_def be_bytes_def)
  from kernel_reports_grouped [of sorted_ranges ?N, OF _ this(1-3) _ this(5,6)] this(4) show ?thesis
    by (auto simp: ex_kreport_def)
qed

end
