(* ===== verification/Userspace_Props.thy ===== *)
theory Userspace_Props
  imports Userspace_Inv
begin

text \<open>
  The properties of the userspace driver: what its reachable states satisfy, what each operation
  does, and which packets leave it.
\<close>

section \<open>Lemmas\<close>

lemma decodeGTPU_total: "\<exists>r. decodeGTPU p = Some r"
proof (cases "length p < 12")
  case False
  then have "12 \<le> length p" by simp
  with skip_exts_total [OF order_refl this] obtain r where "skip_exts p 12 = Some r" by auto
  with False show ?thesis by (cases r) (auto simp: decodeGTPU_def Let_def)
qed (simp add: decodeGTPU_def)

lemma act_total [simp]: "act_uplink E now b p r d \<noteq> None" "act_downlink E now b ue p r d \<noteq> None"
  by (auto simp: act_uplink_def act_downlink_def forward_total case_prod_unfold Let_def split: PacketAction.splits)

lemma process_total:
  "\<exists>d' r'. processUplink E now packet r d = Some (d', r')"
  "\<exists>d' r'. processDownlink E now packet r d = Some (d', r')"
proof -
  obtain x where "decodeGTPU (pkt_Payload packet) = Some x" using decodeGTPU_total by blast
  then have "processUplink E now packet r d \<noteq> None" "processDownlink E now packet r d \<noteq> None"
    by (auto simp: processUplink_def processDownlink_def Let_def case_prod_unfold split: option.split sum.split)
  then show "\<exists>d' r'. processUplink E now packet r d = Some (d', r')"
    and "\<exists>d' r'. processDownlink E now packet r d = Some (d', r')" by auto
qed

lemma dispatch_total: "\<exists>d' r. DispatchPacket E now packet d = Some (d', r)"
  using process_total [of E now packet _ d]
  by (auto simp: DispatchPacket_def process_def Let_def split: PacketDirection.splits)

subsection \<open>What leaves the driver\<close>

lemma egress_frame [simp]:
  "d_egress (stat_uplink d) = d_egress d" "d_egress (stat_downlink d) = d_egress d"
  "d_egress (stat_forwarded d) = d_egress d" "d_egress (stat_dropped d) = d_egress d"
  "d_egress (stat_buffered d) = d_egress d" "d_egress (stat_uplink_miss d) = d_egress d"
  "d_egress (stat_downlink_miss d) = d_egress d" "d_egress (stat_unsupported d) = d_egress d"
  "d_egress (stat_uplink_error d) = d_egress d" "d_egress (stat_downlink_error d) = d_egress d"
  "d_egress (put_session i s d) = d_egress d"
  by (simp_all add: stat_uplink_def stat_downlink_def stat_forwarded_def stat_dropped_def stat_buffered_def
      stat_uplink_miss_def stat_downlink_miss_def stat_unsupported_def stat_uplink_error_def
      stat_downlink_error_def put_session_def)

lemma egress_ops [simp]:
  "d_egress (fst (mbrAllows now b n dir d)) = d_egress d"
  "d_egress (fst (decide_action now b n dir d)) = d_egress d"
  "d_egress (fst (bufferPacket now b p d)) = d_egress d"
  "d_egress (updateUsage E now b n up d) = d_egress d"
  "d_egress (burst_detected E now b ue flow d) = d_egress d"
  by (simp_all add: mbrAllows_def decide_action_def bufferPacket_def updateUsage_def burst_detected_def
      case_prod_unfold Let_def split: option.splits)

lemma egress_schedule [simp]: "d_egress (scheduleAdaptiveFlowAutoEnd now r t d) = d_egress d"
  by (simp add: scheduleAdaptiveFlowAutoEnd_def Let_def)

lemma egress_start: "d_egress (fst (startAdaptiveFlow E now r d)) = d_egress d"
proof (cases "resolveAdaptiveSessionLocked (e_rng E) r d")
  case None
  then show ?thesis by (simp add: startAdaptiveFlow_def reject_start_def Let_def)
next
  case (Some p)
  then show ?thesis by (cases p) (simp add: startAdaptiveFlow_def case_prod_unfold Let_def)
qed

lemma egress_end: "d_egress (fst (endAdaptiveFlow E now r d)) = d_egress d"
proof (cases "find_flow (e_rng E) d (ar_FlowID r)")
  case None
  then show ?thesis by (simp add: endAdaptiveFlow_def Let_def)
next
  case (Some p)
  then show ?thesis by (cases p) (simp add: endAdaptiveFlow_def Let_def)
qed

lemma egress_apply [simp]: "d_egress (fst (applyAdaptiveReport E now r d)) = d_egress d"
  unfolding applyAdaptiveReport_def Let_def by (simp only: egress_start egress_end split: if_split) simp

lemma egress_adaptive [simp]: "d_egress (fst (InterceptUplink E now p d)) = d_egress d"
  by (simp add: InterceptUplink_def Let_def split: option.splits)

text \<open>The outcome a processed packet adds to the egress.\<close>

definition sent :: "PacketResult \<Rightarrow> PacketOutcome list" where
  "sent r = (if res_Action r = PacketActionForward then (case res_Outcome r of None \<Rightarrow> [] | Some o' \<Rightarrow> [o']) else [])"

lemma sent_none [simp]: "res_Action r \<noteq> PacketActionForward \<Longrightarrow> sent r = []"
  by (simp add: sent_def)

lemma act_uplink_sent:
  "act_uplink E now b p r d = Some (d', r', ret) \<Longrightarrow> res_Outcome r = None \<Longrightarrow>
     d_egress d' = d_egress d @ sent r' \<and> res_Action r' = res_Action r \<and> res_Binding r' = res_Binding r"
  by (auto simp: act_uplink_def forward_total sent_def case_prod_unfold Let_def split: PacketAction.splits if_splits)

lemma act_downlink_sent:
  "act_downlink E now b ue p r d = Some (d', r', ret) \<Longrightarrow> res_Outcome r = None \<Longrightarrow>
     d_egress d' = d_egress d @ sent r' \<and> res_Action r' = res_Action r \<and> res_Binding r' = res_Binding r"
  by (auto simp: act_downlink_def forward_total sent_def case_prod_unfold Let_def
      split: PacketAction.splits if_splits option.splits)

definition may_forward :: "Driver \<Rightarrow> PacketDirection \<Rightarrow> gotime \<Rightarrow> PDRBinding \<Rightarrow> bool" where
  "may_forward d dir now b \<longleftrightarrow>
     (\<exists>far. b_FAR b = Some far \<and> AA_FORW (far_ApplyAction far) \<and> \<not> AA_DROP (far_ApplyAction far) \<and>
        \<not> AA_BUFF (far_ApplyAction far)) \<and>
     (\<forall>qer \<in> set (b_QERs b). \<not> effectiveQERGateClosed d b qer dir now)"

lemma decide_action_forward:
  assumes "snd (decide_action now b n dir d) = PacketActionForward"
  shows "may_forward d dir now b"
proof -
  from assms have "resolveAction b = PacketActionForward" "\<not> gateClosed d b dir now"
    by (auto simp: decide_action_def case_prod_unfold Let_def split: if_splits)
  then show ?thesis
    by (cases "b_FAR b") (auto simp: resolveAction_def gateClosed_def may_forward_def list_ex_iff split: if_splits)
qed

lemma may_forward_sessions: "d_sessions d' = d_sessions d \<Longrightarrow> may_forward d' dir now b = may_forward d dir now b"
  by (simp add: may_forward_def effectiveQERGateClosed_def effectiveQEROverride_def)

lemma stat_sessions [simp]:
  "d_sessions (stat_uplink d) = d_sessions d" "d_sessions (stat_downlink d) = d_sessions d"
  "d_sessions (stat_uplink_miss d) = d_sessions d" "d_sessions (stat_downlink_miss d) = d_sessions d"
  by (simp_all add: stat_uplink_def stat_downlink_def stat_uplink_miss_def stat_downlink_miss_def)

lemma processUplink_sent:
  assumes "processUplink E now packet r d = Some (d', r')" "res_Outcome r = None" "res_Action r \<noteq> PacketActionForward"
  shows "d_egress d' = d_egress d @ sent r'"
    and "res_Action r' = PacketActionForward \<Longrightarrow>
      \<exists>b. res_Binding r' = Some b \<and> may_forward d PacketDirectionUplink now b"
  using assms
  by (auto simp: processUplink_def fail_uplink_def Let_def case_prod_unfold
      may_forward_sessions [of "stat_uplink d" d, symmetric]
      split: option.splits sum.splits dest!: act_uplink_sent intro!: decide_action_forward)

lemma processDownlink_sent:
  assumes "processDownlink E now packet r d = Some (d', r')" "res_Outcome r = None" "res_Action r \<noteq> PacketActionForward"
  shows "d_egress d' = d_egress d @ sent r'"
    and "res_Action r' = PacketActionForward \<Longrightarrow>
      \<exists>b. res_Binding r' = Some b \<and> may_forward d PacketDirectionDownlink now b"
  using assms
  by (auto simp: processDownlink_def fail_downlink_def Let_def case_prod_unfold
      may_forward_sessions [of "stat_downlink d" d, symmetric]
      split: option.splits sum.splits dest!: act_downlink_sent intro!: decide_action_forward)

section \<open>Properties of reachable states\<close>

text \<open>
  C6. Packets are matched against exactly the installed rules: in every reachable state, after any
  sequence of rule changes, packets, timers and reports, the uplink index of the published snapshot
  holds under a tunnel identifier the bindings of the access-side PDRs of the current sessions with
  that F-TEID, made of the current FAR, QERs, URRs and BAR, and no other binding.
\<close>

theorem reachable_snapshot_exact:
  assumes "go_ranges (e_rng E)" "reachable E d"
  shows "set (slice_at (snap_Uplink (d_snapshot d)) teid) =
    {mk_binding seid sess pdr | seid sess pid pdr pdi f.
       d_sessions d seid = Some sess \<and> sess_PDRs sess pid = Some pdr \<and> pdr_PDI pdr = Some pdi \<and>
       pdi_FTEID pdi = Some f \<and> fteid_TEID f = teid \<and>
       pdi_SourceInterface pdi = Some (ie_SrcInterfaceAccess (e_api E))}"
proof -
  from reachable_inv [OF assms(2)]
  have "set (slice_at (snap_Uplink (d_snapshot d)) teid) = set (all_entries E (d_sessions d) (\<lambda>i s. uplink_entry E i s teid))"
    by (simp add: driver_inv_def snapshot_current_def)
  then show ?thesis
    unfolding set_all_entries [OF assms(1)] uplink_entry_iff by (simp add: dom_def) blast
qed

definition ex_pdr_ie :: tree where
  "ex_pdr_ie = Node (T_Other 1) [Leaf16 T_PDRID 1, Leaf32 T_Precedence 100,
     Node T_PDI [Leaf8 T_SourceInterface 0, LeafT 7 [10, 0, 0, 1], LeafB T_UEIPAddress [10, 60, 0, 1]],
     Leaf32 T_FARID 1]"

definition ex_d1 :: Driver where
  "ex_d1 = fst (CreatePDR ex_env 1 5 ex_pdr_ie (New 0 1 None None))"

lemma ex_d1_reachable: "reachable ex_env ex_d1"
  unfolding ex_d1_def by (rule reachable.step [OF reachable.init, of _ _ "OpCreatePDR 5 ex_pdr_ie"]) simp

lemma ex_pdr_parse:
  "\<exists>pdr pdi. parsePDR tree_api (e_p6 ex_env) ex_pdr_ie = Inr pdr \<and> pdr_PDI pdr = Some pdi \<and>
     pdi_FTEID pdi = Some \<lparr>fteid_TEID = 7, fteid_IPv4 = [10, 0, 0, 1]\<rparr> \<and> pdi_SourceInterface pdi = Some 0 \<and> pdr_ID pdr = 1"
  by (simp add: parsePDR_def decodePDR_def decodePDR_step_def decodePDI_def decodePDI_step_def zero_PDI_def
      ex_pdr_ie_def tree_api_def tree_leaves_def)

lemma ex_d1_session:
  "\<exists>pdr pdi. d_sessions ex_d1 = [5 \<mapsto> touch 1 ((NewSessionState 1 5)\<lparr>sess_PDRs := [1 \<mapsto> pdr]\<rparr>)] \<and>
     pdr_PDI pdr = Some pdi \<and> pdi_FTEID pdi = Some \<lparr>fteid_TEID = 7, fteid_IPv4 = [10, 0, 0, 1]\<rparr> \<and>
     pdi_SourceInterface pdi = Some 0"
  using ex_pdr_parse
  by (auto simp: ex_d1_def CreatePDR_def ensureSessionLocked_def New_def Let_def put_session_def)

theorem reachable_snapshot_exact_witness:
  "\<exists>b. b \<in> set (slice_at (snap_Uplink (d_snapshot ex_d1)) 7)"
proof -
  obtain pdr pdi where p: "d_sessions ex_d1 = [5 \<mapsto> touch 1 ((NewSessionState 1 5)\<lparr>sess_PDRs := [1 \<mapsto> pdr]\<rparr>)]"
      "pdr_PDI pdr = Some pdi" "pdi_FTEID pdi = Some \<lparr>fteid_TEID = 7, fteid_IPv4 = [10, 0, 0, 1]\<rparr>"
      "pdi_SourceInterface pdi = Some 0"
    using ex_d1_session by blast
  let ?sess = "touch 1 ((NewSessionState 1 5)\<lparr>sess_PDRs := [1 \<mapsto> pdr]\<rparr>)"
  have "d_sessions ex_d1 5 = Some ?sess" "sess_PDRs ?sess 1 = Some pdr" using p by simp_all
  then show ?thesis
    unfolding reachable_snapshot_exact [OF ex_env_simps(1) ex_d1_reachable] using p(2-) by fastforce
qed

text \<open>
  C9. The books balance: in every reachable state the packets received on both sides are the
  packets forwarded, dropped and buffered, and every usage record is stored under its own URR with
  a total volume and a total packet number that are the sums over uplink and downlink.
\<close>

theorem reachable_accounting:
  assumes "reachable E d"
  shows "uplinkPackets (d_stats d) + downlinkPackets (d_stats d) =
      forwardedPackets (d_stats d) + droppedPackets (d_stats d) + bufferedPackets (d_stats d)
    \<and> (\<forall>seid sess urrid records r.
        d_sessions d seid = Some sess \<and> sess_URRReports sess urrid = Some records \<and> r \<in> set records \<longrightarrow>
        URRID r = urrid \<and>
        TotalVolume (VolumMeasure r) = UplinkVolume (VolumMeasure r) + DownlinkVolume (VolumMeasure r) \<and>
        TotalPktNum (VolumMeasure r) = UplinkPktNum (VolumMeasure r) + DownlinkPktNum (VolumMeasure r))"
  using reachable_inv [OF assms]
  by (auto simp: driver_inv_def base_inv_def sess_wf_def usage_ok_def balanced_def)

theorem reachable_accounting_witness:
  "uplinkPackets (d_stats ex_d1) + downlinkPackets (d_stats ex_d1) =
     forwardedPackets (d_stats ex_d1) + droppedPackets (d_stats ex_d1) + bufferedPackets (d_stats ex_d1)"
  using reachable_accounting [OF ex_d1_reachable] by blast



section \<open>Properties of the packet path\<close>

text \<open>
  C7. No packet can crash the driver: whatever the bytes of a packet, its direction and the state
  of the driver, processing it ends without a panic.
\<close>

theorem packets_never_panic:
  "\<exists>d' r. DispatchPacket E now packet d = Some (d', r)"
  by (rule dispatch_total)

text \<open>
  C8. A packet leaves the driver only if it may: when a packet is processed, the egress grows by at
  most one outcome, the one in its result, and only with the action Forward; then the matched FAR
  says forward and neither drop nor buffer, and no QER of the rule has its gate closed in the
  packet's direction, adaptive overrides included.
\<close>

theorem forwarded_only_if_allowed:
  assumes "DispatchPacket E now packet d = Some (d', r)"
  shows "d_egress d' = d_egress d @
      (if res_Action r = PacketActionForward then (case res_Outcome r of None \<Rightarrow> [] | Some out \<Rightarrow> [out]) else [])
    \<and> (res_Action r = PacketActionForward \<longrightarrow>
        (\<exists>b far. res_Binding r = Some b \<and> b_FAR b = Some far \<and> AA_FORW (far_ApplyAction far) \<and>
           \<not> AA_DROP (far_ApplyAction far) \<and> \<not> AA_BUFF (far_ApplyAction far) \<and>
           (\<forall>qer \<in> set (b_QERs b). \<not> effectiveQERGateClosed d b qer (pkt_Direction packet) now)))"
proof -
  let ?ok = "\<lambda>dir. d_egress d' = d_egress d @ sent r \<and> (res_Action r = PacketActionForward \<longrightarrow>
      (\<exists>b. res_Binding r = Some b \<and> may_forward d dir now b))"
  have "processUplink E now packet r0 d = Some (d', r) \<Longrightarrow> res_Outcome r0 = None \<Longrightarrow>
      res_Action r0 \<noteq> PacketActionForward \<Longrightarrow> ?ok PacketDirectionUplink"
    "processDownlink E now packet r0 d = Some (d', r) \<Longrightarrow> res_Outcome r0 = None \<Longrightarrow>
      res_Action r0 \<noteq> PacketActionForward \<Longrightarrow> ?ok PacketDirectionDownlink" for r0
    using processUplink_sent [of E now packet r0 d d' r] processDownlink_sent [of E now packet r0 d d' r] by auto
  note sent = this
  have "?ok (pkt_Direction packet)"
    using assms
    by (cases "pkt_Direction packet")
       (auto simp: DispatchPacket_def process_def Let_def split: if_splits dest!: sent)
  then show ?thesis by (auto simp: sent_def may_forward_def)
qed

theorem forwarded_only_if_allowed_witness:
  "\<exists>d' r. DispatchPacket ex_env 2 \<lparr>pkt_Direction = PacketDirectionUplink, pkt_SEIDHint = 0, pkt_TEID = 7,
     pkt_UEIP = [], pkt_Payload = []\<rparr> ex_d1 = Some (d', r) \<and> length (d_egress d') \<le> length (d_egress ex_d1) + 1"
proof -
  let ?p = "\<lparr>pkt_Direction = PacketDirectionUplink, pkt_SEIDHint = 0, pkt_TEID = 7, pkt_UEIP = [], pkt_Payload = []\<rparr>"
  obtain d' r where "DispatchPacket ex_env 2 ?p ex_d1 = Some (d', r)" using dispatch_total by blast
  with forwarded_only_if_allowed [OF this] show ?thesis by (auto split: option.splits)
qed

text \<open>
  In-band interception never happens on the packet path: \<open>InterceptUplink\<close> tries to read the
  inner packet as a JSON report, but it is only called with packets whose header was accepted as
  IPv4, and a JSON text cannot begin with such a byte. So an uplink packet that is forwarded always
  leaves the driver, whatever the adaptive QoS configuration.
\<close>

definition json_start :: "u8 \<Rightarrow> bool" where
  "json_start b \<longleftrightarrow> b \<in> {0x20, 0x09, 0x0A, 0x0D, 0x7B, 0x5B, 0x22, 0x2D, 0x74, 0x66, 0x6E} \<or> 0x30 \<le> b \<and> b \<le> 0x39"

lemma json_start_not_ipv4:
  assumes "json_start b"
  shows "drop_bit 4 b \<noteq> (4 :: u8)"
proof
  assume "drop_bit 4 b = 4"
  then have "unat (drop_bit 4 b) = 4" by simp
  then have "unat b div 16 = 4" by (simp add: drop_bit_eq_div unat_div)
  then have r: "64 \<le> unat b \<and> unat b < 80" by presburger
  from assms consider "b \<in> {0x20, 0x09, 0x0A, 0x0D, 0x7B, 0x5B, 0x22, 0x2D, 0x74, 0x66, 0x6E}" | "b \<le> 0x39"
    unfolding json_start_def by blast
  then show False
  proof cases
    case 1
    with r show False by auto
  next
    case 2
    then have "unat b \<le> 57" by (simp add: word_le_nat_alt)
    with r show False by simp
  qed
qed

theorem uplink_never_intercepted:
  assumes json: "\<And>b. e_json E b \<noteq> None \<Longrightarrow> b \<noteq> [] \<and> json_start (hd b)"
    and "processUplink E now packet r d = Some (d', r')"
    and "res_Action r' = PacketActionForward" "res_Outcome r = None" "res_Action r \<noteq> PacketActionForward"
  shows "\<exists>out. res_Outcome r' = Some out \<and> d_egress d' = d_egress d @ [out]"
proof -
  have no: "e_json E p = None" if "parseIPv4PacketMeta p = Inr meta" for p meta
  proof (rule ccontr)
    assume "e_json E p \<noteq> None"
    with json have "p \<noteq> []" "json_start (hd p)" by blast+
    then have "json_start (p ! 0)" by (simp add: hd_conv_nth)
    with that json_start_not_ipv4 show False by (simp add: parseIPv4PacketMeta_def split: if_splits)
  qed
  have "res_Outcome r' \<noteq> None"
    using assms(2-)
    by (auto simp: processUplink_def fail_uplink_def act_uplink_def InterceptUplink_def forward_total no Let_def
        case_prod_unfold split: option.splits sum.splits PacketAction.splits if_splits)
  then show ?thesis
    using processUplink_sent(1) [OF assms(2,4,5)] assms(3) by (auto simp: sent_def)
qed

definition ex_json_env :: "tree env" where
  "ex_json_env = ex_env\<lparr>e_json := (\<lambda>b. if b \<noteq> [] \<and> hd b = 0x7B then Some zero_report else None)\<rparr>"

definition ex_binding :: PDRBinding where
  "ex_binding = (mk_binding 5 ex_sess ex_ul)\<lparr>b_FAR := Some \<lparr>far_ID = 1, far_ApplyAction = \<lparr>aa_Flags = 2\<rparr>,
     far_Forwarding = None, far_BARID = None, far_Raw = []\<rparr>, b_URRs := []\<rparr>"

definition ex_d2 :: Driver where
  "ex_d2 = (New 0 1 None None)\<lparr>d_snapshot := (newRuntimeSnapshot 0)\<lparr>snap_Uplink := [7 \<mapsto> [ex_binding]]\<rparr>\<rparr>"

definition ex_gpdu :: bytes where
  "ex_gpdu = [0x30, 255, 0, 20, 0, 0, 0, 7, 0, 0, 0, 0,
     0x45, 0, 0, 20, 0, 0, 0, 0, 64, 1, 0, 0, 10, 60, 0, 1, 8, 8, 8, 8]"

definition ex_result :: PacketResult where
  "ex_result = \<lparr>res_WorkerID = 0, res_Action = PacketActionUnknown, res_Binding = None, res_Outcome = None,
     res_MatchedAdaptiveFlow = None, res_Err = None\<rparr>"

definition ex_packet :: Packet where
  "ex_packet = \<lparr>pkt_Direction = PacketDirectionUplink, pkt_SEIDHint = 0, pkt_TEID = 7, pkt_UEIP = [],
     pkt_Payload = ex_gpdu\<rparr>"

lemma ex_meta: "parseIPv4PacketMeta (drop 12 ex_gpdu) = Inr \<lparr>SrcIP = [10, 60, 0, 1], DstIP = [8, 8, 8, 8],
    Protocol = 1, SrcPort = 0, DstPort = 0, HasPorts = False\<rparr>"
  by (simp add: parseIPv4PacketMeta_def ex_gpdu_def Let_def)

lemma ex_decoded: "decodeGTPU ex_gpdu = Some (Inr \<lparr>d_TEID = 7, d_InnerPayload = drop 12 ex_gpdu,
    d_SourceIP = Some [10, 60, 0, 1]\<rparr>)"
  by (simp add: decodeGTPU_def ex_gpdu_def Let_def be32_def parseIPv4Source_def)

lemma ex_match: "matchUplink E (stat_uplink ex_d2) 7 [10, 60, 0, 1] meta = Some ex_binding"
  by (simp add: matchUplink_def ex_d2_def New_def stat_uplink_def newRuntimeSnapshot_def selectUplinkBinding_def
      ex_binding_def matchSDF_def ex_ul_def ip_Equal_def Let_def)

lemma ex_processed:
  "\<exists>d' r'. processUplink ex_json_env 1 ex_packet ex_result ex_d2 = Some (d', r') \<and> res_Action r' = PacketActionForward"
proof -
  have "resolveAction ex_binding = PacketActionForward" "b_QERs ex_binding = []"
    by (simp_all add: ex_binding_def resolveAction_def mk_binding_def ex_ul_def AA_DROP_def AA_BUFF_def AA_FORW_def
        apply_act_defs List.map_filter_def Let_def)
  then have dec: "decide_action 1 ex_binding n PacketDirectionUplink (stat_uplink ex_d2) =
      (stat_uplink ex_d2, PacketActionForward)" for n
    by (simp add: decide_action_def gateClosed_def mbrAllows_def Let_def)
  obtain d' r' where p: "processUplink ex_json_env 1 ex_packet ex_result ex_d2 = Some (d', r')"
    using process_total(1) by blast
  obtain d2 r2 ret where a: "act_uplink ex_json_env 1 ex_binding (drop 12 ex_gpdu)
      (ex_result\<lparr>res_Binding := Some ex_binding, res_Action := PacketActionForward\<rparr>) (stat_uplink ex_d2) = Some (d2, r2, ret)"
    using act_total(1) by (metis not_None_eq prod_cases3)
  from act_uplink_sent [OF a] have "res_Action r2 = PacketActionForward" by (simp add: ex_result_def)
  moreover have "r' = r2"
    using p a by (simp add: processUplink_def ex_packet_def ex_decoded ex_meta ex_match dec Let_def)
  ultimately show ?thesis using p by blast
qed

theorem uplink_never_intercepted_witness:
  "\<exists>d' r' out. processUplink ex_json_env 1 ex_packet ex_result ex_d2 = Some (d', r') \<and>
     res_Outcome r' = Some out \<and> d_egress d' = [out]"
proof -
  obtain d' r' where p: "processUplink ex_json_env 1 ex_packet ex_result ex_d2 = Some (d', r')"
    and f: "res_Action r' = PacketActionForward"
    using ex_processed by blast
  have j: "b \<noteq> [] \<and> json_start (hd b)" if "e_json ex_json_env b \<noteq> None" for b
    using that by (simp add: ex_json_env_def json_start_def split: if_splits)
  have "d_egress ex_d2 = []" by (simp add: ex_d2_def New_def Let_def)
  with uplink_never_intercepted [OF j p f] p show ?thesis by (auto simp: ex_result_def)
qed

section \<open>Properties of the operations\<close>

text \<open>
  C11. A failed operation changes nothing: when any of the fifteen rule operations returns an error,
  because the element cannot be parsed or the session or rule does not exist, the driver is exactly
  as before.
\<close>

theorem failed_operation_atomic:
  "(CreatePDR E now seid req d = (d', Some err) \<longrightarrow> d' = d) \<and> (UpdatePDR E now seid req d = (d', Some err) \<longrightarrow> d' = d) \<and>
   (RemovePDR E now seid req d = (d', Some err) \<longrightarrow> d' = d) \<and> (CreateFAR E now seid req d = (d', Some err) \<longrightarrow> d' = d) \<and>
   (UpdateFAR E now seid req d = Some (d', Some err) \<longrightarrow> d' = d) \<and> (RemoveFAR E now seid req d = (d', Some err) \<longrightarrow> d' = d) \<and>
   (CreateQER E now seid req d = (d', Some err) \<longrightarrow> d' = d) \<and> (UpdateQER E now seid req d = (d', Some err) \<longrightarrow> d' = d) \<and>
   (RemoveQER E now seid req d = (d', Some err) \<longrightarrow> d' = d) \<and> (CreateURR E now seid req d = (d', Some err) \<longrightarrow> d' = d) \<and>
   (UpdateURR E now seid req d = (d', Inl err) \<longrightarrow> d' = d) \<and> (RemoveURR E now seid req d = (d', Inl err) \<longrightarrow> d' = d) \<and>
   (CreateBAR E now seid req d = (d', Some err) \<longrightarrow> d' = d) \<and> (UpdateBAR E now seid req d = (d', Some err) \<longrightarrow> d' = d) \<and>
   (RemoveBAR E now seid req d = (d', Some err) \<longrightarrow> d' = d)"
  by (intro conjI)
     (auto simp: CreatePDR_def UpdatePDR_def RemovePDR_def CreateFAR_def UpdateFAR_def RemoveFAR_def CreateQER_def
      UpdateQER_def RemoveQER_def CreateURR_def UpdateURR_def RemoveURR_def CreateBAR_def UpdateBAR_def
      RemoveBAR_def Let_def case_prod_unfold split: sum.splits option.splits if_splits)

theorem failed_operation_atomic_witness:
  "RemovePDR ex_env 1 5 ex_pdr_ie (New 0 1 None None) = (New 0 1 None None, Some ErrSessionNotFound)"
proof -
  obtain d' where "RemovePDR ex_env 1 5 ex_pdr_ie (New 0 1 None None) = (d', Some ErrSessionNotFound)"
    by (simp add: RemovePDR_def ex_pdr_ie_def tree_api_def tree_leaves_def New_def Let_def)
  with failed_operation_atomic [of ex_env 1 5 ex_pdr_ie "New 0 1 None None" d' ErrSessionNotFound]
  show ?thesis by simp
qed

text \<open>
  Removing a PDR: it fails exactly when the session or the PDR does not exist; otherwise the
  PDR is gone, the other rules and the other sessions are untouched, its pending notification is
  cancelled, and the session itself is deleted exactly when nothing is left in it.
\<close>

theorem RemovePDR_spec:
  assumes "ie_PDRID (e_api E) req = Inr pid"
  shows "case d_sessions d seid of
      None \<Rightarrow> RemovePDR E now seid req d = (d, Some ErrSessionNotFound)
    | Some sess \<Rightarrow>
        if sess_PDRs sess pid = None then RemovePDR E now seid req d = (d, Some ErrPDRNotFound)
        else let sess' = touch now (sess\<lparr>sess_PDRs := (sess_PDRs sess)(pid := None)\<rparr>);
                 d' = fst (RemovePDR E now seid req d)
             in snd (RemovePDR E now seid req d) = None \<and>
                d_sessions d' = (d_sessions d)(seid := (if session_empty sess' then None else Some sess')) \<and>
                d_pendingDDN d' (seid, pid) = None"
  using assms
  by (simp add: RemovePDR_def deleteSessionIfEmptyLocked_def put_session_def cancelPendingDDNLocked_def Let_def
      split: option.splits)

theorem RemovePDR_spec_witness:
  "d_sessions (fst (RemovePDR ex_env 2 5 ex_pdr_ie ex_d1)) 5 = None"
proof -
  obtain pdr where s: "d_sessions ex_d1 = [5 \<mapsto> touch 1 ((NewSessionState 1 5)\<lparr>sess_PDRs := [1 \<mapsto> pdr]\<rparr>)]"
    using ex_d1_session by blast
  have "ie_PDRID (e_api ex_env) ex_pdr_ie = Inr 1"
    by (simp add: ex_pdr_ie_def tree_api_def tree_leaves_def)
  from RemovePDR_spec [OF this, of 2 5 ex_d1] s show ?thesis
    by (simp add: session_empty_def Let_def)
qed

text \<open>
  Packets buffered for a PDR outlive it: removing a PDR does not discard its buffer, so a
  session with buffered packets is never deleted, even when its last rule is removed, and a PDR
  created later with the same identifiers inherits the old packets.
\<close>

theorem buffers_outlive_pdr:
  assumes "d_sessions d seid = Some sess" "sess_Buffers sess pid = Some packets"
    and "RemovePDR E now seid req d = (d1, None)" "CreatePDR E now' seid req' d1 = (d2, None)"
  shows "\<exists>sess1 sess2. d_sessions d1 seid = Some sess1 \<and> sess_Buffers sess1 pid = Some packets \<and>
    d_sessions d2 seid = Some sess2 \<and> sess_Buffers sess2 pid = Some packets"
  using assms
  by (auto simp: RemovePDR_def CreatePDR_def ensureSessionLocked_def deleteSessionIfEmptyLocked_def session_empty_def
      put_session_def Let_def split: sum.splits if_splits option.splits)


definition ex_pdr2_ie :: tree where
  "ex_pdr2_ie = Node (T_Other 1) [Leaf16 T_PDRID 2]"

theorem buffers_outlive_pdr_witness:
  "\<exists>d1 d2 sess2. RemovePDR ex_env 2 5 ex_pdr2_ie
       (put_session 5 (ex_sess\<lparr>sess_Buffers := [2 \<mapsto> [[1, 2, 3]]]\<rparr>) (New 0 1 None None)) = (d1, None) \<and>
     CreatePDR ex_env 3 5 ex_pdr2_ie d1 = (d2, None) \<and>
     d_sessions d2 5 = Some sess2 \<and> sess_Buffers sess2 2 = Some [[1, 2, 3]]"
proof -
  let ?d = "put_session 5 (ex_sess\<lparr>sess_Buffers := [2 \<mapsto> [[1, 2, 3]]]\<rparr>) (New 0 1 None None)"
  have s: "d_sessions ?d 5 = Some (ex_sess\<lparr>sess_Buffers := [2 \<mapsto> [[1, 2, 3]]]\<rparr>)" by (simp add: put_session_def)
  obtain d1 where r: "RemovePDR ex_env 2 5 ex_pdr2_ie ?d = (d1, None)"
    unfolding RemovePDR_def s by (simp add: ex_sess_def ex_pdr2_ie_def tree_api_def tree_leaves_def Let_def)
  obtain d2 where c: "CreatePDR ex_env 3 5 ex_pdr2_ie d1 = (d2, None)"
    by (simp add: CreatePDR_def parsePDR_def decodePDR_def decodePDR_step_def ex_pdr2_ie_def tree_api_def
        tree_leaves_def case_prod_unfold Let_def)
  from buffers_outlive_pdr [OF s _ r c, of 2 "[[1, 2, 3]]"] r c show ?thesis by auto
qed

end
