(* ===== verification/Egress.thy ===== *)
theory Egress
  imports Userspace_Props "HOL-Library.Sublist"
begin

text \<open>
  What the operations of the userspace driver do to its channels: the number of workers and the capacity stay, and
  \<open>egressCh\<close> only grows at its end.
\<close>

definition shape :: "Driver \<Rightarrow> nat \<times> nat \<times> PacketOutcome list" where
  "shape d = (d_workers d, d_outputCap d, d_egress d)"

lemma shape_upd [simp]:
  "shape (d\<lparr>d_sessions := a\<rparr>) = shape d" "shape (d\<lparr>d_handler := h\<rparr>) = shape d" "shape (d\<lparr>d_snapshot := s\<rparr>) = shape d"
  "shape (d\<lparr>d_stats := t\<rparr>) = shape d" "shape (d\<lparr>d_pendingDDN := p\<rparr>) = shape d" "shape (d\<lparr>d_adaptiveTrace := b\<rparr>) = shape d"
  "shape (d\<lparr>d_reports := r\<rparr>) = shape d" "shape (d\<lparr>d_output := u\<rparr>) = shape d" "shape (d\<lparr>d_flowCounts := f\<rparr>) = shape d"
  "shape (d\<lparr>d_nextFlow := n\<rparr>) = shape d" "shape (d\<lparr>d_autoEnd := e\<rparr>) = shape d"
  by (simp_all add: shape_def)

lemma shape_frame [simp]:
  "shape (stat_uplink d) = shape d" "shape (stat_downlink d) = shape d" "shape (stat_forwarded d) = shape d"
  "shape (stat_dropped d) = shape d" "shape (stat_buffered d) = shape d" "shape (stat_uplink_miss d) = shape d"
  "shape (stat_downlink_miss d) = shape d" "shape (stat_unsupported d) = shape d"
  "shape (stat_uplink_error d) = shape d" "shape (stat_downlink_error d) = shape d"
  "shape (put_session i s d) = shape d" "shape (publishSnapshotLocked E now d) = shape d"
  "shape (addAdaptiveTraceLocked now ev d) = shape d" "shape (emitReport r d) = shape d"
  "shape (cancelPendingDDNLocked k d) = shape d" "shape (deleteSessionIfEmptyLocked i s d) = shape d"
  "shape (scheduleAdaptiveFlowAutoEnd now ar t d) = shape d" "shape (HandleReport h d) = shape d"
  by (simp_all add: stat_uplink_def stat_downlink_def stat_forwarded_def stat_dropped_def stat_buffered_def
      stat_uplink_miss_def stat_downlink_miss_def stat_unsupported_def stat_uplink_error_def
      stat_downlink_error_def put_session_def publishSnapshotLocked_def addAdaptiveTraceLocked_def emitReport_def
      cancelPendingDDNLocked_def deleteSessionIfEmptyLocked_def scheduleAdaptiveFlowAutoEnd_def HandleReport_def Let_def)

lemma shape_publish: "shape (publishOutcome out d) = (d_workers d, d_outputCap d, d_egress d @ [out])"
  by (simp add: shape_def publishOutcome_def Let_def)

lemma shape_schedule [simp]: "shape (scheduleBufferedNotification now b p d) = shape d"
  by (simp add: scheduleBufferedNotification_def Let_def split: option.split)

lemma shape_ensure [simp]: "shape (snd (ensureSessionLocked now i d)) = shape d"
  by (simp add: ensureSessionLocked_def Let_def split: option.split)

lemma shape_fire [simp]: "shape (fireBufferedNotification k d) = shape d"
  by (simp add: fireBufferedNotification_def Let_def split: option.split prod.split)

lemma shape_emitCP [simp]: "shape (snd (emitCPProvisionedTraceLocked E now s d)) = shape d"
  by (simp add: emitCPProvisionedTraceLocked_def Let_def)

section \<open>Adaptive QoS and timers\<close>

lemma shape_start [simp]: "shape (fst (startAdaptiveFlow E now r d)) = shape d"
proof (cases "resolveAdaptiveSessionLocked (e_rng E) r d")
  case None
  then show ?thesis by (simp add: startAdaptiveFlow_def reject_start_def Let_def)
next
  case (Some p)
  then show ?thesis by (cases p) (simp add: startAdaptiveFlow_def case_prod_unfold Let_def)
qed

lemma shape_end [simp]: "shape (fst (endAdaptiveFlow E now r d)) = shape d"
proof (cases "find_flow (e_rng E) d (ar_FlowID r)")
  case None
  then show ?thesis by (simp add: endAdaptiveFlow_def Let_def)
next
  case (Some p)
  then show ?thesis by (cases p) (simp add: endAdaptiveFlow_def Let_def)
qed

lemma shape_apply [simp]: "shape (fst (applyAdaptiveReport E now r d)) = shape d"
  by (simp add: applyAdaptiveReport_def Let_def)

lemma shape_autoEnd [simp]: "shape (fireAutoEnd E now r t d) = shape d"
  by (simp add: fireAutoEnd_def Let_def split: option.split)

lemma shape_reset [simp]: "shape (resetAdaptiveState E now d) = shape d"
proof -
  have "shape (reset_emit E now i e) = shape e" for i e
    by (simp add: reset_emit_def case_prod_unfold Let_def split: option.split)
  then show ?thesis
    unfolding resetAdaptiveState_def Let_def shape_frame
    by (intro fold_invariant_list [where P = "\<lambda>e. shape e = shape d"]) simp_all
qed

lemma shape_periodic [simp]: "shape (emitPeriodicURRReports E now d) = shape d"
proof -
  have "shape (fst (periodic_session E now st i)) = shape (fst st)" for st i
    by (simp add: periodic_session_def case_prod_unfold Let_def split: option.split)
  then have loop: "shape (fst (foldl (periodic_session E now) (d, xs) is)) = shape d" for xs "is"
    by (intro foldl_invariant [where P = "\<lambda>st. shape (fst st) = shape d"]) simp_all
  show ?thesis
    unfolding emitPeriodicURRReports_def Let_def case_prod_unfold
    by (rule fold_invariant_list [where P = "\<lambda>e. shape e = shape d"]) (simp_all add: loop split: option.splits)
qed

section \<open>Rules\<close>

lemma shape_rules [simp]:
  "shape (fst (CreatePDR E now seid req d)) = shape d" "shape (fst (UpdatePDR E now seid req d)) = shape d"
  "shape (fst (RemovePDR E now seid req d)) = shape d" "shape (fst (CreateFAR E now seid req d)) = shape d"
  by (simp_all add: CreatePDR_def UpdatePDR_def RemovePDR_def CreateFAR_def case_prod_unfold Let_def
      split: sum.split option.split)

lemma shape_RemoveFAR [simp]: "shape (fst (RemoveFAR E now seid req d)) = shape d"
proof -
  have "shape (fold (cancel_for_far seid sess fid) pids d) = shape d" for sess fid pids
    by (rule fold_invariant_list [where P = "\<lambda>e. shape e = shape d"]) (simp_all add: cancel_for_far_def split: option.split)
  then show ?thesis by (simp add: RemoveFAR_def case_prod_unfold Let_def split: sum.split option.split)
qed

lemma shape_qers [simp]:
  "shape (fst (CreateQER E now seid req d)) = shape d" "shape (fst (UpdateQER E now seid req d)) = shape d"
  "shape (fst (RemoveQER E now seid req d)) = shape d"
  by (simp_all add: CreateQER_def UpdateQER_def RemoveQER_def case_prod_unfold Let_def split: sum.split option.split)

lemma shape_urrs [simp]:
  "shape (fst (CreateURR E now seid req d)) = shape d" "shape (fst (UpdateURR E now seid req d)) = shape d"
  "shape (fst (RemoveURR E now seid req d)) = shape d"
  by (simp_all add: CreateURR_def UpdateURR_def RemoveURR_def case_prod_unfold Let_def split: sum.split option.split)

lemma shape_bars [simp]:
  "shape (fst (CreateBAR E now seid req d)) = shape d" "shape (fst (UpdateBAR E now seid req d)) = shape d"
  "shape (fst (RemoveBAR E now seid req d)) = shape d"
  by (simp_all add: CreateBAR_def UpdateBAR_def RemoveBAR_def case_prod_unfold Let_def split: sum.split option.split)

section \<open>Packets\<close>

lemma shape_packet [simp]:
  "shape (fst (mbrAllows now b n dir d)) = shape d" "shape (fst (decide_action now b n dir d)) = shape d"
  "shape (fst (bufferPacket now b p d)) = shape d" "shape (updateUsage E now b n up d) = shape d"
  "shape (burst_detected E now b ue flow d) = shape d" "shape (fst (InterceptUplink E now p d)) = shape d"
  by (simp_all add: mbrAllows_def decide_action_def bufferPacket_def updateUsage_def burst_detected_def InterceptUplink_def
      case_prod_unfold Let_def split: option.splits)

definition channels :: "Driver \<Rightarrow> nat \<times> nat" where
  "channels d = (d_workers d, d_outputCap d)"

lemma channels_shape: "channels d = (fst (shape d), fst (snd (shape d)))"
  by (simp add: shape_def channels_def)

lemma channels_publish [simp]: "channels (publishOutcome out d) = channels d"
  by (simp add: channels_def publishOutcome_def Let_def)

lemma channels_frame [simp]:
  "channels (stat_uplink d) = channels d" "channels (stat_downlink d) = channels d" "channels (stat_forwarded d) = channels d"
  "channels (stat_dropped d) = channels d" "channels (stat_buffered d) = channels d" "channels (stat_uplink_miss d) = channels d"
  "channels (stat_downlink_miss d) = channels d" "channels (stat_unsupported d) = channels d"
  "channels (stat_uplink_error d) = channels d" "channels (stat_downlink_error d) = channels d"
  "channels (fst (decide_action now b n dir d)) = channels d" "channels (fst (bufferPacket now b p d)) = channels d"
  "channels (updateUsage E now b n up d) = channels d" "channels (burst_detected E now b ue flow d) = channels d"
  "channels (fst (InterceptUplink E now p d)) = channels d"
  by (simp_all add: channels_shape)

lemma channels_act:
  "act_uplink E now b p r d = Some (d', r', ret) \<Longrightarrow> channels d' = channels d"
  "act_downlink E now b ue p r d = Some (d', r', ret) \<Longrightarrow> channels d' = channels d"
  by (auto simp: act_uplink_def act_downlink_def forward_total case_prod_unfold Let_def
      split: PacketAction.splits if_splits option.splits)

lemma channels_process_dir:
  "processUplink E now packet r d = Some (d', r') \<Longrightarrow> channels d' = channels d"
  "processDownlink E now packet r d = Some (d', r') \<Longrightarrow> channels d' = channels d"
  by (auto simp: processUplink_def processDownlink_def fail_uplink_def fail_downlink_def Let_def case_prod_unfold
      split: option.splits sum.splits if_splits dest!: channels_act)

text \<open>Processing a packet sends one outcome at most, at the end.\<close>

lemma process_channels:
  assumes "process E now i packet d = Some (d', r)"
  shows "channels d' = channels d" "d_egress d' = d_egress d @ sent r"
proof -
  show "channels d' = channels d"
    using assms by (auto simp: process_def Let_def split: PacketDirection.splits dest: channels_process_dir)
  show "d_egress d' = d_egress d @ sent r"
    using assms by (auto simp: process_def Let_def split: PacketDirection.splits dest!: processUplink_sent processDownlink_sent)
qed

lemma sent_length: "length (sent r) \<le> 1"
  by (simp add: sent_def split: option.split)

section \<open>All operations\<close>

definition grows :: "Driver \<Rightarrow> Driver \<Rightarrow> bool" where
  "grows d d' \<longleftrightarrow> channels d' = channels d \<and> prefix (d_egress d) (d_egress d')"

lemma grows_trans: "grows d d' \<Longrightarrow> grows d' d'' \<Longrightarrow> grows d d''"
  by (auto simp: grows_def)

lemma grows_shape: "shape d' = shape d \<Longrightarrow> grows d d'"
  by (simp add: shape_def grows_def channels_def)

lemma grows_flush: "flush_buffer A b ps d = Some d' \<Longrightarrow> grows d d'"
proof (induction ps arbitrary: d)
  case (Cons p ps)
  have "grows d (publishOutcome out d)" for out by (simp add: grows_def)
  with Cons show ?case by (auto simp: forwardBuffered_total intro: grows_trans)
qed (simp add: grows_def)

lemma grows_transition: "transition_pdr E now seid nxt d pid = Some d' \<Longrightarrow> grows d d'"
  by (auto simp: transition_pdr_def Let_def split: option.splits if_splits
      intro: grows_shape dest!: grows_flush elim!: grows_trans [OF grows_shape, rotated])

lemma grows_UpdateFAR:
  assumes "UpdateFAR E now seid req d = Some (d', e)"
  shows "grows d d'"
proof -
  have *: "grows d d2" if "handleFARTransitionLocked E now seid f g d1 = Some d2" "shape d1 = shape d" for f g d1 d2
  proof (cases "d_sessions d1 seid")
    case (Some sess)
    have "grows d d2" if "foldO (transition_pdr E now seid g) d1 xs = Some d2" for xs
      by (rule foldO_invariant [where P = "grows d", OF that grows_shape [OF \<open>shape d1 = shape d\<close>]])
         (blast intro: grows_trans grows_transition)
    with Some that show ?thesis by (auto simp: handleFARTransitionLocked_def grows_shape split: if_splits)
  qed (use that in \<open>auto simp: handleFARTransitionLocked_def grows_shape split: if_splits\<close>)
  from assms show ?thesis
    by (auto simp: UpdateFAR_def Let_def grows_shape split: sum.splits option.splits intro: *)
qed

lemma exec_grows:
  assumes "exec E now op d = Some d'"
  shows "grows d d'"
proof (cases op)
  case (OpPacket packet)
  with assms show ?thesis
    by (auto simp: DispatchPacket_def grows_def split: if_splits dest: process_channels)
next
  case (OpUpdateFAR seid req)
  with assms show ?thesis by (auto intro: grows_UpdateFAR)
qed (use assms in \<open>auto intro!: grows_shape\<close>)

end
