(* ===== verification/Workers.thy ===== *)
theory Workers
  imports Egress "HOL-Library.Multiset"
begin

text \<open>
  The goroutines of the userspace forwarder: the worker queues (\<^verbatim>\<open>state.go\<close>, \<open>enqueuePacket\<close> and
  \<open>DispatchPacket\<close> of \<^verbatim>\<open>runtime.go\<close>), the loops that read the N3 socket and the TUN device and write what is
  forwarded (\<^verbatim>\<open>io.go\<close>, \<^verbatim>\<open>io_udptun.go\<close>), and \<open>Close\<close>. A goroutine is a place in its loop, a channel the list
  of what waits in it, and a \<open>select\<close> the list of its branches that are ready: none is blocking, several are a
  choice of the scheduler. The driver itself is the one of the other theories.

  A worker that would block in \<open>publishOutcome\<close> because \<open>egressCh\<close> is full takes its packet later instead. An update of
  a FAR that releases more packets than \<open>egressCh\<close> holds keeps the rest until there is room; they are counted as waiting.
  The operations of the control plane run while the driver is open.
\<close>

section \<open>Data\<close>

definition maxPacketSize :: nat where
  "maxPacketSize = 64 * 1024"

record packetJob =
  job_packet :: Packet
  job_resp :: bool

datatype read_loop = Reading | Waiting | ReadReturned

text \<open>An egress loop that writes has looked at the socket or device before and found it open.\<close>

datatype egress_loop = EgressIdle | WriteUDP PacketOutcome | WriteTUN PacketOutcome | EgressReturned

text \<open>
  \<open>rs_taken\<close> counts the outcomes taken from \<open>egressCh\<close>, so the channel holds \<open>d_egress\<close> less the first
  \<open>rs_taken\<close>. \<open>rs_udp\<close> and \<open>rs_tun\<close> say that the fields of the backend are not nil. \<open>rs_resp\<close> is the response
  channel the TUN loop waits on. \<open>rs_sent\<close> is what was written, and \<open>rs_accepted\<close> and \<open>rs_done\<close> are the packets put
  into a queue and processed, in that order. The two error counters belong to the statistics of the driver.
\<close>

record runtime_state =
  rs_driver :: Driver
  rs_queueSize :: nat
  rs_queues :: "packetJob list list"
  rs_running :: "bool list"
  rs_stop :: bool
  rs_udp :: bool
  rs_tun :: bool
  rs_udpLoop :: read_loop
  rs_tunLoop :: read_loop
  rs_resp :: "PacketResult option"
  rs_egressLoops :: "egress_loop list"
  rs_taken :: nat
  rs_sent :: "PacketOutcome list"
  rs_runtimeIOErrors :: u64
  rs_egressErrors :: u64
  rs_crashed :: bool
  rs_accepted :: "Packet list"
  rs_done :: "Packet list"

section \<open>Start\<close>

definition startWorkers :: "options \<Rightarrow> packetJob list list" where
  "startWorkers opt = replicate (nat (opt_workers opt)) []"

text \<open>The loops of the backend: a backend without a socket or device has no loop for it.\<close>

definition backend_start :: "bool \<Rightarrow> read_loop" where
  "backend_start opened = (if opened then Reading else ReadReturned)"

definition startRuntime :: "bool \<Rightarrow> bool \<Rightarrow> nat \<Rightarrow> egress_loop list" where
  "startRuntime udp tun workers = (if udp \<or> tun then replicate (max 1 workers) EgressIdle else [])"

definition runtime_New :: "gotime \<Rightarrow> int \<Rightarrow> UserspaceConfig option \<Rightarrow> AdaptiveQoSConfig option \<Rightarrow> bool \<Rightarrow> bool \<Rightarrow> runtime_state" where
  "runtime_New now maxprocs us aq udp tun =
     (let opts = optionsFromConfig maxprocs (Some us); workers = startWorkers opts in
      \<lparr>rs_driver = New now maxprocs us aq, rs_queueSize = nat (opt_queueSize opts), rs_queues = workers,
       rs_running = map (\<lambda>_. True) workers, rs_stop = False, rs_udp = udp, rs_tun = tun,
       rs_udpLoop = backend_start udp, rs_tunLoop = backend_start tun, rs_resp = None,
       rs_egressLoops = startRuntime udp tun (length workers), rs_taken = 0, rs_sent = [],
       rs_runtimeIOErrors = 0, rs_egressErrors = 0, rs_crashed = False, rs_accepted = [], rs_done = []\<rparr>)"

section \<open>Queues\<close>

definition errNoWorkers :: error where
  "errNoWorkers = ErrMsg ''userspace: no workers available''"

text \<open>Sending a job to the queue of its worker: the ready branches of the \<open>select\<close>.\<close>

definition send_job :: "packetJob \<Rightarrow> runtime_state \<Rightarrow> (runtime_state \<times> error option) list" where
  "send_job job s =
     (if rs_queues s = [] then [(s, Some errNoWorkers)]
      else
        let i = workerIndexFor (length (rs_queues s)) (job_packet job) in
        (if rs_stop s then [(s, Some errNoWorkers)] else []) @
        (if length (rs_queues s ! i) < rs_queueSize s
         then [(s\<lparr>rs_queues := (rs_queues s)[i := rs_queues s ! i @ [job]],
                  rs_accepted := rs_accepted s @ [job_packet job]\<rparr>, None)]
         else []))"

definition enqueuePacket :: "Packet \<Rightarrow> runtime_state \<Rightarrow> (runtime_state \<times> error option) list" where
  "enqueuePacket packet s = send_job \<lparr>job_packet = packet, job_resp = False\<rparr> s"

section \<open>Reading\<close>

text \<open>\<open>is_closed\<close> recognises \<open>net.ErrClosed\<close> and \<open>io.EOF\<close>.\<close>

definition isRuntimeClosed :: "(error \<Rightarrow> bool) \<Rightarrow> error option \<Rightarrow> bool \<Rightarrow> bool" where
  "isRuntimeClosed is_closed err stop = (case err of None \<Rightarrow> False | Some e \<Rightarrow> stop \<or> is_closed e)"

definition count_io :: "error option \<Rightarrow> runtime_state \<Rightarrow> runtime_state" where
  "count_io err s = (if err = None then s else s\<lparr>rs_runtimeIOErrors := rs_runtimeIOErrors s + 1\<rparr>)"

definition udp_packet :: "bytes \<Rightarrow> Packet" where
  "udp_packet payload = \<lparr>pkt_Direction = PacketDirectionUplink, pkt_SEIDHint = 0, pkt_TEID = uplinkTEID payload,
     pkt_UEIP = [], pkt_Payload = payload\<rparr>"

definition tun_packet :: "bytes \<Rightarrow> Packet" where
  "tun_packet payload = \<lparr>pkt_Direction = PacketDirectionDownlink, pkt_SEIDHint = 0, pkt_TEID = 0,
     pkt_UEIP = downlinkUEIP payload, pkt_Payload = payload\<rparr>"

definition errUnsupportedDownlinkPayload :: error where
  "errUnsupportedDownlinkPayload = ErrMsg ''userspace: unsupported non-IPv4 downlink payload''"

text \<open>One round of \<open>udpReadLoop\<close> for what the socket returns.\<close>

definition udp_round :: "(error \<Rightarrow> bool) \<Rightarrow> bytes res \<Rightarrow> runtime_state \<Rightarrow> runtime_state list" where
  "udp_round is_closed r s =
     (case r of
        Inl e \<Rightarrow> [if isRuntimeClosed is_closed (Some e) (rs_stop s) then s\<lparr>rs_udpLoop := ReadReturned\<rparr> else count_io (Some e) s]
      | Inr payload \<Rightarrow> map (\<lambda>(s, err). count_io err s) (enqueuePacket (udp_packet payload) s))"

text \<open>
  One round of \<open>tunReadLoop\<close>. A packet that is not IPv4 is dispatched, and the loop waits for the result; an
  error of that dispatch other than the one for such packets is counted.
\<close>

definition dispatch_done :: "error option \<Rightarrow> runtime_state \<Rightarrow> runtime_state" where
  "dispatch_done err s =
     (let s = s\<lparr>rs_tunLoop := Reading, rs_resp := None\<rparr> in
      if err = Some errUnsupportedDownlinkPayload then s else s\<lparr>rs_runtimeIOErrors := rs_runtimeIOErrors s + 1\<rparr>)"

definition tun_round :: "(error \<Rightarrow> bool) \<Rightarrow> bytes res \<Rightarrow> runtime_state \<Rightarrow> runtime_state list" where
  "tun_round is_closed r s =
     (case r of
        Inl e \<Rightarrow> [if isRuntimeClosed is_closed (Some e) (rs_stop s) then s\<lparr>rs_tunLoop := ReadReturned\<rparr> else count_io (Some e) s]
      | Inr payload \<Rightarrow>
          if downlinkUEIP payload = [] then
            map (\<lambda>(s, err). case err of None \<Rightarrow> s\<lparr>rs_tunLoop := Waiting\<rparr> | Some e \<Rightarrow> dispatch_done (Some e) s)
              (send_job \<lparr>job_packet = tun_packet payload, job_resp = True\<rparr> s)
          else map (\<lambda>(s, err). count_io err s) (enqueuePacket (tun_packet payload) s))"

text \<open>The second \<open>select\<close> of \<open>DispatchPacket\<close>.\<close>

definition dispatch_wait :: "runtime_state \<Rightarrow> runtime_state list" where
  "dispatch_wait s =
     (if rs_stop s then [dispatch_done (Some errNoWorkers) s] else []) @
     (case rs_resp s of None \<Rightarrow> [] | Some r \<Rightarrow> [dispatch_done (res_Err r) s])"

section \<open>Workers\<close>

definition egress_pending :: "runtime_state \<Rightarrow> nat" where
  "egress_pending s = length (d_egress (rs_driver s)) - rs_taken s"

text \<open>
  A worker takes a job and processes it. When the driver is stopping, \<open>publishOutcome\<close> may give up the outcome, and
  the worker may return instead of handing over the result.
\<close>

definition run_job :: "'ie env \<Rightarrow> gotime \<Rightarrow> nat \<Rightarrow> runtime_state \<Rightarrow> runtime_state list" where
  "run_job E now i s =
     (case rs_queues s ! i of
        [] \<Rightarrow> []
      | job # jobs \<Rightarrow>
          (case process E now i (job_packet job) (rs_driver s) of
             None \<Rightarrow> [s\<lparr>rs_crashed := True\<rparr>]
           | Some (d, result) \<Rightarrow>
               let s' = s\<lparr>rs_queues := (rs_queues s)[i := jobs], rs_done := rs_done s @ [job_packet job]\<rparr>;
                   full = s'\<lparr>rs_driver := d\<rparr>;
                   given_up = s'\<lparr>rs_driver := d\<lparr>d_egress := d_egress (rs_driver s), d_output := d_output (rs_driver s)\<rparr>\<rparr>;
                   outs = (if egress_pending full \<le> d_outputCap d then [full] else []) @ (if rs_stop s then [given_up] else [])
               in if job_resp job
                  then map (\<lambda>s. s\<lparr>rs_resp := Some result\<rparr>) outs @
                       (if rs_stop s then map (\<lambda>s. s\<lparr>rs_running := (rs_running s)[i := False]\<rparr>) outs else [])
                  else outs))"

section \<open>Writing\<close>

text \<open>\<open>write\<close> up to the system call: an outcome nobody can take is dropped without an error.\<close>

definition write_check :: "runtime_state \<Rightarrow> PacketOutcome \<Rightarrow> egress_loop" where
  "write_check s outcome =
     (case out_Format outcome of
        PayloadFormatGTPU \<Rightarrow> if \<not> rs_udp s \<or> out_Peer outcome = None then EgressIdle else WriteUDP outcome
      | PayloadFormatRawIP \<Rightarrow> if \<not> rs_tun s then EgressIdle else WriteTUN outcome
      | _ \<Rightarrow> EgressIdle)"

definition egress_take :: "nat \<Rightarrow> runtime_state \<Rightarrow> runtime_state" where
  "egress_take k s =
     s\<lparr>rs_egressLoops := (rs_egressLoops s)[k := write_check s (d_egress (rs_driver s) ! rs_taken s)], rs_taken := Suc (rs_taken s)\<rparr>"

text \<open>
  The system call returns an error or not. Calling it on a device that \<open>Close\<close> has set to nil in between
  panics; on a socket it returns an error.
\<close>

definition egress_written :: "(error \<Rightarrow> bool) \<Rightarrow> nat \<Rightarrow> PacketOutcome \<Rightarrow> error option \<Rightarrow> runtime_state \<Rightarrow> runtime_state" where
  "egress_written is_closed k outcome err s =
     (let s = s\<lparr>rs_egressLoops := (rs_egressLoops s)[k := EgressIdle]\<rparr> in
      case err of
        None \<Rightarrow> s\<lparr>rs_sent := rs_sent s @ [outcome]\<rparr>
      | Some e \<Rightarrow> if isRuntimeClosed is_closed err (rs_stop s) then s else s\<lparr>rs_egressErrors := rs_egressErrors s + 1\<rparr>)"

definition egress_write :: "(error \<Rightarrow> bool) \<Rightarrow> nat \<Rightarrow> error option \<Rightarrow> runtime_state \<Rightarrow> runtime_state" where
  "egress_write is_closed k err s =
     (case rs_egressLoops s ! k of
        WriteUDP outcome \<Rightarrow>
          egress_written is_closed k outcome (if rs_udp s then err else Some (ErrMsg ''invalid argument'')) s
      | WriteTUN outcome \<Rightarrow>
          if rs_tun s then egress_written is_closed k outcome err s else s\<lparr>rs_crashed := True\<rparr>
      | _ \<Rightarrow> s)"

section \<open>The transition system\<close>

text \<open>What the goroutines do by themselves, without new packets and new rules.\<close>

inductive internal_step :: "'ie env \<Rightarrow> (error \<Rightarrow> bool) \<Rightarrow> runtime_state \<Rightarrow> runtime_state \<Rightarrow> bool" for E C where
  work: "\<not> rs_crashed s \<Longrightarrow> i < length (rs_queues s) \<Longrightarrow> rs_running s ! i \<Longrightarrow> s' \<in> set (run_job E now i s) \<Longrightarrow> internal_step E C s s'"
| await: "\<not> rs_crashed s \<Longrightarrow> rs_tunLoop s = Waiting \<Longrightarrow> s' \<in> set (dispatch_wait s) \<Longrightarrow> internal_step E C s s'"
| egress_takes: "\<not> rs_crashed s \<Longrightarrow> k < length (rs_egressLoops s) \<Longrightarrow> rs_egressLoops s ! k = EgressIdle \<Longrightarrow>
    rs_taken s < length (d_egress (rs_driver s)) \<Longrightarrow> internal_step E C s (egress_take k s)"
| egress_writes: "\<not> rs_crashed s \<Longrightarrow> k < length (rs_egressLoops s) \<Longrightarrow> rs_egressLoops s ! k \<noteq> EgressIdle \<Longrightarrow>
    rs_egressLoops s ! k \<noteq> EgressReturned \<Longrightarrow> internal_step E C s (egress_write C k err s)"

text \<open>
  Packets arrive, the control plane changes rules, timers fire, and the driver is closed: \<open>Close\<close> closes \<open>stopCh\<close>,
  then the backend, drops the pending notifications, and then waits for the goroutines to return.
\<close>

inductive runtime_step :: "'ie env \<Rightarrow> (error \<Rightarrow> bool) \<Rightarrow> runtime_state \<Rightarrow> runtime_state \<Rightarrow> bool" for E C where
  internal: "internal_step E C s s' \<Longrightarrow> runtime_step E C s s'"
| udp: "\<not> rs_crashed s \<Longrightarrow> rs_udpLoop s = Reading \<Longrightarrow> (\<And>p. r = Inr p \<Longrightarrow> rs_udp s \<and> length p \<le> maxPacketSize) \<Longrightarrow>
    s' \<in> set (udp_round C r s) \<Longrightarrow> runtime_step E C s s'"
| tun: "\<not> rs_crashed s \<Longrightarrow> rs_tunLoop s = Reading \<Longrightarrow> (\<And>p. r = Inr p \<Longrightarrow> length p \<le> maxPacketSize) \<Longrightarrow>
    s' \<in> set (tun_round C r s) \<Longrightarrow> runtime_step E C s s'"
| control: "\<not> rs_crashed s \<Longrightarrow> \<not> rs_stop s \<Longrightarrow> (\<And>p. op \<noteq> OpPacket p) \<Longrightarrow> exec E now op (rs_driver s) = Some d \<Longrightarrow>
    runtime_step E C s (s\<lparr>rs_driver := d\<rparr>)"
| close_stop: "\<not> rs_crashed s \<Longrightarrow> \<not> rs_stop s \<Longrightarrow> runtime_step E C s (s\<lparr>rs_stop := True\<rparr>)"
| close_io: "\<not> rs_crashed s \<Longrightarrow> rs_stop s \<Longrightarrow> runtime_step E C s (s\<lparr>rs_udp := False, rs_tun := False\<rparr>)"
| close_pending: "\<not> rs_crashed s \<Longrightarrow> rs_stop s \<Longrightarrow> runtime_step E C s (s\<lparr>rs_driver := stopPendingDDN (rs_driver s)\<rparr>)"
| worker_return: "\<not> rs_crashed s \<Longrightarrow> rs_stop s \<Longrightarrow> runtime_step E C s (s\<lparr>rs_running := (rs_running s)[i := False]\<rparr>)"
| egress_return: "\<not> rs_crashed s \<Longrightarrow> rs_stop s \<Longrightarrow> k < length (rs_egressLoops s) \<Longrightarrow> rs_egressLoops s ! k = EgressIdle \<Longrightarrow>
    runtime_step E C s (s\<lparr>rs_egressLoops := (rs_egressLoops s)[k := EgressReturned]\<rparr>)"

text \<open>The number of workers fits into 32 bits, the width in which tunnel identifiers are assigned to them.\<close>

inductive runtime_reachable :: "'ie env \<Rightarrow> (error \<Rightarrow> bool) \<Rightarrow> runtime_state \<Rightarrow> bool" for E C where
  start: "opt_workers (optionsFromConfig maxprocs (Some us)) < 2 ^ 32 \<Longrightarrow> runtime_reachable E C (runtime_New now maxprocs us aq udp tun)"
| step: "runtime_reachable E C s \<Longrightarrow> runtime_step E C s s' \<Longrightarrow> runtime_reachable E C s'"

section \<open>The queues\<close>

text \<open>The packets of one worker, in a log and in its queue.\<close>

definition of_worker :: "nat \<Rightarrow> nat \<Rightarrow> Packet list \<Rightarrow> Packet list" where
  "of_worker n i ps = filter (\<lambda>p. workerIndexFor n p = i) ps"

definition waiting :: "runtime_state \<Rightarrow> nat \<Rightarrow> Packet list" where
  "waiting s i = map job_packet (rs_queues s ! i)"

definition queues_ok :: "runtime_state \<Rightarrow> bool" where
  "queues_ok s \<longleftrightarrow>
     (let n = length (rs_queues s) in
      0 < n \<and> n < 2 ^ 32 \<and> length (rs_running s) = n \<and> channels (rs_driver s) = (n, d_outputCap (rs_driver s)) \<and>
      0 < d_outputCap (rs_driver s) \<and>
      (\<forall>i < n. of_worker n i (rs_accepted s) = of_worker n i (rs_done s) @ waiting s i \<and>
         length (rs_queues s ! i) \<le> rs_queueSize s))"

lemma of_worker_simps [simp]: "of_worker n i (ps @ qs) = of_worker n i ps @ of_worker n i qs" "of_worker n i [] = []"
  "of_worker n i [p] = (if workerIndexFor n p = i then [p] else [])"
  by (simp_all add: of_worker_def)

lemma queues_ok_start:
  assumes "opt_workers (optionsFromConfig maxprocs (Some us)) < 2 ^ 32"
  shows "queues_ok (runtime_New now maxprocs us aq udp tun)"
proof -
  let ?o = "optionsFromConfig maxprocs (Some us)"
  have pos: "0 < opt_workers ?o" "0 < opt_queueSize ?o"
    by (simp_all add: optionsFromConfig_def Let_def split: option.split)
  then have "0 < nat (opt_workers ?o)" "nat (opt_workers ?o) < 2 ^ 32" using assms by (simp_all add: nat_less_iff)
  then show ?thesis
    by (simp add: queues_ok_def runtime_New_def startWorkers_def New_def channels_def waiting_def Let_def nth_append)
qed

lemma send_job_ok:
  assumes "queues_ok s" "(s', e) \<in> set (send_job job s)"
  shows "queues_ok s'"
proof -
  let ?n = "length (rs_queues s)" and ?i = "workerIndexFor (length (rs_queues s)) (job_packet job)"
  have "?i < ?n" using assms(1) by (intro workerIndexFor_bound) (auto simp: queues_ok_def Let_def)
  with assms show ?thesis
    by (auto simp: send_job_def queues_ok_def waiting_def nth_list_update Let_def split: if_splits)
qed

text \<open>What is outside the queues does not matter to them.\<close>

lemma queues_ok_upd [simp]:
  "queues_ok (s\<lparr>rs_stop := a\<rparr>) = queues_ok s" "queues_ok (s\<lparr>rs_udp := a\<rparr>) = queues_ok s" "queues_ok (s\<lparr>rs_tun := a\<rparr>) = queues_ok s"
  "queues_ok (s\<lparr>rs_udpLoop := l\<rparr>) = queues_ok s" "queues_ok (s\<lparr>rs_tunLoop := l\<rparr>) = queues_ok s"
  "queues_ok (s\<lparr>rs_resp := r\<rparr>) = queues_ok s" "queues_ok (s\<lparr>rs_egressLoops := e\<rparr>) = queues_ok s"
  "queues_ok (s\<lparr>rs_taken := n\<rparr>) = queues_ok s" "queues_ok (s\<lparr>rs_sent := o'\<rparr>) = queues_ok s"
  "queues_ok (s\<lparr>rs_runtimeIOErrors := c\<rparr>) = queues_ok s" "queues_ok (s\<lparr>rs_egressErrors := c\<rparr>) = queues_ok s"
  "queues_ok (s\<lparr>rs_crashed := a\<rparr>) = queues_ok s" "queues_ok (s\<lparr>rs_running := (rs_running s)[i := a]\<rparr>) = queues_ok s"
  by (simp_all add: queues_ok_def waiting_def)

lemma count_io_ok [simp]: "queues_ok (count_io e s) = queues_ok s" "queues_ok (dispatch_done e s) = queues_ok s"
  by (simp_all add: count_io_def dispatch_done_def Let_def)

lemma queues_ok_driver: "queues_ok s \<Longrightarrow> channels d = channels (rs_driver s) \<Longrightarrow> queues_ok (s\<lparr>rs_driver := d\<rparr>)"
  by (simp add: queues_ok_def channels_def waiting_def)

lemma round_ok:
  "queues_ok s \<Longrightarrow> s' \<in> set (udp_round C r s) \<Longrightarrow> queues_ok s'"
  "queues_ok s \<Longrightarrow> s' \<in> set (tun_round C r s) \<Longrightarrow> queues_ok s'"
  by (auto simp: udp_round_def tun_round_def enqueuePacket_def split: sum.splits if_splits option.splits dest: send_job_ok)

text \<open>A worker takes the packet that has waited longest.\<close>

definition kept :: "runtime_state \<Rightarrow> runtime_state \<Rightarrow> bool" where
  "kept s s' \<longleftrightarrow> rs_accepted s' = rs_accepted s \<and> rs_queueSize s' = rs_queueSize s \<and> rs_stop s' = rs_stop s \<and> rs_udp s' = rs_udp s \<and>
     rs_tun s' = rs_tun s \<and> rs_egressLoops s' = rs_egressLoops s \<and> rs_taken s' = rs_taken s \<and> rs_sent s' = rs_sent s \<and>
     rs_crashed s' = rs_crashed s \<and> rs_tunLoop s' = rs_tunLoop s"

lemma run_job_cases:
  assumes "s' \<in> set (run_job E now i s)"
  obtains job jobs d result where "rs_queues s ! i = job # jobs" "process E now i (job_packet job) (rs_driver s) = Some (d, result)"
    "rs_queues s' = (rs_queues s)[i := jobs]" "rs_done s' = rs_done s @ [job_packet job]" "kept s s'"
    "rs_running s' = rs_running s \<or> rs_stop s \<and> rs_running s' = (rs_running s)[i := False]"
    "rs_driver s' = d \<or>
       rs_stop s \<and> rs_driver s' = d\<lparr>d_egress := d_egress (rs_driver s), d_output := d_output (rs_driver s)\<rparr>"
proof (cases "rs_queues s ! i")
  case (Cons job jobs)
  obtain d result where *: "process E now i (job_packet job) (rs_driver s) = Some (d, result)"
    using process_total [of E now "job_packet job" _ "rs_driver s"]
    by (fastforce simp: process_def Let_def split: PacketDirection.splits)
  show thesis
    by (rule that [OF Cons *]) (use assms Cons * in \<open>auto simp: run_job_def kept_def Let_def split: if_splits\<close>)
qed (use assms in \<open>simp add: run_job_def\<close>)

lemma run_job_ok:
  assumes ok: "queues_ok s" and i: "i < length (rs_queues s)" and step: "s' \<in> set (run_job E now i s)"
  shows "queues_ok s'"
  using step
proof (rule run_job_cases)
  fix job jobs d result
  assume q: "rs_queues s ! i = job # jobs" and p: "process E now i (job_packet job) (rs_driver s) = Some (d, result)"
    and s': "rs_queues s' = (rs_queues s)[i := jobs]" "rs_done s' = rs_done s @ [job_packet job]" "kept s s'"
    and run: "rs_running s' = rs_running s \<or> rs_stop s \<and> rs_running s' = (rs_running s)[i := False]"
    and d': "rs_driver s' = d \<or>
       rs_stop s \<and> rs_driver s' = d\<lparr>d_egress := d_egress (rs_driver s), d_output := d_output (rs_driver s)\<rparr>"
  have ch: "channels (rs_driver s') = channels (rs_driver s)"
    using d' process_channels(1) [OF p] by (auto simp: channels_def)
  let ?n = "length (rs_queues s)"
  have own: "of_worker ?n i (rs_accepted s) = of_worker ?n i (rs_done s) @ job_packet job # map job_packet jobs"
    using ok i q by (simp add: queues_ok_def waiting_def Let_def)
  then have "job_packet job \<in> set (of_worker (length (rs_queues s)) i (rs_accepted s))" by simp
  then have "workerIndexFor (length (rs_queues s)) (job_packet job) = i" by (simp add: of_worker_def)
  then show ?thesis
    using ok i q s' run ch own
    by (auto simp: queues_ok_def waiting_def kept_def channels_def nth_list_update Let_def)
qed

section \<open>What is written\<close>

fun loop_outcome :: "egress_loop \<Rightarrow> PacketOutcome list" where
  "loop_outcome (WriteUDP outcome) = [outcome]"
| "loop_outcome (WriteTUN outcome) = [outcome]"
| "loop_outcome _ = []"

definition in_flight :: "runtime_state \<Rightarrow> PacketOutcome list" where
  "in_flight s = concat (map loop_outcome (rs_egressLoops s))"

definition taken :: "runtime_state \<Rightarrow> PacketOutcome list" where
  "taken s = take (rs_taken s) (d_egress (rs_driver s))"

text \<open>Every outcome is written once at most, and a single loop keeps the order.\<close>

definition written_ok :: "runtime_state \<Rightarrow> bool" where
  "written_ok s \<longleftrightarrow> rs_taken s \<le> length (d_egress (rs_driver s)) \<and> mset (rs_sent s) + mset (in_flight s) \<subseteq># mset (taken s) \<and>
     (length (rs_egressLoops s) \<le> 1 \<longrightarrow> subseq (rs_sent s @ in_flight s) (taken s))"

lemma written_ok_cong:
  assumes "rs_egressLoops s' = rs_egressLoops s" "rs_taken s' = rs_taken s" "rs_sent s' = rs_sent s"
    and "prefix (d_egress (rs_driver s)) (d_egress (rs_driver s'))"
  shows "written_ok s \<Longrightarrow> written_ok s'"
  using assms by (auto simp: written_ok_def taken_def in_flight_def prefix_def)

lemma in_flight_update:
  assumes "k < length loops"
  shows "mset (concat (map loop_outcome (loops[k := l]))) + mset (loop_outcome (loops ! k)) =
    mset (concat (map loop_outcome loops)) + mset (loop_outcome l)"
  using assms by (induction loops arbitrary: k) (auto split: nat.split)

lemma written_ok_take:
  assumes ok: "written_ok s" and k: "k < length (rs_egressLoops s)" "rs_egressLoops s ! k = EgressIdle"
    and t: "rs_taken s < length (d_egress (rs_driver s))"
  shows "written_ok (egress_take k s)"
proof -
  let ?out = "d_egress (rs_driver s) ! rs_taken s"
  have new: "loop_outcome (write_check s ?out) = [] \<or> loop_outcome (write_check s ?out) = [?out]"
    by (simp add: write_check_def split: PayloadFormat.split)
  have tk: "taken (egress_take k s) = taken s @ [?out]"
    using t by (simp add: taken_def egress_take_def take_Suc_conv_app_nth)
  have "mset (in_flight (egress_take k s)) = mset (in_flight s) + mset (loop_outcome (write_check s ?out))"
    using in_flight_update [OF k(1), of "write_check s ?out"] k(2) by (simp add: in_flight_def egress_take_def)
  then have "mset (rs_sent s) + mset (in_flight (egress_take k s)) \<subseteq># mset (taken (egress_take k s))"
    using ok new by (auto simp: tk written_ok_def intro: subset_mset.order_trans)
  moreover have "subseq (rs_sent s @ in_flight (egress_take k s)) (taken (egress_take k s))" if one: "length (rs_egressLoops s) \<le> 1"
  proof -
    from one k have "k = 0" "rs_egressLoops s = [EgressIdle]" by (simp, cases "rs_egressLoops s") auto
    then have "in_flight (egress_take k s) = loop_outcome (write_check s ?out)" and "subseq (rs_sent s) (taken s)"
      using ok one by (simp_all add: in_flight_def egress_take_def written_ok_def)
    then show ?thesis using new unfolding tk by (auto intro: list_emb_append_mono)
  qed
  ultimately show ?thesis
    using t by (simp add: written_ok_def egress_take_def)
qed

lemma written_ok_written:
  assumes ok: "written_ok s" and k: "k < length (rs_egressLoops s)" and out: "loop_outcome (rs_egressLoops s ! k) = [outcome]"
  shows "written_ok (egress_written C k outcome err s)"
proof -
  let ?s = "s\<lparr>rs_egressLoops := (rs_egressLoops s)[k := EgressIdle]\<rparr>"
  have fl: "mset (in_flight ?s) + {#outcome#} = mset (in_flight s)"
    using in_flight_update [OF k, of EgressIdle] out by (simp add: in_flight_def)
  have one: "in_flight ?s = [] \<and> in_flight s = [outcome]" if "length (rs_egressLoops s) \<le> 1"
    using that k out by (cases "rs_egressLoops s") (auto simp: in_flight_def)
  have *: "written_ok (egress_written C k outcome err s) \<longleftrightarrow> rs_taken s \<le> length (d_egress (rs_driver s)) \<and>
      mset (rs_sent s) + (if err = None then {#outcome#} else {#}) + mset (in_flight ?s) \<subseteq># mset (taken s) \<and>
      (length (rs_egressLoops s) \<le> 1 \<longrightarrow>
         subseq (rs_sent s @ (if err = None then [outcome] else []) @ in_flight ?s) (taken s))"
    by (auto simp: egress_written_def written_ok_def in_flight_def taken_def Let_def split: option.split)
  have "mset (rs_sent s) + mset (in_flight ?s) + {#outcome#} \<subseteq># mset (taken s)"
    using ok unfolding written_ok_def fl [symmetric] by (simp add: ac_simps)
  moreover have "mset (rs_sent s) + mset (in_flight ?s) \<subseteq># mset (taken s)"
    by (rule subset_mset.order_trans [OF _ calculation]) simp
  moreover have "subseq (rs_sent s) (taken s)" if "subseq (rs_sent s @ [outcome]) (taken s)"
    using that by (rule subseq_order.order_trans [rotated]) (simp add: prefix_imp_subseq)
  ultimately show ?thesis
    using ok one unfolding * by (auto simp: written_ok_def ac_simps)
qed

lemma written_ok_write:
  assumes "written_ok s" "k < length (rs_egressLoops s)"
  shows "written_ok (egress_write C k err s)"
  using assms written_ok_cong [OF _ _ _ _ assms(1)]
  by (auto simp: egress_write_def intro!: written_ok_written split: egress_loop.split)

section \<open>The driver while it is open\<close>

fun live_loop :: "runtime_state \<Rightarrow> egress_loop \<Rightarrow> bool" where
  "live_loop s EgressIdle = True"
| "live_loop s (WriteUDP outcome) = rs_udp s"
| "live_loop s (WriteTUN outcome) = rs_tun s"
| "live_loop s EgressReturned = False"

definition open_ok :: "'ie env \<Rightarrow> runtime_state \<Rightarrow> bool" where
  "open_ok E s \<longleftrightarrow> rs_stop s \<or>
     \<not> rs_crashed s \<and> reachable E (rs_driver s) \<and> list_all id (rs_running s) \<and> list_all (live_loop s) (rs_egressLoops s)"

lemma live_loop_cong: "rs_udp s' = rs_udp s \<Longrightarrow> rs_tun s' = rs_tun s \<Longrightarrow> live_loop s' = live_loop s"
proof
  show "live_loop s' l = live_loop s l" if "rs_udp s' = rs_udp s" "rs_tun s' = rs_tun s" for l
    using that by (cases l) simp_all
qed

text \<open>Reading and waiting touch the queues and counters only.\<close>

definition reads_only :: "runtime_state \<Rightarrow> runtime_state \<Rightarrow> bool" where
  "reads_only s s' \<longleftrightarrow> rs_stop s' = rs_stop s \<and> rs_crashed s' = rs_crashed s \<and> rs_running s' = rs_running s \<and> rs_udp s' = rs_udp s \<and>
     rs_tun s' = rs_tun s \<and> rs_egressLoops s' = rs_egressLoops s \<and> rs_driver s' = rs_driver s \<and>
     rs_taken s' = rs_taken s \<and> rs_sent s' = rs_sent s"

lemma reads_only_ok:
  assumes "reads_only s s'"
  shows "open_ok E s \<Longrightarrow> open_ok E s'" "written_ok s \<Longrightarrow> written_ok s'"
  using assms live_loop_cong [of s' s] written_ok_cong [of s' s] by (simp_all add: reads_only_def open_ok_def)

lemma reads_only_simps [simp]:
  "reads_only s (count_io e s') = reads_only s s'" "reads_only s (dispatch_done e s') = reads_only s s'"
  "reads_only s (s'\<lparr>rs_udpLoop := l\<rparr>) = reads_only s s'" "reads_only s (s'\<lparr>rs_tunLoop := l\<rparr>) = reads_only s s'" "reads_only s s"
  by (simp_all add: reads_only_def count_io_def dispatch_done_def Let_def)

lemma reads_only_send: "(s', e) \<in> set (send_job job s) \<Longrightarrow> reads_only s s'"
  by (auto simp: send_job_def reads_only_def Let_def split: if_splits)

lemma reads_only_rounds:
  "s' \<in> set (udp_round C r s) \<Longrightarrow> reads_only s s'" "s' \<in> set (tun_round C r s) \<Longrightarrow> reads_only s s'"
  "s' \<in> set (dispatch_wait s) \<Longrightarrow> reads_only s s'"
  by (auto simp: udp_round_def tun_round_def dispatch_wait_def enqueuePacket_def
      split: sum.splits if_splits option.splits dest: reads_only_send)

lemma dispatch_wait_queues: "queues_ok s \<Longrightarrow> s' \<in> set (dispatch_wait s) \<Longrightarrow> queues_ok s'"
  by (auto simp: dispatch_wait_def split: if_splits option.splits)

lemma run_job_open:
  assumes inv: "queues_ok s" "written_ok s" "open_ok E s" and i: "i < length (rs_queues s)" and step: "s' \<in> set (run_job E now i s)"
  shows "open_ok E s' \<and> written_ok s'"
  using step
proof (rule run_job_cases)
  fix job jobs d result
  assume q: "rs_queues s ! i = job # jobs" and p: "process E now i (job_packet job) (rs_driver s) = Some (d, result)"
    and k: "kept s s'" and run: "rs_running s' = rs_running s \<or> rs_stop s \<and> rs_running s' = (rs_running s)[i := False]"
    and d': "rs_driver s' = d \<or>
       rs_stop s \<and> rs_driver s' = d\<lparr>d_egress := d_egress (rs_driver s), d_output := d_output (rs_driver s)\<rparr>"
  let ?n = "length (rs_queues s)"
  have "job_packet job \<in> set (of_worker ?n i (rs_accepted s))"
    using inv(1) i q by (simp add: queues_ok_def waiting_def Let_def)
  then have "workerIndexFor ?n (job_packet job) = i" by (simp add: of_worker_def)
  then have "exec E now (OpPacket (job_packet job)) (rs_driver s) = Some d"
    using p inv(1) by (simp add: DispatchPacket_def queues_ok_def channels_def Let_def)
  then have "reachable E (rs_driver s) \<Longrightarrow> reachable E d" by (blast intro: reachable.step)
  then have "open_ok E s'"
    using inv(3) k run d' live_loop_cong [of s' s] by (auto simp: open_ok_def kept_def)
  moreover have "written_ok s'"
    using inv(2) k d' process_channels(2) [OF p] by (intro written_ok_cong [of s' s]) (auto simp: kept_def)
  ultimately show ?thesis by simp
qed

lemma egress_take_fields:
  "rs_stop (egress_take k s) = rs_stop s" "rs_crashed (egress_take k s) = rs_crashed s"
  "rs_driver (egress_take k s) = rs_driver s" "rs_running (egress_take k s) = rs_running s"
  "queues_ok (egress_take k s) = queues_ok s" "live_loop (egress_take k s) = live_loop s"
  "rs_egressLoops (egress_take k s) = (rs_egressLoops s)[k := write_check s (d_egress (rs_driver s) ! rs_taken s)]"
  by (rule live_loop_cong | simp add: egress_take_def)+

lemma write_check_live: "live_loop s (write_check s out)"
  by (simp add: write_check_def split: PayloadFormat.split)

lemma list_all_update: "list_all P xs \<Longrightarrow> P x \<Longrightarrow> list_all P (xs[k := x])"
  by (auto simp: list_all_iff dest: set_update_subset_insert [THEN subsetD])

lemma egress_take_open: "open_ok E s \<Longrightarrow> open_ok E (egress_take k s)"
  unfolding open_ok_def egress_take_fields by (blast intro: list_all_update write_check_live)

lemma egress_written_fields:
  "rs_stop (egress_written C k out err s) = rs_stop s" "rs_crashed (egress_written C k out err s) = rs_crashed s"
  "rs_driver (egress_written C k out err s) = rs_driver s" "rs_running (egress_written C k out err s) = rs_running s"
  "queues_ok (egress_written C k out err s) = queues_ok s" "live_loop (egress_written C k out err s) = live_loop s"
  "rs_egressLoops (egress_written C k out err s) = (rs_egressLoops s)[k := EgressIdle]"
  by (cases err, (rule live_loop_cong | simp add: egress_written_def Let_def)+)+

lemma egress_written_open: "open_ok E s \<Longrightarrow> open_ok E (egress_written C k out err s)"
  unfolding open_ok_def egress_written_fields by (auto intro: list_all_update)

lemma egress_write_inv:
  assumes "queues_ok s" "open_ok E s" "k < length (rs_egressLoops s)"
  shows "queues_ok (egress_write C k err s) \<and> open_ok E (egress_write C k err s)"
proof (cases "rs_egressLoops s ! k")
  case (WriteTUN outcome)
  then have "rs_stop s" if "\<not> rs_tun s"
    using assms that by (metis list_all_length live_loop.simps(3) open_ok_def)
  with assms WriteTUN show ?thesis
    by (simp add: egress_write_def egress_written_open egress_written_fields) (simp add: open_ok_def)
qed (use assms in \<open>simp_all add: egress_write_def egress_written_open egress_written_fields\<close>)

text \<open>The invariant.\<close>

definition runtime_inv :: "'ie env \<Rightarrow> runtime_state \<Rightarrow> bool" where
  "runtime_inv E s \<longleftrightarrow> queues_ok s \<and> written_ok s \<and> open_ok E s"

lemma runtime_inv_start:
  assumes "opt_workers (optionsFromConfig maxprocs (Some us)) < 2 ^ 32"
  shows "runtime_inv E (runtime_New now maxprocs us aq udp tun)"
  using queues_ok_start [OF assms]
  by (auto simp: runtime_inv_def written_ok_def open_ok_def runtime_New_def startRuntime_def in_flight_def taken_def
      startWorkers_def list_all_iff New_def Let_def intro: reachable.init [unfolded New_def Let_def] split: if_splits)

lemma internal_step_inv: "internal_step E C s s' \<Longrightarrow> runtime_inv E s \<Longrightarrow> runtime_inv E s'"
  unfolding runtime_inv_def
proof (induction rule: internal_step.induct)
  case (work s i s' now)
  then show ?case using run_job_ok run_job_open by blast
next
  case (await s s')
  then show ?case using dispatch_wait_queues reads_only_ok reads_only_rounds(3) by blast
next
  case (egress_takes s k)
  then show ?case by (simp add: egress_take_open egress_take_fields(5) written_ok_take)
next
  case (egress_writes s k err)
  then show ?case using egress_write_inv written_ok_write by blast
qed

lemma runtime_step_inv: "runtime_step E C s s' \<Longrightarrow> runtime_inv E s \<Longrightarrow> runtime_inv E s'"
proof (induction rule: runtime_step.induct)
  case (internal s s')
  then show ?case by (rule internal_step_inv)
next
  case (udp s r s')
  then show ?case unfolding runtime_inv_def using round_ok(1) reads_only_ok reads_only_rounds(1) by blast
next
  case (tun s r s')
  then show ?case unfolding runtime_inv_def using round_ok(2) reads_only_ok reads_only_rounds(2) by blast
next
  case (control s op now d)
  from exec_grows [OF control(4)] have *: "channels d = channels (rs_driver s)" "prefix (d_egress (rs_driver s)) (d_egress d)"
    by (auto simp: grows_def)
  have "written_ok (s\<lparr>rs_driver := d\<rparr>)"
    using control.prems *(2) written_ok_cong [of "s\<lparr>rs_driver := d\<rparr>" s] by (simp add: runtime_inv_def)
  moreover have "live_loop (s\<lparr>rs_driver := d\<rparr>) = live_loop s" by (rule live_loop_cong) simp_all
  ultimately show ?case
    using control(1,2) control.prems queues_ok_driver [OF _ *(1)] reachable.step [OF _ control(4)]
    by (simp add: runtime_inv_def open_ok_def)
next
  case (egress_return s k)
  let ?s = "s\<lparr>rs_egressLoops := (rs_egressLoops s)[k := EgressReturned]\<rparr>"
  have m: "mset (in_flight ?s) = mset (in_flight s)"
    using in_flight_update [OF egress_return(3), of EgressReturned] egress_return(4) by (simp add: in_flight_def)
  have "in_flight ?s = in_flight s" if "length (rs_egressLoops s) \<le> 1"
    using that egress_return(3,4) by (cases "rs_egressLoops s") (auto simp: in_flight_def)
  with m have "written_ok ?s = written_ok s" by (auto simp: written_ok_def taken_def)
  with egress_return show ?case by (simp add: runtime_inv_def open_ok_def)
next
  case (close_pending s)
  have "channels (stopPendingDDN (rs_driver s)) = channels (rs_driver s)" by (simp add: stopPendingDDN_def channels_def)
  with close_pending show ?case
    by (auto simp: runtime_inv_def open_ok_def written_ok_def in_flight_def taken_def stopPendingDDN_def intro: queues_ok_driver)
qed (auto simp: runtime_inv_def open_ok_def written_ok_def in_flight_def taken_def)

lemma runtime_reachable_inv: "runtime_reachable E C s \<Longrightarrow> runtime_inv E s"
  by (induction rule: runtime_reachable.induct) (auto intro: runtime_inv_start runtime_step_inv)

end
