(* ===== verification/Workers_Props.thy ===== *)
theory Workers_Props
  imports Workers
begin

text \<open>
  The properties of the goroutines of the userspace forwarder: order, what is written, that waiting packets are
  always processed, and what \<open>Close\<close> can break.
\<close>

section \<open>Order\<close>

text \<open>The packets of a tunnel and of a UE address, as the read loops make them.\<close>

definition of_tunnel :: "u32 \<Rightarrow> Packet \<Rightarrow> bool" where
  "of_tunnel t p \<longleftrightarrow> pkt_Direction p = PacketDirectionUplink \<and> pkt_SEIDHint p = 0 \<and> pkt_TEID p = t"

definition of_ue :: "bytes \<Rightarrow> Packet \<Rightarrow> bool" where
  "of_ue ip p \<longleftrightarrow> pkt_Direction p = PacketDirectionDownlink \<and> pkt_SEIDHint p = 0 \<and> pkt_UEIP p = ip"

lemma tunnel_worker: "of_tunnel t p \<Longrightarrow> workerIndexFor n p = (if t = 0 then 0 else shardForTEID t n)"
  by (simp add: of_tunnel_def workerIndexFor_def)

lemma ue_worker: "of_ue ip p \<Longrightarrow> workerIndexFor n p = shardForIPv4 ip n"
  by (simp add: of_ue_def workerIndexFor_def)

lemma filter_of_worker: "(\<And>p. f p \<Longrightarrow> workerIndexFor n p = i) \<Longrightarrow> filter f (of_worker n i ps) = filter f ps"
  unfolding of_worker_def filter_filter by (rule arg_cong [where f = "\<lambda>g. filter g ps"]) auto

lemma flow_order:
  assumes inv: "runtime_inv E s" and f: "\<And>p. f p \<Longrightarrow> workerIndexFor (length (rs_queues s)) p = i" and "f p0"
  shows "filter f (rs_accepted s) = filter f (rs_done s) @ filter f (waiting s i)"
proof -
  let ?n = "length (rs_queues s)"
  have "workerIndexFor ?n p0 < ?n"
    using inv by (intro workerIndexFor_bound) (auto simp: runtime_inv_def queues_ok_def Let_def)
  then have "i < ?n" using f [OF \<open>f p0\<close>] by simp
  then have "of_worker ?n i (rs_accepted s) = of_worker ?n i (rs_done s) @ waiting s i"
    using inv by (simp add: runtime_inv_def queues_ok_def Let_def)
  then have "filter f (of_worker ?n i (rs_accepted s)) = filter f (of_worker ?n i (rs_done s) @ waiting s i)" by simp
  then show ?thesis using f by (simp add: filter_of_worker)
qed

text \<open>
  C17. Packets of one flow are processed in the order in which they were read. In every state the goroutines can
  reach, the packets read from one tunnel (or for one UE address) are those already processed, followed by those
  that wait in the queue of the one worker responsible for it, in the same order: none is lost, processed twice or
  overtaken between the read loop and the worker. No queue is longer than the configured size.
\<close>

theorem packets_in_order:
  assumes "runtime_reachable E C s"
  defines "n \<equiv> length (rs_queues s)"
  shows "filter (of_tunnel t) (rs_accepted s) =
      filter (of_tunnel t) (rs_done s) @ filter (of_tunnel t) (waiting s (if t = 0 then 0 else shardForTEID t n)) \<and>
    filter (of_ue ip) (rs_accepted s) = filter (of_ue ip) (rs_done s) @ filter (of_ue ip) (waiting s (shardForIPv4 ip n)) \<and>
    (\<forall>q \<in> set (rs_queues s). length q \<le> rs_queueSize s)"
proof (intro conjI)
  have inv: "runtime_inv E s" using assms(1) by (rule runtime_reachable_inv)
  have ex: "of_tunnel t \<lparr>pkt_Direction = PacketDirectionUplink, pkt_SEIDHint = 0, pkt_TEID = t, pkt_UEIP = [], pkt_Payload = []\<rparr>"
    "of_ue ip \<lparr>pkt_Direction = PacketDirectionDownlink, pkt_SEIDHint = 0, pkt_TEID = 0, pkt_UEIP = ip, pkt_Payload = []\<rparr>"
    by (simp_all add: of_tunnel_def of_ue_def)
  show "filter (of_tunnel t) (rs_accepted s) =
      filter (of_tunnel t) (rs_done s) @ filter (of_tunnel t) (waiting s (if t = 0 then 0 else shardForTEID t n))"
    unfolding n_def by (rule flow_order [where f = "of_tunnel t", OF inv _ ex(1)]) (rule tunnel_worker)
  show "filter (of_ue ip) (rs_accepted s) = filter (of_ue ip) (rs_done s) @ filter (of_ue ip) (waiting s (shardForIPv4 ip n))"
    unfolding n_def by (rule flow_order [where f = "of_ue ip", OF inv _ ex(2)]) (rule ue_worker)
  show "\<forall>q \<in> set (rs_queues s). length q \<le> rs_queueSize s"
    using inv by (auto simp: runtime_inv_def queues_ok_def Let_def in_set_conv_nth)
qed

definition ex_runtime :: runtime_state where
  "ex_runtime = runtime_New 0 2 None None True True"

lemma ex_runtime_reachable: "runtime_reachable E C ex_runtime"
  unfolding ex_runtime_def by (rule runtime_reachable.start) (simp add: optionsFromConfig_def)

definition ex_read :: runtime_state where
  "ex_read = fst (hd (enqueuePacket (udp_packet ex_gpdu) ex_runtime))"

lemma ex_runtime_fields:
  "rs_queues ex_runtime = [[], []]" "rs_queueSize ex_runtime = 1024" "\<not> rs_stop ex_runtime" "\<not> rs_crashed ex_runtime"
  "rs_udpLoop ex_runtime = Reading" "rs_udp ex_runtime" "rs_accepted ex_runtime = []" "rs_done ex_runtime = []"
  "rs_egressLoops ex_runtime = [EgressIdle, EgressIdle]" "rs_tun ex_runtime" "rs_taken ex_runtime = 0" "rs_sent ex_runtime = []"
  by (simp_all add: ex_runtime_def runtime_New_def optionsFromConfig_def startWorkers_def startRuntime_def backend_start_def
      Let_def numeral_2_eq_2)

lemma ex_teid: "udp_packet ex_gpdu = ex_packet"
  by (simp add: udp_packet_def ex_packet_def uplinkTEID_def ex_gpdu_def be32_def)

lemma ex_worker: "workerIndexFor 2 ex_packet = 1" "workerIndexFor (Suc (Suc 0)) ex_packet = Suc 0"
  by (simp_all add: workerIndexFor_def ex_packet_def shardForTEID_def)

lemma ex_read_fields:
  "rs_queues ex_read = [[], [\<lparr>job_packet = ex_packet, job_resp = False\<rparr>]]" "rs_accepted ex_read = [ex_packet]"
  "enqueuePacket (udp_packet ex_gpdu) ex_runtime = [(ex_read, None)]"
  by (simp_all add: ex_read_def enqueuePacket_def send_job_def ex_runtime_fields ex_teid ex_worker Let_def)

lemma ex_read_reachable: "runtime_reachable E C ex_read"
proof (rule runtime_reachable.step [OF ex_runtime_reachable runtime_step.udp [where r = "Inr ex_gpdu"]])
  show "ex_read \<in> set (udp_round C (Inr ex_gpdu) ex_runtime)"
    by (simp add: udp_round_def ex_read_fields count_io_def)
qed (auto simp: ex_runtime_fields maxPacketSize_def ex_gpdu_def)

theorem packets_in_order_witness:
  "filter (of_tunnel 7) (rs_accepted ex_read) = [ex_packet] \<and>
   filter (of_tunnel 7) (rs_done ex_read) @ filter (of_tunnel 7) (waiting ex_read 1) = [ex_packet]"
proof -
  have "filter (of_tunnel 7) (rs_accepted ex_read) = [ex_packet]"
    by (simp add: ex_read_fields ex_packet_def of_tunnel_def)
  moreover have "shardForTEID 7 (length (rs_queues ex_read)) = 1"
    by (simp add: ex_read_fields shardForTEID_def)
  ultimately show ?thesis
    using packets_in_order [OF ex_read_reachable, of 7] by simp
qed

section \<open>Refinement\<close>



section \<open>Progress\<close>

definition work_left :: "runtime_state \<Rightarrow> nat" where
  "work_left s = 3 * sum_list (map length (rs_queues s)) + 2 * egress_pending s + length (in_flight s) +
     (if rs_tunLoop s = Waiting then 1 else 0)"

lemma sum_list_length_tl:
  "i < length qs \<Longrightarrow> qs ! i = q # r \<Longrightarrow> sum_list (map length (qs[i := r])) + 1 = sum_list (map length qs)"
  by (induction qs arbitrary: i) (auto split: nat.splits)

lemma work_left_job:
  assumes "i < length (rs_queues s)" "s' \<in> set (run_job E now i s)" "\<not> rs_stop s"
  shows "work_left s' < work_left s"
  using assms(2)
proof (rule run_job_cases)
  fix job jobs d result
  assume q: "rs_queues s ! i = job # jobs" and p: "process E now i (job_packet job) (rs_driver s) = Some (d, result)"
    and s': "rs_queues s' = (rs_queues s)[i := jobs]" "kept s s'"
    and d': "rs_driver s' = d \<or>
       rs_stop s \<and> rs_driver s' = d\<lparr>d_egress := d_egress (rs_driver s), d_output := d_output (rs_driver s)\<rparr>"
  have pending: "egress_pending s' \<le> egress_pending s + 1"
    using d' assms(3) process_channels(2) [OF p] sent_length [of result] s'(2) by (auto simp: egress_pending_def kept_def)
  have same: "in_flight s' = in_flight s" "rs_tunLoop s' = rs_tunLoop s"
    using s'(2) by (simp_all add: kept_def in_flight_def)
  show ?thesis
    using sum_list_length_tl [OF assms(1) q] pending unfolding work_left_def s'(1) same by linarith
qed

lemma work_left_wait: "rs_tunLoop s = Waiting \<Longrightarrow> s' \<in> set (dispatch_wait s) \<Longrightarrow> work_left s' < work_left s"
proof -
  assume w: "rs_tunLoop s = Waiting" and "s' \<in> set (dispatch_wait s)"
  then obtain e where s': "s' = dispatch_done e s"
    by (auto simp: dispatch_wait_def split: if_splits option.splits)
  have same: "rs_queues s' = rs_queues s" "egress_pending s' = egress_pending s" "in_flight s' = in_flight s" "rs_tunLoop s' = Reading"
    by (simp_all add: s' dispatch_done_def egress_pending_def in_flight_def Let_def)
  show ?thesis unfolding work_left_def same w by simp
qed

lemma length_in_flight:
  assumes "k < length loops"
  shows "length (concat (map loop_outcome (loops[k := l]))) + length (loop_outcome (loops ! k)) =
    length (concat (map loop_outcome loops)) + length (loop_outcome l)"
  using in_flight_update [OF assms, of l] by (metis size_mset size_union)

lemma work_left_take:
  assumes "k < length (rs_egressLoops s)" "rs_egressLoops s ! k = EgressIdle" "rs_taken s < length (d_egress (rs_driver s))"
  shows "work_left (egress_take k s) < work_left s"
proof -
  let ?l = "write_check s (d_egress (rs_driver s) ! rs_taken s)"
  have "length (loop_outcome ?l) \<le> 1" by (cases ?l) simp_all
  moreover have "length (in_flight (egress_take k s)) = length (in_flight s) + length (loop_outcome ?l)"
    using length_in_flight [OF assms(1), of ?l] assms(2) by (simp add: in_flight_def egress_take_def)
  moreover have "egress_pending (egress_take k s) + 1 = egress_pending s"
    using assms(3) by (simp add: egress_pending_def egress_take_def)
  moreover have "rs_queues (egress_take k s) = rs_queues s" "rs_tunLoop (egress_take k s) = rs_tunLoop s"
    by (simp_all add: egress_take_def)
  ultimately show ?thesis unfolding work_left_def by simp
qed

lemma work_left_write:
  assumes "open_ok E s" "\<not> rs_stop s" "k < length (rs_egressLoops s)" "loop_outcome (rs_egressLoops s ! k) = [out]"
  shows "work_left (egress_write C k err s) < work_left s"
proof -
  have *: "work_left (egress_written C k out err s) < work_left s" for err
  proof -
    have "length (in_flight (egress_written C k out err s)) + 1 = length (in_flight s)"
      using length_in_flight [OF assms(3), of EgressIdle] assms(4) by (simp add: in_flight_def egress_written_fields)
    moreover have "egress_pending (egress_written C k out err s) = egress_pending s"
      "rs_queues (egress_written C k out err s) = rs_queues s" "rs_tunLoop (egress_written C k out err s) = rs_tunLoop s"
      by (cases err; simp add: egress_written_def egress_pending_def Let_def)+
    ultimately show ?thesis unfolding work_left_def by simp
  qed
  have "live_loop s (rs_egressLoops s ! k)"
    using assms by (auto simp: open_ok_def list_all_length)
  then show ?thesis
    using * assms(4) by (auto simp: egress_write_def split: egress_loop.splits)
qed

lemma internal_step_decreases:
  assumes "internal_step E C s s'" "runtime_inv E s" "\<not> rs_stop s"
  shows "work_left s' < work_left s" "\<not> rs_stop s'"
proof -
  show "work_left s' < work_left s"
    using assms
  proof (induction rule: internal_step.induct)
    case (egress_writes s k err)
    then have "\<exists>out. loop_outcome (rs_egressLoops s ! k) = [out]" by (cases "rs_egressLoops s ! k") simp_all
    with egress_writes show ?case by (auto simp: runtime_inv_def intro: work_left_write)
  qed (auto intro: work_left_job work_left_wait work_left_take)
  show "\<not> rs_stop s'"
    using assms(1,3)
  proof (induction rule: internal_step.induct)
    case (work s i s' now)
    from work(4) show ?case by (rule run_job_cases) (use work(5) in \<open>simp add: kept_def\<close>)
  next
    case (await s s')
    then show ?case using reads_only_rounds(3) by (auto simp: reads_only_def)
  qed (auto simp: egress_take_fields egress_write_def egress_written_fields split: egress_loop.split)
qed

definition drained :: "runtime_state \<Rightarrow> bool" where
  "drained s \<longleftrightarrow> list_all (\<lambda>q. q = []) (rs_queues s) \<and> rs_taken s = length (d_egress (rs_driver s)) \<and> in_flight s = []"

lemma internal_run:
  assumes "(internal_step E C ^^ m) s s'" "runtime_inv E s" "\<not> rs_stop s"
  shows "runtime_inv E s' \<and> \<not> rs_stop s' \<and> m + work_left s' \<le> work_left s"
  using assms(1)
proof (induction m arbitrary: s')
  case (Suc m)
  then obtain t where "(internal_step E C ^^ m) s t" "internal_step E C t s'" by auto
  with Suc.IH internal_step_inv internal_step_decreases [of E C t s'] show ?case by fastforce
qed (use assms in simp)

lemma loops_kept: "internal_step E C s s' \<Longrightarrow> length (rs_egressLoops s') = length (rs_egressLoops s)"
proof (induction rule: internal_step.induct)
  case (work s i s' now)
  from work(4) show ?case by (rule run_job_cases) (simp add: kept_def)
next
  case (await s s')
  then show ?case using reads_only_rounds(3) by (auto simp: reads_only_def)
qed (auto simp: egress_take_fields egress_write_def egress_written_fields split: egress_loop.split)

lemma loops_kept_run: "(internal_step E C ^^ m) s s' \<Longrightarrow> length (rs_egressLoops s') = length (rs_egressLoops s)"
  by (induction m arbitrary: s') (auto simp: loops_kept)

lemma job_can_run:
  assumes inv: "runtime_inv E s" and "\<not> rs_stop s" and i: "i < length (rs_queues s)" "rs_queues s ! i \<noteq> []"
    and none: "rs_taken s = length (d_egress (rs_driver s))"
  shows "\<exists>s'. internal_step E C s s'"
proof -
  obtain job jobs where q: "rs_queues s ! i = job # jobs" using i(2) by (cases "rs_queues s ! i") auto
  obtain d r where p: "process E 0 i (job_packet job) (rs_driver s) = Some (d, r)"
    using process_total [of E 0 "job_packet job" _ "rs_driver s"]
    by (fastforce simp: process_def Let_def split: PacketDirection.splits)
  have "0 < d_outputCap d"
    using inv process_channels(1) [OF p] by (simp add: runtime_inv_def queues_ok_def channels_def Let_def)
  then have "length (d_egress d) - rs_taken s \<le> d_outputCap d"
    using process_channels(2) [OF p] sent_length [of r] none by simp
  then have "run_job E 0 i s \<noteq> []"
    by (simp add: run_job_def q p egress_pending_def Let_def)
  then obtain s' where "s' \<in> set (run_job E 0 i s)" by (meson last_in_set)
  moreover have "rs_running s ! i" "\<not> rs_crashed s"
    using inv assms(2) i(1) by (simp_all add: runtime_inv_def queues_ok_def open_ok_def list_all_length Let_def)
  ultimately show ?thesis using i(1) internal_step.work by blast
qed

lemma progress:
  assumes inv: "runtime_inv E s" and opened: "\<not> rs_stop s" and loops: "rs_egressLoops s \<noteq> []" and "\<not> drained s"
  shows "\<exists>s'. internal_step E C s s'"
proof (cases "in_flight s = []")
  case False
  then obtain k where k: "k < length (rs_egressLoops s)" "loop_outcome (rs_egressLoops s ! k) \<noteq> []"
    by (auto simp: in_flight_def in_set_conv_nth)
  then show ?thesis
    using inv opened internal_step.egress_writes [of s k E C None]
    by (cases "rs_egressLoops s ! k") (auto simp: runtime_inv_def open_ok_def)
next
  case True
  have live: "live_loop s (rs_egressLoops s ! 0)" "\<not> rs_crashed s" and le: "rs_taken s \<le> length (d_egress (rs_driver s))"
    using inv opened loops by (auto simp: runtime_inv_def open_ok_def written_ok_def list_all_length)
  have "loop_outcome (rs_egressLoops s ! 0) = []" using True loops by (auto simp: in_flight_def)
  with live(1) have "rs_egressLoops s ! 0 = EgressIdle" by (cases "rs_egressLoops s ! 0") auto
  then have "rs_taken s < length (d_egress (rs_driver s)) \<Longrightarrow> ?thesis"
    using live(2) loops internal_step.egress_takes [of s 0 E C] by auto
  moreover have "\<exists>i < length (rs_queues s). rs_queues s ! i \<noteq> []" if "rs_taken s = length (d_egress (rs_driver s))"
    using that True \<open>\<not> drained s\<close> by (auto simp: drained_def list_all_length)
  ultimately show ?thesis using le job_can_run [OF inv opened] by (auto simp: le_less)
qed

text \<open>
  C19. Packets get through. While the forwarder is open, its goroutines cannot go on for ever without new packets or
  rules: \<open>work_left\<close> bounds the number of steps. And they stop only when every queue is empty and every
  published outcome has been handed to the socket or the device; a full \<open>egressCh\<close> never blocks a worker for good.
\<close>

theorem packets_get_through:
  assumes "runtime_reachable E C s" "\<not> rs_stop s" "(internal_step E C ^^ m) s s'"
  shows "m \<le> work_left s \<and> (rs_egressLoops s \<noteq> [] \<longrightarrow> drained s' \<or> (\<exists>s''. internal_step E C s' s''))"
proof -
  have "runtime_inv E s' \<and> \<not> rs_stop s' \<and> m + work_left s' \<le> work_left s"
    by (rule internal_run [OF assms(3) runtime_reachable_inv [OF assms(1)] assms(2)])
  moreover have "rs_egressLoops s \<noteq> [] \<Longrightarrow> rs_egressLoops s' \<noteq> []"
    using loops_kept_run [OF assms(3)] by auto
  ultimately show ?thesis using progress by fastforce
qed

theorem packets_get_through_witness:
  "\<exists>s'. internal_step ex_env (\<lambda>_. False) ex_read s' \<and> \<not> drained ex_read \<and> work_left ex_read = 3"
proof -
  have s: "\<not> rs_stop ex_read" "rs_egressLoops ex_read \<noteq> []" "work_left ex_read = 3"
    by (simp_all add: ex_read_def enqueuePacket_def send_job_def ex_runtime_fields ex_teid ex_worker Let_def)
      (simp add: work_left_def ex_runtime_def egress_pending_def in_flight_def runtime_New_def startWorkers_def startRuntime_def
        backend_start_def New_def optionsFromConfig_def Let_def numeral_2_eq_2)
  have "\<not> drained ex_read" by (simp add: drained_def ex_read_fields)
  with packets_get_through [where m = 0 and E = ex_env and C = "\<lambda>_. False", OF ex_read_reachable s(1)] s show ?thesis by auto
qed

section \<open>What can go wrong\<close>

lemma write_check_tun: "rs_tun s \<Longrightarrow> out_Format out = PayloadFormatRawIP \<Longrightarrow> write_check s out = WriteTUN out"
  by (simp add: write_check_def)

text \<open>Two egress loops can overtake each other, so packets of one flow can leave in another order than they were processed.\<close>

theorem egress_can_reorder:
  assumes "\<not> rs_crashed s" "rs_tun s" "rs_egressLoops s = EgressIdle # EgressIdle # ls"
    and "drop (rs_taken s) (d_egress (rs_driver s)) = a # b # rest"
    and "out_Format a = PayloadFormatRawIP" "out_Format b = PayloadFormatRawIP"
  shows "\<exists>s'. (internal_step E C)\<^sup>*\<^sup>* s s' \<and> rs_sent s' = rs_sent s @ [b, a]"
proof -
  let ?s1 = "egress_take 0 s" and ?s2 = "egress_take (Suc 0) (egress_take 0 s)"
  let ?s3 = "egress_write C (Suc 0) None ?s2" and ?s4 = "egress_write C 0 None (egress_write C (Suc 0) None ?s2)"
  have idx: "Suc (rs_taken s) < length (d_egress (rs_driver s))" "d_egress (rs_driver s) ! rs_taken s = a"
    "d_egress (rs_driver s) ! Suc (rs_taken s) = b"
    using arg_cong [OF assms(4), of length] arg_cong [OF assms(4), of "\<lambda>xs. xs ! 0"] arg_cong [OF assms(4), of "\<lambda>xs. xs ! 1"]
    by simp_all
  have s1: "rs_egressLoops ?s1 = WriteTUN a # EgressIdle # ls" "rs_taken ?s1 = Suc (rs_taken s)" "rs_tun ?s1" "\<not> rs_crashed ?s1"
    "rs_driver ?s1 = rs_driver s" "rs_sent ?s1 = rs_sent s"
    using assms idx by (simp_all add: egress_take_def write_check_tun)
  have s2: "rs_egressLoops ?s2 = WriteTUN a # WriteTUN b # ls" "rs_tun ?s2" "\<not> rs_crashed ?s2" "rs_sent ?s2 = rs_sent s"
    using assms idx s1 write_check_tun [OF s1(3) assms(6)] by (simp_all add: egress_take_def [of "Suc 0"])
  have s3: "rs_egressLoops ?s3 = WriteTUN a # EgressIdle # ls" "rs_tun ?s3" "\<not> rs_crashed ?s3" "rs_sent ?s3 = rs_sent s @ [b]"
    using s2 by (simp_all add: egress_write_def [of C "Suc 0"] egress_written_def)
  have "internal_step E C s ?s1" by (rule internal_step.egress_takes) (use assms idx in simp_all)
  moreover have "internal_step E C ?s1 ?s2" by (rule internal_step.egress_takes) (use s1 idx in simp_all)
  moreover have "internal_step E C ?s2 ?s3" by (rule internal_step.egress_writes) (use s2 in simp_all)
  moreover have "internal_step E C ?s3 ?s4" by (rule internal_step.egress_writes) (use s3 in simp_all)
  moreover have "rs_sent ?s4 = rs_sent s @ [b, a]"
    using s3 by (simp add: egress_write_def [of C 0] egress_written_def)
  ultimately show ?thesis by (meson rtranclp.rtrancl_into_rtrancl rtranclp.rtrancl_refl)
qed

text \<open>
  C36. Closing the forwarder can make it panic: whenever an egress loop is about to take an outcome for the TUN device,
  \<open>Close\<close> can set the device to nil between the check of \<open>write\<close> and the call, which then panics.
  (Before \<open>Close\<close> is called no goroutine panics.)
\<close>

theorem close_can_panic:
  assumes "\<not> rs_crashed s" "\<not> rs_stop s" "rs_tun s" "k < length (rs_egressLoops s)" "rs_egressLoops s ! k = EgressIdle"
    and "rs_taken s < length (d_egress (rs_driver s))" "out_Format (d_egress (rs_driver s) ! rs_taken s) = PayloadFormatRawIP"
  shows "\<exists>s'. (runtime_step E C)\<^sup>*\<^sup>* s s' \<and> rs_stop s' \<and> rs_crashed s'"
proof -
  let ?o = "d_egress (rs_driver s) ! rs_taken s"
  let ?s1 = "egress_take k s"
  let ?s2 = "?s1\<lparr>rs_stop := True\<rparr>"
  let ?s3 = "?s2\<lparr>rs_udp := False, rs_tun := False\<rparr>"
  have s1: "rs_egressLoops ?s1 ! k = WriteTUN ?o" "k < length (rs_egressLoops ?s1)" "\<not> rs_stop ?s1" "\<not> rs_crashed ?s1"
    using assms by (simp_all add: egress_take_fields write_check_tun)
  have "runtime_step E C s ?s1"
    by (rule runtime_step.internal, rule internal_step.egress_takes) (use assms in simp_all)
  moreover have "runtime_step E C ?s1 ?s2" by (rule runtime_step.close_stop) (use s1 in simp_all)
  moreover have "runtime_step E C ?s2 ?s3" by (rule runtime_step.close_io) (use s1 in simp_all)
  moreover have "runtime_step E C ?s3 (egress_write C k None ?s3)"
    by (rule runtime_step.internal, rule internal_step.egress_writes) (use s1 in simp_all)
  moreover have "rs_crashed (egress_write C k None ?s3)" "rs_stop (egress_write C k None ?s3)"
    using s1 by (simp_all add: egress_write_def)
  ultimately show ?thesis by (meson rtranclp.rtrancl_into_rtrancl rtranclp.rtrancl_refl)
qed

definition ex_out :: "bytes \<Rightarrow> PacketOutcome" where
  "ex_out p = \<lparr>out_SEID = 5, out_PDRID = 1, out_Action = PacketActionForward, out_Format = PayloadFormatRawIP, out_Payload = p,
     out_Peer = None\<rparr>"

definition ex_published :: runtime_state where
  "ex_published = ex_runtime\<lparr>rs_driver := (rs_driver ex_runtime)\<lparr>d_egress := [ex_out [1], ex_out [2]]\<rparr>\<rparr>"

theorem close_can_panic_witness: "\<exists>s'. (runtime_step ex_env (\<lambda>_. False))\<^sup>*\<^sup>* ex_published s' \<and> rs_stop s' \<and> rs_crashed s'"
  by (rule close_can_panic [where k = 1]) (simp_all add: ex_published_def ex_runtime_fields ex_out_def)

theorem egress_can_reorder_witness: "\<exists>s'. (internal_step E C)\<^sup>*\<^sup>* ex_published s' \<and> rs_sent s' = [ex_out [2], ex_out [1]]"
  using egress_can_reorder [of ex_published "[]" "ex_out [1]" "ex_out [2]" "[]" E C]
  by (simp add: ex_published_def ex_runtime_fields) (simp add: ex_out_def)

end
