(* ===== verification/Far_Release.thy ===== *)
theory Far_Release
  imports Userspace_Props
begin

text \<open>
  Buffered packets: how many are kept, and what happens to them when their FAR is updated from
  buffering to forwarding (\<open>UpdateFAR\<close> and \<open>handleFARTransitionLocked\<close> of the userspace driver).
\<close>

section \<open>Lemmas\<close>

lemma index_pdr_sessions [simp]: "snap_Sessions (index_pdr E seid sess snap pid) = snap_Sessions snap"
  by (simp add: index_pdr_def Let_def split: option.splits)

lemma index_pdrs_sessions: "snap_Sessions (foldl (index_pdr E seid sess) snap pids) = snap_Sessions snap"
  by (induction pids arbitrary: snap) simp_all

lemma index_sessions_sessions:
  "snap_Sessions (foldl (index_session E sessions) snap seids) i =
     (if i \<in> set seids \<and> sessions i \<noteq> None then map_option cloneSessionState (sessions i) else snap_Sessions snap i)"
proof (induction seids arbitrary: snap)
  case (Cons x xs)
  show ?case
    by (simp add: Cons.IH) (auto simp: index_session_def index_pdrs_sessions Let_def split: option.splits)
qed simp

lemma build_sessions:
  assumes "go_ranges (e_rng E)"
  shows "snap_Sessions (buildRuntimeSnapshot E now sessions tr) = (\<lambda>i. map_option cloneSessionState (sessions i))"
proof
  fix i
  have "set (rng64 (e_rng E) (dom sessions)) = dom sessions" using go_rangesD(4) [OF assms] by simp
  then show "snap_Sessions (buildRuntimeSnapshot E now sessions tr) i = map_option cloneSessionState (sessions i)"
    by (auto simp: buildRuntimeSnapshot_def index_sessions_sessions newRuntimeSnapshot_def Let_def)
qed

lemma downlink_entry_iff:
  "b \<in> set (downlink_entry E seid sess key pid) \<longleftrightarrow>
     (\<exists>pdr pdi. sess_PDRs sess pid = Some pdr \<and> pdr_PDI pdr = Some pdi \<and> pdi_UEIPv4 pdi \<noteq> [] \<and>
        ip_String (pdi_UEIPv4 pdi) = key \<and> pdi_SourceInterface pdi = Some (ie_SrcInterfaceCore (e_api E)) \<and>
        b = (mk_binding seid sess pdr)\<lparr>b_MatchedAdaptiveFlow := first_flow (e_rng E) sess\<rparr>)"
proof (cases "sess_PDRs sess pid")
  case (Some pdr)
  then show ?thesis
  proof (cases "pdr_PDI pdr")
    case pdi: (Some pdi)
    with Some show ?thesis
      by (cases "pdi_SourceInterface pdi") (auto simp: downlink_entry_def isCorePDR_def)
  qed (simp add: downlink_entry_def)
qed (simp add: downlink_entry_def)

text \<open>The binding found for the buffered packets of a core-side PDR is its own.\<close>

lemma find_buffered_core:
  assumes R: "go_ranges (e_rng E)" and wf: "sess_wf seid sess"
    and sess: "d_sessions d seid = Some sess" and pdr: "sess_PDRs sess pid = Some pdr"
    and pdi: "pdr_PDI pdr = Some pdi" "pdi_UEIPv4 pdi \<noteq> []"
      "pdi_SourceInterface pdi = Some (ie_SrcInterfaceCore (e_api E))"
    and cur: "snapshot_current E d" and snap: "snap_Sessions (d_snapshot d) seid \<noteq> None"
  shows "find_buffered_binding E now seid pdr d =
    Some ((mk_binding seid sess pdr)\<lparr>b_MatchedAdaptiveFlow := first_flow (e_rng E) sess\<rparr>)"
proof -
  let ?key = "ip_String (pdi_UEIPv4 pdi)"
  let ?b = "(mk_binding seid sess pdr)\<lparr>b_MatchedAdaptiveFlow := first_flow (e_rng E) sess\<rparr>"
  let ?P = "\<lambda>c. b_SEID c = seid \<and> pdr_ID (b_PDR c) = pdr_ID pdr"
  let ?l = "slice_at (snap_Downlink (d_snapshot d)) ?key"
  have set_l: "set ?l = {b. \<exists>i s p. d_sessions d i = Some s \<and> p \<in> dom (sess_PDRs s) \<and> b \<in> set (downlink_entry E i s ?key p)}"
    using cur set_all_entries [OF R] by (simp add: snapshot_current_def)
  have "?b \<in> set ?l" unfolding set_l downlink_entry_iff using sess pdr pdi by blast
  moreover have "?P ?b" by simp
  ultimately have "\<exists>c. c \<in> set ?l \<and> ?P c" by blast
  then have "find ?P ?l \<noteq> None" unfolding find_None_iff by simp
  then obtain c where c: "find ?P ?l = Some c" by blast
  then have "c \<in> set ?l" "?P c" by (auto simp: find_first_split)
  then obtain i s p q qi where q: "d_sessions d i = Some s" "sess_PDRs s p = Some q"
      "c = (mk_binding i s q)\<lparr>b_MatchedAdaptiveFlow := first_flow (e_rng E) s\<rparr>"
    unfolding set_l downlink_entry_iff by blast
  with \<open>?P c\<close> sess have same: "i = seid" "s = sess" "pdr_ID q = pdr_ID pdr" by auto
  from wf q(2) pdr same have "p = pid" by (auto simp: sess_wf_def keyed_def)
  with q same pdr have "c = ?b" by simp
  with c snap pdi show ?thesis by (simp add: find_buffered_binding_def Let_def)
qed

lemma transition_skip:
  assumes "d_sessions d seid = Some sess" "sess_wf seid sess" "slice_at (sess_Buffers sess) pid = []"
  shows "transition_pdr E now seid nxt d pid = Some d"
proof (cases "sess_PDRs sess pid")
  case (Some pdr)
  with assms(2) have "pdr_ID pdr = pid" by (simp add: sess_wf_def keyed_def)
  with Some assms show ?thesis by (simp add: transition_pdr_def Let_def)
qed (use assms in \<open>simp add: transition_pdr_def\<close>)

lemma transition_skip_all:
  assumes "d_sessions d seid = Some sess" "sess_wf seid sess" "\<forall>p \<in> set pids. slice_at (sess_Buffers sess) p = []"
  shows "foldO (transition_pdr E now seid nxt) d pids = Some d"
  using assms(3) by (induction pids) (simp_all add: transition_skip [OF assms(1,2)])

lemma foldO_append: "foldO f s (xs @ ys) = Option.bind (foldO f s xs) (\<lambda>t. foldO f t ys)"
  by (induction xs arbitrary: s) (simp_all add: Option.bind_assoc)

text \<open>A fold cannot succeed past an element at which it fails in every state an invariant allows.\<close>

lemma foldO_fails:
  assumes "x \<in> set xs" "P s" "\<And>s. P s \<Longrightarrow> f s x = None"
    and "\<And>s y t. P s \<Longrightarrow> y \<noteq> x \<Longrightarrow> f s y = Some t \<Longrightarrow> P t"
  shows "foldO f s xs = None"
  using assms(1,2)
proof (induction xs arbitrary: s)
  case (Cons y ys)
  show ?case
  proof (cases "y = x")
    case True
    then show ?thesis using Cons.prems(2) assms(3) by simp
  next
    case False
    then show ?thesis
      using Cons.IH Cons.prems assms(4) [OF Cons.prems(2) False] by (cases "f s y") auto
  qed
qed simp

text \<open>No core-side PDR of any session has the UE address \<open>key\<close>.\<close>

definition no_core_pdr :: "'ie env \<Rightarrow> string \<Rightarrow> (u64 \<rightharpoonup> SessionState) \<Rightarrow> bool" where
  "no_core_pdr E key sessions \<longleftrightarrow> (\<forall>i s p. sessions i = Some s \<longrightarrow> downlink_entry E i s key p = [])"

lemma no_core_pdr_bucket:
  assumes "go_ranges (e_rng E)" "no_core_pdr E key sessions"
  shows "all_entries E sessions (\<lambda>i s. downlink_entry E i s key) = []"
proof -
  have "set (all_entries E sessions (\<lambda>i s. downlink_entry E i s key)) = {}"
    using assms(2) unfolding set_all_entries [OF assms(1)] no_core_pdr_def by auto
  then show ?thesis by simp
qed

lemma downlink_entry_Nil_cong:
  "sess_PDRs s = sess_PDRs s' \<Longrightarrow> downlink_entry E i s key p = [] \<longleftrightarrow> downlink_entry E i s' key p = []"
  by (simp add: downlink_entry_def split: option.splits)

lemma flush_buffer_frame:
  "flush_buffer A b ps d = Some d' \<Longrightarrow> d_sessions d' = d_sessions d \<and> d_snapshot d' = d_snapshot d"
  using flush_buffer_total [of A b ps d] by auto

text \<open>The state in which the buffer of \<open>pid\<close> cannot be released: it is not empty and nothing is found for it.\<close>

definition stuck_buffer :: "'ie env \<Rightarrow> u64 \<Rightarrow> u16 \<Rightarrow> PDRRule \<Rightarrow> Driver \<Rightarrow> bool" where
  "stuck_buffer E seid pid pdr d \<longleftrightarrow>
     (\<exists>sess. d_sessions d seid = Some sess \<and> sess_wf seid sess \<and> sess_PDRs sess pid = Some pdr \<and>
        slice_at (sess_Buffers sess) pid \<noteq> []) \<and>
     snapshot_current E d \<and>
     (\<forall>pdi. pdr_PDI pdr = Some pdi \<longrightarrow> no_core_pdr E (ip_String (pdi_UEIPv4 pdi)) (d_sessions d))"

lemma no_core_pdr_put:
  "no_core_pdr E key m \<Longrightarrow> m seid = Some s \<Longrightarrow> sess_PDRs s' = sess_PDRs s \<Longrightarrow> no_core_pdr E key (m(seid \<mapsto> s'))"
  using downlink_entry_Nil_cong [of s' s E seid key] by (simp add: no_core_pdr_def)

lemma stuck_transition_panics:
  assumes "go_ranges (e_rng E)" "stuck_buffer E seid pid pdr d" "pdr_FARID pdr = Some (far_ID nxt)"
  shows "transition_pdr E now seid nxt d pid = None"
proof -
  from assms(2) obtain sess where s: "d_sessions d seid = Some sess" "sess_wf seid sess"
      "sess_PDRs sess pid = Some pdr" "slice_at (sess_Buffers sess) pid \<noteq> []"
    and cur: "snapshot_current E d"
    and none: "\<forall>pdi. pdr_PDI pdr = Some pdi \<longrightarrow> no_core_pdr E (ip_String (pdi_UEIPv4 pdi)) (d_sessions d)"
    by (auto simp: stuck_buffer_def)
  let ?s = "sess\<lparr>sess_Buffers := (sess_Buffers sess)(pid := None)\<rparr>"
  let ?d = "(cancelPendingDDNLocked (seid, pid) d)\<lparr>d_sessions := (d_sessions d)(seid \<mapsto> ?s)\<rparr>"
  have id: "pdr_ID pdr = pid" using s(2,3) by (simp add: sess_wf_def keyed_def)
  have "find_buffered_binding E now seid pdr ?d = None"
  proof (cases "pdr_PDI pdr")
    case (Some pdi)
    let ?key = "ip_String (pdi_UEIPv4 pdi)"
    have "no_core_pdr E ?key (d_sessions d)" using none Some by blast
    then have "set (slice_at (snap_Downlink (d_snapshot d)) ?key) = {}"
      and "no_core_pdr E ?key (d_sessions ?d)"
      using cur no_core_pdr_bucket [OF assms(1)] no_core_pdr_put [of E ?key "d_sessions d" seid sess ?s] s(1)
      by (simp_all add: snapshot_current_def)
    then show ?thesis
      using Some no_core_pdr_bucket [OF assms(1), of ?key "d_sessions ?d"]
      by (simp add: find_buffered_binding_def build_buckets idx_def Let_def)
  qed (simp add: find_buffered_binding_def)
  then show ?thesis using s assms(3) id by (simp add: transition_pdr_def Let_def)
qed

lemma stuck_transition_other:
  assumes "stuck_buffer E seid pid pdr d" "p \<noteq> pid" "transition_pdr E now seid nxt d p = Some d'"
  shows "stuck_buffer E seid pid pdr d'"
proof -
  from assms(1) obtain sess where s: "d_sessions d seid = Some sess" "sess_wf seid sess"
      "sess_PDRs sess pid = Some pdr" "slice_at (sess_Buffers sess) pid \<noteq> []"
    and cur: "snapshot_current E d"
    and none: "\<forall>pdi. pdr_PDI pdr = Some pdi \<longrightarrow> no_core_pdr E (ip_String (pdi_UEIPv4 pdi)) (d_sessions d)"
    by (auto simp: stuck_buffer_def)
  let ?s = "sess\<lparr>sess_Buffers := (sess_Buffers sess)(p := None)\<rparr>"
  have "d' = d \<or> (d_sessions d' = (d_sessions d)(seid \<mapsto> ?s) \<and> d_snapshot d' = d_snapshot d)"
  proof (cases "sess_PDRs sess p")
    case (Some q)
    then have "pdr_ID q = p" using s(2) by (simp add: sess_wf_def keyed_def)
    with Some assms(3) s(1) show ?thesis
      by (auto simp: transition_pdr_def Let_def split: if_splits option.splits dest: flush_buffer_frame)
  qed (use assms(3) s(1) in \<open>simp add: transition_pdr_def\<close>)
  then show ?thesis
  proof
    assume d': "d_sessions d' = (d_sessions d)(seid \<mapsto> ?s) \<and> d_snapshot d' = d_snapshot d"
    have "snapshot_current E (put_session seid ?s d)"
      by (rule snapshot_current_put [OF cur s(1)]) simp
    with d' have "snapshot_current E d'" by (simp add: snapshot_current_frame [of d' "put_session seid ?s d"] put_session_def)
    with d' s none assms(2) show ?thesis
      by (auto simp: stuck_buffer_def sess_wf_rules slice_at_def intro!: no_core_pdr_put [where m = "d_sessions d" and s = sess])
  qed (use assms(1) in simp)
qed

section \<open>Properties\<close>

text \<open>
  The buffer of a PDR keeps the newest packets: buffering a packet appends it, and if the BAR
  suggests a number of packets, only that many are kept and the oldest are discarded; without a
  suggestion every packet is kept. Nothing else of the sessions changes.
\<close>

theorem bufferPacket_keeps_newest:
  assumes "d_sessions d (b_SEID b) = Some sess"
  shows "\<exists>sess'. d_sessions (fst (bufferPacket now b payload d)) = (d_sessions d)(b_SEID b \<mapsto> sess') \<and>
    (let old = slice_at (sess_Buffers sess) (pdr_ID (b_PDR b)); n = bufferedPacketLimit b in
     slice_at (sess_Buffers sess') (pdr_ID (b_PDR b)) =
       (if n = 0 then old @ [payload] else rev (take n (payload # rev old)))) \<and>
    (\<forall>p. p \<noteq> pdr_ID (b_PDR b) \<longrightarrow> sess_Buffers sess' p = sess_Buffers sess p) \<and> same_rules sess sess'"
  using assms
  by (intro exI [of _ "touch now (sess\<lparr>sess_Buffers := (sess_Buffers sess)(pdr_ID (b_PDR b) \<mapsto>
        buffer_append (bufferedPacketLimit b) (slice_at (sess_Buffers sess) (pdr_ID (b_PDR b))) payload)\<rparr>)"])
     (simp add: bufferPacket_def Let_def buffer_append_suffix)

theorem bufferPacket_keeps_newest_witness:
  "\<exists>sess'. d_sessions (fst (bufferPacket 1 ex_binding [9] (put_session 5 ex_sess ex_d2))) 5 = Some sess' \<and>
     slice_at (sess_Buffers sess') 1 = [[9]]"
proof -
  have "d_sessions (put_session 5 ex_sess ex_d2) (b_SEID ex_binding) = Some ex_sess"
    by (simp add: put_session_def ex_binding_def)
  from bufferPacket_keeps_newest [OF this, of 1 "[9]"] show ?thesis
    by (auto simp: ex_binding_def bufferedPacketLimit_def mk_binding_def ex_ul_def ex_sess_def Let_def)
qed


definition ex_far :: "u16 \<Rightarrow> FARRule" where
  "ex_far flags = \<lparr>far_ID = 2, far_ApplyAction = \<lparr>aa_Flags = flags\<rparr>, far_Forwarding = None, far_BARID = None, far_Raw = []\<rparr>"

definition ex_far_ie :: tree where
  "ex_far_ie = Node (T_Other 1) [Leaf32 T_FARID 2, LeafB T_ApplyAction [2]]"

lemma ex_far_parse: "parseUpdateFAR tree_api ex_far_ie = Inr (ex_far 2)"
  by (simp add: parseUpdateFAR_def decodeFAR_def decodeFAR_step_def ex_far_ie_def ex_far_def tree_api_def
      tree_leaves_def ApplyAction_Unmarshal_def le16_def)

definition ex_buffering :: SessionState where
  "ex_buffering = ex_sess\<lparr>sess_FARs := [2 \<mapsto> ex_far 4], sess_Buffers := [2 \<mapsto> [[1], [2]]]\<rparr>"


text \<open>
  A buffer that cannot be released stops the process: when a FAR that buffers is updated and a
  PDR that refers to it has packets buffered, but no core-side PDR has its UE address (as for an
  uplink PDR that buffers), or it has no PDI, \<open>UpdateFAR\<close> indexes an empty slice, or reads through a
  nil pointer, and panics, whatever the new action is.
\<close>

theorem far_release_panics:
  assumes "go_ranges (e_rng E)" "parseUpdateFAR (e_api E) req = Inr rule"
    and sess: "d_sessions d seid = Some sess" "sess_wf seid sess"
    and "sess_FARs sess (far_ID rule) = Some prev" "AA_BUFF (far_ApplyAction prev)"
    and pdr: "sess_PDRs sess pid = Some pdr" "pdr_FARID pdr = Some (far_ID rule)"
    and "slice_at (sess_Buffers sess) pid \<noteq> []"
    and none: "\<forall>pdi. pdr_PDI pdr = Some pdi \<longrightarrow> no_core_pdr E (ip_String (pdi_UEIPv4 pdi)) (d_sessions d)"
  shows "UpdateFAR E now seid req d = None"
proof -
  let ?merged = "mergeFARRule prev rule"
  let ?s1 = "touch now (sess\<lparr>sess_FARs := (sess_FARs sess)(far_ID rule \<mapsto> ?merged)\<rparr>)"
  let ?d1 = "publishSnapshotLocked E now (put_session seid ?s1 d)"
  have "stuck_buffer E seid pid pdr ?d1"
    using assms by (auto simp: stuck_buffer_def put_session_def sess_wf_rules intro!: no_core_pdr_put [where m = "d_sessions d" and s = sess])
  then have "foldO (transition_pdr E now seid ?merged) ?d1 (rng16 (e_rng E) (dom (sess_PDRs sess))) = None"
    using pdr go_rangesD(2) [OF assms(1)]
    by (intro foldO_fails [where P = "stuck_buffer E seid pid pdr" and x = pid])
       (auto intro: stuck_transition_panics [OF assms(1)] stuck_transition_other)
  then show ?thesis
    using assms by (simp add: UpdateFAR_def handleFARTransitionLocked_def put_session_def Let_def)
qed

definition ex_uplink_only :: SessionState where
  "ex_uplink_only = (NewSessionState 1 5)\<lparr>sess_PDRs := [1 \<mapsto> ex_ul\<lparr>pdr_FARID := Some 2\<rparr>],
     sess_FARs := [2 \<mapsto> ex_far 4], sess_Buffers := [1 \<mapsto> [[9]]]\<rparr>"

theorem far_release_panics_witness:
  "UpdateFAR ex_env 3 5 ex_far_ie (put_session 5 ex_uplink_only (New 0 1 None None)) = None"
proof (rule far_release_panics [of ex_env ex_far_ie "ex_far 2" _ 5 ex_uplink_only "ex_far 4" 1 "ex_ul\<lparr>pdr_FARID := Some 2\<rparr>"])
  show "sess_wf 5 ex_uplink_only"
    by (simp add: ex_uplink_only_def sess_wf_def keyed_def usage_ok_def ex_ul_def ex_far_def NewSessionState_def)
  show "\<forall>pdi. pdr_PDI (ex_ul\<lparr>pdr_FARID := Some 2\<rparr>) = Some pdi \<longrightarrow>
      no_core_pdr ex_env (ip_String (pdi_UEIPv4 pdi)) (d_sessions (put_session 5 ex_uplink_only (New 0 1 None None)))"
    by (simp add: no_core_pdr_def ex_uplink_only_def put_session_def New_def ex_ul_def downlink_entry_def isCorePDR_def
        Let_def)
qed (simp_all add: ex_far_parse ex_uplink_only_def put_session_def ex_far_def AA_BUFF_def apply_act_defs slice_at_def)

end
