(* ===== verification/Pfcp_Trans.thy ===== *)
theory Pfcp_Trans
  imports Pfcp_Inv
begin

text \<open>
  The transactions of the PFCP server: a request is answered at most once, a repeated request is answered from
  the memory of its transaction without being handled again, and a request of the server is repeated a
  bounded number of times.
\<close>

section \<open>Answers\<close>

text \<open>The transactions and what was sent are the same.\<close>

definition same_trans :: "('ie, 'd) PfcpServer \<Rightarrow> ('ie, 'd) PfcpServer \<Rightarrow> bool" where
  "same_trans sv sv' \<longleftrightarrow> sv_rxTrans sv' = sv_rxTrans sv \<and> sv_txTrans sv' = sv_txTrans sv \<and> sv_out sv' = sv_out sv"

text \<open>One response to the sender, under the sequence number of the request, or none.\<close>

definition answers :: "('ie, 'd) pfcp_env \<Rightarrow> u32 \<Rightarrow> string \<Rightarrow> ('ie, 'd) PfcpServer \<Rightarrow> ('ie, 'd) PfcpServer \<Rightarrow> bool" where
  "answers E q addr sv sv' \<longleftrightarrow>
     (\<exists>sv1. same_trans sv sv1 \<and>
        (sv' = sv1 \<or> (\<exists>rsp. isResponse rsp \<and> msg_Sequence rsp = q \<and> sv' = fst (sendRspTo E rsp addr sv1))))"

lemma answers_none: "same_trans sv sv' \<Longrightarrow> answers E q addr sv sv'"
  by (auto simp: answers_def)

lemma answers_rsp:
  "same_trans sv sv1 \<Longrightarrow> isResponse rsp \<Longrightarrow> msg_Sequence rsp = q \<Longrightarrow> answers E q addr sv (fst (sendRspTo E rsp addr sv1))"
  by (auto simp: answers_def)

lemma same_trans_refl [simp]: "same_trans sv sv"
  by (simp add: same_trans_def)

lemma same_trans_tables [simp]:
  "same_trans sv (sv1\<lparr>nd_lnode := l, nd_driver := d\<rparr>) = same_trans sv sv1"
  "same_trans sv (sv1\<lparr>nd_lnode := l\<rparr>) = same_trans sv sv1"
  "same_trans sv (sv1\<lparr>sv_rnodes := r\<rparr>) = same_trans sv sv1"
  by (simp_all add: same_trans_def)

lemma nodes_change_trans_same: "nodes_change sv sv' \<Longrightarrow> same_trans sv sv'"
  by (auto dest: nodes_change_fields simp: same_trans_def)

lemma Establishment_answers:
  "handleSessionEstablishmentRequest E req q addr sv = Some sv' \<Longrightarrow> answers E q addr sv sv'"
  by (auto simp: handleSessionEstablishmentRequest_def RemoteNode_NewSess_def bind_eq_Some_conv Let_def same_trans_def
      split: option.splits sum.splits intro!: answers_rsp intro: answers_none)

lemma Modification_answers:
  assumes "handleSessionModificationRequest E i req q addr sv = Some sv'"
  shows "answers E q addr sv sv'"
proof (cases "LocalNode_Sess i (nd_lnode sv)")
  case (Inr s)
  have upd: "UpdateNodeID a nid sv = Some sv1 \<Longrightarrow> same_trans sv sv1" for a nid sv1
    by (auto simp: UpdateNodeID_def bind_eq_Some_conv same_trans_def)
  show ?thesis
    using assms Inr
    by (auto simp: handleSessionModificationRequest_def bind_eq_Some_conv case_prod_unfold Let_def
        split: option.splits sum.splits dest!: upd intro!: answers_rsp intro: answers_none)
qed (use assms in \<open>auto simp: handleSessionModificationRequest_def intro!: answers_rsp\<close>)

lemma Deletion_answers:
  assumes "handleSessionDeletionRequest E i q addr sv = Some sv'"
  shows "answers E q addr sv sv'"
proof (cases "LocalNode_Sess i (nd_lnode sv)")
  case (Inr s)
  with assms obtain sv1 cl us where
    del: "RemoteNode_DeleteSess (pe_driver E) (pe_api E) (pe_rng E) (s_rnode s) i sv = Some (sv1, cl, us)"
    by (auto simp: handleSessionDeletionRequest_def bind_eq_Some_conv)
  from nodes_change_trans_same [OF DeleteSess_frame [OF this]] have "same_trans sv sv1" .
  with assms Inr del show ?thesis
    by (auto simp: handleSessionDeletionRequest_def Let_def case_prod_unfold intro!: answers_rsp)
qed (use assms in \<open>auto simp: handleSessionDeletionRequest_def intro!: answers_rsp\<close>)

lemma AssociationSetup_answers:
  "handleAssociationSetupRequest E nid rec q addr sv = Some sv' \<Longrightarrow> answers E q addr sv sv'"
  by (auto simp: handleAssociationSetupRequest_def bind_eq_Some_conv NewNode_def Let_def same_trans_def
      split: option.split_asm sum.split_asm if_split_asm dest!: nodes_change_fields [OF Reset_frame]
      intro!: answers_rsp intro: answers_none)

lemma reqDispacher_answers:
  "reqDispacher E m addr sv = Some sv' \<Longrightarrow> answers E (msg_Sequence m) addr sv sv'"
  by (cases m) (auto simp: handleHeartbeatRequest_def intro: answers_none answers_rsp AssociationSetup_answers
      Establishment_answers Modification_answers Deletion_answers)

text \<open>What an answer does to the transaction it belongs to.\<close>

lemma answers_effect:
  assumes "answers E q addr sv sv'" "sv_rxTrans sv (trID addr q) = Some rx"
  shows "sv_out sv' = sv_out sv \<and> sv_rxTrans sv' = sv_rxTrans sv \<or>
    (\<exists>rsp b. isResponse rsp \<and> msg_Sequence rsp = q \<and> pe_Marshal E rsp = Inr b \<and>
       sv_out sv' = sv_out sv @ [(b, rx_raddr rx)] \<and>
       sv_rxTrans sv' = (sv_rxTrans sv)(rx_id rx \<mapsto> rx\<lparr>rx_msgBuf := b\<rparr>))"
proof -
  from assms(1) obtain sv1 where sv1: "same_trans sv sv1" and
    c: "sv' = sv1 \<or> (\<exists>rsp. isResponse rsp \<and> msg_Sequence rsp = q \<and> sv' = fst (sendRspTo E rsp addr sv1))"
    unfolding answers_def by blast
  from c show ?thesis
  proof
    assume "\<exists>rsp. isResponse rsp \<and> msg_Sequence rsp = q \<and> sv' = fst (sendRspTo E rsp addr sv1)"
    then obtain rsp where rsp: "isResponse rsp" "msg_Sequence rsp = q" "sv' = fst (sendRspTo E rsp addr sv1)" by blast
    with sv1 assms(2) show ?thesis
      by (cases "pe_Marshal E rsp") (auto simp: sendRspTo_def rx_send_def write_to_def same_trans_def)
  qed (use sv1 in \<open>simp add: same_trans_def\<close>)
qed

section \<open>Requests\<close>

lemma NewRx_id [simp]: "rx_id (NewRxTransaction sv addr q) = trID addr q" "rx_raddr (NewRxTransaction sv addr q) = addr"
  "rx_msgBuf (NewRxTransaction sv addr q) = []"
  by (simp_all add: NewRxTransaction_def Let_def)

lemma first_request:
  assumes "pe_Parse E buf = Inr m" "validatePfcpPacketLength buf = None" "isRequest m"
    "sv_rxTrans sv (trID addr (msg_Sequence m)) = None" "handle_packet E addr buf sv = Some sv1"
  defines "sv0 \<equiv> sv\<lparr>sv_rxTrans := (sv_rxTrans sv)(trID addr (msg_Sequence m) \<mapsto> NewRxTransaction sv addr (msg_Sequence m))\<rparr>"
  shows "reqDispacher E m addr sv0 = Some sv1" "answers E (msg_Sequence m) addr sv0 sv1"
proof -
  show "reqDispacher E m addr sv0 = Some sv1"
    using assms by (simp add: handle_packet_def Let_def rx_recv_def)
  then show "answers E (msg_Sequence m) addr sv0 sv1" by (rule reqDispacher_answers)
qed

lemma repeated_request:
  assumes "pe_Parse E buf = Inr m" "validatePfcpPacketLength buf = None" "isRequest m"
    "sv_rxTrans sv (trID addr (msg_Sequence m)) = Some rx"
  shows "handle_packet E addr buf sv =
    Some (sv\<lparr>sv_out := sv_out sv @ (if rx_msgBuf rx = [] then [] else [(rx_msgBuf rx, rx_raddr rx)])\<rparr>)"
  using assms by (simp add: handle_packet_def Let_def rx_recv_def write_to_def)

section \<open>Retransmission\<close>

text \<open>The timer of one request fires n times.\<close>

primrec timeouts :: "('ie, 'd) pfcp_env \<Rightarrow> string \<Rightarrow> nat \<Rightarrow> ('ie, 'd) PfcpServer \<Rightarrow> ('ie, 'd) PfcpServer option" where
  "timeouts E i 0 sv = Some sv"
| "timeouts E i (Suc n) sv = Option.bind (timeouts E i n sv) (serve E (EvTxTimeout i))"

text \<open>The state of the server while a request waits for its response, after n retransmissions.\<close>

definition waiting :: "string \<Rightarrow> 'ie TxTransaction \<Rightarrow> nat \<Rightarrow> ('ie, 'd) PfcpServer \<Rightarrow> ('ie, 'd) PfcpServer \<Rightarrow> bool" where
  "waiting i tx n sv sv' \<longleftrightarrow>
     sv' = sv\<lparr>sv_out := sv_out sv @ replicate n (tx_msgBuf tx, tx_raddr tx),
              sv_txTrans := (sv_txTrans sv)(i \<mapsto> tx\<lparr>tx_retransCount := of_nat n\<rparr>)\<rparr>"

lemma timeouts_waiting:
  assumes "sv_txTrans sv i = Some tx" "tx_id tx = i" "tx_retransCount tx = 0" "tx_timer tx = Some (tx_retransTimeout tx)"
    "n \<le> unat (tx_maxRetrans tx)"
  shows "\<exists>sv'. timeouts E i n sv = Some sv' \<and> waiting i tx n sv sv'"
  using assms(5)
proof (induction n)
  case 0
  have "tx\<lparr>tx_retransCount := 0\<rparr> = tx" using assms(3) by simp
  with assms(1) have "(sv_txTrans sv)(i \<mapsto> tx\<lparr>tx_retransCount := 0\<rparr>) = sv_txTrans sv" by auto
  then have "waiting i tx 0 sv sv" by (simp add: waiting_def)
  then show ?case by auto
next
  case (Suc n)
  then obtain sv' where sv': "timeouts E i n sv = Some sv'" "waiting i tx n sv sv'" by auto
  have less: "of_nat n < tx_maxRetrans tx"
    using Suc.prems unsigned_less [where 'a = nat, of "tx_maxRetrans tx"] by (simp add: word_less_nat_alt unat_of_nat)
  have timer: "tx\<lparr>tx_retransCount := c, tx_timer := Some (tx_retransTimeout tx)\<rparr> = tx\<lparr>tx_retransCount := c\<rparr>" for c
    using assms(4) by (cases tx) simp
  have count: "of_nat n + 1 = (of_nat (Suc n) :: u8)" by simp
  have "\<exists>sv''. serve E (EvTxTimeout i) sv' = Some sv'' \<and> waiting i tx (Suc n) sv sv''"
    using sv'(2) less assms(2,4)
    by (auto simp: waiting_def tx_handleTimeout_def put_tx_def write_to_def Let_def count timer replicate_append_same
        simp del: of_nat_Suc)
  with sv'(1) show ?case by auto
qed

lemma setReqSeq_Sequence [simp]: "isRequest m \<Longrightarrow> msg_Sequence (setReqSeq m q) = q"
  by (cases m) simp_all

end
