(* ===== verification/Pfcp_Props.thy ===== *)
theory Pfcp_Props
  imports Pfcp_System Pfcp_Trans
begin

text \<open>
  The properties of the PFCP server: on its own, with any driver, and in the system with the userspace
  forwarder.
\<close>

section \<open>Rules of the forwarder\<close>


lemma ex_system: "system ex_pfcp ex_env ex_sv2"
proof (rule system.control [OF _ ex_wf ex_step2])
  have "system ex_pfcp ex_env ex_sv0" unfolding ex_sv0_def by (rule system.start)
  then show "system ex_pfcp ex_env ex_sv1" by (rule system.control [OF _ ex_wf ex_step1])
qed

lemma ex_api: "pe_api ex_pfcp = e_api ex_env" "remove_ies_ok (e_api ex_env)" "go_ranges (pe_rng ex_pfcp)"
  by (simp_all add: ex_pfcp_def ex_env_def)

lemma ex_rules: "us_rules (nd_driver ex_sv2) 1 = {RFAR 7}"
  using ex_far_parses
  by (auto simp: ex_sv2_def Create_rules ex_env_def ex_sv0_def NewPfcpServer_def New_rules)






section \<open>Transactions\<close>

text \<open>
  C14. A request is handled once. The first time a request arrives it is answered by at most one
  message, a response to its sender under its own sequence number. When the same request comes again while
  its transaction lives, the server does not handle it again: nothing but the output changes, and the output
  repeats the bytes of the first answer.
\<close>

theorem request_handled_once:
  assumes "pe_Parse E buf = Inr m" "validatePfcpPacketLength buf = None" "isRequest m"
    "sv_rxTrans sv (trID addr (msg_Sequence m)) = None" "handle_packet E addr buf sv = Some sv1"
  shows "\<exists>answer. sv_out sv1 = sv_out sv @ answer \<and>
    (answer = [] \<or>
      (\<exists>rsp b. answer = [(b, addr)] \<and> isResponse rsp \<and> msg_Sequence rsp = msg_Sequence m \<and> pe_Marshal E rsp = Inr b)) \<and>
    handle_packet E addr buf sv1 = Some (sv1\<lparr>sv_out := sv_out sv1 @ filter (\<lambda>p. fst p \<noteq> []) answer\<rparr>)"
proof -
  let ?i = "trID addr (msg_Sequence m)" and ?rx = "NewRxTransaction sv addr (msg_Sequence m)"
  note again = repeated_request [OF assms(1-3)]
  from answers_effect [OF first_request(2) [OF assms], of ?rx] consider
      "sv_out sv1 = sv_out sv" "sv_rxTrans sv1 ?i = Some ?rx"
    | rsp b where "isResponse rsp" "msg_Sequence rsp = msg_Sequence m" "pe_Marshal E rsp = Inr b"
        "sv_out sv1 = sv_out sv @ [(b, addr)]" "sv_rxTrans sv1 ?i = Some (?rx\<lparr>rx_msgBuf := b\<rparr>)"
    by auto
  then show ?thesis
  proof cases
    case 1
    with again [OF 1(2)] show ?thesis by simp
  next
    case 2
    with again [OF 2(5)] show ?thesis by (intro exI [of _ "[(b, addr)]"]) auto
  qed
qed

lemma ex_packet: "handle_packet (with_forwarder ex_pfcp ex_env 0) ''smf:8805'' [0x20, 5, 0, 4, 0, 0, 0, 1] ex_sv0 = Some ex_sv1"
  using ex_step1 by (simp add: main_step_def ex_msg_def ex_sv0_def NewPfcpServer_def)

theorem request_handled_once_witness:
  "\<exists>answer. sv_out ex_sv1 = sv_out ex_sv0 @ answer \<and> answer = [([1], ''smf:8805'')] \<and>
    handle_packet (with_forwarder ex_pfcp ex_env 0) ''smf:8805'' [0x20, 5, 0, 4, 0, 0, 0, 1] ex_sv1 =
      Some (ex_sv1\<lparr>sv_out := sv_out ex_sv1 @ filter (\<lambda>p. fst p \<noteq> []) answer\<rparr>)"
proof -
  have m: "pe_Parse (with_forwarder ex_pfcp ex_env 0) [0x20, 5, 0, 4, 0, 0, 0, 1] =
      Inr (AssociationSetupRequest (Some ex_node) (Some ex_node) 1)"
    by (simp add: with_forwarder_def ex_pfcp_def ex_Parse_def)
  have "validatePfcpPacketLength [0x20, 5, 0, 4, 0, 0, 0, 1] = None"
    by (simp add: validatePfcpPacketLength_def be16_def Let_def)
  from request_handled_once [OF m this _ _ ex_packet] show ?thesis
    by (auto simp: ex_sv0_def ex_sv1_def NewPfcpServer_def)
qed

text \<open>
  C15. A request the server sends is repeated a bounded number of times: as long as no response comes, each
  of the first MaxRetrans timeouts sends the same bytes to the same peer once more, and the next one drops
  the transaction and sends nothing. So the request goes out at most MaxRetrans + 1 times.
\<close>

theorem request_retransmitted:
  assumes "sendReqTo E m addr sv = (sv0, None)"
  shows "\<exists>b. pe_Marshal E (setReqSeq m (sv_txSeq sv)) = Inr b \<and>
    (\<forall>n \<le> unat (sv_MaxRetrans sv). \<exists>svn. timeouts E (trID addr (sv_txSeq sv)) n sv0 = Some svn \<and>
       sv_txTrans svn (trID addr (sv_txSeq sv)) \<noteq> None \<and> sv_out svn = sv_out sv @ replicate (Suc n) (b, addr)) \<and>
    (\<exists>sve. timeouts E (trID addr (sv_txSeq sv)) (Suc (unat (sv_MaxRetrans sv))) sv0 = Some sve \<and>
       sv_txTrans sve (trID addr (sv_txSeq sv)) = None \<and>
       sv_out sve = sv_out sv @ replicate (Suc (unat (sv_MaxRetrans sv))) (b, addr))"
proof -
  let ?i = "trID addr (sv_txSeq sv)" and ?N = "unat (sv_MaxRetrans sv)"
  from assms obtain b where b: "pe_Marshal E (setReqSeq m (sv_txSeq sv)) = Inr b"
    by (auto simp: sendReqTo_def tx_send_def NewTxTransaction_def Let_def split: if_splits sum.splits)
  define tx where "tx = (NewTxTransaction sv addr (sv_txSeq sv))\<lparr>tx_req := Some (setReqSeq m (sv_txSeq sv)), tx_msgBuf := b,
    tx_timer := Some (sv_RetransTimeout sv)\<rparr>"
  have tx: "tx_id tx = ?i" "tx_retransCount tx = 0" "tx_timer tx = Some (tx_retransTimeout tx)" "tx_maxRetrans tx = sv_MaxRetrans sv"
    "tx_msgBuf tx = b" "tx_raddr tx = addr" "tx_req tx \<noteq> None"
    by (simp_all add: tx_def NewTxTransaction_def)
  have sv0: "sv_txTrans sv0 ?i = Some tx" "sv_out sv0 = sv_out sv @ [(b, addr)]"
    using assms b
    by (auto simp: sendReqTo_def tx_send_def put_tx_def write_to_def NewTxTransaction_def Let_def tx_def split: if_splits)
  note wait = timeouts_waiting [OF sv0(1) tx(1-3), unfolded tx(4)]
  have out: "sv_txTrans svn ?i \<noteq> None \<and> sv_out svn = sv_out sv @ replicate (Suc n) (b, addr)" if "waiting ?i tx n sv0 svn" for n svn
    using that by (simp add: waiting_def sv0 tx replicate_app_Cons_same)
  from wait [of ?N] obtain svN where svN: "timeouts E ?i ?N sv0 = Some svN" "waiting ?i tx ?N sv0 svN" by auto
  have "\<exists>sve. serve E (EvTxTimeout ?i) svN = Some sve \<and> sv_txTrans sve ?i = None \<and> sv_out sve = sv_out svN"
    using svN(2) tx by (auto simp: waiting_def tx_handleTimeout_def txtoDispacher_def)
  with svN out [OF svN(2)] wait out b show ?thesis by fastforce
qed

theorem request_retransmitted_witness:
  "\<exists>b. (\<exists>svn. timeouts ex_pfcp (trID ''smf:8805'' 0) 2 (fst (sendReqTo ex_pfcp (HeartbeatRequest 0) ''smf:8805'' ex_sv0)) = Some svn \<and>
       sv_txTrans svn (trID ''smf:8805'' 0) \<noteq> None \<and> sv_out svn = sv_out ex_sv0 @ replicate 3 (b, ''smf:8805'')) \<and>
    (\<exists>sve. timeouts ex_pfcp (trID ''smf:8805'' 0) 4 (fst (sendReqTo ex_pfcp (HeartbeatRequest 0) ''smf:8805'' ex_sv0)) = Some sve \<and>
       sv_txTrans sve (trID ''smf:8805'' 0) = None \<and> sv_out sve = sv_out ex_sv0 @ replicate 4 (b, ''smf:8805''))"
proof -
  obtain sv0 where sv0: "sendReqTo ex_pfcp (HeartbeatRequest 0) ''smf:8805'' ex_sv0 = (sv0, None)"
    by (simp add: sendReqTo_def tx_send_def ex_pfcp_def Let_def)
  have q: "sv_txSeq ex_sv0 = 0" "unat (sv_MaxRetrans ex_sv0) = 3" by (simp_all add: ex_sv0_def NewPfcpServer_def)
  note n = Suc_numeral
  from request_retransmitted [OF sv0, unfolded q] obtain b where
    n: "\<forall>n \<le> 3. \<exists>svn. timeouts ex_pfcp (trID ''smf:8805'' 0) n sv0 = Some svn \<and>
       sv_txTrans svn (trID ''smf:8805'' 0) \<noteq> None \<and> sv_out svn = sv_out ex_sv0 @ replicate (Suc n) (b, ''smf:8805'')"
    and e: "\<exists>sve. timeouts ex_pfcp (trID ''smf:8805'' 0) (Suc 3) sv0 = Some sve \<and>
       sv_txTrans sve (trID ''smf:8805'' 0) = None \<and> sv_out sve = sv_out ex_sv0 @ replicate (Suc 3) (b, ''smf:8805'')"
    by blast
  have s: "Suc 2 = 3" "Suc 3 = 4" by simp_all
  from n [rule_format, of 2, unfolded s] e [unfolded s] show ?thesis unfolding sv0 fst_conv by auto
qed

end
