(* ===== verification/Pfcp_Behaviour.thy ===== *)
theory Pfcp_Behaviour
  imports Pfcp_System
begin

text \<open>
  What the handlers of the PFCP server achieve, message by message: sessions are found, created and replaced
  as the messages ask, and the buffers of a session are bounded queues.
\<close>

section \<open>The table of sessions\<close>

lemma NewSess_total:
  assumes "ln_wf n" "ln_free n \<noteq> [] \<or> length (ln_sess n) < go_slice_max"
  shows "\<exists>n' s. LocalNode_NewSess r q n = Some (n', s)"
proof (cases "ln_free n = []")
  case False
  then have "slot n (last (ln_free n))" using ln_wfD(3) [OF assms(1), of "last (ln_free n)"] by simp
  then have "unat (last (ln_free n) - 1) < length (ln_sess n)" using slot_bound [of n "last (ln_free n)"]
    by (simp add: slot_def unat_gt_0 unat_minus_one)
  with False show ?thesis by (simp add: LocalNode_NewSess_def Let_def)
qed (use assms in \<open>simp add: LocalNode_NewSess_def Let_def\<close>)

text \<open>
  C5. The table of sessions with its list of free identifiers implements a finite map from identifiers to
  sessions: creating a session succeeds as long as the table can grow or has a free slot, and puts the new
  session under an identifier that is not zero and names no live session; looking up, replacing and deleting do
  to the map what they say, and every operation keeps the table well formed.
\<close>

theorem session_table_refines_map:
  assumes "ln_wf n"
  shows "(ln_free n \<noteq> [] \<or> length (ln_sess n) < go_slice_max \<longrightarrow>
      (\<exists>n' s. LocalNode_NewSess r q n = Some (n', s) \<and> ln_wf n' \<and> s_LocalID s \<noteq> 0 \<and> s_RemoteID s = r \<and>
         ln_abs n (s_LocalID s) = None \<and> ln_abs n' = (ln_abs n)(s_LocalID s \<mapsto> s))) \<and>
    (\<forall>s s' :: Sess. LocalNode_Sess i n = Inr s \<longrightarrow> s_LocalID s' = i \<longrightarrow>
      s_LocalID s = i \<and> ln_wf (put_sess s' n) \<and> ln_abs (put_sess s' n) = (ln_abs n)(i \<mapsto> s')) \<and>
    (\<forall>n' d' s us. LocalNode_DeleteSess D A R i (n, d) = Some ((n', d'), Inr (s, us)) \<longrightarrow>
      ln_abs n i \<noteq> None \<and> ln_wf n' \<and> ln_abs n' = (ln_abs n)(i := None))"
proof (intro conjI impI allI)
  assume "ln_free n \<noteq> [] \<or> length (ln_sess n) < go_slice_max"
  from NewSess_total [OF assms this] obtain n' s where new: "LocalNode_NewSess r q n = Some (n', s)" by blast
  note l = NewSess_refines [OF assms new]
  have "s_RemoteID s = r" by (subst l(5)) (simp add: new_sess_def)
  with new l show "\<exists>n' s. LocalNode_NewSess r q n = Some (n', s) \<and> ln_wf n' \<and> s_LocalID s \<noteq> 0 \<and> s_RemoteID s = r \<and>
      ln_abs n (s_LocalID s) = None \<and> ln_abs n' = (ln_abs n)(s_LocalID s \<mapsto> s)" by blast
next
  fix s s' :: Sess assume "LocalNode_Sess i n = Inr s" "s_LocalID s' = i"
  then have s: "ln_abs n i = Some s" by (simp add: ln_abs_Sess)
  show "s_LocalID s = i" "ln_wf (put_sess s' n)" "ln_abs (put_sess s' n) = (ln_abs n)(i \<mapsto> s')"
    using ln_wf_LocalID [OF assms s] put_sess_refines [OF assms s \<open>s_LocalID s' = i\<close>] by simp_all
next
  fix n' d' s us assume "LocalNode_DeleteSess D A R i (n, d) = Some ((n', d'), Inr (s, us))"
  from DeleteSess_refines [OF assms this]
  show "ln_abs n i \<noteq> None" "ln_wf n'" "ln_abs n' = (ln_abs n)(i := None)" by (auto split: option.splits)
qed

theorem session_table_refines_map_witness:
  "\<exists>n' s. LocalNode_NewSess 99 512 \<lparr>ln_sess = [], ln_free = []\<rparr> = Some (n', s) \<and> s_LocalID s \<noteq> 0 \<and>
     ln_abs n' = (ln_abs \<lparr>ln_sess = [], ln_free = []\<rparr>)(s_LocalID s \<mapsto> s)"
  using session_table_refines_map [OF ln_wf_empty, THEN conjunct1, of 99 512] by (auto simp: go_slice_max_def)

section \<open>Messages for unknown sessions\<close>

text \<open>
  C37. A modification or deletion request for a session that does not exist is answered once, with the cause
  that the session context was not found and the session identifier zero, and nothing else changes: no
  session, no rule and no node.
\<close>

theorem unknown_session_rejected:
  assumes "pe_Parse E buf = Inr m" "m = SessionModificationRequest i req q \<or> m = SessionDeletionRequest i q"
    and "validatePfcpPacketLength buf = None" "sv_rxTrans sv (trID addr q) = None" "LocalNode_Sess i (nd_lnode sv) = Inl e"
    and "\<And>r. is_ok (pe_Marshal E r)"
  shows "\<exists>sv' rsp b. handle_packet E addr buf sv = Some sv' \<and> sv_out sv' = sv_out sv @ [(b, addr)] \<and> pe_Marshal E rsp = Inr b \<and>
    rsp = (if m = SessionDeletionRequest i q
           then SessionDeletionResponse 0 q [NewCause CauseSessionContextNotFound, NewReportType 0 0 1 0] []
           else SessionModificationResponse 0 q [NewCause CauseSessionContextNotFound] []) \<and>
    nd_lnode sv' = nd_lnode sv \<and> nd_driver sv' = nd_driver sv \<and> nd_heap sv' = nd_heap sv \<and> sv_rnodes sv' = sv_rnodes sv"
proof -
  define rsp :: "'a message" where "rsp = (if m = SessionDeletionRequest i q
           then SessionDeletionResponse 0 q [NewCause CauseSessionContextNotFound, NewReportType 0 0 1 0] []
           else SessionModificationResponse 0 q [NewCause CauseSessionContextNotFound] [])"
  from assms(6) [of rsp] obtain b where b: "pe_Marshal E rsp = Inr b" by (cases "pe_Marshal E rsp") auto
  let ?rx = "NewRxTransaction sv addr q"
  define sv' where "sv' = write_to b addr (sv\<lparr>sv_rxTrans := (sv_rxTrans sv)(trID addr q \<mapsto> ?rx\<lparr>rx_msgBuf := b\<rparr>)\<rparr>)"
  have rx: "rx_id ?rx = trID addr q" "rx_raddr ?rx = addr" by (simp_all add: NewRxTransaction_def Let_def)
  have "handle_packet E addr buf sv = Some sv'"
    using assms(1-5) b rx
    by (auto simp: handle_packet_def Let_def rx_recv_def handleSessionModificationRequest_def handleSessionDeletionRequest_def
        sendRspTo_def rx_send_def sv'_def rsp_def)
  moreover have "sv_out sv' = sv_out sv @ [(b, addr)]" "nd_lnode sv' = nd_lnode sv" "nd_driver sv' = nd_driver sv"
    "nd_heap sv' = nd_heap sv" "sv_rnodes sv' = sv_rnodes sv"
    by (simp_all add: sv'_def write_to_def)
  ultimately show ?thesis using b rsp_def by blast
qed

theorem unknown_session_rejected_witness:
  "\<exists>sv' b. handle_packet ex_pfcp ''smf:8805'' [0x20, 54, 0, 4, 0, 0, 0, 7] ex_sv0 = Some sv' \<and>
    sv_out sv' = sv_out ex_sv0 @ [(b, ''smf:8805'')] \<and> nd_driver sv' = nd_driver ex_sv0"
proof -
  have "pe_Parse ex_pfcp [0x20, 54, 0, 4, 0, 0, 0, 7] = Inr (SessionDeletionRequest 1 7)"
    "validatePfcpPacketLength [0x20, 54, 0, 4, 0, 0, 0, 7] = None" "sv_rxTrans ex_sv0 (trID ''smf:8805'' 7) = None"
    "LocalNode_Sess 1 (nd_lnode ex_sv0) = Inl (ErrSessNotFound 1)" "\<And>r. is_ok (pe_Marshal ex_pfcp r)"
    by (simp_all add: ex_pfcp_def ex_Parse_def validatePfcpPacketLength_def be16_def Let_def ex_sv0_def NewPfcpServer_def LocalNode_Sess_def)
  from unknown_session_rejected [OF this(1) disjI2 [OF refl] this(2-5)] show ?thesis by blast
qed

section \<open>Establishing a session\<close>

text \<open>The rules a request asks for, as far as the forwarder can read them.\<close>

definition requested :: "'ie env \<Rightarrow> 'ie est_req \<Rightarrow> rule_id set" where
  "requested E req =
     (\<Union>i \<in> set (er_CreateFAR req). {RFAR (far_ID r) | r. parseFAR (e_api E) i = Inr r}) \<union>
     (\<Union>i \<in> set (er_CreateQER req). {RQER (qer_ID r) | r. parseQER (e_api E) i = Inr r}) \<union>
     (\<Union>i \<in> set (er_CreateURR req). {RURR (urr_ID r) | r. parseURR (e_api E) i = Inr r}) \<union>
     (\<Union>i \<in> set (opt_list (er_CreateBAR req)). {RBAR (bar_ID r) | r. parseBAR (e_api E) i = Inr r}) \<union>
     (\<Union>i \<in> set (er_CreatePDR req). {RPDR (pdr_ID r) | r. parsePDR (e_api E) (e_p6 E) i = Inr r})"

lemma us_create_total:
  "Sess_CreateFAR (us_driver E now) A req sd \<noteq> None" "Sess_CreateQER (us_driver E now) A req sd \<noteq> None"
  "Sess_CreateURR (us_driver E now) A req sd \<noteq> None" "Sess_CreateBAR (us_driver E now) A req sd \<noteq> None"
  "Sess_CreatePDR (us_driver E now) A req sd \<noteq> None"
  by (auto simp: Sess_CreateFAR_def Sess_CreateQER_def Sess_CreateURR_def Sess_CreateBAR_def Sess_CreatePDR_def us_driver_def
      case_prod_unfold Let_def split: sum.split)

lemma each_total: "(\<And>i sd. f i sd \<noteq> None) \<Longrightarrow> each f xs sd \<noteq> None"
  unfolding each_def ignore_err_def by (intro foldO_no_panic) (simp add: option.map_disc_iff)

lemma each_rules:
  assumes "each f xs (s, d) = Some (s', d')"
    and "\<And>i s d s' d' e. i \<in> set xs \<Longrightarrow> f i (s, d) = Some ((s', d'), e) \<Longrightarrow>
      s_LocalID s' = s_LocalID s \<and> us_rules d' (s_LocalID s) = us_rules d (s_LocalID s) \<union> g i"
  shows "s_LocalID s' = s_LocalID s \<and> us_rules d' (s_LocalID s) = us_rules d (s_LocalID s) \<union> \<Union> (g ` set xs)"
  using assms
proof (induction xs arbitrary: s d)
  case (Cons x xs)
  from Cons.prems(1) obtain s1 d1 e where x: "f x (s, d) = Some ((s1, d1), e)" and rest: "each f xs (s1, d1) = Some (s', d')"
    by (auto simp: each_def ignore_err_def bind_eq_Some_conv)
  have "s_LocalID s' = s_LocalID s1 \<and> us_rules d' (s_LocalID s1) = us_rules d1 (s_LocalID s1) \<union> \<Union> (g ` set xs)"
    by (rule Cons.IH [OF rest], erule Cons.prems(2) [rotated]) simp
  with Cons.prems(2) [OF _ x] show ?case by (simp add: Un_assoc)
qed (simp add: each_def)

lemma parsePDR_group: "parsePDR A p6 i = Inr r \<Longrightarrow> is_ok (ie_group A G_CreatePDR i)"
  by (cases "ie_group A G_CreatePDR i") (simp_all add: parsePDR_def)

lemma create_pdr_LocalID: "foldl (create_pdr_step A) (p, us, s) ies = (p', us', s') \<Longrightarrow> s_LocalID s' = s_LocalID s"
  using create_pdr_loop [of A p us s ies p' us' s'] by (simp add: same_sess_def)

lemma us_create_rules:
  "Sess_CreateFAR (us_driver E now) (e_api E) i (s, d) = Some ((s', d'), e) \<Longrightarrow> us_wf (e_api E) (DCreate KFAR i) \<Longrightarrow>
     s_LocalID s' = s_LocalID s \<and> us_rules d' (s_LocalID s) = us_rules d (s_LocalID s) \<union> {RFAR (far_ID r) | r. parseFAR (e_api E) i = Inr r}"
  "Sess_CreateQER (us_driver E now) (e_api E) i (s, d) = Some ((s', d'), e) \<Longrightarrow> us_wf (e_api E) (DCreate KQER i) \<Longrightarrow>
     s_LocalID s' = s_LocalID s \<and> us_rules d' (s_LocalID s) = us_rules d (s_LocalID s) \<union> {RQER (qer_ID r) | r. parseQER (e_api E) i = Inr r}"
  "Sess_CreateURR (us_driver E now) (e_api E) i (s, d) = Some ((s', d'), e) \<Longrightarrow> us_wf (e_api E) (DCreate KURR i) \<Longrightarrow>
     s_LocalID s' = s_LocalID s \<and> us_rules d' (s_LocalID s) = us_rules d (s_LocalID s) \<union> {RURR (urr_ID r) | r. parseURR (e_api E) i = Inr r}"
  "Sess_CreateBAR (us_driver E now) (e_api E) i (s, d) = Some ((s', d'), e) \<Longrightarrow> us_wf (e_api E) (DCreate KBAR i) \<Longrightarrow>
     s_LocalID s' = s_LocalID s \<and> us_rules d' (s_LocalID s) = us_rules d (s_LocalID s) \<union> {RBAR (bar_ID r) | r. parseBAR (e_api E) i = Inr r}"
  subgoal by (auto simp: Sess_CreateFAR_def us_driver_def Let_def Create_rules case_prod_unfold split: sum.splits)
  subgoal by (auto simp: Sess_CreateQER_def us_driver_def Let_def CreateQER_rules case_prod_unfold split: sum.splits)
  subgoal by (auto simp: Sess_CreateURR_def us_driver_def Let_def Create_rules case_prod_unfold split: sum.splits)
  subgoal by (auto simp: Sess_CreateBAR_def us_driver_def Let_def Create_rules case_prod_unfold split: sum.splits)
  done

lemma us_create_pdr_rules:
  assumes "Sess_CreatePDR (us_driver E now) (e_api E) i (s, d) = Some ((s', d'), e)"
  shows "s_LocalID s' = s_LocalID s \<and> us_rules d' (s_LocalID s) = us_rules d (s_LocalID s) \<union> {RPDR (pdr_ID r) | r. parsePDR (e_api E) (e_p6 E) i = Inr r}"
proof (cases "ie_group (e_api E) G_CreatePDR i")
  case Inl
  with assms parsePDR_group [of "e_api E" "e_p6 E" i] show ?thesis by (auto simp: Sess_CreatePDR_def)
next
  case (Inr ies)
  obtain p us s1 where loop: "foldl (create_pdr_step (e_api E)) (0, {}, s) ies = (p, us, s1)" by (metis prod_cases3)
  with create_pdr_LocalID [OF loop] Inr assms show ?thesis
    by (auto simp: Sess_CreatePDR_def us_driver_def Let_def Create_rules case_prod_unfold split: sum.splits)
qed

lemma us_each_rules:
  "each (Sess_CreateFAR (us_driver E now) (e_api E)) xs (s, d) = Some (s', d') \<Longrightarrow> \<forall>i \<in> set xs. us_wf (e_api E) (DCreate KFAR i) \<Longrightarrow>
     s_LocalID s' = s_LocalID s \<and> us_rules d' (s_LocalID s) = us_rules d (s_LocalID s) \<union> (\<Union>i \<in> set xs. {RFAR (far_ID r) | r. parseFAR (e_api E) i = Inr r})"
  "each (Sess_CreateQER (us_driver E now) (e_api E)) xs (s, d) = Some (s', d') \<Longrightarrow> \<forall>i \<in> set xs. us_wf (e_api E) (DCreate KQER i) \<Longrightarrow>
     s_LocalID s' = s_LocalID s \<and> us_rules d' (s_LocalID s) = us_rules d (s_LocalID s) \<union> (\<Union>i \<in> set xs. {RQER (qer_ID r) | r. parseQER (e_api E) i = Inr r})"
  "each (Sess_CreateURR (us_driver E now) (e_api E)) xs (s, d) = Some (s', d') \<Longrightarrow> \<forall>i \<in> set xs. us_wf (e_api E) (DCreate KURR i) \<Longrightarrow>
     s_LocalID s' = s_LocalID s \<and> us_rules d' (s_LocalID s) = us_rules d (s_LocalID s) \<union> (\<Union>i \<in> set xs. {RURR (urr_ID r) | r. parseURR (e_api E) i = Inr r})"
  "each (Sess_CreateBAR (us_driver E now) (e_api E)) xs (s, d) = Some (s', d') \<Longrightarrow> \<forall>i \<in> set xs. us_wf (e_api E) (DCreate KBAR i) \<Longrightarrow>
     s_LocalID s' = s_LocalID s \<and> us_rules d' (s_LocalID s) = us_rules d (s_LocalID s) \<union> (\<Union>i \<in> set xs. {RBAR (bar_ID r) | r. parseBAR (e_api E) i = Inr r})"
  "each (Sess_CreatePDR (us_driver E now) (e_api E)) xs (s, d) = Some (s', d') \<Longrightarrow>
     s_LocalID s' = s_LocalID s \<and> us_rules d' (s_LocalID s) = us_rules d (s_LocalID s) \<union> (\<Union>i \<in> set xs. {RPDR (pdr_ID r) | r. parsePDR (e_api E) (e_p6 E) i = Inr r})"
  subgoal by (erule each_rules, erule us_create_rules(1)) blast
  subgoal by (erule each_rules, erule us_create_rules(2)) blast
  subgoal by (erule each_rules, erule us_create_rules(3)) blast
  subgoal by (erule each_rules, erule us_create_rules(4)) blast
  subgoal by (erule each_rules, erule us_create_pdr_rules)
  done

lemma establish_rules_total: "pe_driver E = us_driver Eu now \<Longrightarrow> establish_rules E req sd \<noteq> None"
  unfolding establish_rules_def Let_def
  by (simp only:) (intro bind_total each_total us_create_total)

lemma establish_requested:
  assumes "establish_rules E req (s, d) = Some (s', d')" "pe_driver E = us_driver Eu now" "pe_api E = e_api Eu"
    and wf: "msg_wf (us_wf (e_api Eu)) (SessionEstablishmentRequest req q)"
  shows "us_rules d' (s_LocalID s) = us_rules d (s_LocalID s) \<union> requested Eu req"
proof -
  let ?D = "us_driver Eu now" and ?A = "e_api Eu"
  from assms(1) obtain s1 d1 s2 d2 s3 d3 s4 d4 where
    "each (Sess_CreateFAR ?D ?A) (er_CreateFAR req) (s, d) = Some (s1, d1)" "each (Sess_CreateQER ?D ?A) (er_CreateQER req) (s1, d1) = Some (s2, d2)"
    "each (Sess_CreateURR ?D ?A) (er_CreateURR req) (s2, d2) = Some (s3, d3)"
    "each (Sess_CreateBAR ?D ?A) (opt_list (er_CreateBAR req)) (s3, d3) = Some (s4, d4)"
    "each (Sess_CreatePDR ?D ?A) (er_CreatePDR req) (s4, d4) = Some (s', d')"
    by (auto simp: establish_rules_def assms(2,3) bind_eq_Some_conv Let_def)
  note c = us_each_rules(1) [OF this(1) wf [unfolded msg_wf.simps, THEN conjunct1]]
    us_each_rules(2) [OF this(2) wf [unfolded msg_wf.simps, THEN conjunct2, THEN conjunct1]]
    us_each_rules(3) [OF this(3) wf [unfolded msg_wf.simps, THEN conjunct2, THEN conjunct2, THEN conjunct1]]
    us_each_rules(4) [OF this(4) wf [unfolded msg_wf.simps, THEN conjunct2, THEN conjunct2, THEN conjunct2, THEN conjunct1]]
    us_each_rules(5) [OF this(5)]
  have "us_rules d' (s_LocalID s) = us_rules d (s_LocalID s) \<union> (\<Union>i \<in> set (er_CreateFAR req). {RFAR (far_ID r) | r. parseFAR ?A i = Inr r}) \<union>
    (\<Union>i \<in> set (er_CreateQER req). {RQER (qer_ID r) | r. parseQER ?A i = Inr r}) \<union>
    (\<Union>i \<in> set (er_CreateURR req). {RURR (urr_ID r) | r. parseURR ?A i = Inr r}) \<union>
    (\<Union>i \<in> set (opt_list (er_CreateBAR req)). {RBAR (bar_ID r) | r. parseBAR ?A i = Inr r}) \<union>
    (\<Union>i \<in> set (er_CreatePDR req). {RPDR (pdr_ID r) | r. parsePDR ?A (e_p6 Eu) i = Inr r})"
    using c by simp
  then show ?thesis by (simp only: requested_def Un_assoc)
qed

lemmas us_new_sess = rule_store.NewSess_inv [OF us_store.rule_store_axioms]
lemmas us_establish_step = rule_store.establish_step [OF us_store.rule_store_axioms]
lemmas us_update_inv = rule_store.update_inv [OF us_store.rule_store_axioms]
lemmas us_sess_step = rule_store.sess_step_def [OF us_store.rule_store_axioms]


lemma ex_system1: "system ex_pfcp ex_env ex_sv1"
  by (rule system.control [OF _ ex_wf ex_step1]) (simp add: ex_sv0_def system.start)

lemma ex_library: "pe_api ex_pfcp = e_api ex_env" "remove_ies_ok (e_api ex_env)" "go_ranges (pe_rng ex_pfcp)"
  by (simp_all add: ex_pfcp_def ex_env_def)


section \<open>Associations\<close>

text \<open>The sessions of the node registered under an identifier.\<close>

definition sessions_of :: "string \<Rightarrow> ('ie, 'd) PfcpServer \<Rightarrow> u64 set" where
  "sessions_of nid sv = {i. \<exists>s. ln_abs (nd_lnode sv) i = Some s \<and> sv_rnodes sv nid = Some (s_rnode s)}"

lemma sessions_of_node:
  assumes "nodes_inv rules sv" "sv_rnodes sv nid = Some a" "nd_heap sv a = Some n"
  shows "sessions_of nid sv = rn_sess n"
proof -
  note own = ownedD [OF nodes_invD(2) [OF assms(1)]]
  from own(1) own(2) [OF assms(3)] assms(2,3) show ?thesis by (fastforce simp: sessions_of_def sessions_def)
qed

lemma us_Reset_total:
  assumes "nd_heap st a = Some n"
  shows "\<exists>st'. RemoteNode_Reset (us_driver E now) A R a st = Some st'"
proof -
  have "\<exists>st'. foldO (\<lambda>st i. map_option fst (RemoteNode_DeleteSess (us_driver E now) A R a i st)) st is' = Some st' \<and> nd_heap st' a \<noteq> None" for is'
    by (rule foldO_total) (use assms us_RemoteDelete_total in fastforce)+
  from this [of "rng64 R (rn_sess n)"] assms show ?thesis by (auto simp: RemoteNode_Reset_def)
qed

lemmas us_reset = rule_store.Reset_inv [OF us_store.rule_store_axioms]


lemma ex_step3:
  "\<exists>sv3. main_step (with_forwarder ex_pfcp ex_env 0) (ex_msg 54 3) ex_sv2 = Some sv3 \<and> nd_lnode sv3 = \<lparr>ln_sess = [None], ln_free = [1]\<rparr>"
proof -
  obtain s d us where c: "Sess_Close (us_driver ex_env 0) tree_api sorted_ranges (ex_sess, nd_driver ex_sv2) = Some ((s, d), us)"
    using us_Close_total [of ex_env 0 tree_api sorted_ranges "(ex_sess, nd_driver ex_sv2)"] by auto
  obtain sv3 where "main_step (with_forwarder ex_pfcp ex_env 0) (ex_msg 54 3) ex_sv2 = Some sv3"
    "nd_lnode sv3 = \<lparr>ln_sess = [None], ln_free = [1]\<rparr>"
    using c
    by (simp add: ex_eval ex_sv0_def ex_sv1_def ex_sv2_def NewPfcpServer_def handleSessionDeletionRequest_def
        RemoteNode_DeleteSess_def LocalNode_DeleteSess_def LocalNode_Sess_def ex_sess_def new_sess_def NewRemoteNode_def case_prod_unfold)
  then show ?thesis by blast
qed

lemma ex_system2: "system ex_pfcp ex_env ex_sv2"
  by (rule system.control [OF ex_system1 ex_wf ex_step2])


section \<open>Report responses\<close>

text \<open>A session the peer means by its own identifier and its address.\<close>

definition meant :: "u64 \<Rightarrow> string \<Rightarrow> ('ie, 'd) PfcpServer \<Rightarrow> Sess \<Rightarrow> bool" where
  "meant r addr sv s \<longleftrightarrow> s_RemoteID s = r \<and> (\<exists>n. nd_heap sv (s_rnode s) = Some n \<and> rn_addr n = addr)"

lemma first_gap_Cons:
  assumes "\<not> P s"
  shows "(\<exists>live rest. Some s # ss = live @ None # rest \<and> (\<forall>s. Some s \<in> set live \<longrightarrow> \<not> P s)) \<longleftrightarrow>
    (\<exists>live rest. ss = live @ None # rest \<and> (\<forall>s. Some s \<in> set live \<longrightarrow> \<not> P s))" (is "?l \<longleftrightarrow> ?r")
proof
  assume ?r
  then obtain live rest where "ss = live @ None # rest" "\<forall>s. Some s \<in> set live \<longrightarrow> \<not> P s" by blast
  with assms show ?l by (intro exI [of _ "Some s # live"] exI [of _ rest]) auto
qed (auto simp: Cons_eq_append_conv)

lemma remote_loop_panics:
  assumes "\<And>s. Some s \<in> set ss \<Longrightarrow> h (s_rnode s) \<noteq> None"
  shows "remote_loop h r addr ss = None \<longleftrightarrow>
    (\<exists>live rest. ss = live @ None # rest \<and>
       (\<forall>s. Some s \<in> set live \<longrightarrow> \<not> (s_RemoteID s = r \<and> (\<exists>n. h (s_rnode s) = Some n \<and> rn_addr n = addr))))"
  using assms
proof (induction ss)
  case (Cons x ss)
  show ?case
  proof (cases x)
    case None
    then show ?thesis by (auto intro: exI [of _ "[]"])
  next
    case (Some s)
    with Cons.prems [of s] obtain n where n: "h (s_rnode s) = Some n" by auto
    show ?thesis
    proof (cases "s_RemoteID s = r \<and> rn_addr n = addr")
      case True
      with n Some show ?thesis by (auto simp: Cons_eq_append_conv)
    next
      case False
      let ?P = "\<lambda>s. s_RemoteID s = r \<and> (\<exists>n. h (s_rnode s) = Some n \<and> rn_addr n = addr)"
      have skip: "remote_loop h r addr (x # ss) = remote_loop h r addr ss" using False n Some by auto
      have "\<not> ?P s" using False n by simp
      note first_gap_Cons [of ?P, OF this, of ss]
      moreover have "remote_loop h r addr ss = None \<longleftrightarrow>
          (\<exists>live rest. ss = live @ None # rest \<and> (\<forall>s. Some s \<in> set live \<longrightarrow> \<not> ?P s))"
        by (rule Cons.IH) (use Cons.prems in simp)
      ultimately show ?thesis unfolding skip [unfolded Some] Some by (rule trans [OF _ sym, rotated])
    qed
  qed
qed simp

text \<open>
  C34. A Session Report Response with session identifier zero asks for the deletion of the session it answers
  for, found by the identifier of the peer. In a reachable system its handler panics exactly when the table
  has an empty slot, left by a session deleted earlier, before the first session that is meant; in every
  other case it returns.
\<close>

theorem report_response_panics:
  assumes "system Ep Eu sv" "pe_api Ep = e_api Eu" "remove_ies_ok (e_api Eu)" "go_ranges (pe_rng Ep)"
  shows "handleSessionReportResponse (with_forwarder Ep Eu now) 0 addr (Some req) sv = None \<longleftrightarrow>
    (\<exists>live rest. ln_sess (nd_lnode sv) = live @ None # rest \<and>
       (\<forall>s. Some s \<in> set live \<longrightarrow> \<not> meant (msg_SEID req) addr sv s))"
proof -
  let ?E = "with_forwarder Ep Eu now" and ?r = "msg_SEID req" and ?ss = "ln_sess (nd_lnode sv)"
  note inv = system_server_inv [OF assms]
  note live = sessions_live [OF server_invD(1) [OF inv]]
  note own = ownedD(1) [OF nodes_invD(2) [OF server_invD(1) [OF inv]]]
  have heap: "nd_heap sv (s_rnode s) \<noteq> None" if "Some s \<in> set ?ss" for s using own [OF live [OF that]] by auto
  have del: "RemoteNode_DeleteSess (us_driver Eu now) (pe_api Ep) (pe_rng Ep) (s_rnode s) (s_LocalID s) sv \<noteq> None"
    if "RemoteSess ?r addr sv = Some (Inr s)" for s
    using us_DeleteSess_total [OF inv live] remote_loop_live that unfolding RemoteSess_def by blast
  have "handleSessionReportResponse ?E 0 addr (Some req) sv = None \<longleftrightarrow> RemoteSess ?r addr sv = None"
    using del by (cases "RemoteSess ?r addr sv") (auto simp: handleSessionReportResponse_def with_forwarder_def split: sum.splits)
  also have "\<dots> \<longleftrightarrow> (\<exists>live rest. ?ss = live @ None # rest \<and> (\<forall>s. Some s \<in> set live \<longrightarrow> \<not> meant ?r addr sv s))"
    unfolding RemoteSess_def meant_def by (rule remote_loop_panics) (rule heap)
  finally show ?thesis .
qed

theorem report_response_panics_witness:
  "\<exists>sv3. system ex_pfcp ex_env sv3 \<and>
    handleSessionReportResponse (with_forwarder ex_pfcp ex_env 0) 0 ''smf:8805'' (Some (SessionReportRequest 99 0 [] [])) sv3 = None"
proof -
  from ex_step3 obtain sv3 where sv3: "main_step (with_forwarder ex_pfcp ex_env 0) (ex_msg 54 3) ex_sv2 = Some sv3"
    "nd_lnode sv3 = \<lparr>ln_sess = [None], ln_free = [1]\<rparr>" by blast
  note sys = system.control [OF ex_system2 ex_wf sv3(1)]
  from report_response_panics [OF sys ex_library, of 0 "''smf:8805''" "SessionReportRequest 99 0 [] []"] sv3(2) sys
  show ?thesis by (intro exI [of _ sv3]) (auto intro: exI [of _ "[]"])
qed

section \<open>Buffered packets\<close>

definition queue_of :: "u16 \<Rightarrow> Sess \<Rightarrow> bytes list" where
  "queue_of p s = (case s_q s p of None \<Rightarrow> [] | Some q \<Rightarrow> q)"

primrec drain :: "nat \<Rightarrow> u16 \<Rightarrow> Sess \<Rightarrow> bytes list" where
  "drain 0 p s = []"
| "drain (Suc n) p s = (case Sess_Pop p s of (s', None) \<Rightarrow> [] | (s', Some b) \<Rightarrow> b # drain n p s')"

lemma drain_queue: "drain n p s = take n (queue_of p s)"
proof (induction n arbitrary: s)
  case (Suc n)
  then show ?case by (auto simp: Sess_Pop_def queue_of_def take_Suc_Cons split: option.split list.split)
qed simp

lemma Push_queue:
  "queue_of p (Sess_Push p b s) = (if length (queue_of p s) < s_qlen s then queue_of p s @ [b] else queue_of p s)"
  "s_qlen (Sess_Push p b s) = s_qlen s" "x \<noteq> p \<Longrightarrow> s_q (Sess_Push p b s) x = s_q s x"
  by (simp_all add: Sess_Push_def queue_of_def Let_def split: option.split)

text \<open>
  C38. The buffer of a PDR is a bounded queue: pushing packets keeps the oldest ones up to the length of
  the queue and drops the rest, the packets come out in the order they went in, and the buffers of other PDRs
  do not change.
\<close>

theorem buffer_keeps_oldest:
  assumes "length (queue_of p s) \<le> s_qlen s"
  shows "drain n p (foldl (\<lambda>s b. Sess_Push p b s) s bs) = take n (take (s_qlen s) (queue_of p s @ bs)) \<and>
    Sess_Len p (foldl (\<lambda>s b. Sess_Push p b s) s bs) = min (s_qlen s) (length (queue_of p s) + length bs) \<and>
    (\<forall>x. x \<noteq> p \<longrightarrow> s_q (foldl (\<lambda>s b. Sess_Push p b s) s bs) x = s_q s x)"
proof -
  have "queue_of p (foldl (\<lambda>s b. Sess_Push p b s) s bs) = take (s_qlen s) (queue_of p s @ bs) \<and>
    (\<forall>x. x \<noteq> p \<longrightarrow> s_q (foldl (\<lambda>s b. Sess_Push p b s) s bs) x = s_q s x)"
    using assms
  proof (induction bs arbitrary: s)
    case (Cons b bs)
    from Cons.IH [of "Sess_Push p b s"] Cons.prems show ?case by (auto simp: Push_queue take_Cons' Suc_diff_Suc)
  qed simp
  moreover have "Sess_Len p t = length (queue_of p t)" for t by (simp add: Sess_Len_def queue_of_def split: option.split)
  ultimately show ?thesis by (simp add: drain_queue)
qed

theorem buffer_keeps_oldest_witness:
  "drain 3 7 (foldl (\<lambda>s b. Sess_Push 7 b s) (new_sess 99 2) [[1], [2], [3]]) = [[1], [2]]"
  using buffer_keeps_oldest [of 7 "new_sess 99 2" 3 "[[1], [2], [3]]"] by (simp add: new_sess_def queue_of_def)

end
