(* ===== verification/Gtp5g_Props.thy ===== *)
theory Gtp5g_Props
  imports Gtp5g_Buffer
begin

text \<open>
  Properties of the gtp5g forwarder: queries of many URRs, and what becomes of durations.
\<close>

section \<open>Queries of many URRs\<close>

text \<open>
  The specification: the identifiers are cut into consecutive batches of at most \<open>n\<close>, one command is issued for
  each, in order, until one fails, and the reports are concatenated.
\<close>

function batches :: "nat \<Rightarrow> 'a list \<Rightarrow> 'a list list" where
  "batches n xs = (if xs = [] then [] else take (max 1 n) xs # batches n (drop (max 1 n) xs))"
  by auto
termination by (relation "measure (\<lambda>(n, xs). length xs)") (auto simp: max_def)

declare batches.simps [simp del]

fun run_batches :: "'k kernel_api \<Rightarrow> kreport list \<Rightarrow> oid list list \<Rightarrow> 'k \<Rightarrow> 'k \<times> kreport list res" where
  "run_batches K reports [] k = (k, Inr reports)"
| "run_batches K reports (b # bs) k =
     (case ka_GetMultiReports K b k of
        (k, Inl err) \<Rightarrow> (k, Inl err)
      | (k, Inr rs) \<Rightarrow> run_batches K (reports @ rs) bs k)"

lemma batches_Nil [simp]: "batches n [] = []"
  by (simp add: batches.simps)

lemma concat_batches: "concat (batches n xs) = xs"
proof (induction n xs rule: batches.induct)
  case (1 n xs)
  then show ?case by (subst batches.simps) simp
qed

lemma batches_length: "b \<in> set (batches n xs) \<Longrightarrow> b \<noteq> [] \<and> length b \<le> max 1 n"
proof (induction n xs rule: batches.induct)
  case (1 n xs)
  then show ?case by (subst (asm) (2) batches.simps) (auto split: if_splits)
qed

lemma multi_loop_batches:
  assumes "length oids < max 1 n"
  shows "(case multi_loop K n oids reports xs k of
      (k, Inl err) \<Rightarrow> (k, Inl err)
    | (k, Inr (os, rs)) \<Rightarrow> run_batches K rs (batches n os) k) = run_batches K reports (batches n (oids @ xs)) k \<and>
    (\<forall>k' os rs. multi_loop K n oids reports xs k = (k', Inr (os, rs)) \<longrightarrow> length os < max 1 n)"
  using assms
proof (induction xs arbitrary: oids reports k)
  case (Cons x xs)
  show ?case
  proof (cases "n \<le> length (oids @ [x])")
    case True
    with Cons.prems have full: "length (oids @ [x]) = max 1 n" by (auto simp: max_def split: if_splits)
    have b: "batches n (oids @ x # xs) = (oids @ [x]) # batches n xs"
      using batches.simps [of n "(oids @ [x]) @ xs"] by (simp only: full [symmetric]) simp
    obtain k1 r where g: "ka_GetMultiReports K (oids @ [x]) k = (k1, r)" by fastforce
    with True b Cons.IH [of "[]" "reports @ rs" k1 for rs] show ?thesis by (cases r) (auto simp: Let_def)
  next
    case False
    then have "length (oids @ [x]) < max 1 n" by simp
    with False Cons.IH [of "oids @ [x]" reports k] show ?thesis by (simp add: Let_def)
  qed
qed simp

lemma batches_small: "length xs < max 1 n \<Longrightarrow> batches n xs = (if xs = [] then [] else [xs])"
  by (subst batches.simps) simp

text \<open>
  C39. A query of many URRs is cut into batches: the kernel module is asked once for each batch of
  consecutive identifiers, no batch is empty or larger than one netlink message can answer, together they
  are the identifiers asked for in order, and the reports come back concatenated, up to the first error.
\<close>

theorem multi_query_batched:
  "multi_query K n xs k = run_batches K [] (batches n xs) k \<and> concat (batches n xs) = xs \<and>
   (\<forall>b \<in> set (batches n xs). b \<noteq> [] \<and> length b \<le> max 1 n)"
proof -
  obtain k1 r where m: "multi_loop K n [] [] xs k = (k1, r)" by fastforce
  have "multi_query K n xs k = run_batches K [] (batches n xs) k"
  proof (cases r)
    case (Inl err)
    with m multi_loop_batches [of "[]" n K "[]" xs k] show ?thesis by (simp add: multi_query_def)
  next
    case (Inr p)
    obtain os rs where p: "p = (os, rs)" by fastforce
    with m Inr multi_loop_batches [of "[]" n K "[]" xs k]
    have "run_batches K rs (batches n os) k1 = run_batches K [] (batches n xs) k" "length os < max 1 n" by simp_all
    with m Inr p show ?thesis by (auto simp: multi_query_def batches_small split: if_splits prod.splits sum.splits)
  qed
  with concat_batches batches_length show ?thesis by blast
qed

theorem multi_query_batched_witness:
  "concat (batches 2 [(1 :: u64, 1 :: u64), (1, 2), (2, 1)]) = [(1, 1), (1, 2), (2, 1)] \<and>
   batches 2 [(1 :: u64, 1 :: u64), (1, 2), (2, 1)] = [[(1, 1), (1, 2)], [(2, 1)]]"
  using multi_query_batched [of ex_kernel 2 "[(1, 1), (1, 2), (2, 1)]"] by (simp add: batches.simps)

section \<open>Delays of a BAR\<close>

text \<open>
  The delay of a downlink data notification does not reach the kernel: the duration in nanoseconds is
  cut to eight bits, and since PFCP counts delays in units of 50 milliseconds, the attribute is 128 for an odd
  number of units and 0 for an even one, whatever the delay.
\<close>

theorem bar_delay_truncated:
  assumes "ie_Type (gl_api L) i = T_DownlinkDataNotificationDelay"
    and "ie_duration (gl_api L) A_DownlinkDataNotificationDelay i = Inr (int n * 50000000)"
  shows "bar_attr L st i =
    Inr (add_attr st (Attr (ABar BAR_DOWNLINK_DATA_NOTIFICATION_DELAY) (AttrU8 (if odd n then 128 else 0))))"
proof -
  have "(of_int (int n * 50000000) :: u8) = (if odd n then 128 else 0)"
  proof (cases "odd n")
    case True
    then obtain m where "n = 2 * m + 1" by (elim oddE)
    then have "int n * 50000000 = 256 * (int m * 390625 + 195312) + 128" by simp
    then have "(of_int (int n * 50000000) :: u8) = 256 * (of_int (int m * 390625 + 195312)) + 128"
      by (metis (no_types) of_int_add of_int_mult of_int_numeral)
    moreover have "(256 :: u8) = 0" by simp
    ultimately show ?thesis using True by simp
  next
    case False
    then have "even n" by simp
    then obtain m where "n = 2 * m" by (elim evenE)
    then have "int n * 50000000 = 256 * (int m * 390625)" by simp
    then have "(of_int (int n * 50000000) :: u8) = 256 * (of_int (int m * 390625))"
      by (metis (no_types) of_int_mult of_int_numeral)
    moreover have "(256 :: u8) = 0" by simp
    ultimately show ?thesis using False by simp
  qed
  with assms show ?thesis by (simp add: bar_attr_def Let_def)
qed

theorem bar_delay_truncated_witness:
  "bar_attr ex_lib (0, []) (LeafD T_DownlinkDataNotificationDelay (int 3 * 50000000)) =
     Inr (0, [Attr (ABar BAR_DOWNLINK_DATA_NOTIFICATION_DELAY) (AttrU8 128)])"
  using bar_delay_truncated [of ex_lib "LeafD T_DownlinkDataNotificationDelay (int 3 * 50000000)" 3 "(0, [])"]
  by (simp add: ex_lib_def tree_api_def tree_leaves_def add_attr_def)

end
