(* ===== verification/Gtp5g_System.thy ===== *)
theory Gtp5g_System
  imports Gtp5g_Driver Pfcp_System
begin

text \<open>
  The PFCP server with the gtp5g forwarder as its driver: the contract of theory \<open>Gtp5g_Driver\<close> meets the invariant
  of the server.
\<close>

section \<open>The forwarder in the system\<close>

text \<open>
  The PFCP server with the gtp5g forwarder as its driver. The kernel module forwards packets and writes
  reports on its own, which changes no rule; the queues the callback reads are a part of the driver's state
  here and may change at any time.
\<close>

inductive g5_system :: "('ie, ('k, 'h) Gtp5g) pfcp_env \<Rightarrow> ('ie, 'k, 'h) g5_env \<Rightarrow> ('k \<Rightarrow> u64 \<Rightarrow> rule_id set) \<Rightarrow>
    ('ie, ('k, 'h) Gtp5g) PfcpServer \<Rightarrow> bool" for Ep Eg rules where
  start: "(\<And>i. rules (g_kernel d) i = {}) \<Longrightarrow> g5_system Ep Eg rules (NewPfcpServer nid rt mr now d)"
| control: "g5_system Ep Eg rules sv \<Longrightarrow> event_wf (g5_wf (ge_lib Eg)) Ep ev \<Longrightarrow>
    main_step (Ep\<lparr>pe_driver := gtp5g_driver Eg\<rparr>) ev sv = Some sv' \<Longrightarrow> g5_system Ep Eg rules sv'"
| kernel: "g5_system Ep Eg rules sv \<Longrightarrow> rules (g_kernel d') = rules (g_kernel (nd_driver sv)) \<Longrightarrow>
    g5_system Ep Eg rules (sv\<lparr>nd_driver := d'\<rparr>)"
| pop: "g5_system Ep Eg rules sv \<Longrightarrow> g5_system Ep Eg rules (fst (PopBufPkt seid pdrid sv))"

lemma g5_system_inv:
  assumes "g5_system Ep Eg rules sv" "kernel_ok (ge_kernel Eg) rules" "pe_api Ep = gl_api (ge_lib Eg)"
    and "remove_ies_ok (pe_api Ep)" "go_ranges (pe_rng Ep)"
  shows "server_inv (\<lambda>d. rules (g_kernel d)) sv"
  using assms(1)
proof induction
  case (start d nid rt mr now)
  then show ?case by (intro NewPfcpServer_inv)
next
  case (control sv ev sv')
  let ?E = "Ep\<lparr>pe_driver := gtp5g_driver Eg\<rparr>"
  have "event_wf (g5_wf (ge_lib Eg)) ?E ev" using control(2) by (cases ev) simp_all
  with rule_store.main_step_inv [OF g5_store [OF assms(2)] control(3) control.IH] assms(3-5) show ?case by simp
next
  case (kernel sv d')
  then show ?case by (intro server_inv_driver)
next
  case (pop sv seid pdrid)
  then show ?case by (intro PopBufPkt_inv)
qed


text \<open>The same peer as for the userspace forwarder establishes a session with one FAR.\<close>

type_synonym ex_g5_state = "(u64 \<Rightarrow> rule_id set, bytes list) Gtp5g"

definition ex_g5_pfcp :: "(tree, ex_g5_state) pfcp_env" where
  "ex_g5_pfcp = \<lparr>pe_api = tree_api, pe_rng = sorted_ranges, pe_driver = gtp5g_driver ex_g5, pe_p6 = (\<lambda>_. None),
     pe_FSEID = (\<lambda>_. Inr 99), pe_RecoveryTimeStamp = (\<lambda>_. Inr 0), pe_Parse = ex_Parse, pe_Marshal = (\<lambda>_. Inr [1]),
     pe_ResolveIPAddr = (\<lambda>_. Inr [10, 0, 0, 1]), pe_ResolveUDPAddr = (\<lambda>s. Inr s)\<rparr>"

definition ex_g5_sv0 :: "(tree, ex_g5_state) PfcpServer" where
  "ex_g5_sv0 = NewPfcpServer ''upf'' 1 3 0 \<lparr>g_kernel = (\<lambda>_. {}), g_handler = [], g_events = [], g_written = []\<rparr>"

definition ex_g5_sv1 :: "(tree, ex_g5_state) PfcpServer" where
  "ex_g5_sv1 = ex_g5_sv0\<lparr>nd_heap := [0 \<mapsto> NewRemoteNode ''smf'' ''smf:8805''], nd_next := 1, sv_rnodes := [''smf'' \<mapsto> 0],
     sv_rxTrans := [''smf:8805-1'' \<mapsto> (NewRxTransaction ex_g5_sv0 ''smf:8805'' 1)\<lparr>rx_msgBuf := [1]\<rparr>],
     sv_out := [([1], ''smf:8805'')]\<rparr>"

definition ex_g5_sv2 :: "(tree, ex_g5_state) PfcpServer" where
  "ex_g5_sv2 = ex_g5_sv1\<lparr>nd_lnode := \<lparr>ln_sess = [Some ex_sess], ln_free = []\<rparr>,
     nd_heap := [0 \<mapsto> (NewRemoteNode ''smf'' ''smf:8805'')\<lparr>rn_sess := {1}\<rparr>],
     nd_driver := fst (Gtp5g_CreateFAR ex_g5 1 ex_create_far (nd_driver ex_g5_sv0)),
     sv_rxTrans := (sv_rxTrans ex_g5_sv1)(''smf:8805-2'' \<mapsto> (NewRxTransaction ex_g5_sv0 ''smf:8805'' 2)\<lparr>rx_msgBuf := [1]\<rparr>),
     sv_out := sv_out ex_g5_sv1 @ [([1], ''smf:8805'')]\<rparr>"

lemma ex_g5_driver: "ex_g5_pfcp\<lparr>pe_driver := gtp5g_driver ex_g5\<rparr> = ex_g5_pfcp"
  by (simp add: ex_g5_pfcp_def)

lemma ex_g5_step1: "main_step ex_g5_pfcp (ex_msg 5 1) ex_g5_sv0 = Some ex_g5_sv1"
  by (simp add: ex_eval ex_g5_pfcp_def ex_g5_sv0_def ex_g5_sv1_def NewPfcpServer_def handleAssociationSetupRequest_def NewNode_def)

lemma ex_g5_step2: "main_step ex_g5_pfcp (ex_msg 50 2) ex_g5_sv1 = Some ex_g5_sv2"
  by (simp add: ex_eval ex_g5_pfcp_def ex_g5_sv0_def ex_g5_sv1_def ex_g5_sv2_def NewPfcpServer_def handleSessionEstablishmentRequest_def
      ex_est_def RemoteNode_NewSess_def LocalNode_NewSess_def establish_rules_def each_def ignore_err_def opt_list_def
      Sess_CreateFAR_def gtp5g_driver_def put_sess_def go_slice_max_def ex_sess_def NewRemoteNode_def case_prod_unfold
      new_sess_def)

lemma ex_g5_attrs: "foldE (create_far_attr ex_lib) (0, []) (tree_children ex_create_far) = Inr (7, [Attr (AFar FAR_APPLY_ACTION) (AttrU16 2)])"
  by (simp add: create_far_attr_def ex_create_far_def ex_lib_def tree_api_def tree_leaves_def read_action_def
      ApplyAction_Unmarshal_def add_attr_def le16_def Let_def)

lemma ex_g5_group: "ie_group tree_api g ex_create_far = Inr (tree_children ex_create_far)"
  by (simp add: tree_api_def)

lemma ex_g5_wf: "event_wf (g5_wf (ge_lib ex_g5)) ex_g5_pfcp (ex_msg t q)"
proof -
  have "gl_api ex_lib = tree_api" by (simp add: ex_lib_def)
  then show ?thesis
    using ex_g5_attrs ex_g5_group
    by (auto simp: ex_msg_def ex_g5_pfcp_def ex_Parse_def ex_g5_def ex_est_def opt_list_def split: if_splits)
qed

lemma ex_g5_system: "g5_system ex_g5_pfcp ex_g5 (\<lambda>k. k) ex_g5_sv2"
proof (rule g5_system.control [OF _ ex_g5_wf])
  show "main_step (ex_g5_pfcp\<lparr>pe_driver := gtp5g_driver ex_g5\<rparr>) (ex_msg 50 2) ex_g5_sv1 = Some ex_g5_sv2"
    unfolding ex_g5_driver by (rule ex_g5_step2)
  have "g5_system ex_g5_pfcp ex_g5 (\<lambda>k. k) ex_g5_sv0" unfolding ex_g5_sv0_def by (rule g5_system.start) simp
  then show "g5_system ex_g5_pfcp ex_g5 (\<lambda>k. k) ex_g5_sv1"
    by (rule g5_system.control [OF _ ex_g5_wf]) (unfold ex_g5_driver, rule ex_g5_step1)
qed


end
