(* ===== verification/Spec2Isabelle.thy ===== *)
theory Spec2Isabelle
  imports Subscriptions Resources Buffnetlink Workers_Props Far_Release Pfcp_Props Pfcp_Behaviour Gtp5g_Props Gtp5g_System
begin

text \<open>
  \<^bold>\<open>A verification library for go-upf, a 5G user plane function.\<close>

  \<^bold>\<open>The program.\<close> A control plane talks PFCP to the server in \<^verbatim>\<open>internal/pfcp\<close>, which keeps sessions and
  hands their rules to a forwarder behind the interface \<^verbatim>\<open>forwarder.Driver\<close> (\<^verbatim>\<open>internal/forwarder\<close>). There are
  three: the userspace forwarder (\<^verbatim>\<open>internal/forwarder/userspace\<close>) matches packets against the rules, polices, buffers,
  forwards and counts them and takes reports of an adaptive QoS function; the gtp5g forwarder (\<^verbatim>\<open>internal/forwarder/gtp5g.go\<close>) turns
  rules into netlink attributes for a kernel module, asks it for usage reports, periodically through the server of
  \<^verbatim>\<open>internal/forwarder/perio\<close>, and receives buffered packets from it in \<^verbatim>\<open>internal/forwarder/buffnetlink\<close>; the empty
  forwarder does nothing. Forwarders send usage and downlink data reports (\<^verbatim>\<open>internal/report\<close>) back to the server; packets
  between the base station and the function travel in GTP-U (\<^verbatim>\<open>internal/gtpv1\<close>). \<^verbatim>\<open>pkg/factory\<close> reads the configuration.

  \<^bold>\<open>Conventions.\<close> A fallible function returns \<open>error + 'a\<close> (\<open>res\<close>), a function that can panic an option
  whose \<open>None\<close> is the panic. Errors are the innermost ones: the texts wrapped around them are dropped. Fixed width integers
  are words. Go ranges over maps in an order of its own choice: the order is a parameter (\<open>ranges\<close>, with the hypothesis
  \<open>go_ranges\<close> that it visits every key once) and every property holds for all orders. Time is an argument of each
  operation. Code outside the repository is a parameter: the PFCP library as the records \<open>ie_api\<close> and \<open>g5_lib\<close> and the fields of
  \<open>pfcp_env\<close>, the kernel module as \<open>kernel_api\<close>, the netlink library as \<open>nl_api\<close>, the operating system as \<open>os_api\<close>, JSON decoding,
  IPv6 parsing, name resolution. Locks do not appear: every operation of a forwarder runs under its lock, and the PFCP server
  handles one event at a time in one goroutine, so both are sequences of whole operations. Where goroutines meet in channels
  (periodic reports, the workers and loops of the userspace forwarder) the model is a step relation over the channels.

  \<^bold>\<open>The theories.\<close>
  \<^item> \<open>Prelude\<close>: results, folds that may fail, map ranges, byte encodings, decimal texts.
  \<^item> \<open>Report\<close>: \<^verbatim>\<open>internal/report\<close>, triggers, measurements, the elements of usage reports.
  \<^item> \<open>Gtpv1\<close>: \<^verbatim>\<open>internal/gtpv1/msg.go\<close> and \<open>decodeGTPU\<close> of \<^verbatim>\<open>pipeline.go\<close>; encoding is exact, decoding is in
    bounds and inverts encoding.
  \<^item> \<open>Ie\<close>, \<open>Sdf\<close>, \<open>Parse\<close>: the interface of the PFCP library with a concrete instance, SDF filters
    (\<^verbatim>\<open>sdf.go\<close>), rules from elements (\<^verbatim>\<open>parse.go\<close>).
  \<^item> \<open>State\<close>, \<open>Runtime\<close>: the state of the userspace forwarder (\<^verbatim>\<open>state.go\<close>), the snapshot the packet path reads and
    matching (\<^verbatim>\<open>runtime.go\<close>); the snapshot lists exactly the bindings of the sessions, and matching picks the best one.
  \<^item> \<open>Qer_Rate\<close>, \<open>Forward\<close>, \<open>Pipeline\<close>: gates and token buckets (\<^verbatim>\<open>qer_rate.go\<close>), forwarding and
    buffering, packet processing (\<^verbatim>\<open>pipeline.go\<close>, \<^verbatim>\<open>bar_delay.go\<close>, \<^verbatim>\<open>urr_periodic.go\<close>).
  \<^item> \<open>Adaptive_Profile\<close>, \<open>Adaptive\<close>: \<^verbatim>\<open>adaptive_qos.go\<close>, profiles and flows.
  \<^item> \<open>Userspace\<close>: the rule operations of \<^verbatim>\<open>driver.go\<close>. \<open>Userspace_Inv\<close>: the forwarder as a transition system
    and its invariant. \<open>Userspace_Props\<close>, \<open>Far_Release\<close>: its properties.
  \<^item> \<open>Egress\<close>, \<open>Workers\<close>, \<open>Workers_Props\<close>: its goroutines, the worker queues and the loops of \<^verbatim>\<open>io.go\<close> and \<^verbatim>\<open>io_udptun.go\<close>:
    packets of a flow stay in order, the goroutines refine the sequential driver, everything that waits gets through, and what
    closing can break.
  \<^item> \<open>Driver_If\<close>: the interface \<^verbatim>\<open>forwarder.Driver\<close> as a record of operations, the contract \<open>rule_store\<close> as a locale,
    and the empty forwarder. \<open>Userspace_Driver\<close>, \<open>Userspace_Quiet\<close>: the userspace forwarder keeps the contract, and
    what it does by itself changes no rule.
  \<^item> \<open>Flow_Desc\<close>: \<^verbatim>\<open>flowdesc.go\<close>, the parser of filter rules, and that it inverts printing. \<open>Perio\<close>: the server of periodic
    reports, its timers and its blocking.
  \<^item> \<open>Gtp5g_Attrs\<close>, \<open>Gtp5g\<close>, \<open>Gtp5g_Driver\<close>: the attributes and operations of the gtp5g forwarder, and that it keeps the contract
    over the rules of the kernel module. \<open>Gtp5g_Buffer\<close>: releasing packets the PFCP server buffers for it. \<open>Gtp5g_Props\<close>: queries.
    \<open>Buffnetlink\<close>: the messages of the kernel module, from their bytes to the buffer of a session.
  \<^item> \<open>Pfcp_Session\<close>, \<open>Pfcp_Node\<close>: \<^verbatim>\<open>node.go\<close>. \<open>Pfcp_Contract\<close>, \<open>Pfcp_Node_Inv\<close>: what sessions and tables
    achieve with any driver that keeps \<open>rule_store\<close>; the local node refines a finite map.
  \<^item> \<open>Pfcp_Server\<close>, \<open>Pfcp_Handlers\<close>: \<^verbatim>\<open>transaction.go\<close>, \<^verbatim>\<open>session.go\<close>, \<^verbatim>\<open>association.go\<close>, \<^verbatim>\<open>report.go\<close>,
    \<^verbatim>\<open>dispacher.go\<close> and the main loop of \<^verbatim>\<open>pfcp.go\<close>, one step per event. \<open>Pfcp_Inv\<close>: every event keeps the invariant of
    the server. \<open>Driver_Keeps\<close>: the server touches the driver through its interface only. \<open>Pfcp_Trans\<close>: transactions.
  \<^item> \<open>Pfcp_System\<close>, \<open>Pfcp_Props\<close>, \<open>Pfcp_Behaviour\<close>: the server and the userspace forwarder together, and what the handlers do.
    \<open>Gtp5g_System\<close>: the server and the gtp5g forwarder together.
  \<^item> \<open>Factory\<close>: \<^verbatim>\<open>pkg/factory\<close>, the configuration and its defaults. \<open>Resources\<close>: what opening and closing a forwarder acquires
    and releases (\<^verbatim>\<open>forwarder/driver.go\<close>, \<^verbatim>\<open>gtp5glink.go\<close>, \<open>OpenGtp5g\<close>, the backend of the userspace forwarder).
  \<^item> \<open>Subscriptions\<close>: \<^verbatim>\<open>internal/context\<close> and \<^verbatim>\<open>internal/sbi\<close>, the context, event subscriptions and registration; no request for a
    subscription is ever accepted, and the store behind it keeps what is saved.

  \<^bold>\<open>Interfaces.\<close> \<open>rule_store\<close> says which rules a driver holds after each operation; it is interpreted on the empty and
  the userspace forwarder and proved of the gtp5g forwarder (\<open>g5_store\<close>, used for the system with it), so that the session handlers release every rule whichever forwarder runs. \<open>driver_keeps\<close> says that
  the operations keep a property of the driver; it is interpreted with reachability of the userspace forwarder, so that what is
  proved of the forwarder alone holds in the system. \<open>packet_queue\<close> is what the gtp5g forwarder needs of the callback that fetches
  buffered packets; the PFCP server provides it. \<open>strict_weak_order\<close> is what sorting needs of the order of bindings.
  \<open>opener\<close> says that opening releases what it opened when it fails or is closed, and \<open>two_openers\<close> composes two of them.
  \<open>record_store\<close> is what a store that hands out identifiers promises; the context of subscriptions provides it.

  \<^bold>\<open>Bounds.\<close> No definition uses fuel: loops are folds over lists or recursions with a measure. Two loops may run forever
  and are partial: \<open>pop_loop\<close>, which ends for every callback that is a queue, and \<open>decodbuffer\<close>, which ends on every message
  of well-formed attributes and not on an attribute of length zero. A slice of sessions has at most \<open>go_slice_max\<close> entries, the limit of the
  address space; the channel of the periodic server holds 512 events, as in the code; there are fewer than \<open>2 ^ 32\<close> workers.

  \<^bold>\<open>Not modelled.\<close> The contents of system calls and netlink requests (an oracle says which fail), the HTTP and MASQUE
  servers (of the service based interface the handlers and their status codes are), the debug pages and views of the adaptive
  QoS demonstration and its client, the demonstration programs, process set-up and logging: input and output
  through libraries, without state of the core. The two netlink connections of the gtp5g forwarder are one kernel. Timers are
  events: that they fire in time is not stated.
\<close>

end
